(* ===== verification/Prelude.thy ===== *)
theory Prelude
  imports Complex_Main "HOL-Library.Sublist"
begin

text \<open>
  The prelude of the development: JavaScript strings and the string operations of the
  ECMAScript standard library that the frontend calls, ordered property lists (the
  enumeration order of a JavaScript object), and the collections of simplification rules
  the component theories share.

  A JavaScript string is a sequence of 16-bit code units.  The model covers the strings
  whose code units are below 256 (type \<^typ>\<open>string\<close>, one \<^typ>\<open>char\<close> per code
  unit); every operation below is exact on that alphabet.
\<close>

named_theorems str_simps \<open>facts about the string operations\<close>
named_theorems obj_simps \<open>facts about ordered property lists\<close>
named_theorems num_simps \<open>facts about JavaScript numbers\<close>
named_theorems view_simps \<open>unfoldings of the view functions of the pages\<close>

section \<open>Strings\<close>

abbreviation code_unit :: "char \<Rightarrow> nat" where
  "code_unit c \<equiv> of_char c"

text \<open>WhiteSpace and LineTerminator of ECMAScript below code unit 256.\<close>

definition is_ws :: "char \<Rightarrow> bool" where
  "is_ws c \<longleftrightarrow> code_unit c \<in> {9, 10, 11, 12, 13, 32, 160}"

definition trim_start :: "string \<Rightarrow> string" where
  "trim_start s = dropWhile is_ws s"

definition trim_end :: "string \<Rightarrow> string" where
  "trim_end s = rev (dropWhile is_ws (rev s))"

definition trim :: "string \<Rightarrow> string" where
  "trim s = trim_end (trim_start s)"

text \<open>\<open>String.prototype.toLowerCase\<close> and \<open>toUpperCase\<close>; of the letters below 256, the
  upper case of the micro sign and of y with diaeresis lies outside the alphabet and is
  left unchanged, and that of sharp s is two letters.\<close>

definition lower_char :: "char \<Rightarrow> char" where
  "lower_char c =
     (let n = code_unit c in
      if 65 \<le> n \<and> n \<le> 90 \<or> 192 \<le> n \<and> n \<le> 222 \<and> n \<noteq> 215 then char_of (n + 32) else c)"

definition to_lower :: "string \<Rightarrow> string" where
  "to_lower s = map lower_char s"

definition upper_char :: "char \<Rightarrow> string" where
  "upper_char c =
     (let n = code_unit c in
      if 97 \<le> n \<and> n \<le> 122 \<or> 224 \<le> n \<and> n \<le> 254 \<and> n \<noteq> 247 then [char_of (n - 32)]
      else if n = 223 then ''SS'' else [c])"

definition to_upper :: "string \<Rightarrow> string" where
  "to_upper s = concat (map upper_char s)"

definition starts_with :: "string \<Rightarrow> string \<Rightarrow> bool" where
  "starts_with s p \<longleftrightarrow> take (length p) s = p"

fun contains_str :: "string \<Rightarrow> string \<Rightarrow> bool" where
  "contains_str [] p \<longleftrightarrow> p = []"
| "contains_str (c # s) p \<longleftrightarrow> starts_with (c # s) p \<or> contains_str s p"

text \<open>\<open>s.slice(a, b)\<close> for \<open>0 \<le> a \<le> b\<close>.\<close>

definition slice :: "nat \<Rightarrow> nat \<Rightarrow> string \<Rightarrow> string" where
  "slice a b s = drop a (take b s)"

text \<open>\<open>s.split(sep)\<close> and \<open>xs.join(sep)\<close> for a separator of one code unit.\<close>

fun split_on :: "char \<Rightarrow> string \<Rightarrow> string list" where
  "split_on d [] = [[]]"
| "split_on d (c # s) =
     (if c = d then [] # split_on d s
      else case split_on d s of [] \<Rightarrow> [[c]] | w # ws \<Rightarrow> (c # w) # ws)"

fun join :: "string \<Rightarrow> string list \<Rightarrow> string" where
  "join sep [] = []"
| "join sep [w] = w"
| "join sep (w # ws) = w @ sep @ join sep ws"

text \<open>\<open>s.replace(/d/g, r)\<close> for a one-character pattern.\<close>

definition replace_char :: "char \<Rightarrow> string \<Rightarrow> string \<Rightarrow> string" where
  "replace_char d r s = concat (map (\<lambda>c. if c = d then r else [c]) s)"

subsection \<open>Facts about strings\<close>

lemma trim_start_Nil [simp, str_simps]: "trim_start [] = []"
  by (simp add: trim_start_def)

lemma trim_end_Nil [simp, str_simps]: "trim_end [] = []"
  by (simp add: trim_end_def)

lemma trim_Nil [simp, str_simps]: "trim [] = []"
  by (simp add: trim_def)

lemma dropWhile_dropWhile [simp]: "dropWhile P (dropWhile P s) = dropWhile P s"
  by (induction s) auto

lemma trim_end_snoc: "trim_end (s @ [c]) = (if is_ws c then trim_end s else s @ [c])"
  by (simp add: trim_end_def)

lemma trim_end_trim_end [simp, str_simps]: "trim_end (trim_end s) = trim_end s"
  by (simp add: trim_end_def)

lemma hd_trim_end: "trim_end s \<noteq> [] \<Longrightarrow> hd (trim_end s) = hd s"
proof (induction s rule: rev_induct)
  case (snoc c s)
  then show ?case
    by (cases s) (auto simp: trim_end_snoc trim_end_snoc [of "_ # _", simplified]
        trim_end_snoc [of "[]", simplified])
qed simp

lemma hd_trim_start: "trim_start s \<noteq> [] \<Longrightarrow> \<not> is_ws (hd (trim_start s))"
  by (metis hd_dropWhile trim_start_def)

lemma trim_start_fix: "(s = [] \<or> \<not> is_ws (hd s)) \<Longrightarrow> trim_start s = s"
  by (cases s) (auto simp: trim_start_def)

lemma trim_idem [simp, str_simps]: "trim (trim s) = trim s"
proof -
  have "trim_start (trim s) = trim s"
  proof (cases "trim s = []")
    case False
    then have "trim_start s \<noteq> []" by (auto simp: trim_def)
    with False show ?thesis
      using hd_trim_end [of "trim_start s"] hd_trim_start [of s]
      by (intro trim_start_fix) (auto simp: trim_def)
  qed simp
  then show ?thesis by (simp add: trim_def)
qed

lemma trim_fix:
  assumes "s = [] \<or> \<not> is_ws (hd s) \<and> \<not> is_ws (last s)"
  shows "trim s = s"
proof (cases "s = []")
  case False
  with assms have "trim_start s = s" by (intro trim_start_fix) auto
  moreover from False assms have "trim_end s = s"
    by (cases s rule: rev_cases) (auto simp: trim_end_snoc)
  ultimately show ?thesis by (simp add: trim_def)
qed simp

lemma set_trim_start: "set (trim_start s) \<subseteq> set s"
  by (auto simp: trim_start_def dest: set_dropWhileD)

lemma set_trim_end: "set (trim_end s) \<subseteq> set s"
  by (auto simp: trim_end_def dest: set_dropWhileD)

lemma set_trim: "set (trim s) \<subseteq> set s"
  using set_trim_start [of s] set_trim_end [of "trim_start s"] by (auto simp: trim_def)

lemma trim_no_ws: "(\<forall>c \<in> set s. \<not> is_ws c) \<Longrightarrow> trim s = s"
  by (rule trim_fix) auto

lemma lower_char_idem [simp, str_simps]: "lower_char (lower_char c) = lower_char c"
proof -
  have "of_char c < (256 :: nat)" by (rule nat_of_char_less_256)
  then show ?thesis by (auto simp: lower_char_def Let_def)
qed

lemma to_lower_idem [simp, str_simps]: "to_lower (to_lower s) = to_lower s"
  by (simp add: to_lower_def)

lemma to_lower_Nil [simp, str_simps]: "to_lower s = [] \<longleftrightarrow> s = []" "to_lower [] = []"
  by (simp_all add: to_lower_def)

lemma is_ws_lower_char [simp]: "is_ws (lower_char c) \<longleftrightarrow> is_ws c"
proof -
  have "of_char c < (256 :: nat)" by (rule nat_of_char_less_256)
  then show ?thesis by (auto simp: lower_char_def is_ws_def Let_def)
qed

lemma to_lower_append [simp]: "to_lower (s @ t) = to_lower s @ to_lower t"
  by (simp add: to_lower_def)

lemma dropWhile_ws_lower: "dropWhile is_ws (map lower_char s) = map lower_char (dropWhile is_ws s)"
  by (induction s) auto

lemma trim_to_lower: "trim (to_lower s) = to_lower (trim s)"
  by (simp add: trim_def trim_end_def trim_start_def to_lower_def dropWhile_ws_lower rev_map)

lemma split_on_not_Nil [simp]: "split_on d s \<noteq> []"
  by (induction s) (auto split: list.splits)

lemma join_split_on: "join [d] (split_on d s) = s"
proof (induction s)
  case (Cons c s)
  obtain w ws where w: "split_on d s = w # ws" by (cases "split_on d s") auto
  then show ?case using Cons by (cases ws) auto
qed simp

lemma split_on_concat: "split_on d (s @ d # t) = split_on d s @ split_on d t"
proof (induction s)
  case (Cons c s)
  then show ?case by (cases "split_on d s") auto
qed simp

lemma split_on_append: "d \<notin> set w \<Longrightarrow> split_on d (w @ d # s) = w # split_on d s"
  by (induction w) auto

lemma split_on_single: "d \<notin> set w \<Longrightarrow> split_on d w = [w]"
  by (induction w) auto

lemma split_on_join:
  "ws \<noteq> [] \<Longrightarrow> (\<forall>w \<in> set ws. d \<notin> set w) \<Longrightarrow> split_on d (join [d] ws) = ws"
  by (induction "[d]" ws rule: join.induct) (simp_all add: split_on_single split_on_append)

lemma starts_with_append [simp]: "starts_with (p @ s) p"
  by (simp add: starts_with_def)

lemma starts_with_prefix: "starts_with s p \<longleftrightarrow> prefix p s"
  by (metis append_eq_conv_conj append_take_drop_id prefix_def starts_with_def)

section \<open>Ordered property lists\<close>

text \<open>
  The own properties of a JavaScript object, in the order the object enumerates them.
  Assigning to a property keeps its place, or adds it at the end; \<open>delete\<close> removes it.
  A \<open>Map\<close> behaves the same way.
\<close>

type_synonym 'v props = "(string \<times> 'v) list"

fun put :: "'k \<Rightarrow> 'v \<Rightarrow> ('k \<times> 'v) list \<Rightarrow> ('k \<times> 'v) list" where
  "put k v [] = [(k, v)]"
| "put k v ((k', v') # ps) = (if k' = k then (k, v) # ps else (k', v') # put k v ps)"

definition remove_key :: "'k \<Rightarrow> ('k \<times> 'v) list \<Rightarrow> ('k \<times> 'v) list" where
  "remove_key k ps = filter (\<lambda>p. fst p \<noteq> k) ps"

text \<open>The object spread \<open>{...ps, ...qs}\<close>.\<close>

definition spread :: "('k \<times> 'v) list \<Rightarrow> ('k \<times> 'v) list \<Rightarrow> ('k \<times> 'v) list" where
  "spread ps qs = foldl (\<lambda>acc (k, v). put k v acc) ps qs"

lemma map_of_put [simp, obj_simps]: "map_of (put k v ps) = (map_of ps)(k \<mapsto> v)"
  by (induction ps) (auto simp: fun_eq_iff)

lemma dom_put: "fst ` set (put k v ps) = insert k (fst ` set ps)"
  by (induction k v ps rule: put.induct) auto

lemma distinct_put: "distinct (map fst ps) \<Longrightarrow> distinct (map fst (put k v ps))"
proof (induction k v ps rule: put.induct)
  case (2 k v k' v' ps)
  then show ?case using dom_put [of k v ps] by (auto simp: image_iff)
qed simp

lemma put_fresh: "k \<notin> fst ` set ps \<Longrightarrow> put k v ps = ps @ [(k, v)]"
  by (induction k v ps rule: put.induct) auto

lemma map_of_remove_key [simp, obj_simps]:
  "map_of (remove_key k ps) = (map_of ps)(k := None)"
  by (induction ps) (auto simp: remove_key_def fun_eq_iff)

lemma remove_key_notin: "k \<notin> fst ` set (remove_key k ps)"
  by (auto simp: remove_key_def)

lemma put_twice [simp]: "put k v (put k w ps) = put k v ps"
  by (induction k w ps rule: put.induct) auto

lemma put_same: "map_of ps k = Some v \<Longrightarrow> put k v ps = ps"
  by (induction k v ps rule: put.induct) (auto split: if_splits)

lemma spread_Nil [simp, obj_simps]: "spread ps [] = ps"
  by (simp add: spread_def)

lemma spread_Cons [simp, obj_simps]: "spread ps ((k, v) # qs) = spread (put k v ps) qs"
  by (simp add: spread_def)

lemma map_of_spread: "distinct (map fst qs) \<Longrightarrow> map_of (spread ps qs) = map_of ps ++ map_of qs"
proof (induction qs arbitrary: ps)
  case (Cons q qs)
  obtain k v where q: "q = (k, v)" by (cases q)
  from Cons.prems have "map_of qs k = None" by (simp add: q map_of_eq_None_iff)
  with Cons.prems show ?case
    by (auto simp: q Cons.IH fun_eq_iff map_add_def split: option.splits)
qed simp

text \<open>Membership in a property list, as the keys it enumerates.\<close>

abbreviation keys_of :: "('k \<times> 'v) list \<Rightarrow> 'k list" where
  "keys_of ps \<equiv> map fst ps"

section \<open>Lists\<close>

text \<open>Nullish coalescing on optional values, \<open>a ?? b\<close>.\<close>

definition orelse :: "'a option \<Rightarrow> 'a \<Rightarrow> 'a" where
  "orelse a b = (case a of None \<Rightarrow> b | Some x \<Rightarrow> x)"

lemma orelse_simps [simp]: "orelse None b = b" "orelse (Some a) b = a"
  by (simp_all add: orelse_def)

end
