(* ===== verification/JsNumber.thy ===== *)
theory JsNumber
  imports Prelude "HOL-Library.Log_Nat"
begin

text \<open>
  JavaScript numbers: the IEEE 754 binary64 values, with every arithmetic operation rounded
  to nearest, ties to even.  A finite number is held as the rational it denotes, so the two
  zeros of the standard are one value here; the frontend never tells them apart (it uses no
  \<open>Object.is\<close>, no division by a computed zero, and \<open>String(-0)\<close> is \<open>0\<close>).
  Conversions from and to strings (\<open>Number\<close>, \<open>parseInt\<close>, \<open>parseFloat\<close>,
  \<open>String\<close>, \<open>toFixed\<close>, the USD format of \<open>Intl\<close>) follow the
  ECMAScript and ECMA-402 algorithms.
\<close>

datatype num = NaN | PInf | NInf | Fin rat

section \<open>Rounding to binary64\<close>

definition round_even :: "rat \<Rightarrow> int" where
  "round_even x =
     (let f = \<lfloor>x\<rfloor>; d = x - of_int f
      in if d < 1 / 2 then f else if 1 / 2 < d then f + 1 else if even f then f else f + 1)"

text \<open>The exponent of the leading bit: \<open>2 ^ ilog2 x \<le> x < 2 ^ (ilog2 x + 1)\<close>.\<close>

definition ilog2 :: "rat \<Rightarrow> int" where
  "ilog2 x =
     (let (a, b) = quotient_of x; k = bitlen a - bitlen b
      in if 2 powi k \<le> x then k else k - 1)"

definition ulp_exp :: "rat \<Rightarrow> int" where
  "ulp_exp x = max (- 1074) (ilog2 x - 52)"

definition rnd :: "rat \<Rightarrow> num" where
  "rnd x =
     (if x = 0 then Fin 0
      else let e = ulp_exp \<bar>x\<bar>; y = of_int (round_even (x / 2 powi e)) * 2 powi e
           in if 2 ^ 1024 \<le> \<bar>y\<bar> then (if 0 < y then PInf else NInf) else Fin y)"

abbreviation int_num :: "int \<Rightarrow> num" where
  "int_num n \<equiv> Fin (of_int n)"

text \<open>\<open>Number.isFinite\<close> and \<open>Number.isNaN\<close>.\<close>

definition is_finite :: "num \<Rightarrow> bool" where
  "is_finite x \<longleftrightarrow> (case x of Fin _ \<Rightarrow> True | _ \<Rightarrow> False)"

definition is_nan :: "num \<Rightarrow> bool" where
  "is_nan x \<longleftrightarrow> x = NaN"

text \<open>The numbers binary64 holds.\<close>

definition is_double :: "num \<Rightarrow> bool" where
  "is_double x \<longleftrightarrow> (case x of Fin q \<Rightarrow> rnd q = Fin q | _ \<Rightarrow> True)"

section \<open>Arithmetic and comparison\<close>

fun num_add :: "num \<Rightarrow> num \<Rightarrow> num" where
  "num_add NaN _ = NaN"
| "num_add _ NaN = NaN"
| "num_add (Fin a) (Fin b) = rnd (a + b)"
| "num_add PInf NInf = NaN"
| "num_add NInf PInf = NaN"
| "num_add PInf _ = PInf"
| "num_add _ PInf = PInf"
| "num_add NInf _ = NInf"
| "num_add _ NInf = NInf"

fun num_neg :: "num \<Rightarrow> num" where
  "num_neg NaN = NaN"
| "num_neg PInf = NInf"
| "num_neg NInf = PInf"
| "num_neg (Fin a) = Fin (- a)"

definition num_sub :: "num \<Rightarrow> num \<Rightarrow> num" where
  "num_sub x y = num_add x (num_neg y)"

definition inf_sign :: "bool \<Rightarrow> num" where
  "inf_sign pos = (if pos then PInf else NInf)"

fun num_sgn :: "num \<Rightarrow> rat" where
  "num_sgn NaN = 0"
| "num_sgn PInf = 1"
| "num_sgn NInf = - 1"
| "num_sgn (Fin a) = sgn a"

fun num_mul :: "num \<Rightarrow> num \<Rightarrow> num" where
  "num_mul (Fin a) (Fin b) = rnd (a * b)"
| "num_mul x y =
     (if x = NaN \<or> y = NaN \<or> num_sgn x * num_sgn y = 0 then NaN
      else inf_sign (0 < num_sgn x * num_sgn y))"

fun num_div :: "num \<Rightarrow> num \<Rightarrow> num" where
  "num_div (Fin a) (Fin b) =
     (if b = 0 then (if a = 0 then NaN else inf_sign (0 < a)) else rnd (a / b))"
| "num_div (Fin a) y = (if y = NaN then NaN else Fin 0)"
| "num_div x (Fin b) =
     (if x = NaN then NaN else inf_sign (0 < num_sgn x \<and> 0 \<le> b \<or> num_sgn x < 0 \<and> b < 0))"
| "num_div x y = NaN"

fun num_lt :: "num \<Rightarrow> num \<Rightarrow> bool" where
  "num_lt NaN _ = False"
| "num_lt _ NaN = False"
| "num_lt (Fin a) (Fin b) = (a < b)"
| "num_lt NInf y = (y \<noteq> NInf)"
| "num_lt PInf y = False"
| "num_lt (Fin _) PInf = True"
| "num_lt (Fin _) NInf = False"

definition num_le :: "num \<Rightarrow> num \<Rightarrow> bool" where
  "num_le x y \<longleftrightarrow> x \<noteq> NaN \<and> y \<noteq> NaN \<and> (num_lt x y \<or> x = y)"

definition num_eq :: "num \<Rightarrow> num \<Rightarrow> bool" where
  "num_eq x y \<longleftrightarrow> x \<noteq> NaN \<and> x = y"

text \<open>\<open>Math.max\<close>, \<open>Math.min\<close> of two arguments, \<open>Math.ceil\<close>, \<open>Math.floor\<close>,
  \<open>Math.round\<close>.\<close>

definition num_max :: "num \<Rightarrow> num \<Rightarrow> num" where
  "num_max x y = (if x = NaN \<or> y = NaN then NaN else if num_lt x y then y else x)"

definition num_min :: "num \<Rightarrow> num \<Rightarrow> num" where
  "num_min x y = (if x = NaN \<or> y = NaN then NaN else if num_lt y x then y else x)"

definition num_ceil :: "num \<Rightarrow> num" where
  "num_ceil x = (case x of Fin a \<Rightarrow> int_num \<lceil>a\<rceil> | _ \<Rightarrow> x)"

definition num_floor :: "num \<Rightarrow> num" where
  "num_floor x = (case x of Fin a \<Rightarrow> int_num \<lfloor>a\<rfloor> | _ \<Rightarrow> x)"

definition num_round :: "num \<Rightarrow> num" where
  "num_round x = (case x of Fin a \<Rightarrow> int_num \<lfloor>a + 1 / 2\<rfloor> | _ \<Rightarrow> x)"

section \<open>Numbers to strings\<close>

definition digit_char :: "nat \<Rightarrow> char" where
  "digit_char d = char_of (48 + d)"

fun nat_to_string :: "nat \<Rightarrow> string" where
  "nat_to_string n =
     (if n < 10 then [digit_char n] else nat_to_string (n div 10) @ [digit_char (n mod 10)])"

declare nat_to_string.simps [simp del]

definition int_to_string :: "int \<Rightarrow> string" where
  "int_to_string n = (if n < 0 then ''-'' @ nat_to_string (nat (- n)) else nat_to_string (nat n))"

text \<open>The decimal exponent: \<open>10 ^ (n - 1) \<le> x < 10 ^ n\<close> for \<open>0 < x\<close>.\<close>

definition dec_exp :: "rat \<Rightarrow> int" where
  "dec_exp x =
     (if 1 \<le> x then int (length (nat_to_string (nat \<lfloor>x\<rfloor>)))
      else 1 - int (length (nat_to_string (nat (\<lceil>1 / x\<rceil> - 1)))))"

text \<open>The shortest digits that read back as \<open>x\<close>: \<open>k\<close> digits, tried from one to
  seventeen, which always suffice for a binary64 value.\<close>

fun shortest :: "nat \<Rightarrow> nat \<Rightarrow> rat \<Rightarrow> int \<Rightarrow> nat \<times> int" where
  "shortest 0 k x n = (nat (round_even (x * 10 powi (int k - n))), n)"
| "shortest (Suc more) k x n =
     (let s = nat (round_even (x * 10 powi (int k - n)))
      in if rnd (of_nat s * 10 powi (n - int k)) = Fin x
         then (if s = 10 ^ k then (1, n + 1) else (s, n))
         else shortest more (Suc k) x n)"

definition layout_digits :: "string \<Rightarrow> int \<Rightarrow> string" where
  "layout_digits ds n =
     (let k = int (length ds) in
      if k \<le> n \<and> n \<le> 21 then ds @ replicate (nat (n - k)) (CHR ''0'')
      else if 0 < n \<and> n \<le> 21 then take (nat n) ds @ ''.'' @ drop (nat n) ds
      else if - 6 < n \<and> n \<le> 0 then ''0.'' @ replicate (nat (- n)) (CHR ''0'') @ ds
      else take 1 ds @ (if k = 1 then [] else ''.'' @ drop 1 ds) @ ''e''
           @ (if n - 1 < 0 then ''-'' else ''+'') @ nat_to_string (nat \<bar>n - 1\<bar>))"

definition rat_to_string :: "rat \<Rightarrow> string" where
  "rat_to_string x =
     (if x = 0 then ''0''
      else (if x < 0 then ''-'' else [])
           @ (if of_int \<lfloor>x\<rfloor> = x \<and> \<bar>x\<bar> \<le> 2 ^ 53 then nat_to_string (nat \<lfloor>\<bar>x\<bar>\<rfloor>)
              else let (s, n) = shortest 16 1 \<bar>x\<bar> (dec_exp \<bar>x\<bar>)
                   in layout_digits (nat_to_string s) n))"

text \<open>\<open>String(x)\<close>, also used by template literals.  An integer of at most 53 bits is
  written with all its digits, which is what the shortest-digits rule gives there.\<close>

definition num_to_string :: "num \<Rightarrow> string" where
  "num_to_string x =
     (case x of NaN \<Rightarrow> ''NaN'' | PInf \<Rightarrow> ''Infinity'' | NInf \<Rightarrow> ''-Infinity''
      | Fin q \<Rightarrow> rat_to_string q)"

text \<open>\<open>x.toFixed(f)\<close>: the nearest multiple of \<open>10 ^ - f\<close>, ties upwards.\<close>

definition pad_left :: "nat \<Rightarrow> string \<Rightarrow> string" where
  "pad_left n s = replicate (n - length s) (CHR ''0'') @ s"

definition point_digits :: "nat \<Rightarrow> nat \<Rightarrow> string" where
  "point_digits f n =
     (let m = pad_left (f + 1) (nat_to_string n); i = length m - f
      in if f = 0 then nat_to_string n else take i m @ ''.'' @ drop i m)"

definition to_fixed :: "nat \<Rightarrow> num \<Rightarrow> string" where
  "to_fixed f x =
     (case x of
        Fin q \<Rightarrow>
          if 10 ^ 21 \<le> \<bar>q\<bar> then num_to_string x
          else (if q < 0 then ''-'' else []) @ point_digits f (nat \<lfloor>\<bar>q\<bar> * 10 ^ f + 1 / 2\<rfloor>)
      | _ \<Rightarrow> num_to_string x)"

text \<open>The \<open>en-US\<close> currency format of \<open>Intl.NumberFormat\<close>: cents, groups of three.
  The infinity sign is outside the alphabet, so the text for it is a parameter.\<close>

fun group3 :: "string \<Rightarrow> string" where
  "group3 (a # b # c # d # s) = a # b # c # CHR '','' # group3 (d # s)"
| "group3 s = s"

definition usd_abs :: "rat \<Rightarrow> string" where
  "usd_abs q =
     (let cents = nat \<lfloor>q * 100 + 1 / 2\<rfloor>;
          whole = nat_to_string (cents div 100)
      in ''$'' @ rev (group3 (rev whole)) @ ''.'' @ pad_left 2 (nat_to_string (cents mod 100)))"

definition intl_usd :: "string \<Rightarrow> num \<Rightarrow> string" where
  "intl_usd infinity_text x =
     (case x of NaN \<Rightarrow> ''$NaN'' | PInf \<Rightarrow> ''$'' @ infinity_text | NInf \<Rightarrow> ''-$'' @ infinity_text
      | Fin q \<Rightarrow> (if q < 0 then ''-'' else []) @ usd_abs \<bar>q\<bar>)"

section \<open>Strings to numbers\<close>

definition is_digit :: "char \<Rightarrow> bool" where
  "is_digit c \<longleftrightarrow> 48 \<le> code_unit c \<and> code_unit c \<le> 57"

definition digit_val :: "char \<Rightarrow> nat" where
  "digit_val c = code_unit c - 48"

definition digits_val :: "string \<Rightarrow> nat" where
  "digits_val s = foldl (\<lambda>n c. 10 * n + digit_val c) 0 s"

definition span_digits :: "string \<Rightarrow> string \<times> string" where
  "span_digits s = (takeWhile is_digit s, dropWhile is_digit s)"

text \<open>An optional exponent part, and the text after it.\<close>

definition read_exponent :: "string \<Rightarrow> int \<times> string" where
  "read_exponent s =
     (case s of
        c # r \<Rightarrow>
          if c = CHR ''e'' \<or> c = CHR ''E'' then
            (let (neg, r') = (case r of d # t \<Rightarrow> if d = CHR ''-'' then (True, t)
                                          else if d = CHR ''+'' then (False, t) else (False, r)
                              | [] \<Rightarrow> (False, r));
                 (ds, rest) = span_digits r'
             in if ds = [] then (0, s)
                else (if neg then - int (digits_val ds) else int (digits_val ds), rest))
          else (0, s)
      | [] \<Rightarrow> (0, s))"

text \<open>The longest prefix that is an unsigned decimal literal.\<close>

definition read_decimal :: "string \<Rightarrow> (num \<times> string) option" where
  "read_decimal s =
     (if starts_with s ''Infinity'' then Some (PInf, drop 8 s)
      else let (ip, r) = span_digits s;
               (fp, r') = (case r of c # t \<Rightarrow> if c = CHR ''.'' then
                                  (let (f, t') = span_digits t
                                   in if ip = [] \<and> f = [] then ([], r) else (f, t'))
                                else ([], r)
                           | [] \<Rightarrow> ([], r))
           in if ip = [] \<and> fp = [] then None
              else let (e, rest) = read_exponent r'
                   in Some (rnd (of_nat (digits_val (ip @ fp)) * 10 powi (e - int (length fp))), rest))"

definition read_signed :: "string \<Rightarrow> (num \<times> string) option" where
  "read_signed s =
     (case s of
        c # t \<Rightarrow> if c = CHR ''-'' then map_option (\<lambda>(x, r). (num_neg x, r)) (read_decimal t)
                 else if c = CHR ''+'' then read_decimal t else read_decimal s
      | [] \<Rightarrow> None)"

text \<open>\<open>Number.parseFloat(s)\<close> and \<open>Number.parseInt(s, 10)\<close>.\<close>

definition parse_float :: "string \<Rightarrow> num" where
  "parse_float s = (case read_signed (trim_start s) of Some (x, _) \<Rightarrow> x | None \<Rightarrow> NaN)"

definition parse_int10 :: "string \<Rightarrow> num" where
  "parse_int10 s =
     (let t = trim_start s;
          neg = (case t of c # _ \<Rightarrow> c = CHR ''-'' | [] \<Rightarrow> False);
          u = (case t of c # r \<Rightarrow> if c = CHR ''-'' \<or> c = CHR ''+'' then r else t | [] \<Rightarrow> t);
          ds = takeWhile is_digit u
      in if ds = [] then NaN
         else rnd (if neg then - of_nat (digits_val ds) else of_nat (digits_val ds)))"

text \<open>\<open>Number(s)\<close>: the whole trimmed text, with the binary, octal and hexadecimal forms.\<close>

definition radix_digit :: "char \<Rightarrow> nat" where
  "radix_digit c =
     (let n = code_unit c in
      if 48 \<le> n \<and> n \<le> 57 then n - 48
      else if 97 \<le> n \<and> n \<le> 102 then n - 87 else if 65 \<le> n \<and> n \<le> 70 then n - 55 else 99)"

definition read_radix :: "nat \<Rightarrow> string \<Rightarrow> num" where
  "read_radix b s =
     (if s = [] \<or> (\<exists>c \<in> set s. b \<le> radix_digit c) then NaN
      else rnd (of_nat (foldl (\<lambda>n c. b * n + radix_digit c) 0 s)))"

definition string_to_num :: "string \<Rightarrow> num" where
  "string_to_num s =
     (let t = trim s; p = to_lower (take 2 t) in
      if t = [] then Fin 0
      else if p = ''0x'' then read_radix 16 (drop 2 t)
      else if p = ''0o'' then read_radix 8 (drop 2 t)
      else if p = ''0b'' then read_radix 2 (drop 2 t)
      else case read_signed t of Some (x, r) \<Rightarrow> if r = [] then x else NaN | None \<Rightarrow> NaN)"

section \<open>Facts about rounding\<close>

lemma round_even_int [simp]: "round_even (of_int n) = n"
  by (simp add: round_even_def Let_def)

lemma round_even_error: "\<bar>of_int (round_even x) - x\<bar> \<le> 1 / 2"
proof -
  have "of_int \<lfloor>x\<rfloor> \<le> x" "x < of_int \<lfloor>x\<rfloor> + 1" by linarith+
  then show ?thesis by (auto simp: round_even_def Let_def abs_le_iff)
qed

lemma round_even_minus: "round_even (- x) = - round_even x"
proof (cases "of_int \<lfloor>x\<rfloor> = x")
  case True
  then show ?thesis by (metis of_int_minus round_even_int)
next
  case False
  then have "\<lfloor>- x\<rfloor> = - \<lfloor>x\<rfloor> - 1" by (smt (verit) floor_minus ceiling_altdef)
  with False show ?thesis by (auto simp: round_even_def Let_def)
qed

lemma ilog2_bounds:
  assumes "0 < x"
  shows "2 powi (ilog2 x) \<le> x \<and> x < 2 powi (ilog2 x + 1)"
proof -
  obtain a b where q: "quotient_of x = (a, b)" by (cases "quotient_of x")
  have b: "0 < b" using quotient_of_denom_pos [OF q] .
  have x: "x = of_int a / of_int b" using quotient_of_div [OF q] .
  with assms b have a: "0 < a" by (simp add: zero_less_divide_iff)
  define k where "k = bitlen a - bitlen b"
  have pa: "2 powi (bitlen a - 1) \<le> (of_int a :: rat)" "(of_int a :: rat) < 2 powi (bitlen a)"
    and pb: "2 powi (bitlen b - 1) \<le> (of_int b :: rat)" "(of_int b :: rat) < 2 powi (bitlen b)"
  proof -
    have *: "2 powi (bitlen c - 1) \<le> (of_int c :: rat) \<and> (of_int c :: rat) < 2 powi (bitlen c)"
      if "0 < c" for c
    proof -
      have "bitlen c \<noteq> 0" using that by (simp add: bitlen_eq_zero_iff)
      then have "0 < bitlen c" using bitlen_nonneg [of c] by simp
      moreover have "2 ^ nat (bitlen c - 1) \<le> c" "c < 2 ^ nat (bitlen c)"
        using bitlen_bounds [OF that] by auto
      then have "(of_int (2 ^ nat (bitlen c - 1)) :: rat) \<le> of_int c"
        "(of_int c :: rat) < of_int (2 ^ nat (bitlen c))"
        by (simp_all only: of_int_le_iff of_int_less_iff)
      ultimately show ?thesis by (simp add: power_int_def)
    qed
    show "2 powi (bitlen a - 1) \<le> (of_int a :: rat)" "(of_int a :: rat) < 2 powi (bitlen a)"
      using * [OF a] by auto
    show "2 powi (bitlen b - 1) \<le> (of_int b :: rat)" "(of_int b :: rat) < 2 powi (bitlen b)"
      using * [OF b] by auto
  qed
  have pos: "0 < (of_int b :: rat)" using b by simp
  have up: "x < 2 powi (k + 1)"
  proof -
    have "x * 2 powi (bitlen b - 1) \<le> x * of_int b"
      using pb(1) assms by simp
    also have "\<dots> = of_int a" using pos x by simp
    also have "\<dots> < 2 powi (bitlen a)" by (rule pa)
    also have "\<dots> = 2 powi (k + 1) * 2 powi (bitlen b - 1)"
      by (simp add: k_def flip: power_int_add)
    finally show ?thesis by simp
  qed
  have lo: "2 powi (k - 1) \<le> x"
  proof -
    have "2 powi (k - 1) * (of_int b :: rat) \<le> 2 powi (k - 1) * 2 powi (bitlen b)"
      using pb(2) by simp
    also have "\<dots> = 2 powi (bitlen a - 1)" by (simp add: k_def flip: power_int_add)
    also have "\<dots> \<le> of_int a" by (rule pa)
    also have "\<dots> = x * of_int b" using pos x by simp
    finally show ?thesis using pos by simp
  qed
  have "ilog2 x = (if 2 powi k \<le> x then k else k - 1)" by (simp add: ilog2_def q k_def Let_def)
  with up lo show ?thesis by (auto simp: not_le)
qed

lemma ilog2_less:
  assumes "0 < x" and "x < 2 powi k"
  shows "ilog2 x < k"
proof (rule ccontr)
  assume "\<not> ilog2 x < k"
  then have "(2::rat) powi k \<le> 2 powi (ilog2 x)" by (intro power_int_increasing) auto
  with ilog2_bounds [OF assms(1)] assms(2) show False by simp
qed

text \<open>A multiple of the last place is exact.\<close>

lemma rnd_exact:
  assumes y: "y = of_int m * 2 powi e" and m: "\<bar>m\<bar> \<le> 2 ^ 53" and e: "- 1074 \<le> e"
    and fits: "\<bar>y\<bar> < 2 ^ 1024"
  shows "rnd y = Fin y"
proof (cases "y = 0")
  case True
  then show ?thesis by (simp add: rnd_def)
next
  case False
  define e' where "e' = ulp_exp \<bar>y\<bar>"
  obtain j where j: "y / 2 powi e' = of_int j"
  proof (cases "\<bar>m\<bar> = 2 ^ 53")
    case True
    have "\<bar>y\<bar> = 2 ^ 53 * 2 powi e"
      using True by (simp add: y abs_mult flip: of_int_abs)
    also have "\<dots> < 2 powi (e + 54)"
      by (simp add: power_int_add)
    finally have "ilog2 \<bar>y\<bar> < e + 54" using False by (intro ilog2_less) auto
    then have le: "e' \<le> e + 1" using e by (simp add: e'_def ulp_exp_def)
    obtain m' where m': "m = 2 * m'" using True by (metis abs_if dvd_def dvd_minus_iff even_numeral even_power zero_less_numeral)
    have "y = of_int m' * 2 powi (e + 1)" by (simp add: y m' power_int_add)
    then have "y / 2 powi e' = of_int m' * 2 powi (e + 1 - e')" by (simp add: power_int_diff)
    also have "\<dots> = of_int (m' * 2 ^ nat (e + 1 - e'))" using le by (simp add: power_int_def)
    finally have "y / 2 powi e' = of_int (m' * 2 ^ nat (e + 1 - e'))" .
    then show ?thesis by (rule that)
  next
    case False
    then have "\<bar>m\<bar> < 2 ^ 53" using m by simp
    then have "(of_int \<bar>m\<bar> :: rat) < 2 ^ 53" by (metis of_int_less_iff of_int_numeral of_int_power)
    then have "\<bar>y\<bar> < 2 ^ 53 * 2 powi e" by (simp add: y abs_mult)
    also have "\<dots> = 2 powi (e + 53)" by (simp add: power_int_add)
    finally have "ilog2 \<bar>y\<bar> < e + 53" using \<open>y \<noteq> 0\<close> by (intro ilog2_less) auto
    then have le: "e' \<le> e" using e by (simp add: e'_def ulp_exp_def)
    have "y / 2 powi e' = of_int m * 2 powi (e - e')"
      by (simp add: y power_int_diff)
    also have "\<dots> = of_int (m * 2 ^ nat (e - e'))" using le by (simp add: power_int_def)
    finally show ?thesis by (rule that)
  qed
  have eq: "of_int (round_even (y / 2 powi e')) * 2 powi e' = y" using j by (simp add: field_simps)
  show ?thesis
    unfolding rnd_def Let_def e'_def [symmetric] eq using False fits by auto
qed

lemma rnd_int:
  assumes "\<bar>n\<bar> \<le> 2 ^ 53"
  shows "rnd (of_int n) = int_num n"
proof (rule rnd_exact [where m = n and e = 0])
  have "(of_int \<bar>n\<bar> :: rat) \<le> of_int (2 ^ 53)" using assms by (simp only: of_int_le_iff)
  also have "\<dots> < 2 ^ 1024" by simp
  finally show "\<bar>of_int n :: rat\<bar> < 2 ^ 1024" by simp
qed (use assms in auto)

text \<open>The relative error of one rounding, on the numbers of ordinary size.\<close>

lemma rnd_error:
  assumes "2 powi (- 1022) \<le> \<bar>x\<bar>" and "\<bar>x\<bar> \<le> 2 ^ 1023"
  obtains y where "rnd x = Fin y" and "\<bar>y - x\<bar> \<le> \<bar>x\<bar> / 2 ^ 53"
proof -
  define e where "e = ulp_exp \<bar>x\<bar>"
  define y :: rat where "y = of_int (round_even (x / 2 powi e)) * 2 powi e"
  have "(0 :: rat) < 2 powi (- 1022)" by simp
  with assms(1) have pos: "0 < \<bar>x\<bar>" by linarith
  note b = ilog2_bounds [OF pos]
  have "- 1022 \<le> ilog2 \<bar>x\<bar>"
  proof (rule ccontr)
    assume "\<not> ?thesis"
    then have "(2 :: rat) powi (ilog2 \<bar>x\<bar> + 1) \<le> 2 powi (- 1022)"
      by (intro power_int_increasing) auto
    with b assms(1) show False by linarith
  qed
  then have e: "e = ilog2 \<bar>x\<bar> - 52" by (simp add: e_def ulp_exp_def)
  have ulp: "2 powi e \<le> \<bar>x\<bar> / 2 ^ 52"
    using b by (simp add: e power_int_diff field_simps)
  have "y - x = (of_int (round_even (x / 2 powi e)) - x / 2 powi e) * 2 powi e"
    by (simp add: y_def field_simps)
  then have "\<bar>y - x\<bar> \<le> 1 / 2 * 2 powi e"
    using round_even_error [of "x / 2 powi e"] by (simp add: abs_mult)
  with ulp have err: "\<bar>y - x\<bar> \<le> \<bar>x\<bar> / 2 ^ 53" by (simp add: field_simps)
  then have "\<bar>y\<bar> \<le> \<bar>x\<bar> + \<bar>x\<bar> / 2 ^ 53" by linarith
  also have "\<dots> \<le> 2 ^ 1023 + 2 ^ 1023 / 2 ^ 53"
    using assms(2) by (intro add_mono divide_right_mono) auto
  also have "\<dots> < 2 ^ 1024" by simp
  finally have "rnd x = Fin y" using pos by (auto simp: rnd_def Let_def y_def e_def)
  from this err show ?thesis by (rule that)
qed

lemma num_add_int [num_simps]:
  "\<bar>a + b\<bar> \<le> 2 ^ 53 \<Longrightarrow> num_add (int_num a) (int_num b) = int_num (a + b)"
  using rnd_int [of "a + b"] by simp

lemma num_sub_int [num_simps]:
  "\<bar>a - b\<bar> \<le> 2 ^ 53 \<Longrightarrow> num_sub (int_num a) (int_num b) = int_num (a - b)"
  using rnd_int [of "a - b"] by (simp add: num_sub_def)

lemma num_mul_int [num_simps]:
  "\<bar>a * b\<bar> \<le> 2 ^ 53 \<Longrightarrow> num_mul (int_num a) (int_num b) = int_num (a * b)"
  using rnd_int [of "a * b"] by simp

lemma num_lt_int [simp]: "num_lt (int_num a) (int_num b) \<longleftrightarrow> a < b"
  by simp

lemma num_le_int [simp]: "num_le (int_num a) (int_num b) \<longleftrightarrow> a \<le> b"
  by (auto simp: num_le_def)

lemma num_max_int [num_simps]: "num_max (int_num a) (int_num b) = int_num (max a b)"
  by (simp add: num_max_def max_def)

lemma num_min_int [num_simps]: "num_min (int_num a) (int_num b) = int_num (min a b)"
  by (simp add: num_min_def min_def)

text \<open>The quotient of two integers of at most 52 bits rounds without crossing an integer,
  so \<open>Math.ceil\<close> of it is the exact ceiling.\<close>

lemma ceil_div_int [num_simps]:
  assumes "0 \<le> a" and "a < 2 ^ 52" and "0 < b" and "b < 2 ^ 52"
  shows "num_ceil (num_div (int_num a) (int_num b)) = int_num \<lceil>(of_int a :: rat) / of_int b\<rceil>"
proof (cases "a = 0")
  case True
  with assms show ?thesis by (simp add: rnd_def num_ceil_def)
next
  case False
  define x :: rat where "x = of_int a / of_int b"
  define k where "k = \<lceil>x\<rceil> - 1"
  have b0: "(0 :: rat) < of_int b" using assms by simp
  have a1: "(1 :: rat) \<le> of_int a" using False assms(1) by (metis of_int_1 of_int_le_iff int_one_le_iff_zero_less less_le)
  have aL: "(of_int a :: rat) < 2 ^ 52" and bL: "(of_int b :: rat) < 2 ^ 52"
    using assms(2,4) by (metis of_int_less_iff of_int_numeral of_int_power)+
  have x0: "0 < x" using a1 b0 by (simp add: x_def)
  have xa: "x \<le> of_int a" 
    using assms(3) a1 b0 by (simp add: x_def field_simps)
  have "2 powi (- 1022) \<le> \<bar>x\<bar>"
  proof -
    have "(2 :: rat) powi (- 1022) \<le> 2 powi (- 52)" by (rule power_int_increasing) auto
    also have "\<dots> = 1 / 2 ^ 52" by (simp add: power_int_def field_simps)
    also have "\<dots> \<le> 1 / of_int b" using b0 bL by (simp add: field_simps)
    also have "\<dots> \<le> x" using a1 b0 by (simp add: x_def field_simps)
    finally show ?thesis using x0 by simp
  qed
  moreover have "\<bar>x\<bar> \<le> 2 ^ 1023" 
  proof -
    have "x \<le> 2 ^ 52" using xa aL by linarith
    also have "\<dots> \<le> 2 ^ 1023" by simp
    finally show ?thesis using x0 by simp
  qed
  ultimately obtain y where y: "rnd x = Fin y" and err: "\<bar>y - x\<bar> \<le> \<bar>x\<bar> / 2 ^ 53"
    by (rule rnd_error)
  have lo: "of_int k < y"
  proof -
    have "of_int k < x" by (simp add: k_def) linarith
    then have "k * b < a" using b0 by (simp add: x_def field_simps flip: of_int_mult)
    then have "k * b + 1 \<le> a" by simp
    then have "(of_int k * of_int b + 1 :: rat) \<le> of_int a" by (metis of_int_1 of_int_add of_int_le_iff of_int_mult)
    then have "(of_int k * of_int b + 1 :: rat) / of_int b \<le> x"
      unfolding x_def using b0 by (intro divide_right_mono) auto
    then have "of_int k + 1 / of_int b \<le> x" using b0 by (simp add: add_divide_distrib)
    moreover have "x / 2 ^ 53 < 1 / of_int b" using aL b0 by (simp add: x_def field_simps)
    ultimately show ?thesis using err x0 by linarith
  qed
  have hi: "y \<le> of_int (k + 1)"
  proof (cases "x = of_int (k + 1)")
    case True
    have "k + 1 \<le> a" using xa True by simp
    moreover have "0 < k + 1" using x0 True by simp
    ultimately have "\<bar>k + 1\<bar> \<le> 2 ^ 53" using assms(2) by simp
    then have "rnd x = int_num (k + 1)" unfolding True by (rule rnd_int)
    with y show ?thesis by simp
  next
    case False
    then have "x < of_int (k + 1)" by (simp add: k_def) linarith
    then have "a < (k + 1) * b" using b0 by (simp add: x_def field_simps flip: of_int_mult of_int_add)
    then have "a + 1 \<le> (k + 1) * b" by simp
    then have "(of_int a + 1 :: rat) \<le> of_int (k + 1) * of_int b" by (metis of_int_1 of_int_add of_int_le_iff of_int_mult)
    then have "(of_int a + 1 :: rat) / of_int b \<le> of_int (k + 1) * of_int b / of_int b"
      using b0 by (intro divide_right_mono) auto
    then have "x + 1 / of_int b \<le> of_int (k + 1)" using b0 by (simp add: x_def add_divide_distrib)
    moreover have "x / 2 ^ 53 < 1 / of_int b" using aL b0 by (simp add: x_def field_simps)
    ultimately show ?thesis using err x0 by linarith
  qed
  have "\<lceil>y\<rceil> = k + 1" using lo hi by (simp add: ceiling_eq_iff)
  then show ?thesis using assms y by (simp add: num_ceil_def x_def k_def)
qed

section \<open>Decimal strings\<close>

lemma code_unit_digit [simp]: "d < 10 \<Longrightarrow> code_unit (digit_char d) = 48 + d"
  by (simp add: digit_char_def)

lemma digit_char_simps [simp]:
  "digit_char 0 = CHR ''0''" "digit_char 1 = CHR ''1''" "digit_char (Suc 0) = CHR ''1''"
  "digit_char 2 = CHR ''2''" "digit_char 3 = CHR ''3''" "digit_char 4 = CHR ''4''"
  "digit_char 5 = CHR ''5''" "digit_char 6 = CHR ''6''" "digit_char 7 = CHR ''7''"
  "digit_char 8 = CHR ''8''" "digit_char 9 = CHR ''9''"
  by (simp_all add: digit_char_def char_of_def bit_0)

lemma is_digit_digit_char [simp]: "d < 10 \<Longrightarrow> is_digit (digit_char d)"
  by (simp add: is_digit_def)

lemma digit_val_digit_char [simp]: "d < 10 \<Longrightarrow> digit_val (digit_char d) = d"
  by (simp add: digit_val_def)

lemma is_digit_not_ws: "is_digit c \<Longrightarrow> \<not> is_ws c"
  by (auto simp: is_digit_def is_ws_def)

lemma nat_to_string_not_Nil [simp]: "nat_to_string n \<noteq> []"
  by (subst nat_to_string.simps) simp

lemma nat_to_string_digits: "\<forall>c \<in> set (nat_to_string n). is_digit c"
proof (induction n rule: nat_to_string.induct)
  case (1 n)
  then show ?case by (subst nat_to_string.simps) auto
qed

lemma digits_val_snoc: "digits_val (s @ [c]) = 10 * digits_val s + digit_val c"
  by (simp add: digits_val_def)

lemma digits_val_nat_to_string [simp]: "digits_val (nat_to_string n) = n"
proof (induction n rule: nat_to_string.induct)
  case (1 n)
  show ?case
  proof (cases "n < 10")
    case True
    then show ?thesis by (subst nat_to_string.simps) (simp add: digits_val_def)
  next
    case False
    then show ?thesis using 1 by (subst nat_to_string.simps) (simp add: digits_val_snoc)
  qed
qed

lemma nat_to_string_inject [simp]: "nat_to_string m = nat_to_string n \<longleftrightarrow> m = n"
  by (metis digits_val_nat_to_string)

lemma takeWhile_digits:
  "\<forall>c \<in> set ds. is_digit c \<Longrightarrow> s = [] \<or> \<not> is_digit (hd s) \<Longrightarrow>
     takeWhile is_digit (ds @ s) = ds \<and> dropWhile is_digit (ds @ s) = s"
  by (cases s) (auto simp: takeWhile_append dropWhile_append)

lemma digits_shape: "nat_to_string n = c # t \<Longrightarrow> is_digit c \<and> (\<forall>x \<in> set t. is_digit x)"
  using nat_to_string_digits [of n] by simp

lemma trim_digits [simp]: "trim (nat_to_string n) = nat_to_string n"
  using nat_to_string_digits [of n] by (auto intro!: trim_no_ws dest: is_digit_not_ws)

lemma trim_start_digits [simp]: "trim_start (nat_to_string n) = nat_to_string n"
  using nat_to_string_digits [of n]
  by (cases "nat_to_string n") (auto intro!: trim_start_fix dest: is_digit_not_ws)

lemma digit_neq_marks:
  assumes "is_digit c"
  shows "c \<noteq> CHR ''-''" "c \<noteq> CHR ''+''" "c \<noteq> CHR ''I''" "c \<noteq> CHR ''.''" "c \<noteq> CHR ''x''"
  using assms by (auto simp: is_digit_def)

lemma parse_int10_nat:
  "parse_int10 (nat_to_string n) = rnd (of_nat n)"
proof -
  obtain c t where ct: "nat_to_string n = c # t" by (cases "nat_to_string n") auto
  note d = digits_shape [OF ct]
  have "takeWhile is_digit t = t" using d by simp
  moreover have "digits_val (c # t) = n" by (metis ct digits_val_nat_to_string)
  ultimately show ?thesis
    using d digit_neq_marks [of c] trim_start_digits [of n]
    by (simp add: parse_int10_def Let_def ct takeWhile_eq_all_conv [THEN iffD2])
qed

lemma read_decimal_nat: "read_decimal (nat_to_string n) = Some (rnd (of_nat n), [])"
proof -
  obtain c t where ct: "nat_to_string n = c # t" by (cases "nat_to_string n") auto
  note d = digits_shape [OF ct]
  have "\<not> starts_with (c # t) ''Infinity''"
    using d digit_neq_marks [of c] by (auto simp: starts_with_def)
  moreover have "takeWhile is_digit (c # t) = c # t" "dropWhile is_digit (c # t) = []"
    using d by auto
  moreover have "digits_val (c # t) = n" by (metis ct digits_val_nat_to_string)
  ultimately show ?thesis
    by (simp add: read_decimal_def ct span_digits_def read_exponent_def Let_def)
qed

lemma rnd_minus: "rnd (- x) = num_neg (rnd x)"
proof -
  have "- x / 2 powi e = - (x / 2 powi e)" for e by simp
  then show ?thesis by (simp add: rnd_def Let_def round_even_minus)
qed

lemma read_signed_int: "read_signed (int_to_string n) = Some (rnd (of_int n), [])"
proof (cases "n < 0")
  case True
  then have "rnd (of_int n) = num_neg (rnd (of_nat (nat (- n))))"
    using rnd_minus [of "of_int (- n)"] by simp
  then show ?thesis using True by (simp add: read_signed_def int_to_string_def read_decimal_nat)
next
  case False
  obtain c t where ct: "nat_to_string (nat n) = c # t" by (cases "nat_to_string (nat n)") auto
  then have "is_digit c" using digits_shape by blast
  then have "read_signed (nat_to_string (nat n)) = read_decimal (nat_to_string (nat n))"
    using digit_neq_marks [of c] by (simp add: read_signed_def ct)
  then show ?thesis using False by (simp add: int_to_string_def read_decimal_nat)
qed

lemma trim_int_to_string [simp]: "trim (int_to_string n) = int_to_string n"
  using nat_to_string_digits [of "nat (- n)"] nat_to_string_digits [of "nat n"]
  by (intro trim_no_ws) (auto simp: int_to_string_def dest: is_digit_not_ws; simp add: is_ws_def)

lemma int_to_string_not_Nil [simp]: "int_to_string n \<noteq> []"
  by (simp add: int_to_string_def)

lemma num_to_string_int: "\<bar>n\<bar> \<le> 2 ^ 53 \<Longrightarrow> num_to_string (int_num n) = int_to_string n"
proof -
  assume n: "\<bar>n\<bar> \<le> 2 ^ 53"
  then have "\<bar>of_int n :: rat\<bar> \<le> 2 ^ 53" by (metis of_int_abs of_int_le_iff of_int_numeral of_int_power)
  then show ?thesis
    by (cases "n = 0")
      (auto simp: num_to_string_def rat_to_string_def int_to_string_def nat_to_string.simps [of 0]
        abs_if)
qed

lemma num_to_string_nat: "n \<le> 2 ^ 53 \<Longrightarrow> num_to_string (Fin (of_nat n)) = nat_to_string n"
  using num_to_string_int [of "int n"] by (simp add: int_to_string_def)

end
