(* ===== verification/JsValue.thy ===== *)
theory JsValue
  imports JsNumber
begin

text \<open>
  JavaScript values as the frontend sees them: the values of JSON plus \<open>undefined\<close>, the
  conversions \<open>Boolean\<close>, \<open>String\<close> and \<open>Number\<close>, property reads, and what a
  \<open>throw\<close> carries.  An object holds its properties in enumeration order; the modelled
  objects have no integer-like keys, no accessors and no prototype of their own, as every
  value read from a response body or built by an object literal here.
\<close>

datatype jsval =
    JUndef
  | JNull
  | JBool bool
  | JNum num
  | JStr string
  | JArr "jsval list"
  | JObj "(string \<times> jsval) list"

section \<open>Conversions\<close>

definition nullish :: "jsval \<Rightarrow> bool" where
  "nullish v \<longleftrightarrow> v = JUndef \<or> v = JNull"

fun truthy :: "jsval \<Rightarrow> bool" where
  "truthy JUndef = False"
| "truthy JNull = False"
| "truthy (JBool b) = b"
| "truthy (JNum x) = (x \<noteq> NaN \<and> x \<noteq> Fin 0)"
| "truthy (JStr s) = (s \<noteq> [])"
| "truthy (JArr _) = True"
| "truthy (JObj _) = True"

text \<open>\<open>a ?? b\<close> and \<open>a || b\<close>.\<close>

definition coalesce :: "jsval \<Rightarrow> jsval \<Rightarrow> jsval" where
  "coalesce a b = (if nullish a then b else a)"

definition js_or :: "jsval \<Rightarrow> jsval \<Rightarrow> jsval" where
  "js_or a b = (if truthy a then a else b)"

fun to_str :: "jsval \<Rightarrow> string" where
  "to_str JUndef = ''undefined''"
| "to_str JNull = ''null''"
| "to_str (JBool b) = (if b then ''true'' else ''false'')"
| "to_str (JNum x) = num_to_string x"
| "to_str (JStr s) = s"
| "to_str (JArr vs) = join '','' (map (\<lambda>v. if v = JUndef \<or> v = JNull then [] else to_str v) vs)"
| "to_str (JObj _) = ''[object Object]''"

text \<open>\<open>Number(v)\<close>: arrays and objects go through their string.\<close>

definition to_num :: "jsval \<Rightarrow> num" where
  "to_num v =
     (case v of
        JUndef \<Rightarrow> NaN
      | JNull \<Rightarrow> Fin 0
      | JBool b \<Rightarrow> Fin (if b then 1 else 0)
      | JNum x \<Rightarrow> x
      | JStr s \<Rightarrow> string_to_num s
      | JArr vs \<Rightarrow> string_to_num (to_str (JArr vs))
      | JObj ps \<Rightarrow> NaN)"

section \<open>Objects\<close>

text \<open>A property read under optional chaining, \<open>v?.k\<close>: \<open>undefined\<close> when there is no
  such property or \<open>v\<close> is no object.\<close>

definition get :: "jsval \<Rightarrow> string \<Rightarrow> jsval" where
  "get v k =
     (case v of
        JObj ps \<Rightarrow> (case map_of ps k of Some w \<Rightarrow> w | None \<Rightarrow> JUndef)
      | _ \<Rightarrow> JUndef)"

text \<open>Assigning a property of an object literal under construction.\<close>

definition with_prop :: "string \<Rightarrow> jsval \<Rightarrow> jsval \<Rightarrow> jsval" where
  "with_prop k w v = (case v of JObj ps \<Rightarrow> JObj (put k w ps) | _ \<Rightarrow> v)"

definition js_string_or_null :: "string option \<Rightarrow> jsval" where
  "js_string_or_null s = (case s of None \<Rightarrow> JNull | Some t \<Rightarrow> JStr t)"

definition js_string_or_undef :: "string option \<Rightarrow> jsval" where
  "js_string_or_undef s = (case s of None \<Rightarrow> JUndef | Some t \<Rightarrow> JStr t)"

section \<open>Exceptions\<close>

text \<open>
  What \<open>throw\<close> carries: an \<open>ApiError\<close> (status, code, message), any other
  \<open>Error\<close> by its message, or a value that is no \<open>Error\<close>.
\<close>

datatype thrown =
    ApiError (err_status: int) (err_code: jsval) (err_message: string)
  | JsError (err_message: string)
  | ThrownValue jsval

type_synonym 'a outcome = "thrown + 'a"

text \<open>Reading a property of \<open>null\<close> or \<open>undefined\<close> throws a \<open>TypeError\<close>.\<close>

definition member_read :: "jsval \<Rightarrow> string \<Rightarrow> jsval outcome" where
  "member_read v k =
     (if nullish v
      then Inl (JsError (''Cannot read properties of '' @ to_str v @ '' (reading '' @ [CHR 0x27]
             @ k @ [CHR 0x27] @ '')''))
      else Inr (get v k))"

section \<open>Facts\<close>

lemma get_JObj [simp, obj_simps]:
  "get (JObj ps) k = (case map_of ps k of Some w \<Rightarrow> w | None \<Rightarrow> JUndef)"
  by (simp add: get_def)

lemma get_nullish [simp, obj_simps]: "get JUndef k = JUndef" "get JNull k = JUndef"
  by (simp_all add: get_def)

lemma nullish_simps [simp, obj_simps]:
  "nullish JUndef" "nullish JNull" "\<not> nullish (JBool b)" "\<not> nullish (JNum x)"
  "\<not> nullish (JStr s)" "\<not> nullish (JArr vs)" "\<not> nullish (JObj ps)"
  by (simp_all add: nullish_def)

lemma coalesce_simps [simp, obj_simps]:
  "coalesce JUndef b = b" "coalesce JNull b = b" "\<not> nullish a \<Longrightarrow> coalesce a b = a"
  by (simp_all add: coalesce_def)

lemma get_with_prop [simp, obj_simps]:
  "get (with_prop k w (JObj ps)) k' = (if k' = k then w else get (JObj ps) k')"
  by (simp add: with_prop_def)

lemma nullish_coalesce [simp]: "nullish (coalesce a b) \<longleftrightarrow> nullish a \<and> nullish b"
  by (simp add: coalesce_def)

lemma member_read_ok: "\<not> nullish v \<Longrightarrow> member_read v k = Inr (get v k)"
  by (simp add: member_read_def)

end
