(* ===== verification/JsJson.thy ===== *)
theory JsJson
  imports JsValue
begin

text \<open>
  \<open>JSON.stringify\<close> and \<open>JSON.parse\<close>.  The printer is exact; the reader is a
  recursive descent over the text with a fuel argument, and \<open>json_parse\<close> gives it twice
  the length of the text, which is enough for every text the printer produces
  (\<open>json_roundtrip\<close>).  An escape \<open>\u\<close> that names a code unit outside the
  alphabet makes the reader refuse the text.
\<close>

section \<open>JSON.stringify\<close>

definition hex_char :: "nat \<Rightarrow> char" where
  "hex_char d = (if d < 10 then char_of (48 + d) else char_of (87 + d))"

definition escape_char :: "char \<Rightarrow> string" where
  "escape_char c =
     (let n = code_unit c in
      if n = 34 then [CHR 0x5C, CHR 0x22]
      else if n = 92 then [CHR 0x5C, CHR 0x5C]
      else if n = 8 then CHR 0x5C # ''b''
      else if n = 12 then CHR 0x5C # ''f''
      else if n = 10 then CHR 0x5C # ''n''
      else if n = 13 then CHR 0x5C # ''r''
      else if n = 9 then CHR 0x5C # ''t''
      else if n < 32 then CHR 0x5C # ''u00'' @ [hex_char (n div 16), hex_char (n mod 16)]
      else [c])"

definition quote_string :: "string \<Rightarrow> string" where
  "quote_string s = CHR 0x22 # concat (map escape_char s) @ [CHR 0x22]"

fun stringify :: "jsval \<Rightarrow> string" where
  "stringify JUndef = ''null''"
| "stringify JNull = ''null''"
| "stringify (JBool b) = (if b then ''true'' else ''false'')"
| "stringify (JNum x) = (case x of Fin _ \<Rightarrow> num_to_string x | _ \<Rightarrow> ''null'')"
| "stringify (JStr s) = quote_string s"
| "stringify (JArr vs) = ''['' @ join '','' (map stringify vs) @ '']''"
| "stringify (JObj ps) =
     ''{'' @ join '','' (concat (map (\<lambda>(k, v).
        if v = JUndef then [] else [quote_string k @ '':'' @ stringify v]) ps)) @ ''}''"

text \<open>\<open>JSON.stringify(undefined)\<close> is \<open>undefined\<close>.\<close>

definition json_stringify :: "jsval \<Rightarrow> string option" where
  "json_stringify v = (if v = JUndef then None else Some (stringify v))"

section \<open>JSON.parse\<close>

definition json_ws :: "char \<Rightarrow> bool" where
  "json_ws c \<longleftrightarrow> code_unit c \<in> {9, 10, 13, 32}"

definition skip_ws :: "string \<Rightarrow> string" where
  "skip_ws s = dropWhile json_ws s"

definition read_u :: "char \<Rightarrow> char \<Rightarrow> char \<Rightarrow> char \<Rightarrow> char option" where
  "read_u a b c d =
     (let ns = map radix_digit [a, b, c, d];
          n = foldl (\<lambda>m x. 16 * m + x) 0 ns
      in if (\<forall>x \<in> set ns. x < 16) \<and> n < 256 then Some (char_of n) else None)"

definition unescape :: "char \<Rightarrow> char option" where
  "unescape e =
     (if e = CHR 0x22 \<or> e = CHR 0x5C \<or> e = CHR ''/'' then Some e
      else if e = CHR ''b'' then Some (CHR 0x08)
      else if e = CHR ''f'' then Some (CHR 0x0C)
      else if e = CHR ''n'' then Some (CHR 0x0A)
      else if e = CHR ''r'' then Some (CHR 0x0D)
      else if e = CHR ''t'' then Some (CHR 0x09)
      else None)"

abbreviation cons_fst :: "'a \<Rightarrow> 'a list \<times> 'b \<Rightarrow> 'a list \<times> 'b" where
  "cons_fst x \<equiv> (\<lambda>(xs, r). (x # xs, r))"

text \<open>The rest of a string literal after its opening quote.\<close>

fun read_str :: "string \<Rightarrow> (string \<times> string) option" where
  "read_str [] = None"
| "read_str (c # s) =
     (if c = CHR 0x22 then Some ([], s)
      else if c = CHR 0x5C then
        (case s of
           [] \<Rightarrow> None
         | e # t \<Rightarrow>
             if e = CHR ''u'' then
               (case t of
                  x1 # x2 # x3 # x4 # r \<Rightarrow>
                    (case read_u x1 x2 x3 x4 of
                       Some u \<Rightarrow> map_option (cons_fst u) (read_str r)
                     | None \<Rightarrow> None)
                | _ \<Rightarrow> None)
             else
               (case unescape e of
                  Some u \<Rightarrow> map_option (cons_fst u) (read_str t)
                | None \<Rightarrow> None))
      else if code_unit c < 32 then None
      else map_option (cons_fst c) (read_str s))"

text \<open>The number literal of JSON: no leading zeros, digits on both sides of the point.\<close>

definition json_number_shape :: "string \<Rightarrow> bool" where
  "json_number_shape s =
     (let t = (case s of c # r \<Rightarrow> if c = CHR ''-'' then r else s | [] \<Rightarrow> s);
          (ip, r) = span_digits t
      in ip \<noteq> [] \<and> (length ip = 1 \<or> hd ip \<noteq> CHR ''0'')
         \<and> (case r of c # q \<Rightarrow> c = CHR ''.'' \<longrightarrow> takeWhile is_digit q \<noteq> [] | [] \<Rightarrow> True))"

definition read_number :: "string \<Rightarrow> (jsval \<times> string) option" where
  "read_number s =
     (if json_number_shape s then map_option (\<lambda>(x, r). (JNum x, r)) (read_signed s) else None)"

fun read_value :: "nat \<Rightarrow> string \<Rightarrow> (jsval \<times> string) option"
and read_elems :: "nat \<Rightarrow> string \<Rightarrow> (jsval list \<times> string) option"
and read_members :: "nat \<Rightarrow> string \<Rightarrow> ((string \<times> jsval) list \<times> string) option" where
  "read_value 0 s = None"
| "read_value (Suc n) s =
     (case skip_ws s of
        [] \<Rightarrow> None
      | c # t \<Rightarrow>
          if c = CHR ''{'' then
            (case skip_ws t of
               d # r \<Rightarrow> if d = CHR ''}'' then Some (JObj [], r)
                        else map_option (\<lambda>(ps, q). (JObj (spread [] ps), q)) (read_members n t)
             | [] \<Rightarrow> None)
          else if c = CHR ''['' then
            (case skip_ws t of
               d # r \<Rightarrow> if d = CHR '']'' then Some (JArr [], r)
                        else map_option (\<lambda>(vs, q). (JArr vs, q)) (read_elems n t)
             | [] \<Rightarrow> None)
          else if c = CHR 0x22 then map_option (\<lambda>(w, r). (JStr w, r)) (read_str t)
          else if starts_with (c # t) ''true'' then Some (JBool True, drop 4 (c # t))
          else if starts_with (c # t) ''false'' then Some (JBool False, drop 5 (c # t))
          else if starts_with (c # t) ''null'' then Some (JNull, drop 4 (c # t))
          else read_number (c # t))"
| "read_elems 0 s = None"
| "read_elems (Suc n) s =
     (case read_value n s of
        None \<Rightarrow> None
      | Some (v, r) \<Rightarrow>
          (case skip_ws r of
             c # q \<Rightarrow> if c = CHR '','' then map_option (cons_fst v) (read_elems n q)
                      else if c = CHR '']'' then Some ([v], q) else None
           | [] \<Rightarrow> None))"
| "read_members 0 s = None"
| "read_members (Suc n) s =
     (case skip_ws s of
        c # t \<Rightarrow>
          if c = CHR 0x22 then
            (case read_str t of
               None \<Rightarrow> None
             | Some (k, r) \<Rightarrow>
                 (case skip_ws r of
                    d # r' \<Rightarrow>
                      if d = CHR '':'' then
                        (case read_value n r' of
                           None \<Rightarrow> None
                         | Some (v, r'') \<Rightarrow>
                             (case skip_ws r'' of
                                e # q \<Rightarrow>
                                  if e = CHR '','' then map_option (cons_fst (k, v)) (read_members n q)
                                  else if e = CHR ''}'' then Some ([(k, v)], q) else None
                              | [] \<Rightarrow> None))
                      else None
                  | [] \<Rightarrow> None))
          else None
      | [] \<Rightarrow> None)"

text \<open>A text that does not parse makes \<open>JSON.parse\<close> throw: \<open>None\<close>.\<close>

definition json_parse :: "string \<Rightarrow> jsval option" where
  "json_parse s =
     (case read_value (2 * length s) s of
        Some (v, r) \<Rightarrow> if skip_ws r = [] then Some v else None
      | None \<Rightarrow> None)"

section \<open>The reader inverts the printer\<close>

lemma code_unit_char:
  "code_unit c = 34 \<longleftrightarrow> c = CHR 0x22" "code_unit c = 92 \<longleftrightarrow> c = CHR 0x5C"
  "code_unit c = 8 \<longleftrightarrow> c = CHR 0x08" "code_unit c = 12 \<longleftrightarrow> c = CHR 0x0C"
  "code_unit c = 10 \<longleftrightarrow> c = CHR 0x0A" "code_unit c = 13 \<longleftrightarrow> c = CHR 0x0D"
  "code_unit c = 9 \<longleftrightarrow> c = CHR 0x09"
proof -
  have *: "code_unit c = code_unit d \<longleftrightarrow> c = d" for d by (rule of_char_eq_iff)
  show "code_unit c = 34 \<longleftrightarrow> c = CHR 0x22" "code_unit c = 92 \<longleftrightarrow> c = CHR 0x5C"
    "code_unit c = 8 \<longleftrightarrow> c = CHR 0x08" "code_unit c = 12 \<longleftrightarrow> c = CHR 0x0C"
    "code_unit c = 10 \<longleftrightarrow> c = CHR 0x0A" "code_unit c = 13 \<longleftrightarrow> c = CHR 0x0D"
    "code_unit c = 9 \<longleftrightarrow> c = CHR 0x09"
    using * [of "CHR 0x22"] * [of "CHR 0x5C"] * [of "CHR 0x08"] * [of "CHR 0x0C"]
      * [of "CHR 0x0A"] * [of "CHR 0x0D"] * [of "CHR 0x09"] by simp_all
qed

lemma radix_digit_hex_char [simp]: "d < 16 \<Longrightarrow> radix_digit (hex_char d) = d"
  by (auto simp: radix_digit_def hex_char_def Let_def)

lemma read_u_hex:
  assumes "code_unit c < 32"
  shows "read_u (CHR ''0'') (CHR ''0'') (hex_char (code_unit c div 16)) (hex_char (code_unit c mod 16)) = Some c"
proof -
  have "code_unit c div 16 < 16" using assms by simp
  moreover have "code_unit c mod 16 < 16" by simp
  moreover have "radix_digit (CHR ''0'') = 0" by (simp add: radix_digit_def)
  moreover have "16 * (code_unit c div 16) + code_unit c mod 16 = code_unit c" by simp
  ultimately show ?thesis using assms by (simp add: read_u_def Let_def)
qed

lemma read_str_escape: "read_str (escape_char c @ t) = map_option (cons_fst c) (read_str t)"
proof (cases "c \<in> {CHR 0x22, CHR 0x5C, CHR 0x08, CHR 0x0C, CHR 0x0A, CHR 0x0D, CHR 0x09}")
  case True
  then show ?thesis by (auto simp: escape_char_def unescape_def)
next
  case False
  then have ne: "c \<noteq> CHR 0x22" "c \<noteq> CHR 0x5C" by auto
  show ?thesis
  proof (cases "code_unit c < 32")
    case True
    then have "escape_char c =
        [CHR 0x5C, CHR ''u'', CHR ''0'', CHR ''0'', hex_char (code_unit c div 16), hex_char (code_unit c mod 16)]"
      using False by (simp add: escape_char_def Let_def code_unit_char)
    then show ?thesis using read_u_hex [OF True] by simp
  next
    case ge: False
    then have "escape_char c = [c]"
      using False by (simp add: escape_char_def Let_def code_unit_char)
    then show ?thesis using ge ne by simp
  qed
qed

lemma read_str_quoted [simp]:
  "read_str (concat (map escape_char s) @ CHR 0x22 # rest) = Some (s, rest)"
  by (induction s) (simp_all add: read_str_escape del: read_str.simps(2), simp)

text \<open>The values the round trip covers: no \<open>undefined\<close>, integers of at most 53 bits, and no
  two properties of one name.\<close>

fun json_safe :: "jsval \<Rightarrow> bool" where
  "json_safe JUndef = False"
| "json_safe JNull = True"
| "json_safe (JBool _) = True"
| "json_safe (JNum x) = (case x of Fin q \<Rightarrow> of_int \<lfloor>q\<rfloor> = q \<and> \<bar>q\<bar> \<le> 2 ^ 53 | _ \<Rightarrow> False)"
| "json_safe (JStr _) = True"
| "json_safe (JArr vs) = list_all json_safe vs"
| "json_safe (JObj ps) = (distinct (map fst ps) \<and> list_all (\<lambda>(k, v). json_safe v) ps)"

fun json_size :: "jsval \<Rightarrow> nat" where
  "json_size (JArr vs) = Suc (length vs + sum_list (map json_size vs))"
| "json_size (JObj ps) = Suc (length ps + sum_list (map (\<lambda>(k, v). json_size v) ps))"
| "json_size _ = 1"

definition json_stop :: "string \<Rightarrow> bool" where
  "json_stop s \<longleftrightarrow> s = [] \<or> hd s \<in> {CHR '','', CHR '']'', CHR ''}''}"

lemma json_safe_num:
  assumes "json_safe (JNum x)"
  obtains n where "x = int_num n" and "\<bar>n\<bar> \<le> 2 ^ 53"
proof -
  from assms obtain q where q: "x = Fin q" "of_int \<lfloor>q\<rfloor> = q" "\<bar>q\<bar> \<le> 2 ^ 53"
    by (auto split: num.splits)
  then have "(of_int \<bar>\<lfloor>q\<rfloor>\<bar> :: rat) \<le> of_int (2 ^ 53)" by (simp only: of_int_abs) simp
  then have "\<bar>\<lfloor>q\<rfloor>\<bar> \<le> 2 ^ 53" by (simp only: of_int_le_iff)
  then show thesis using that [of "\<lfloor>q\<rfloor>"] q(1) q(2) [symmetric] by metis
qed

lemma skip_ws_fix [simp]: "\<not> json_ws c \<Longrightarrow> skip_ws (c # s) = c # s"
  by (simp add: skip_ws_def)

lemma json_ws_marks [simp]:
  "\<not> json_ws (CHR ''{'')" "\<not> json_ws (CHR ''['')" "\<not> json_ws (CHR ''}'')" "\<not> json_ws (CHR '']'')"
  "\<not> json_ws (CHR '','')" "\<not> json_ws (CHR '':'')" "\<not> json_ws (CHR 0x22)" "\<not> json_ws (CHR ''n'')"
  "\<not> json_ws (CHR ''t'')" "\<not> json_ws (CHR ''f'')" "\<not> json_ws (CHR ''-'')"
  by (simp_all add: json_ws_def)

lemma is_digit_marks:
  "is_digit c \<Longrightarrow> \<not> json_ws c \<and> c \<notin> {CHR ''{'', CHR ''['', CHR 0x22, CHR ''t'', CHR ''f'', CHR ''n'',
     CHR ''}'', CHR '']'', CHR '','', CHR ''.'', CHR ''e'', CHR ''E'', CHR ''-'', CHR ''+'', CHR ''I''}"
  by (auto simp: is_digit_def json_ws_def)

lemma json_stop_digit: "json_stop s \<Longrightarrow> s = [] \<or> \<not> is_digit (hd s)"
  by (auto simp: json_stop_def is_digit_def)

lemma span_digits_stop:
  "json_stop r \<Longrightarrow> span_digits (nat_to_string n @ r) = (nat_to_string n, r)"
  using takeWhile_digits [OF nat_to_string_digits json_stop_digit, of r n]
  by (simp add: span_digits_def)

lemma read_exponent_stop: "json_stop r \<Longrightarrow> read_exponent r = (0, r)"
  by (cases r) (auto simp: read_exponent_def json_stop_def)

lemma hd_digits: "\<exists>c t. nat_to_string n = c # t \<and> is_digit c \<and> (\<forall>x \<in> set t. is_digit x)"
  using nat_to_string_digits [of n] by (cases "nat_to_string n") auto

lemma read_decimal_stop:
  assumes "json_stop r"
  shows "read_decimal (nat_to_string n @ r) = Some (rnd (of_nat n), r)"
proof -
  obtain c t where ct: "nat_to_string n = c # t" "is_digit c" using hd_digits by blast
  have "\<not> starts_with (nat_to_string n @ r) ''Infinity''"
    using is_digit_marks [OF ct(2)] by (simp add: starts_with_def ct(1))
  moreover have "r = [] \<or> (\<exists>d q. r = d # q \<and> d \<noteq> CHR ''.'')"
    using assms by (cases r) (auto simp: json_stop_def)
  ultimately show ?thesis
    using span_digits_stop [OF assms, of n] read_exponent_stop [OF assms] ct(1)
      digits_val_nat_to_string [of n]
    by (auto simp: read_decimal_def Let_def)
qed

lemma nat_to_string_no_zero: "length (nat_to_string n) = 1 \<or> hd (nat_to_string n) \<noteq> CHR ''0''"
proof (induction n rule: nat_to_string.induct)
  case (1 n)
  show ?case
  proof (cases "n < 10")
    case True
    then show ?thesis by (simp add: nat_to_string.simps [of n])
  next
    case False
    then have n: "nat_to_string n = nat_to_string (n div 10) @ [digit_char (n mod 10)]"
      by (simp add: nat_to_string.simps [of n])
    show ?thesis
    proof (cases "n div 10 < 10")
      case True
      moreover have "0 < n div 10" using False by (simp add: div_greater_zero_iff)
      ultimately have "code_unit (hd (nat_to_string n)) \<noteq> 48"
        by (simp add: n nat_to_string.simps [of "n div 10"])
      then show ?thesis by auto
    next
      case ge: False
      then have "length (nat_to_string (n div 10)) \<noteq> 1"
        by (simp add: nat_to_string.simps [of "n div 10"])
      with 1 False show ?thesis by (simp add: n hd_append)
    qed
  qed
qed

lemma read_number_nat:
  assumes "json_stop r"
  shows "json_number_shape (nat_to_string n @ r)" "json_number_shape (CHR ''-'' # nat_to_string n @ r)"
proof -
  obtain c t where ct: "nat_to_string n = c # t" "is_digit c" using hd_digits by blast
  have c: "c \<noteq> CHR ''-''" using is_digit_marks [OF ct(2)] by simp
  have r: "case r of [] \<Rightarrow> True | d # q \<Rightarrow> d = CHR ''.'' \<longrightarrow> takeWhile is_digit q \<noteq> []"
    using assms by (cases r) (auto simp: json_stop_def)
  show "json_number_shape (nat_to_string n @ r)" "json_number_shape (CHR ''-'' # nat_to_string n @ r)"
    using span_digits_stop [OF assms, of n] nat_to_string_no_zero [of n] r c
    by (auto simp: json_number_shape_def ct(1))
qed

lemma read_number_int:
  assumes "json_stop r" and "\<bar>n\<bar> \<le> 2 ^ 53"
  shows "read_number (int_to_string n @ r) = Some (JNum (int_num n), r)"
proof (cases "n < 0")
  case True
  have "rnd (of_nat (nat (- n))) = int_num (- n)"
    using rnd_int [of "- n"] assms(2) True by simp
  then show ?thesis
    using True read_number_nat(2) [OF assms(1)] read_decimal_stop [OF assms(1)]
    by (simp add: read_number_def int_to_string_def read_signed_def)
next
  case False
  obtain c t where ct: "nat_to_string (nat n) = c # t" "is_digit c" using hd_digits by blast
  have "rnd (of_nat (nat n)) = int_num n"
    using rnd_int [OF assms(2)] False by simp
  moreover have "read_signed (nat_to_string (nat n) @ r) = read_decimal (nat_to_string (nat n) @ r)"
    using is_digit_marks [OF ct(2)] by (simp add: read_signed_def ct(1))
  ultimately show ?thesis
    using False read_number_nat(1) [OF assms(1)] read_decimal_stop [OF assms(1)]
    by (simp add: read_number_def int_to_string_def)
qed

lemma stringify_hd:
  assumes "json_safe v"
  shows "\<exists>c t. stringify v = c # t \<and> \<not> json_ws c \<and> c \<noteq> CHR '']''"
proof (cases v)
  case (JNum x)
  then obtain n where n: "x = int_num n" "\<bar>n\<bar> \<le> 2 ^ 53" using assms json_safe_num by blast
  obtain c t where "nat_to_string (nat n) = c # t" "is_digit c" using hd_digits by blast
  then show ?thesis
    using n num_to_string_int [OF n(2)] is_digit_marks [of c] JNum by (auto simp: int_to_string_def)
qed (use assms in \<open>auto simp: quote_string_def\<close>)

lemma json_stop_simps [simp]:
  "json_stop []" "json_stop (CHR '','' # s)" "json_stop (CHR '']'' # s)" "json_stop (CHR ''}'' # s)"
  by (simp_all add: json_stop_def)

definition reads_back :: "jsval \<Rightarrow> bool" where
  "reads_back v \<longleftrightarrow>
     (\<forall>n r. json_size v \<le> n \<longrightarrow> json_stop r \<longrightarrow> read_value n (stringify v @ r) = Some (v, r))"

lemma reads_backD:
  "reads_back v \<Longrightarrow> json_size v \<le> n \<Longrightarrow> json_stop r \<Longrightarrow> read_value n (stringify v @ r) = Some (v, r)"
  by (simp add: reads_back_def)

lemma json_size_pos [simp]: "0 < json_size v"
  by (cases v) auto

lemma read_elems_join:
  assumes "\<And>v. v \<in> set vs \<Longrightarrow> reads_back v" and "vs \<noteq> []"
    and "length vs + sum_list (map json_size vs) \<le> n"
  shows "read_elems n (join '','' (map stringify vs) @ CHR '']'' # r) = Some (vs, r)"
  using assms
proof (induction vs arbitrary: n)
  case (Cons v vs)
  from Cons.prems(3) obtain m where m: "n = Suc m" by (cases n) auto
  show ?case
  proof (cases vs)
    case Nil
    then show ?thesis using Cons.prems m by (simp add: reads_backD)
  next
    case (Cons w ws)
    then have "read_elems m (join '','' (map stringify vs) @ CHR '']'' # r) = Some (vs, r)"
      using Cons.prems m by (intro Cons.IH) auto
    moreover have "read_value m (stringify v @ CHR '','' # s) = Some (v, CHR '','' # s)" for s
      using Cons.prems m by (intro reads_backD) auto
    ultimately show ?thesis using m Cons by simp
  qed
qed simp

definition member_text :: "string \<times> jsval \<Rightarrow> string" where
  "member_text = (\<lambda>(k, v). quote_string k @ '':'' @ stringify v)"

lemma read_members_join:
  assumes "\<And>k v. (k, v) \<in> set ps \<Longrightarrow> reads_back v" and "ps \<noteq> []"
    and "length ps + sum_list (map (\<lambda>(k, v). json_size v) ps) \<le> n"
  shows "read_members n (join '','' (map member_text ps) @ CHR ''}'' # r) = Some (ps, r)"
  using assms
proof (induction ps arbitrary: n)
  case (Cons p ps)
  obtain k v where p: "p = (k, v)" by (cases p)
  from Cons.prems(3) obtain m where m: "n = Suc m" by (cases n) auto
  have v: "reads_back v" using Cons.prems(1) p by auto
  show ?case
  proof (cases ps)
    case Nil
    then show ?thesis
      using Cons.prems m v by (simp add: p member_text_def quote_string_def reads_backD)
  next
    case (Cons q qs)
    then have "read_members m (join '','' (map member_text ps) @ CHR ''}'' # r) = Some (ps, r)"
      using Cons.prems m by (intro Cons.IH) auto
    moreover have "read_value m (stringify v @ CHR '','' # s) = Some (v, CHR '','' # s)" for s
      using Cons.prems m v by (intro reads_backD) (auto simp: p)
    ultimately show ?thesis using m Cons by (simp add: p member_text_def quote_string_def)
  qed
qed simp

lemma stringify_members:
  "list_all (\<lambda>(k, v). json_safe v) ps \<Longrightarrow>
     stringify (JObj ps) = ''{'' @ join '','' (map member_text ps) @ ''}''"
proof -
  assume "list_all (\<lambda>(k, v). json_safe v) ps"
  then have "concat (map (\<lambda>(k, v).
        if v = JUndef then [] else [quote_string k @ '':'' @ stringify v]) ps) = map member_text ps"
    by (induction ps) (auto simp: member_text_def)
  then show ?thesis by simp
qed

lemma spread_distinct:
  "distinct (map fst (qs @ ps)) \<Longrightarrow> spread qs ps = qs @ ps"
proof (induction ps arbitrary: qs)
  case (Cons p ps)
  obtain k v where p: "p = (k, v)" by (cases p)
  have "put k v qs = qs @ [(k, v)]" using Cons.prems by (intro put_fresh) (auto simp: p)
  then show ?case using Cons.IH [of "qs @ [(k, v)]"] Cons.prems by (simp add: p)
qed simp

lemma json_safe_reads_back: "json_safe v \<Longrightarrow> reads_back v"
proof (induction v)
  case (JNum x)
  then obtain i where i: "x = int_num i" "\<bar>i\<bar> \<le> 2 ^ 53" using json_safe_num by blast
  obtain c t where ct: "int_to_string i = c # t" and c: "is_digit c \<or> c = CHR ''-''"
  proof (cases "i < 0")
    case False
    then show thesis using that hd_digits [of "nat i"] by (auto simp: int_to_string_def)
  qed (use that in \<open>simp add: int_to_string_def\<close>)
  then have "\<not> json_ws c" and "c \<notin> {CHR ''{'', CHR ''['', CHR 0x22, CHR ''t'', CHR ''f'', CHR ''n''}"
    using is_digit_marks [of c] by auto
  then have "read_value n (int_to_string i @ r) = Some (JNum x, r)" if "0 < n" "json_stop r" for n r
    using that read_number_int [OF that(2) i(2)] i(1)
    by (cases n) (auto simp: ct starts_with_def)
  then show ?case using i num_to_string_int by (simp add: reads_back_def)
next
  case (JArr vs)
  have IH: "\<And>v. v \<in> set vs \<Longrightarrow> reads_back v" using JArr by (auto simp: list_all_iff)
  show ?case
  proof (cases vs)
    case Nil
    have "read_value n (''[]'' @ r) = Some (JArr [], r)" if "0 < n" for n r
      using that by (cases n) auto
    then show ?thesis using Nil by (simp add: reads_back_def)
  next
    case (Cons w ws)
    then have "json_safe w" using JArr.prems by simp
    then obtain c t where ct: "stringify w = c # t" "\<not> json_ws c" "c \<noteq> CHR '']''"
      using stringify_hd by blast
    have hd: "\<exists>t'. join '','' (map stringify vs) = c # t'"
      using ct(1) Cons by (cases ws) auto
    have "read_value n (stringify (JArr vs) @ r) = Some (JArr vs, r)"
      if n: "json_size (JArr vs) \<le> n" for n r
    proof -
      obtain m where m: "n = Suc m" using n by (cases n) auto
      have "read_elems m (join '','' (map stringify vs) @ CHR '']'' # r) = Some (vs, r)"
        using IH n m Cons by (intro read_elems_join) auto
      then show ?thesis using hd ct m by auto
    qed
    then show ?thesis by (simp add: reads_back_def)
  qed
next
  case (JObj ps)
  have IH: "\<And>k v. (k, v) \<in> set ps \<Longrightarrow> reads_back v"
    using JObj by (fastforce simp: list_all_iff)
  have shape: "stringify (JObj ps) = ''{'' @ join '','' (map member_text ps) @ ''}''"
    using JObj.prems by (intro stringify_members) simp
  have sp: "spread [] ps = ps" using JObj.prems by (simp add: spread_distinct)
  show ?case
  proof (cases ps)
    case Nil
    have "read_value n (''{}'' @ r) = Some (JObj [], r)" if "0 < n" for n r
      using that by (cases n) auto
    then show ?thesis using Nil by (simp add: reads_back_def)
  next
    case (Cons w ws)
    obtain k v where w: "w = (k, v)" by (cases w)
    have hd: "\<exists>t'. join '','' (map member_text ps) = CHR 0x22 # t'"
      using Cons by (cases ws) (auto simp: member_text_def quote_string_def w)
    have "read_value n (stringify (JObj ps) @ r) = Some (JObj ps, r)"
      if n: "json_size (JObj ps) \<le> n" for n r
    proof -
      obtain m where m: "n = Suc m" using n by (cases n) auto
      have "read_members m (join '','' (map member_text ps) @ CHR ''}'' # r) = Some (ps, r)"
        using IH n m Cons by (intro read_members_join) auto
      then show ?thesis unfolding shape using hd m sp by auto
    qed
    then show ?thesis by (simp add: reads_back_def)
  qed
qed (auto simp: reads_back_def quote_string_def starts_with_def gr0_conv_Suc Suc_le_eq)

lemma join_length:
  "length (join '','' ws) = sum_list (map length ws) + (length ws - 1)"
  by (induction "'',''" ws rule: join.induct) auto

lemma json_size_length: "json_safe v \<Longrightarrow> json_size v \<le> 2 * length (stringify v)"
proof (induction v)
  case (JArr vs)
  have "sum_list (map json_size vs) \<le> 2 * sum_list (map (length \<circ> stringify) vs)"
    using JArr by (induction vs) (auto simp: add_mono)
  then show ?case by (simp add: join_length)
next
  case (JObj ps)
  have "sum_list (map (\<lambda>(k, v). json_size v) ps) \<le> 2 * sum_list (map (length \<circ> member_text) ps)"
    using JObj
  proof (induction ps)
    case (Cons p ps)
    obtain k v where p: "p = (k, v)" by (cases p)
    have "json_size v \<le> 2 * length (stringify v)"
      using Cons.prems by (auto simp: p intro: Cons.prems(1))
    moreover have "length (stringify v) \<le> length (member_text p)"
      by (simp add: p member_text_def)
    moreover have "sum_list (map (\<lambda>(k, v). json_size v) ps) \<le> 2 * sum_list (map (length \<circ> member_text) ps)"
      using Cons.prems by (intro Cons.IH) auto
    ultimately show ?case by (simp add: p o_def)
  qed simp
  moreover have "stringify (JObj ps) = ''{'' @ join '','' (map member_text ps) @ ''}''"
    using JObj.prems by (intro stringify_members) simp
  ultimately show ?case by (simp add: join_length del: stringify.simps)
next
  case (JNum x)
  have "stringify (JNum x) \<noteq> []"
    using stringify_hd [OF JNum] by auto
  then show ?case by (cases "stringify (JNum x)") auto
qed (auto simp: quote_string_def)

theorem json_roundtrip: "json_safe v \<Longrightarrow> json_parse (stringify v) = Some v"
  using reads_backD [OF json_safe_reads_back json_size_length, of v "[]"]
  by (simp add: json_parse_def skip_ws_def)

end
