(* ===== verification/Scope.thy ===== *)
theory Scope
  imports JsJson
begin

text \<open>
  \<open>apps/frontend/src/lib/scope.ts\<close>: the tenant and workspace of the browser tab, kept as
  JSON in \<open>sessionStorage\<close>.  The locale \<open>scope_store\<close> is the contract the API
  client and the session hook rely on; it is interpreted on the functions of the module.
\<close>

section \<open>The module\<close>

record tenant_scope =
  scope_tenantId :: string
  scope_workspace :: string

text \<open>The part of the browser the module sees: no \<open>window\<close> during server rendering.\<close>

record browser =
  has_window :: bool
  session_storage :: "string \<Rightarrow> string option"

definition SCOPE_STORAGE_KEY :: string where
  "SCOPE_STORAGE_KEY = ''mckay.tenant_scope''"

definition getStoredScope :: "browser \<Rightarrow> tenant_scope option" where
  "getStoredScope b =
     (if \<not> has_window b then None
      else case session_storage b SCOPE_STORAGE_KEY of
             None \<Rightarrow> None
           | Some raw \<Rightarrow>
               if raw = [] then None
               else (case json_parse raw of
                       None \<Rightarrow> None
                     | Some parsed \<Rightarrow>
                         if nullish parsed then None
                         else let tenantId = trim (to_str (coalesce (get parsed ''tenantId'') (JStr [])));
                                  ws = trim (to_str (coalesce (get parsed ''workspace'') (JStr [])))
                              in if tenantId = [] \<or> ws = [] then None
                                 else Some \<lparr>scope_tenantId = tenantId, scope_workspace = ws\<rparr>))"

definition scope_payload :: "tenant_scope \<Rightarrow> jsval" where
  "scope_payload sc =
     JObj [(''tenantId'', JStr (trim (scope_tenantId sc))),
           (''workspace'', JStr (trim (scope_workspace sc)))]"

text \<open>The storage takes every value: an exception of \<open>setItem\<close>, when it is full or blocked, is left out.\<close>

definition setStoredScope :: "tenant_scope \<Rightarrow> browser \<Rightarrow> browser" where
  "setStoredScope sc b =
     (if \<not> has_window b then b
      else b\<lparr>session_storage :=
               (session_storage b)(SCOPE_STORAGE_KEY \<mapsto> stringify (scope_payload sc))\<rparr>)"

definition clearStoredScope :: "browser \<Rightarrow> browser" where
  "clearStoredScope b =
     (if \<not> has_window b then b
      else b\<lparr>session_storage := (session_storage b)(SCOPE_STORAGE_KEY := None)\<rparr>)"

section \<open>The contract\<close>

text \<open>A scope is usable when neither part is blank; storing it trims both.\<close>

definition blank_scope :: "tenant_scope \<Rightarrow> bool" where
  "blank_scope sc \<longleftrightarrow> trim (scope_tenantId sc) = [] \<or> trim (scope_workspace sc) = []"

definition trimmed_scope :: "tenant_scope \<Rightarrow> tenant_scope" where
  "trimmed_scope sc =
     \<lparr>scope_tenantId = trim (scope_tenantId sc), scope_workspace = trim (scope_workspace sc)\<rparr>"

locale scope_store =
  fixes load :: "'b \<Rightarrow> tenant_scope option"
    and store :: "tenant_scope \<Rightarrow> 'b \<Rightarrow> 'b"
    and clear :: "'b \<Rightarrow> 'b"
    and usable :: "'b \<Rightarrow> bool"
  assumes load_store: "usable b \<Longrightarrow> load (store sc b) = (if blank_scope sc then None else Some (trimmed_scope sc))"
    and load_clear: "load (clear b) = None"
    and usable_store: "usable (store sc b) \<longleftrightarrow> usable b"
    and usable_clear: "usable (clear b) \<longleftrightarrow> usable b"
    and load_wf: "load b = Some sc \<Longrightarrow> trimmed_scope sc = sc \<and> \<not> blank_scope sc"
    and not_usable: "\<not> usable b \<Longrightarrow> load b = None \<and> store sc b = b"
begin

lemma load_store_some:
  "usable b \<Longrightarrow> \<not> blank_scope sc \<Longrightarrow> load (store sc b) = Some (trimmed_scope sc)"
  by (simp add: load_store)

text \<open>Storing what was loaded changes nothing a reader can see.\<close>

lemma store_loaded: "load b = Some sc \<Longrightarrow> load (store sc b) = Some sc"
  using load_wf [of b sc] not_usable [of b sc] by (cases "usable b") (auto simp: load_store)

lemma load_last_store:
  "usable b \<Longrightarrow> load (store sc (store sc' b)) = load (store sc b)"
  by (simp add: load_store usable_store)

text \<open>A scope stored and then cleared leaves no trace, as after a failed login.\<close>

lemma clear_after_store: "load (clear (store sc b)) = None"
  by (rule load_clear)

end

lemma scope_payload_safe [simp]: "json_safe (scope_payload sc)"
  by (simp add: scope_payload_def)

lemma stringify_payload_not_Nil [simp]: "stringify (scope_payload sc) \<noteq> []"
  by (simp add: scope_payload_def)

lemma getStoredScope_set:
  "has_window b \<Longrightarrow> getStoredScope (setStoredScope sc b) =
     (if blank_scope sc then None else Some (trimmed_scope sc))"
  by (simp add: getStoredScope_def setStoredScope_def json_roundtrip blank_scope_def
      trimmed_scope_def Let_def) (simp add: scope_payload_def)

lemma getStoredScope_wf:
  "getStoredScope b = Some sc \<Longrightarrow> trimmed_scope sc = sc \<and> \<not> blank_scope sc"
  by (auto simp: getStoredScope_def trimmed_scope_def blank_scope_def Let_def
      split: if_splits option.splits)

lemma getStoredScope_clear [simp]: "getStoredScope (clearStoredScope b) = None"
  by (simp add: getStoredScope_def clearStoredScope_def)

lemma no_window:
  "\<not> has_window b \<Longrightarrow> getStoredScope b = None \<and> setStoredScope sc b = b \<and> clearStoredScope b = b"
  by (simp add: getStoredScope_def setStoredScope_def clearStoredScope_def)

lemma has_window_kept [simp]:
  "has_window (setStoredScope sc b) = has_window b" "has_window (clearStoredScope b) = has_window b"
  by (simp_all add: setStoredScope_def clearStoredScope_def)

interpretation stored: scope_store getStoredScope setStoredScope clearStoredScope has_window
  by unfold_locales (simp_all add: getStoredScope_set getStoredScope_wf no_window)

text \<open>
  C33. The scope survives its trip through session storage: whatever was there before, reading
  after writing gives the written scope with both parts trimmed, and gives none exactly when
  one of the parts is blank, so a later reader never sees a blank tenant or workspace.
\<close>

theorem scope_roundtrip:
  assumes "has_window b"
  shows "getStoredScope (setStoredScope sc b) =
    (if trim (scope_tenantId sc) = [] \<or> trim (scope_workspace sc) = [] then None
     else Some \<lparr>scope_tenantId = trim (scope_tenantId sc), scope_workspace = trim (scope_workspace sc)\<rparr>)"
  using stored.load_store [OF assms, of sc] by (simp add: blank_scope_def trimmed_scope_def)

theorem scope_roundtrip_witness:
  "getStoredScope (setStoredScope \<lparr>scope_tenantId = '' acme '', scope_workspace = ''prod''\<rparr>
     \<lparr>has_window = True, session_storage = (\<lambda>_. None)\<rparr>) =
    Some \<lparr>scope_tenantId = ''acme'', scope_workspace = ''prod''\<rparr>"
  by (subst scope_roundtrip) (simp_all add: trim_def trim_start_def trim_end_def is_ws_def)

end
