(* ===== verification/UrlParams.thy ===== *)
theory UrlParams
  imports Prelude
begin

text \<open>
  \<open>URLSearchParams\<close> and \<open>encodeURIComponent\<close>: UTF-8 percent encoding, the
  \<open>application/x-www-form-urlencoded\<close> serializer and parser, and the \<open>get\<close>,
  \<open>set\<close> and \<open>delete\<close> operations on the list of pairs.  Every string of the alphabet
  survives a round trip (\<open>usp_roundtrip\<close>); a byte sequence that decodes to a code
  point outside the alphabet is read as the substitute character.
\<close>

section \<open>Percent encoding\<close>

definition utf8_bytes :: "char \<Rightarrow> nat list" where
  "utf8_bytes c =
     (let n = code_unit c in if n < 128 then [n] else [192 + n div 64, 128 + n mod 64])"

definition hex_upper :: "nat \<Rightarrow> char" where
  "hex_upper d = (if d < 10 then char_of (48 + d) else char_of (55 + d))"

definition percent :: "nat \<Rightarrow> string" where
  "percent b = [CHR ''%'', hex_upper (b div 16), hex_upper (b mod 16)]"

definition alnum :: "char \<Rightarrow> bool" where
  "alnum c \<longleftrightarrow>
     (let n = code_unit c in 48 \<le> n \<and> n \<le> 57 \<or> 65 \<le> n \<and> n \<le> 90 \<or> 97 \<le> n \<and> n \<le> 122)"

text \<open>\<open>encodeURIComponent\<close> keeps \<open>- _ . ! ~ *\<close>, the quote and the parentheses.\<close>

definition uri_component_char :: "char \<Rightarrow> string" where
  "uri_component_char c =
     (if alnum c \<or> code_unit c \<in> {45, 95, 46, 33, 126, 42, 39, 40, 41} then [c]
      else concat (map percent (utf8_bytes c)))"

definition encodeURIComponent :: "string \<Rightarrow> string" where
  "encodeURIComponent s = concat (map uri_component_char s)"

definition form_char :: "char \<Rightarrow> string" where
  "form_char c =
     (if alnum c \<or> code_unit c \<in> {42, 45, 46, 95} then [c]
      else if code_unit c = 32 then ''+''
      else concat (map percent (utf8_bytes c)))"

definition form_encode :: "string \<Rightarrow> string" where
  "form_encode s = concat (map form_char s)"

definition hex_val :: "char \<Rightarrow> nat option" where
  "hex_val c =
     (let n = code_unit c in
      if 48 \<le> n \<and> n \<le> 57 then Some (n - 48)
      else if 65 \<le> n \<and> n \<le> 70 then Some (n - 55)
      else if 97 \<le> n \<and> n \<le> 102 then Some (n - 87) else None)"

text \<open>Percent decoding to bytes, with \<open>+\<close> read as a space.\<close>

fun form_bytes :: "string \<Rightarrow> nat list" where
  "form_bytes [] = []"
| "form_bytes (c # s) =
     (if c = CHR ''+'' then 32 # form_bytes s
      else if c = CHR ''%'' then
        (case s of
           a # b # r \<Rightarrow>
             (case (hex_val a, hex_val b) of
                (Some x, Some y) \<Rightarrow> (16 * x + y) # form_bytes r
              | _ \<Rightarrow> 37 # form_bytes s)
         | _ \<Rightarrow> 37 # form_bytes s)
      else utf8_bytes c @ form_bytes s)"

fun utf8_decode :: "nat list \<Rightarrow> string" where
  "utf8_decode [] = []"
| "utf8_decode [n] = (if n < 128 then [char_of n] else [CHR 0x1A])"
| "utf8_decode (n # m # r) =
     (if n < 128 then char_of n # utf8_decode (m # r)
      else if (n = 194 \<or> n = 195) \<and> 128 \<le> m \<and> m < 192
        then char_of (64 * (n - 192) + (m - 128)) # utf8_decode r
      else CHR 0x1A # utf8_decode (m # r))"

definition form_decode :: "string \<Rightarrow> string" where
  "form_decode s = utf8_decode (form_bytes s)"

section \<open>URLSearchParams\<close>

type_synonym search_params = "(string \<times> string) list"

definition usp_serialize :: "search_params \<Rightarrow> string" where
  "usp_serialize ps = join ''&'' (map (\<lambda>(k, v). form_encode k @ ''='' @ form_encode v) ps)"

definition split_pair :: "string \<Rightarrow> string \<times> string" where
  "split_pair w = (takeWhile (\<lambda>c. c \<noteq> CHR ''='') w, drop 1 (dropWhile (\<lambda>c. c \<noteq> CHR ''='') w))"

definition usp_parse :: "string \<Rightarrow> search_params" where
  "usp_parse s =
     map (\<lambda>w. let (k, v) = split_pair w in (form_decode k, form_decode v))
       (filter (\<lambda>w. w \<noteq> []) (split_on (CHR ''&'') s))"

definition usp_get :: "string \<Rightarrow> search_params \<Rightarrow> string option" where
  "usp_get k ps = map_of ps k"

fun usp_set :: "string \<Rightarrow> string \<Rightarrow> search_params \<Rightarrow> search_params" where
  "usp_set k v [] = [(k, v)]"
| "usp_set k v ((k', v') # ps) =
     (if k' = k then (k, v) # filter (\<lambda>p. fst p \<noteq> k) ps else (k', v') # usp_set k v ps)"

definition usp_delete :: "string \<Rightarrow> search_params \<Rightarrow> search_params" where
  "usp_delete k ps = filter (\<lambda>p. fst p \<noteq> k) ps"

lemma usp_get_set [simp]: "usp_get k' (usp_set k v ps) = (if k' = k then Some v else usp_get k' ps)"
proof -
  have *: "map_of (filter (\<lambda>p. fst p \<noteq> k) qs) k' = (if k' = k then None else map_of qs k')"
    for qs :: search_params and k k'
    by (induction qs) auto
  show ?thesis by (induction k v ps rule: usp_set.induct) (auto simp: usp_get_def *)
qed

lemma usp_get_delete [simp]:
  "usp_get k' (usp_delete k ps) = (if k' = k then None else usp_get k' ps)"
  by (induction ps) (auto simp: usp_get_def usp_delete_def)

section \<open>Round trip\<close>

lemma hex_val_upper [simp]: "d < 16 \<Longrightarrow> hex_val (hex_upper d) = Some d"
  by (auto simp: hex_val_def hex_upper_def Let_def)

lemma form_bytes_percent: "b < 256 \<Longrightarrow> form_bytes (percent b @ s) = b # form_bytes s"
  by (simp add: percent_def div_less_iff_less_mult)

lemma code_unit_div: "code_unit c div 64 < 4" "code_unit c mod 64 < 64"
  using nat_of_char_less_256 [of c] by (simp_all add: div_less_iff_less_mult)

lemma form_bytes_char: "form_bytes (form_char c @ s) = utf8_bytes c @ form_bytes s"
proof -
  have n: "code_unit c < 256" by (rule nat_of_char_less_256)
  show ?thesis
  proof (cases "alnum c \<or> code_unit c \<in> {42, 45, 46, 95}")
    case True
    then have "c \<noteq> CHR ''+''" "c \<noteq> CHR ''%''" by (auto simp: alnum_def Let_def)
    with True show ?thesis by (simp add: form_char_def)
  next
    case False
    show ?thesis
    proof (cases "code_unit c = 32")
      case True
      with False show ?thesis by (simp add: form_char_def utf8_bytes_def)
    next
      case ne: False
      have "192 + code_unit c div 64 < 256" "128 + code_unit c mod 64 < 256"
        using code_unit_div [of c] by simp_all
      with False ne n show ?thesis
        by (simp add: form_char_def utf8_bytes_def Let_def form_bytes_percent)
    qed
  qed
qed

lemma form_bytes_encode: "form_bytes (form_encode s) = concat (map utf8_bytes s)"
  by (induction s) (simp_all add: form_encode_def form_bytes_char del: form_bytes.simps(2))

lemma utf8_decode_char: "utf8_decode (utf8_bytes c @ r) = c # utf8_decode r"
proof -
  have n: "code_unit c < 256" by (rule nat_of_char_less_256)
  show ?thesis
  proof (cases "code_unit c < 128")
    case True
    then show ?thesis by (cases r) (simp_all add: utf8_bytes_def)
  next
    case False
    have parts: "64 * (code_unit c div 64) + code_unit c mod 64 = code_unit c" by simp
    have "code_unit c div 64 = 2 \<or> code_unit c div 64 = 3"
      using div_le_mono [of 128 "code_unit c" 64] False code_unit_div(1) [of c] by simp linarith
    then show ?thesis
    proof
      assume q: "code_unit c div 64 = 2"
      then have "128 + code_unit c mod 64 = code_unit c" using parts by simp
      then have "char_of (128 + code_unit c mod 64) = c" by simp
      then show ?thesis using False code_unit_div [of c] by (simp add: utf8_bytes_def q)
    next
      assume q: "code_unit c div 64 = 3"
      then have "192 + code_unit c mod 64 = code_unit c" using parts by simp
      then have "char_of (192 + code_unit c mod 64) = c" by simp
      then show ?thesis using False code_unit_div [of c] by (simp add: utf8_bytes_def q)
    qed
  qed
qed

lemma form_decode_encode [simp]: "form_decode (form_encode s) = s"
proof -
  have "utf8_decode (concat (map utf8_bytes s)) = s"
    by (induction s) (simp_all add: utf8_decode_char)
  then show ?thesis by (simp add: form_decode_def form_bytes_encode)
qed

lemma hex_upper_safe: "d < 16 \<Longrightarrow> hex_upper d \<noteq> CHR ''&'' \<and> hex_upper d \<noteq> CHR ''=''"
proof -
  assume "d < 16"
  then have "code_unit (hex_upper d) \<noteq> 38 \<and> code_unit (hex_upper d) \<noteq> 61"
    by (auto simp: hex_upper_def)
  then show ?thesis by auto
qed

lemma form_char_safe: "x \<in> set (form_char c) \<Longrightarrow> x \<noteq> CHR ''&'' \<and> x \<noteq> CHR ''=''"
proof -
  assume x: "x \<in> set (form_char c)"
  have n: "code_unit c < 256" by (rule nat_of_char_less_256)
  have *: "x \<in> set (percent b) \<Longrightarrow> b < 256 \<Longrightarrow> x \<noteq> CHR ''&'' \<and> x \<noteq> CHR ''=''" for b
    using hex_upper_safe [of "b div 16"] hex_upper_safe [of "b mod 16"]
    by (auto simp: percent_def div_less_iff_less_mult)
  have **: "b < 256" if "b \<in> set (utf8_bytes c)" for b
    using that n code_unit_div [of c] by (auto simp: utf8_bytes_def Let_def split: if_splits)
  show ?thesis
    using x * ** by (auto simp: form_char_def alnum_def Let_def split: if_splits)
qed

lemma form_encode_safe: "x \<in> set (form_encode s) \<Longrightarrow> x \<noteq> CHR ''&'' \<and> x \<noteq> CHR ''=''"
  using form_char_safe by (auto simp: form_encode_def)

lemma split_pair_eq:
  "CHR ''='' \<notin> set k \<Longrightarrow> split_pair (k @ CHR ''='' # v) = (k, v)"
  by (induction k) (auto simp: split_pair_def)

lemma usp_roundtrip: "usp_parse (usp_serialize ps) = ps"
proof (cases "ps = []")
  case True
  then show ?thesis by (simp add: usp_parse_def usp_serialize_def)
next
  case False
  let ?w = "\<lambda>(k, v). form_encode k @ ''='' @ form_encode v"
  have "CHR ''&'' \<notin> set (?w p)" for p
    by (cases p) (auto dest: form_encode_safe)
  then have "split_on (CHR ''&'') (join ''&'' (map ?w ps)) = map ?w ps"
    using False by (intro split_on_join) auto
  moreover have "filter (\<lambda>w. w \<noteq> []) (map ?w ps) = map ?w ps"
    by (induction ps) auto
  moreover have "(let (k, v) = split_pair (?w p) in (form_decode k, form_decode v)) = p" for p
  proof -
    obtain k v where p: "p = (k, v)" by (cases p)
    have "CHR ''='' \<notin> set (form_encode k)" by (auto dest: form_encode_safe)
    then show ?thesis by (simp add: p split_pair_eq)
  qed
  ultimately show ?thesis by (simp add: usp_parse_def usp_serialize_def map_idI)
qed

lemma usp_serialize_inject: "usp_serialize ps = usp_serialize qs \<longleftrightarrow> ps = qs"
  by (metis usp_roundtrip)

end
