(* ===== verification/ApiClient.thy ===== *)
theory ApiClient
  imports Scope UrlParams
begin

text \<open>
  \<open>apps/frontend/src/lib/api/client.ts\<close>: the one function every hook calls the backend
  through.  \<open>process.env\<close>, the URL parser and \<open>fetch\<close> belong to the platform and are
  the fields of \<open>api_env\<close>; the world \<open>'w\<close> that \<open>fetch\<close> reads and changes is
  threaded through.
\<close>

section \<open>The platform\<close>

record url =
  url_base :: string
  url_query :: string
  url_hash :: string

datatype fetch_result =
    NetworkError string
  | Response (response_status: int) (response_json: "string + jsval")

record fetch_init =
  init_method :: "string option"
  init_credentials :: string
  init_headers :: "string props"
  init_body :: "string option"

record 'w api_env =
  public_api_url :: "string option"
  parse_url :: "string \<Rightarrow> url option"
  fetch :: "string \<Rightarrow> fetch_init \<Rightarrow> 'w \<Rightarrow> fetch_result \<times> 'w"

definition response_ok :: "int \<Rightarrow> bool" where
  "response_ok status \<longleftrightarrow> 200 \<le> status \<and> status \<le> 299"

text \<open>\<open>url.searchParams.set\<close> rewrites the query of the URL; \<open>toString\<close> joins the parts.\<close>

definition url_set_param :: "string \<Rightarrow> string \<Rightarrow> url \<Rightarrow> url" where
  "url_set_param k v u = u\<lparr>url_query := usp_serialize (usp_set k v (usp_parse (url_query u)))\<rparr>"

definition url_to_string :: "url \<Rightarrow> string" where
  "url_to_string u =
     url_base u @ (if url_query u = [] then [] else ''?'' @ url_query u) @ url_hash u"

text \<open>\<open>Headers\<close>: names without case.\<close>

definition headers_of :: "string props \<Rightarrow> string props" where
  "headers_of hs = spread [] (map (\<lambda>(k, v). (to_lower k, v)) hs)"

definition headers_has :: "string \<Rightarrow> string props \<Rightarrow> bool" where
  "headers_has k hs \<longleftrightarrow> map_of hs (to_lower k) \<noteq> None"

definition headers_set :: "string \<Rightarrow> string \<Rightarrow> string props \<Rightarrow> string props" where
  "headers_set k v hs = put (to_lower k) v hs"

section \<open>The client\<close>

record request_options =
  opt_query :: "jsval props option"
  opt_body :: jsval
  opt_method :: "string option"
  opt_headers :: "string props option"

definition no_options :: request_options where
  "no_options = \<lparr>opt_query = None, opt_body = JUndef, opt_method = None, opt_headers = None\<rparr>"

definition getApiBaseUrl :: "string option \<Rightarrow> string outcome" where
  "getApiBaseUrl configured =
     (case configured of
        None \<Rightarrow> Inl (JsError ''NEXT_PUBLIC_API_URL is not configured'')
      | Some baseUrl \<Rightarrow>
          if baseUrl = [] then Inl (JsError ''NEXT_PUBLIC_API_URL is not configured'')
          else Inr (rev (dropWhile (\<lambda>c. c = CHR ''/'') (rev baseUrl))))"

text \<open>The values that are left out of the query string.\<close>

definition skipped_value :: "jsval \<Rightarrow> bool" where
  "skipped_value v \<longleftrightarrow> v = JUndef \<or> v = JNull \<or> v = JStr []"

fun add_query :: "jsval props \<Rightarrow> url \<Rightarrow> url" where
  "add_query [] u = u"
| "add_query ((key, value) # rest) u =
     add_query rest (if skipped_value value then u else url_set_param key (to_str value) u)"

definition buildUrl :: "'w api_env \<Rightarrow> string \<Rightarrow> jsval props \<Rightarrow> string outcome" where
  "buildUrl env path query =
     (let normalizedPath = (if starts_with path ''/'' then path else ''/'' @ path) in
      case getApiBaseUrl (public_api_url env) of
        Inl e \<Rightarrow> Inl e
      | Inr base \<Rightarrow>
          (case parse_url env (base @ normalizedPath) of
             None \<Rightarrow> Inl (JsError ''Invalid URL'')
           | Some u \<Rightarrow> Inr (url_to_string (add_query query u))))"

definition parseApiError :: "int \<Rightarrow> string + jsval \<Rightarrow> thrown" where
  "parseApiError status body =
     (let payload = (case body of Inl _ \<Rightarrow> JNull | Inr v \<Rightarrow> v)
      in ApiError status (coalesce (get payload ''error'') JNull)
           (to_str (coalesce (get payload ''message'')
              (JStr (''Request failed with status '' @ int_to_string status)))))"

definition scopedQuery :: "tenant_scope option \<Rightarrow> jsval props option \<Rightarrow> jsval props" where
  "scopedQuery scope query =
     (let q = (case query of None \<Rightarrow> [] | Some ps \<Rightarrow> ps)
      in put ''workspace''
           (coalesce (get (JObj q) ''workspace'') (js_string_or_undef (map_option scope_workspace scope)))
         (put ''tenant_id''
           (coalesce (get (JObj q) ''tenant_id'') (js_string_or_undef (map_option scope_tenantId scope)))
          q))"

definition request_init :: "request_options \<Rightarrow> fetch_init" where
  "request_init options =
     (let headers = headers_of (case opt_headers options of None \<Rightarrow> [] | Some hs \<Rightarrow> hs);
          hasBody = (opt_body options \<noteq> JUndef)
      in \<lparr>init_method = opt_method options,
          init_credentials = ''include'',
          init_headers = (if hasBody \<and> \<not> headers_has ''Content-Type'' headers
                          then headers_set ''Content-Type'' ''application/json'' headers else headers),
          init_body = (if hasBody then json_stringify (opt_body options) else None)\<rparr>)"

text \<open>What the caller gets from a response.\<close>

definition read_response :: "fetch_result \<Rightarrow> jsval outcome" where
  "read_response r =
     (case r of
        NetworkError m \<Rightarrow> Inl (JsError m)
      | Response status body \<Rightarrow>
          if \<not> response_ok status then Inl (parseApiError status body)
          else (case body of
                  Inl m \<Rightarrow> Inl (JsError m)
                | Inr payload \<Rightarrow>
                    (case member_read payload ''ok'' of
                       Inl e \<Rightarrow> Inl e
                     | Inr okv \<Rightarrow>
                         if okv = JBool False
                         then Inl (ApiError status (coalesce (get payload ''error'') JNull)
                                (to_str (coalesce (get payload ''message'') (JStr ''Request failed''))))
                         else Inr payload)))"

definition request ::
    "'w api_env \<Rightarrow> browser \<Rightarrow> string \<Rightarrow> request_options \<Rightarrow> 'w \<Rightarrow> jsval outcome \<times> 'w" where
  "request env b path options w =
     (let scope = getStoredScope b in
      case buildUrl env path (scopedQuery scope (opt_query options)) of
        Inl e \<Rightarrow> (Inl e, w)
      | Inr u \<Rightarrow> (case fetch env u (request_init options) w of (r, w') \<Rightarrow> (read_response r, w')))"

definition api_get ::
    "'w api_env \<Rightarrow> browser \<Rightarrow> string \<Rightarrow> jsval props option \<Rightarrow> 'w \<Rightarrow> jsval outcome \<times> 'w" where
  "api_get env b path query =
     request env b path (no_options\<lparr>opt_query := query, opt_method := Some ''GET''\<rparr>)"

definition api_post ::
    "'w api_env \<Rightarrow> browser \<Rightarrow> string \<Rightarrow> jsval \<Rightarrow> 'w \<Rightarrow> jsval outcome \<times> 'w" where
  "api_post env b path body =
     request env b path (no_options\<lparr>opt_method := Some ''POST'', opt_body := body\<rparr>)"

definition api_put ::
    "'w api_env \<Rightarrow> browser \<Rightarrow> string \<Rightarrow> jsval \<Rightarrow> 'w \<Rightarrow> jsval outcome \<times> 'w" where
  "api_put env b path body =
     request env b path (no_options\<lparr>opt_method := Some ''PUT'', opt_body := body\<rparr>)"

definition api_del :: "'w api_env \<Rightarrow> browser \<Rightarrow> string \<Rightarrow> 'w \<Rightarrow> jsval outcome \<times> 'w" where
  "api_del env b path =
     request env b path (no_options\<lparr>opt_method := Some ''DELETE''\<rparr>)"

section \<open>The query string of a request\<close>

definition url_params :: "url \<Rightarrow> search_params" where
  "url_params u = usp_parse (url_query u)"

lemma url_params_set [simp]: "url_params (url_set_param k v u) = usp_set k v (url_params u)"
  by (simp add: url_params_def url_set_param_def usp_roundtrip)

lemma url_set_param_frame [simp]:
  "url_base (url_set_param k v u) = url_base u" "url_hash (url_set_param k v u) = url_hash u"
  by (simp_all add: url_set_param_def)

lemma add_query_frame [simp]:
  "url_base (add_query q u) = url_base u" "url_hash (add_query q u) = url_hash u"
  by (induction q u rule: add_query.induct) auto

text \<open>Each key of the query is set to the text of its value, unless the value is left out.\<close>

lemma add_query_get:
  assumes "distinct (map fst q)"
  shows "usp_get k (url_params (add_query q u)) =
    (case map_of q k of
       Some v \<Rightarrow> if skipped_value v then usp_get k (url_params u) else Some (to_str v)
     | None \<Rightarrow> usp_get k (url_params u))"
  using assms
proof (induction q u rule: add_query.induct)
  case (2 key v rest u)
  then have "map_of rest key = None" by (simp add: map_of_eq_None_iff)
  with 2 show ?case by (auto split: option.splits)
qed simp

lemma distinct_scopedQuery:
  "distinct (map fst (case query of None \<Rightarrow> [] | Some q \<Rightarrow> q)) \<Longrightarrow> distinct (map fst (scopedQuery scope query))"
  by (simp add: scopedQuery_def Let_def distinct_put)

lemma map_of_scopedQuery:
  "map_of (scopedQuery scope (Some q)) k =
     (if k = ''workspace'' then
        Some (coalesce (get (JObj q) k) (js_string_or_undef (map_option scope_workspace scope)))
      else if k = ''tenant_id'' then
        Some (coalesce (get (JObj q) k) (js_string_or_undef (map_option scope_tenantId scope)))
      else map_of q k)"
  by (simp add: scopedQuery_def Let_def)

lemma scopedQuery_None: "scopedQuery scope None = scopedQuery scope (Some [])"
  by (simp add: scopedQuery_def)

lemma buildUrl_Inr:
  "buildUrl env path query = Inr href \<longleftrightarrow>
     (\<exists>base u. getApiBaseUrl (public_api_url env) = Inr base
        \<and> parse_url env (base @ (if starts_with path ''/'' then path else ''/'' @ path)) = Some u
        \<and> href = url_to_string (add_query query u))"
  by (auto simp: buildUrl_def Let_def split: sum.splits option.splits)

text \<open>The scope of a stored session is never left out of a request.\<close>

lemma stored_scope_sent:
  fixes u :: url
  assumes "getStoredScope b = Some sc" and "distinct (map fst q)"
    and "nullish (get (JObj q) ''tenant_id'')" and "nullish (get (JObj q) ''workspace'')"
  defines "ps \<equiv> url_params (add_query (scopedQuery (getStoredScope b) (Some q)) u)"
  shows "usp_get ''tenant_id'' ps = Some (scope_tenantId sc)"
    and "usp_get ''workspace'' ps = Some (scope_workspace sc)"
proof -
  have "trimmed_scope sc = sc" "\<not> blank_scope sc" using stored.load_wf [OF assms(1)] by auto
  then have "scope_tenantId sc \<noteq> []" "scope_workspace sc \<noteq> []"
    by (auto simp: blank_scope_def)
  moreover have "distinct (map fst (scopedQuery (getStoredScope b) (Some q)))"
    using assms(2) by (intro distinct_scopedQuery) simp
  ultimately show "usp_get ''tenant_id'' ps = Some (scope_tenantId sc)"
    and "usp_get ''workspace'' ps = Some (scope_workspace sc)"
    using assms(1,3,4)
    by (simp_all add: ps_def add_query_get map_of_scopedQuery coalesce_def js_string_or_undef_def
        skipped_value_def del: get_JObj)
qed

text \<open>A request that names its own tenant is sent with that one.\<close>

lemma explicit_scope_sent:
  assumes "distinct (map fst q)" and "map_of q ''tenant_id'' = Some (JStr t)" and "t \<noteq> []"
  shows "usp_get ''tenant_id'' (url_params (add_query (scopedQuery scope (Some q)) u)) = Some t"
  using assms distinct_scopedQuery [of "Some q" scope]
  by (simp add: add_query_get map_of_scopedQuery skipped_value_def)

text \<open>
  C16. Tenant isolation of the API client: once a scope is stored, every request that does not name
  a tenant and workspace itself, be it a read or a write, with a query of its own or without
  one, is sent in one call of \<open>fetch\<close> to the configured endpoint, and the query string of its
  URL decodes to that tenant and workspace.
\<close>

theorem request_carries_scope:
  fixes options :: request_options and path :: string
  defines "q \<equiv> orelse (opt_query options) []"
    and "normalizedPath \<equiv> if starts_with path ''/'' then path else ''/'' @ path"
  assumes "getStoredScope b = Some sc"
    and "distinct (map fst q)" and "nullish (get (JObj q) ''tenant_id'')" and "nullish (get (JObj q) ''workspace'')"
    and "getApiBaseUrl (public_api_url env) = Inr base" and "parse_url env (base @ normalizedPath) = Some u"
  shows "\<exists>v. request env b path options w =
            (case fetch env (url_to_string v) (request_init options) w of (r, w') \<Rightarrow> (read_response r, w'))
    \<and> url_base v = url_base u \<and> url_hash v = url_hash u
    \<and> usp_get ''tenant_id'' (usp_parse (url_query v)) = Some (scope_tenantId sc)
    \<and> usp_get ''workspace'' (usp_parse (url_query v)) = Some (scope_workspace sc)"
proof -
  have "scopedQuery (getStoredScope b) (opt_query options) = scopedQuery (getStoredScope b) (Some q)"
    by (cases "opt_query options") (simp_all add: q_def scopedQuery_None)
  then show ?thesis
    using stored_scope_sent [OF assms(3-6)] assms(7,8)
    by (intro exI [of _ "add_query (scopedQuery (getStoredScope b) (Some q)) u"])
      (simp add: request_def buildUrl_def url_params_def normalizedPath_def)
qed

text \<open>
  C25. A request succeeds with a payload exactly when its URL could be built, the backend
  answered in the 200 range with a JSON body, and the body is that payload and does not say
  \<open>ok: false\<close>.  Nothing else is ever handed to a caller as data.
\<close>

theorem request_succeeds_iff:
  "request env b path options w = (Inr payload, w') \<longleftrightarrow>
     (\<exists>u status. buildUrl env path (scopedQuery (getStoredScope b) (opt_query options)) = Inr u
        \<and> fetch env u (request_init options) w = (Response status (Inr payload), w')
        \<and> 200 \<le> status \<and> status \<le> 299 \<and> \<not> nullish payload \<and> get payload ''ok'' \<noteq> JBool False)"
  by (auto simp: request_def Let_def read_response_def response_ok_def member_read_def
      split: sum.splits prod.splits fetch_result.splits if_splits)

text \<open>
  Every answer outside the 200 range reaches the caller as an \<open>ApiError\<close> with the
  status of the answer, with the error code of its body when there is one, and with the
  message of its body or else one that names the status, also when the body is not JSON.
\<close>

lemma request_http_error:
  assumes "buildUrl env path (scopedQuery (getStoredScope b) (opt_query options)) = Inr u"
    and "fetch env u (request_init options) w = (Response status body, w')"
    and "status < 200 \<or> 299 < status"
  shows "request env b path options w =
    (Inl (ApiError status
       (case body of Inl _ \<Rightarrow> JNull | Inr v \<Rightarrow> coalesce (get v ''error'') JNull)
       (case body of
          Inl _ \<Rightarrow> ''Request failed with status '' @ int_to_string status
        | Inr v \<Rightarrow> if nullish (get v ''message'') then ''Request failed with status '' @ int_to_string status
                   else to_str (get v ''message''))), w')"
  using assms
  by (auto simp: request_def read_response_def response_ok_def parseApiError_def coalesce_def
      Let_def split: sum.splits)

definition sample_env :: "unit api_env" where
  "sample_env = \<lparr>public_api_url = Some ''http://h/api/v1/'',
     parse_url = (\<lambda>s. Some \<lparr>url_base = s, url_query = [], url_hash = []\<rparr>),
     fetch = (\<lambda>u i w. (Response 404 (Inr (JObj [(''error'', JStr ''not_found'')])), w))\<rparr>"

definition sample_browser :: browser where
  "sample_browser =
     setStoredScope \<lparr>scope_tenantId = ''acme'', scope_workspace = ''prod''\<rparr>
       \<lparr>has_window = True, session_storage = (\<lambda>_. None)\<rparr>"

lemma sample_scope:
  "getStoredScope sample_browser = Some \<lparr>scope_tenantId = ''acme'', scope_workspace = ''prod''\<rparr>"
  by (simp add: sample_browser_def getStoredScope_set blank_scope_def trimmed_scope_def
      trim_def trim_start_def trim_end_def is_ws_def)

text \<open>A write, which has no query of its own, and a read that has one.\<close>

theorem request_carries_scope_witness:
  "(\<exists>v. api_post sample_env sample_browser ''/findings'' (JObj []) () =
      (case fetch sample_env (url_to_string v)
         (request_init (no_options\<lparr>opt_method := Some ''POST'', opt_body := JObj []\<rparr>)) () of
       (r, w') \<Rightarrow> (read_response r, w'))
    \<and> url_base v = ''http://h/api/v1/findings'' \<and> url_hash v = []
    \<and> usp_get ''tenant_id'' (usp_parse (url_query v)) = Some ''acme''
    \<and> usp_get ''workspace'' (usp_parse (url_query v)) = Some ''prod'')
  \<and> (\<exists>v. api_get sample_env sample_browser ''findings'' (Some [(''limit'', JNum (Fin 50))]) () =
      (case fetch sample_env (url_to_string v)
         (request_init (no_options\<lparr>opt_query := Some [(''limit'', JNum (Fin 50))], opt_method := Some ''GET''\<rparr>)) () of
       (r, w') \<Rightarrow> (read_response r, w'))
    \<and> url_base v = ''http://h/api/v1/findings'' \<and> url_hash v = []
    \<and> usp_get ''tenant_id'' (usp_parse (url_query v)) = Some ''acme''
    \<and> usp_get ''workspace'' (usp_parse (url_query v)) = Some ''prod'')"
  using
    request_carries_scope [OF sample_scope, where env = sample_env and path = "''/findings''"
      and options = "no_options\<lparr>opt_method := Some ''POST'', opt_body := JObj []\<rparr>" and w = "()"
      and base = "''http://h/api/v1''" and u = "\<lparr>url_base = ''http://h/api/v1/findings'', url_query = [], url_hash = []\<rparr>"]
    request_carries_scope [OF sample_scope, where env = sample_env and path = "''findings''"
      and options = "no_options\<lparr>opt_query := Some [(''limit'', JNum (Fin 50))], opt_method := Some ''GET''\<rparr>" and w = "()"
      and base = "''http://h/api/v1''" and u = "\<lparr>url_base = ''http://h/api/v1/findings'', url_query = [], url_hash = []\<rparr>"]
  by (simp add: api_post_def api_get_def sample_env_def no_options_def getApiBaseUrl_def starts_with_def)

lemma request_http_error_witness:
  "request sample_env sample_browser ''/x'' no_options () =
     (Inl (ApiError 404 (JStr ''not_found'') ''Request failed with status 404''), ())"
proof -
  obtain u where u: "buildUrl sample_env ''/x'' (scopedQuery (getStoredScope sample_browser) None) = Inr u"
    by (simp add: buildUrl_def sample_env_def getApiBaseUrl_def)
  have "nat_to_string 404 = ''404''" by (simp add: nat_to_string.simps)
  then show ?thesis
    using request_http_error [where env = sample_env and b = sample_browser and path = "''/x''"
        and options = no_options and u = u and status = 404 and w = "()"] u
    by (simp add: no_options_def sample_env_def int_to_string_def)
qed

end
