(* ===== verification/QueryCache.thy ===== *)
theory QueryCache
  imports JsJson "HOL-Library.Char_ord" "HOL-Library.List_Lexorder"
begin

text \<open>
  The query cache behind the hooks: the part of \<open>@tanstack/query-core\<close> that the frontend
  calls, as bundled under \<open>apps/frontend/.next-build-verify/server/chunks/ssr\<close>.  A cache holds
  one query per hash of a key, in the order the queries were built.  A query is what its state,
  its observers and the fetch in flight make of it; timers,
  the network mode and the notification of observers are not modelled; the retryer of a fetch is in
  the theory Retryer.

  Keys are compared as values; the bundle compares them by identity first, which differs only
  for a key that holds \<open>NaN\<close>.
\<close>

section \<open>Keys\<close>

text \<open>\<open>hashKey\<close>: the JSON text of the key, with the properties of every object sorted.\<close>

fun sort_props :: "jsval \<Rightarrow> jsval" where
  "sort_props (JArr vs) = JArr (map sort_props vs)"
| "sort_props (JObj ps) = JObj (sort_key fst (map (\<lambda>(k, v). (k, sort_props v)) ps))"
| "sort_props v = v"

type_synonym query_key = "jsval list"

definition hashKey :: "query_key \<Rightarrow> string" where
  "hashKey key = stringify (sort_props (JArr key))"

definition strict_eq :: "jsval \<Rightarrow> jsval \<Rightarrow> bool" where
  "strict_eq a b = (case (a, b) of (JNum x, JNum y) \<Rightarrow> num_eq x y | _ \<Rightarrow> a = b)"

text \<open>\<open>partialMatchKey\<close>: every element of the filter matches the one of the query in its place.\<close>

fun partialMatchKey :: "jsval \<Rightarrow> jsval \<Rightarrow> bool"
  and match_elements :: "jsval list \<Rightarrow> jsval list \<Rightarrow> bool" where
  "partialMatchKey a (JArr bs) =
     (case a of JArr as \<Rightarrow> match_elements as bs | JObj _ \<Rightarrow> match_elements [] bs | _ \<Rightarrow> False)"
| "partialMatchKey a (JObj bs) =
     (case a of
        JArr _ \<Rightarrow> (\<forall>(k, b) \<in> set bs. partialMatchKey JUndef b)
      | JObj _ \<Rightarrow> (\<forall>(k, b) \<in> set bs. partialMatchKey (get a k) b)
      | _ \<Rightarrow> False)"
| "partialMatchKey a b = strict_eq a b"
| "match_elements as [] = True"
| "match_elements as (b # bs) =
     (partialMatchKey (case as of [] \<Rightarrow> JUndef | a # _ \<Rightarrow> a) b \<and> match_elements (tl as) bs)"

section \<open>Queries\<close>

record query_state =
  st_data :: "jsval option"
  st_error :: "thrown option"
  st_invalidated :: bool
  st_fetching :: bool

record query =
  q_key :: query_key
  q_state :: query_state
  q_revert :: "query_state option"
  q_observers :: "bool list"

type_synonym cache = "(string \<times> query) list"

definition default_state :: query_state where
  "default_state = \<lparr>st_data = None, st_error = None, st_invalidated = False, st_fetching = False\<rparr>"

definition new_query :: "query_key \<Rightarrow> query" where
  "new_query key = \<lparr>q_key = key, q_state = default_state, q_revert = None, q_observers = []\<rparr>"

text \<open>An observer is enabled or not; a query is active when one is.\<close>

definition isActive :: "query \<Rightarrow> bool" where
  "isActive q \<longleftrightarrow> (\<exists>e \<in> set (q_observers q). e)"

text \<open>\<open>setData\<close> by hand: the fetch in flight goes on, and a cancellation comes back to this state.\<close>

definition manual_data :: "jsval \<Rightarrow> query \<Rightarrow> query" where
  "manual_data d q =
     (let s = (q_state q)\<lparr>st_data := Some d, st_error := None, st_invalidated := False\<rparr>
      in q\<lparr>q_state := s, q_revert := Some s\<rparr>)"

definition invalidate :: "query \<Rightarrow> query" where
  "invalidate q = q\<lparr>q_state := (q_state q)\<lparr>st_invalidated := True\<rparr>\<rparr>"

text \<open>
  \<open>fetch\<close> with \<open>cancelRefetch\<close>: a fetch in flight is kept when there is no data yet, and
  replaced by a new one otherwise.
\<close>

definition fetch_query :: "query \<Rightarrow> query" where
  "fetch_query q =
     (let s = q_state q
      in if st_fetching s \<and> st_data s = None then q
         else q\<lparr>q_state := s\<lparr>st_fetching := True, st_error := (if st_data s = None then None else st_error s)\<rparr>,
                q_revert := Some s\<rparr>)"

definition fetch_succeeded :: "jsval \<Rightarrow> query \<Rightarrow> query" where
  "fetch_succeeded d q =
     q\<lparr>q_state := (q_state q)\<lparr>st_data := Some d, st_error := None, st_invalidated := False, st_fetching := False\<rparr>,
       q_revert := None\<rparr>"

definition fetch_failed :: "thrown \<Rightarrow> query \<Rightarrow> query" where
  "fetch_failed e q =
     q\<lparr>q_state := (q_state q)\<lparr>st_error := Some e, st_invalidated := True, st_fetching := False\<rparr>\<rparr>"

text \<open>\<open>cancel({revert: true})\<close>: nothing happens unless a fetch is in flight.\<close>

definition cancel :: "query \<Rightarrow> query" where
  "cancel q =
     (if \<not> st_fetching (q_state q) then q
      else q\<lparr>q_state := (case q_revert q of None \<Rightarrow> q_state q | Some s \<Rightarrow> s)\<lparr>st_fetching := False\<rparr>\<rparr>)"

section \<open>The client\<close>

definition find_query :: "query_key \<Rightarrow> cache \<Rightarrow> query option" where
  "find_query key c = map_of c (hashKey key)"

definition build :: "query_key \<Rightarrow> cache \<Rightarrow> cache" where
  "build key c = (case find_query key c of Some _ \<Rightarrow> c | None \<Rightarrow> c @ [(hashKey key, new_query key)])"

definition on_query :: "query_key \<Rightarrow> (query \<Rightarrow> query) \<Rightarrow> cache \<Rightarrow> cache" where
  "on_query key f c = map (\<lambda>(h, q). (h, if h = hashKey key then f q else q)) c"

definition matches :: "query_key \<Rightarrow> query \<Rightarrow> bool" where
  "matches filters q \<longleftrightarrow> partialMatchKey (JArr (q_key q)) (JArr filters)"

definition on_matching :: "query_key \<Rightarrow> (query \<Rightarrow> query) \<Rightarrow> cache \<Rightarrow> cache" where
  "on_matching filters f c = map (\<lambda>(h, q). (h, if matches filters q then f q else q)) c"

definition getQueryData :: "query_key \<Rightarrow> cache \<Rightarrow> jsval option" where
  "getQueryData key c = Option.bind (find_query key c) (\<lambda>q. st_data (q_state q))"

definition setQueryData :: "query_key \<Rightarrow> jsval \<Rightarrow> cache \<Rightarrow> cache" where
  "setQueryData key d c =
     (if d = JUndef then c else on_query key (manual_data d) (build key c))"

definition cancelQueries :: "query_key \<Rightarrow> cache \<Rightarrow> cache" where
  "cancelQueries filters c = on_matching filters cancel c"

definition refetch_active :: "query \<Rightarrow> query" where
  "refetch_active q = (if isActive q then fetch_query q else q)"

definition invalidateQueries :: "query_key \<Rightarrow> cache \<Rightarrow> cache" where
  "invalidateQueries filters c = on_matching filters (refetch_active \<circ> invalidate) c"

definition clear_cache :: "cache \<Rightarrow> cache" where
  "clear_cache c = []"

text \<open>\<open>optionalRemove\<close>, when the time after the last observer is over.\<close>

definition optionalRemove :: "string \<Rightarrow> cache \<Rightarrow> cache" where
  "optionalRemove queryHash c =
     filter (\<lambda>(h, q). \<not> (h = queryHash \<and> q_observers q = [] \<and> \<not> st_fetching (q_state q))) c"

text \<open>The answer to a fetch in flight, delivered to its query.\<close>

definition settle_query :: "query_key \<Rightarrow> jsval outcome \<Rightarrow> cache \<Rightarrow> cache" where
  "settle_query key r c =
     on_query key (\<lambda>q. if \<not> st_fetching (q_state q) then q
                       else case r of
                              Inl e \<Rightarrow> fetch_failed e q
                            | Inr d \<Rightarrow> if d = JUndef then fetch_failed (JsError (hashKey (q_key q) @ '' data is undefined'')) q
                                        else fetch_succeeded d q) c"

section \<open>The contract of the client\<close>

locale query_store =
  fixes read :: "'k \<Rightarrow> 'c \<Rightarrow> jsval option"
    and store :: "'k \<Rightarrow> jsval \<Rightarrow> 'c \<Rightarrow> 'c"
    and inval :: "'k \<Rightarrow> 'c \<Rightarrow> 'c"
    and wipe :: "'c \<Rightarrow> 'c"
    and same :: "'k \<Rightarrow> 'k \<Rightarrow> bool"
  assumes read_write: "d \<noteq> JUndef \<Longrightarrow> read k' (store k d c) = (if same k' k then Some d else read k' c)"
    and write_undef: "store k JUndef c = c"
    and read_inval: "read k' (inval k c) = read k' c"
    and read_wipe: "read k (wipe c) = None"
    and same_refl: "same k k"
    and read_same: "same k' k \<Longrightarrow> read k' c = read k c"
begin

lemma read_own_write: "d \<noteq> JUndef \<Longrightarrow> read k (store k d c) = Some d"
  by (simp add: read_write same_refl)

lemma write_other: "\<not> same k' k \<Longrightarrow> read k' (store k d c) = read k' c"
  by (cases "d = JUndef") (simp_all add: read_write write_undef)

text \<open>Writing back what was read undoes any write to the key, for every reader.\<close>

lemma write_back:
  assumes "read k c = Some d" and "d \<noteq> JUndef"
  shows "read k' (store k d (store k d' c)) = read k' c"
  using assms read_same [of k' k c] by (cases "same k' k") (simp_all add: read_write write_other)

text \<open>Also when, between the two writes, the store went through any change that left the other keys alone.\<close>

lemma write_back_over:
  assumes "read k c = Some d" and "d \<noteq> JUndef"
    and "\<And>k'. \<not> same k' k \<Longrightarrow> read k' c' = read k' c"
  shows "read k' (store k d c') = read k' c"
  using assms(1,2) assms(3) [of k'] read_same [of k' k c] by (cases "same k' k") (simp_all add: read_write write_other)

end

section \<open>The cache keeps it\<close>

lemma map_of_on_query:
  "map_of (on_query key f c) h = map_option (if h = hashKey key then f else (\<lambda>q. q)) (map_of c h)"
  by (induction c) (auto simp: on_query_def)

lemma find_on_query [simp]:
  "find_query k (on_query key f c) = map_option (if hashKey k = hashKey key then f else (\<lambda>q. q)) (find_query k c)"
  by (simp add: find_query_def map_of_on_query)

lemma map_of_on_matching:
  "map_of (on_matching filters f c) h = map_option (\<lambda>q. if matches filters q then f q else q) (map_of c h)"
  by (induction c) (auto simp: on_matching_def)

lemma find_on_matching [simp]:
  "find_query k (on_matching filters f c) = map_option (\<lambda>q. if matches filters q then f q else q) (find_query k c)"
  by (simp add: find_query_def map_of_on_matching)

lemma find_build:
  "find_query k (build key c) =
     (if hashKey k = hashKey key \<and> find_query key c = None then Some (new_query key) else find_query k c)"
  by (auto simp: build_def find_query_def map_add_def split: option.splits)

lemma find_same: "hashKey k' = hashKey k \<Longrightarrow> find_query k' c = find_query k c"
  by (simp add: find_query_def)

lemma find_build_same [simp]: "find_query key (build key c) \<noteq> None"
  by (simp add: find_build)

lemma query_data_simps [simp]:
  "st_data (q_state (manual_data d q)) = Some d" "st_data (q_state (new_query key)) = None"
  "st_data (q_state (invalidate q)) = st_data (q_state q)"
  "st_data (q_state (fetch_query q)) = st_data (q_state q)"
  "st_data (q_state (refetch_active q)) = st_data (q_state q)"
  by (simp_all add: manual_data_def new_query_def default_state_def invalidate_def fetch_query_def
      refetch_active_def Let_def)

lemma query_key_simps [simp]:
  "q_key (manual_data d q) = q_key q" "q_key (invalidate q) = q_key q" "q_key (fetch_query q) = q_key q"
  "q_key (refetch_active q) = q_key q" "q_key (cancel q) = q_key q" "q_key (fetch_succeeded d q) = q_key q"
  "q_key (fetch_failed e q) = q_key q" "q_key (new_query key) = key"
  by (simp_all add: manual_data_def invalidate_def fetch_query_def refetch_active_def cancel_def
      fetch_succeeded_def fetch_failed_def new_query_def Let_def)

lemma find_set:
  "d \<noteq> JUndef \<Longrightarrow>
     find_query k' (setQueryData k d c) =
       (if hashKey k' = hashKey k
        then Some (manual_data d (case find_query k c of None \<Rightarrow> new_query k | Some q \<Rightarrow> q))
        else find_query k' c)"
  using find_same [of k' k c]
  by (cases "find_query k c") (auto simp: setQueryData_def find_build option.map_ident)

lemma getQueryData_set:
  "d \<noteq> JUndef \<Longrightarrow>
     getQueryData k' (setQueryData k d c) = (if hashKey k' = hashKey k then Some d else getQueryData k' c)"
  by (simp add: getQueryData_def find_set)

lemma getQueryData_invalidate: "getQueryData k (invalidateQueries filters c) = getQueryData k c"
  by (cases "find_query k c") (simp_all add: getQueryData_def invalidateQueries_def)

interpretation queries: query_store getQueryData setQueryData invalidateQueries clear_cache
  "\<lambda>k k'. hashKey k = hashKey k'"
  by unfold_locales
    (simp_all add: getQueryData_set getQueryData_invalidate, simp_all add: setQueryData_def clear_cache_def
      getQueryData_def find_query_def)

section \<open>Every cache the client can reach\<close>

text \<open>
  One step of the cache, in any order the browser schedules them: a component mounts, updates
  or unmounts observers of a key, a fetch starts or is answered, or the code calls the client.
\<close>

inductive cache_step :: "cache \<Rightarrow> cache \<Rightarrow> bool" where
  observe: "cache_step c (on_query key (\<lambda>q. q\<lparr>q_observers := es\<rparr>) (build key c))"
| start: "cache_step c (on_query key fetch_query c)"
| settle: "cache_step c (settle_query key r c)"
| set_data: "cache_step c (setQueryData key d c)"
| cancelled: "cache_step c (cancelQueries filters c)"
| invalidated: "cache_step c (invalidateQueries filters c)"
| cleared: "cache_step c (clear_cache c)"
| collected: "cache_step c (optionalRemove h c)"

inductive cache_reachable :: "cache \<Rightarrow> bool" where
  empty: "cache_reachable []"
| step: "cache_reachable c \<Longrightarrow> cache_step c c' \<Longrightarrow> cache_reachable c'"

text \<open>
  What a reachable query satisfies: it is stored under the hash of its own key, it never holds
  \<open>undefined\<close>, an error is only shown next to the invalidation mark, and while a fetch is
  in flight a cancellation comes back to the data the query already shows.
\<close>

definition query_ok :: "string \<times> query \<Rightarrow> bool" where
  "query_ok = (\<lambda>(h, q).
     h = hashKey (q_key q) \<and> st_data (q_state q) \<noteq> Some JUndef
     \<and> (st_error (q_state q) \<noteq> None \<longrightarrow> st_invalidated (q_state q))
     \<and> (st_fetching (q_state q) \<longrightarrow>
          (\<exists>s. q_revert q = Some s \<and> st_data s = st_data (q_state q)
             \<and> (st_error s \<noteq> None \<longrightarrow> st_invalidated s))))"

definition cache_ok :: "cache \<Rightarrow> bool" where
  "cache_ok c \<longleftrightarrow> distinct (keys_of c) \<and> (\<forall>e \<in> set c. query_ok e)"

named_theorems query_ops \<open>the operations on one query\<close>
lemmas [query_ops] = query_ok_def manual_data_def invalidate_def fetch_query_def fetch_succeeded_def
  fetch_failed_def cancel_def refetch_active_def new_query_def default_state_def Let_def

lemma query_ok_ops:
  assumes "query_ok (h, q)"
  shows "query_ok (h, q\<lparr>q_observers := es\<rparr>)" and "query_ok (h, fetch_query q)"
    and "query_ok (h, invalidate q)" and "query_ok (h, cancel q)"
    and "d \<noteq> JUndef \<Longrightarrow> query_ok (h, manual_data d q)"
    and "d \<noteq> JUndef \<Longrightarrow> query_ok (h, fetch_succeeded d q)" and "query_ok (h, fetch_failed e q)"
  using assms by (auto simp: query_ops split: option.splits)

lemma query_ok_refetch: "query_ok (h, q) \<Longrightarrow> query_ok (h, refetch_active q)"
  by (simp add: refetch_active_def query_ok_ops(2))

lemma query_ok_new: "query_ok (hashKey key, new_query key)"
  by (simp add: query_ops)

lemma cache_ok_map:
  assumes "cache_ok c" and "\<And>h q. query_ok (h, q) \<Longrightarrow> query_ok (h, f h q)"
  shows "cache_ok (map (\<lambda>(h, q). (h, f h q)) c)"
proof -
  have "keys_of (map (\<lambda>(h, q). (h, f h q)) c) = keys_of c" by (induction c) auto
  then have "distinct (keys_of (map (\<lambda>(h, q). (h, f h q)) c))" using assms(1) by (simp only: cache_ok_def)
  with assms show ?thesis by (simp only: cache_ok_def) auto
qed

lemma cache_ok_on_query:
  "cache_ok c \<Longrightarrow> (\<And>h q. query_ok (h, q) \<Longrightarrow> query_ok (h, f q)) \<Longrightarrow> cache_ok (on_query key f c)"
  unfolding on_query_def by (rule cache_ok_map) auto

lemma cache_ok_on_matching:
  "cache_ok c \<Longrightarrow> (\<And>h q. query_ok (h, q) \<Longrightarrow> query_ok (h, f q)) \<Longrightarrow> cache_ok (on_matching filters f c)"
  unfolding on_matching_def by (rule cache_ok_map) auto

lemma cache_ok_build: "cache_ok c \<Longrightarrow> cache_ok (build key c)"
  using query_ok_new [of key]
  by (auto simp: cache_ok_def build_def find_query_def map_of_eq_None_iff split: option.splits)

lemma cache_ok_filter: "cache_ok c \<Longrightarrow> cache_ok (filter P c)"
  by (auto simp: cache_ok_def intro: distinct_map_filter)

lemma cache_ok_step:
  assumes "cache_step c c'" and "cache_ok c"
  shows "cache_ok c'"
  using assms
proof cases
  case (observe key es)
  with assms(2) show ?thesis by (auto intro!: cache_ok_on_query cache_ok_build query_ok_ops(1))
next
  case (start key)
  with assms(2) show ?thesis by (auto intro!: cache_ok_on_query query_ok_ops(2))
next
  case (settle key r)
  with assms(2) show ?thesis
    by (auto simp: settle_query_def intro!: cache_ok_on_query query_ok_ops split: sum.splits)
next
  case (set_data key d)
  with assms(2) show ?thesis by (auto simp: setQueryData_def intro!: cache_ok_on_query cache_ok_build query_ok_ops(5))
next
  case (cancelled filters)
  with assms(2) show ?thesis by (auto simp: cancelQueries_def intro!: cache_ok_on_matching query_ok_ops(4))
next
  case (invalidated filters)
  with assms(2) show ?thesis
    by (auto simp: invalidateQueries_def intro!: cache_ok_on_matching query_ok_refetch query_ok_ops(3))
next
  case cleared
  then show ?thesis by (simp add: clear_cache_def cache_ok_def)
next
  case (collected h)
  with assms(2) show ?thesis by (auto simp: optionalRemove_def intro: cache_ok_filter)
qed

lemma cache_reachable_ok: "cache_reachable c \<Longrightarrow> cache_ok c"
  by (induction rule: cache_reachable.induct) (auto simp: cache_ok_step, simp add: cache_ok_def)

lemma find_ok: "cache_ok c \<Longrightarrow> find_query key c = Some q \<Longrightarrow> query_ok (hashKey key, q)"
  by (auto simp: cache_ok_def find_query_def dest: map_of_SomeD)

lemma cancel_reads:
  assumes "cache_ok c"
  shows "getQueryData key (cancelQueries filters c) = getQueryData key c"
proof (cases "find_query key c")
  case (Some q)
  with find_ok [OF assms, of key] have "query_ok (hashKey key, q)" by blast
  with Some show ?thesis by (auto simp: query_ok_def cancelQueries_def getQueryData_def cancel_def)
qed (simp add: cancelQueries_def getQueryData_def)

text \<open>
  C17. Whatever order fetches, answers, cancellations, invalidations, writes and mounts come
  in, no query ever holds \<open>undefined\<close>, every query is found under the hash of its own key,
  a query that shows an error is marked for refetching, and cancelling the fetches that match
  a filter stops all of them and changes the data of no query.
\<close>

theorem cancel_keeps_data:
  assumes "cache_reachable c"
  shows "getQueryData key (cancelQueries filters c) = getQueryData key c
    \<and> getQueryData key c \<noteq> Some JUndef
    \<and> (\<forall>q. find_query key c = Some q \<longrightarrow>
         hashKey (q_key q) = hashKey key
         \<and> (st_error (q_state q) \<noteq> None \<longrightarrow> st_invalidated (q_state q))
         \<and> (matches filters q \<longrightarrow>
              (\<exists>q'. find_query key (cancelQueries filters c) = Some q' \<and> \<not> st_fetching (q_state q'))))"
proof (cases "find_query key c")
  case (Some q)
  with find_ok [OF cache_reachable_ok [OF assms], of key] have "query_ok (hashKey key, q)" by blast
  with Some show ?thesis
    by (auto simp: query_ok_def cancelQueries_def getQueryData_def cancel_def)
qed (simp add: cancelQueries_def getQueryData_def)

theorem cancel_keeps_data_witness:
  "getQueryData [JStr ''auth''] (cancelQueries [JStr ''auth''] (setQueryData [JStr ''auth''] (JBool True) []))
     = Some (JBool True)"
proof -
  have "cache_reachable (setQueryData [JStr ''auth''] (JBool True) [])"
    by (rule cache_reachable.step [OF cache_reachable.empty cache_step.set_data])
  from conjunct1 [OF cancel_keeps_data [OF this, of "[JStr ''auth'']" "[JStr ''auth'']"]] show ?thesis
    by (simp only: queries.read_own_write jsval.distinct not_False_eq_True)
qed

section \<open>Keys of plain values\<close>

text \<open>The keys of the frontend are arrays of strings, booleans, null and whole numbers.\<close>

fun plain_value :: "jsval \<Rightarrow> bool" where
  "plain_value JNull = True"
| "plain_value (JBool _) = True"
| "plain_value (JNum x) = json_safe (JNum x)"
| "plain_value (JStr _) = True"
| "plain_value _ = False"

definition plain_key :: "query_key \<Rightarrow> bool" where
  "plain_key key \<longleftrightarrow> list_all plain_value key"

lemma plain_sort: "plain_value v \<Longrightarrow> sort_props v = v"
  by (cases v) auto

lemma plain_safe: "plain_value v \<Longrightarrow> json_safe v"
  by (cases v) auto

lemma hashKey_plain: "plain_key key \<Longrightarrow> hashKey key = stringify (JArr key)"
  by (simp add: hashKey_def plain_key_def list_all_iff plain_sort map_idI del: stringify.simps)

text \<open>Different keys have different hashes, so they never share a query.\<close>

lemma hashKey_inject:
  assumes "plain_key key" and "plain_key key'"
  shows "hashKey key = hashKey key' \<longleftrightarrow> key = key'"
proof
  assume h: "hashKey key = hashKey key'"
  have safe: "json_safe (JArr key)" "json_safe (JArr key')"
    using assms plain_safe by (auto simp: plain_key_def list_all_iff)
  have "json_parse (stringify (JArr key)) = json_parse (stringify (JArr key'))"
    using h assms by (simp add: hashKey_plain del: stringify.simps)
  then show "key = key'" using json_roundtrip [OF safe(1)] json_roundtrip [OF safe(2)] by simp
qed simp

lemma plain_key_simps [simp]: "plain_key []" "plain_key (v # vs) \<longleftrightarrow> plain_value v \<and> plain_key vs"
  by (simp_all add: plain_key_def)

text \<open>Matching against a plain filter, element by element.\<close>

lemma strict_eq_plain [simp]:
  "strict_eq a (JStr s) \<longleftrightarrow> a = JStr s" "strict_eq a (JBool b) \<longleftrightarrow> a = JBool b"
  "strict_eq a JNull \<longleftrightarrow> a = JNull" "strict_eq a JUndef \<longleftrightarrow> a = JUndef"
  "strict_eq a (JNum (Fin x)) \<longleftrightarrow> a = JNum (Fin x)"
  by (auto simp: strict_eq_def num_eq_def split: jsval.splits num.splits)

lemma match_plain_self: "plain_value v \<Longrightarrow> partialMatchKey a v \<longleftrightarrow> a = v"
  by (cases v) (auto split: num.splits)

text \<open>A plain filter matches the keys it is a prefix of.\<close>

lemma match_prefix: "plain_key fs \<Longrightarrow> match_elements ks fs \<longleftrightarrow> take (length fs) ks = fs"
proof (induction fs arbitrary: ks)
  case (Cons f fs)
  then show ?case by (cases ks) (auto simp: match_plain_self)
qed simp

lemma matches_plain: "plain_key filters \<Longrightarrow> matches filters q \<longleftrightarrow> take (length filters) (q_key q) = filters"
  by (simp add: matches_def match_prefix)

text \<open>What invalidating a plain prefix does to a query.\<close>

lemma find_invalidate:
  "find_query key (invalidateQueries filters c) =
     map_option (\<lambda>q. if matches filters q then refetch_active (invalidate q) else q) (find_query key c)"
  by (simp add: invalidateQueries_def comp_def)

lemma refetch_active_stale:
  "st_invalidated (q_state (refetch_active (invalidate q)))"
  "isActive q \<Longrightarrow> st_fetching (q_state (refetch_active (invalidate q)))"
  by (auto simp: query_ops isActive_def)

end
