(* ===== verification/TsTypes.thy ===== *)
theory TsTypes
  imports JsValue
begin

text \<open>
  The TypeScript types the frontend declares for the data it reads.  A declared type is not
  checked when the program runs (the API client casts what it received), so here it is a
  predicate on values: what the code may rely on when the backend keeps its contract, and what a
  normaliser establishes whatever the backend sent.
\<close>

datatype tstype =
    TString
  | TNumber
  | TBoolean
  | TNull
  | TUndefined
  | TUnknown
  | TLit jsval
  | TUnion "tstype list"
  | TArray tstype
  | TDict
  | TInterface "(string \<times> bool \<times> tstype) list"

fun conforms :: "tstype \<Rightarrow> jsval \<Rightarrow> bool" where
  "conforms TString v = (case v of JStr _ \<Rightarrow> True | _ \<Rightarrow> False)"
| "conforms TNumber v = (case v of JNum _ \<Rightarrow> True | _ \<Rightarrow> False)"
| "conforms TBoolean v = (case v of JBool _ \<Rightarrow> True | _ \<Rightarrow> False)"
| "conforms TNull v = (v = JNull)"
| "conforms TUndefined v = (v = JUndef)"
| "conforms TUnknown v = True"
| "conforms (TLit w) v = (v = w)"
| "conforms (TUnion ts) v = (\<exists>t \<in> set ts. conforms t v)"
| "conforms (TArray t) v = (case v of JArr vs \<Rightarrow> \<forall>w \<in> set vs. conforms t w | _ \<Rightarrow> False)"
| "conforms TDict v = (case v of JObj _ \<Rightarrow> True | _ \<Rightarrow> False)"
| "conforms (TInterface fs) v =
     (case v of
        JObj ps \<Rightarrow> (\<forall>(k, optional, t) \<in> set fs. conforms t (get v k) \<or> optional \<and> get v k = JUndef)
      | _ \<Rightarrow> False)"

abbreviation nullable :: "tstype \<Rightarrow> tstype" where
  "nullable t \<equiv> TUnion [t, TNull]"

text \<open>Fields of one type, and interfaces that extend or leave out fields of another.\<close>

definition typed_fields :: "tstype \<Rightarrow> string list \<Rightarrow> (string \<times> bool \<times> tstype) list" where
  "typed_fields t ks = map (\<lambda>k. (k, False, t)) ks"

definition optional_fields :: "tstype \<Rightarrow> string list \<Rightarrow> (string \<times> bool \<times> tstype) list" where
  "optional_fields t ks = map (\<lambda>k. (k, True, t)) ks"

definition field :: "string \<Rightarrow> tstype \<Rightarrow> (string \<times> bool \<times> tstype) list" where
  "field k t = [(k, False, t)]"

fun fields_of :: "tstype \<Rightarrow> (string \<times> bool \<times> tstype) list" where
  "fields_of (TInterface fs) = fs"
| "fields_of _ = []"

definition extends :: "tstype \<Rightarrow> (string \<times> bool \<times> tstype) list \<Rightarrow> tstype" where
  "extends t fs = TInterface (fields_of t @ fs)"

definition omit :: "string \<Rightarrow> tstype \<Rightarrow> tstype" where
  "omit k t = TInterface (filter (\<lambda>f. fst f \<noteq> k) (fields_of t))"

lemmas ts_simps = typed_fields_def optional_fields_def field_def extends_def omit_def

section \<open>Facts\<close>

lemma conforms_interfaceD:
  "conforms (TInterface fs) v \<Longrightarrow> (k, False, t) \<in> set fs \<Longrightarrow> conforms t (get v k)"
  by (auto split: jsval.splits)

lemma conforms_interface_obj: "conforms (TInterface fs) v \<Longrightarrow> \<exists>ps. v = JObj ps"
  by (auto split: jsval.splits)

text \<open>Assigning a property of the declared type keeps an object in its interface.\<close>

lemma conforms_put:
  assumes "conforms (TInterface fs) (JObj ps)"
    and "\<And>b t. (k, b, t) \<in> set fs \<Longrightarrow> conforms t w"
  shows "conforms (TInterface fs) (JObj (put k w ps))"
proof -
  have "conforms t (get (JObj (put k w ps)) k') \<or> b \<and> get (JObj (put k w ps)) k' = JUndef"
    if "(k', b, t) \<in> set fs" for k' b t
  proof (cases "k' = k")
    case True
    with assms(2) that show ?thesis by simp
  next
    case False
    with assms(1) that show ?thesis by (fastforce simp: fun_upd_def)
  qed
  then show ?thesis by auto
qed

lemma conforms_nullable [simp]: "conforms (nullable t) v \<longleftrightarrow> conforms t v \<or> v = JNull"
  by simp

lemma conforms_string: "conforms TString v \<Longrightarrow> \<exists>s. v = JStr s"
  by (auto split: jsval.splits)

lemma conforms_number: "conforms TNumber v \<Longrightarrow> \<exists>x. v = JNum x"
  by (auto split: jsval.splits)

end
