(* ===== verification/QueryHooks.thy ===== *)
theory QueryHooks
  imports ApiClient QueryCache TsTypes
begin

text \<open>
  What the query hooks share: the options a hook passes to \<open>useQuery\<close>, the scope in its key, the
  answer to a status of 403 or 404, and the JavaScript that the normalisers of responses use
  (object spread, \<open>map\<close>, conversion to numbers).
\<close>

section \<open>Outcomes\<close>

definition bind_out :: "'a outcome \<Rightarrow> ('a \<Rightarrow> 'b outcome) \<Rightarrow> 'b outcome" where
  "bind_out m f = (case m of Inl e \<Rightarrow> Inl e | Inr x \<Rightarrow> f x)"

definition then_out :: "'a outcome \<times> 'w \<Rightarrow> ('a \<Rightarrow> 'b outcome) \<Rightarrow> 'b outcome \<times> 'w" where
  "then_out r f = (bind_out (fst r) f, snd r)"

lemma bind_out_simps [simp]: "bind_out (Inl e) f = Inl e" "bind_out (Inr x) f = f x"
  by (simp_all add: bind_out_def)

lemma bind_out_Inr: "bind_out m f = Inr y \<longleftrightarrow> (\<exists>x. m = Inr x \<and> f x = Inr y)"
  by (cases m) auto

lemma bind_out_Inl: "bind_out m f = Inl e \<longleftrightarrow> m = Inl e \<or> (\<exists>x. m = Inr x \<and> f x = Inl e)"
  by (cases m) auto

lemma then_out_simps [simp]: "then_out (m, w) f = (bind_out m f, w)"
  by (simp add: then_out_def)

section \<open>Options of a query\<close>

type_synonym 'w query_fn = "'w api_env \<Rightarrow> browser \<Rightarrow> 'w \<Rightarrow> jsval outcome \<times> 'w"

text \<open>\<open>retry\<close> is \<open>None\<close> when the hook leaves it to the defaults of the client.\<close>

record 'w query_options =
  qo_key :: query_key
  qo_enabled :: bool
  qo_retry :: "bool option"
  qo_fn :: "'w query_fn"

definition scope_ready :: "tenant_scope option \<Rightarrow> bool" where
  "scope_ready scope =
     (case scope of None \<Rightarrow> False | Some sc \<Rightarrow> scope_tenantId sc \<noteq> [] \<and> scope_workspace sc \<noteq> [])"

definition key_tenant :: "tenant_scope option \<Rightarrow> jsval" where
  "key_tenant scope = js_string_or_undef (map_option scope_tenantId scope)"

definition key_workspace :: "tenant_scope option \<Rightarrow> jsval" where
  "key_workspace scope = js_string_or_undef (map_option scope_workspace scope)"

text \<open>The \<open>catch\<close> of the hooks that treat a missing permission or a missing run as no data.\<close>

definition null_when_forbidden :: "jsval outcome \<Rightarrow> jsval outcome" where
  "null_when_forbidden r =
     (case r of
        Inr v \<Rightarrow> Inr v
      | Inl e \<Rightarrow>
          (case e of
             ApiError status code message \<Rightarrow> if status = 403 \<or> status = 404 then Inr JNull else Inl e
           | _ \<Rightarrow> Inl e))"

definition forbidden_null :: "jsval outcome \<times> 'w \<Rightarrow> jsval outcome \<times> 'w" where
  "forbidden_null r = (null_when_forbidden (fst r), snd r)"

section \<open>Object spread and map\<close>

text \<open>The own enumerable properties that \<open>{...v}\<close> copies: an array or a string has its indices.\<close>

definition spread_props :: "jsval \<Rightarrow> jsval props" where
  "spread_props v =
     (case v of
        JObj ps \<Rightarrow> ps
      | JArr vs \<Rightarrow> zip (map nat_to_string [0 ..< length vs]) vs
      | JStr s \<Rightarrow> zip (map nat_to_string [0 ..< length s]) (map (\<lambda>c. JStr [c]) s)
      | _ \<Rightarrow> [])"

fun map_out :: "('a \<Rightarrow> 'b outcome) \<Rightarrow> 'a list \<Rightarrow> 'b list outcome" where
  "map_out f [] = Inr []"
| "map_out f (x # xs) = bind_out (f x) (\<lambda>y. bind_out (map_out f xs) (\<lambda>ys. Inr (y # ys)))"

text \<open>\<open>v.map(f)\<close>, where \<open>text_of\<close> is the expression \<open>v\<close> as the engine quotes it in the error.\<close>

definition array_map :: "string \<Rightarrow> (jsval \<Rightarrow> jsval outcome) \<Rightarrow> jsval \<Rightarrow> jsval outcome" where
  "array_map text_of f v =
     (case v of
        JArr vs \<Rightarrow> bind_out (map_out f vs) (\<lambda>ws. Inr (JArr ws))
      | _ \<Rightarrow> if nullish v then bind_out (member_read v ''map'') (\<lambda>_. Inr JUndef)
             else Inl (JsError (text_of @ ''.map is not a function'')))"

text \<open>
  \<open>{...v, k1: f1(v.k1), k2: f2(v.k2), ...}\<close>: the normalisers copy an object and convert some
  of its fields.  Reading a field of \<open>null\<close> or \<open>undefined\<close> throws.
\<close>

fun set_fields :: "(string \<times> (jsval \<Rightarrow> jsval)) list \<Rightarrow> jsval \<Rightarrow> jsval props \<Rightarrow> jsval props" where
  "set_fields [] v ps = ps"
| "set_fields ((k, f) # fs) v ps = set_fields fs v (put k (f (get v k)) ps)"

definition copy_with :: "(string \<times> (jsval \<Rightarrow> jsval)) list \<Rightarrow> jsval \<Rightarrow> jsval" where
  "copy_with fs v = JObj (set_fields fs v (spread_props v))"

definition normalize_fields :: "(string \<times> (jsval \<Rightarrow> jsval)) list \<Rightarrow> jsval \<Rightarrow> jsval outcome" where
  "normalize_fields fs v =
     (case fs of
        [] \<Rightarrow> Inr (copy_with fs v)
      | (k, f) # _ \<Rightarrow> bind_out (member_read v k) (\<lambda>_. Inr (copy_with fs v)))"

section \<open>Numbers of a response\<close>

text \<open>\<open>{...}\<close> with computed values, in the order of the literal.\<close>

abbreviation num_lit :: "int \<Rightarrow> jsval" where
  "num_lit n \<equiv> JNum (int_num n)"

definition is_finite_num :: "num \<Rightarrow> bool" where
  "is_finite_num x = (case x of Fin _ \<Rightarrow> True | _ \<Rightarrow> False)"

definition finite_or_null :: "num \<Rightarrow> jsval" where
  "finite_or_null x = (if is_finite_num x then JNum x else JNull)"

definition finite_value :: "jsval \<Rightarrow> bool" where
  "finite_value v = (case v of JNum x \<Rightarrow> is_finite_num x | _ \<Rightarrow> False)"

text \<open>The conversions of the normalisers: \<open>null\<close> for what is no finite number, or a fallback.\<close>

definition asNumber_or_null :: "jsval \<Rightarrow> jsval" where
  "asNumber_or_null v = (if v = JNull \<or> v = JUndef \<or> v = JStr [] then JNull else finite_or_null (to_num v))"

definition asNumber_fallback :: "num \<Rightarrow> jsval \<Rightarrow> jsval" where
  "asNumber_fallback fallback v =
     (let parsed = to_num v in if is_finite_num parsed then JNum parsed else JNum fallback)"

definition asNumber_zero :: "jsval \<Rightarrow> jsval" where
  "asNumber_zero v =
     (let parsed = to_num (coalesce v (num_lit 0)) in if is_finite_num parsed then JNum parsed else num_lit 0)"

definition number_or_zero :: "jsval \<Rightarrow> jsval" where
  "number_or_zero v = JNum (to_num (coalesce v (num_lit 0)))"

lemma finite_conversions [simp]:
  "finite_value (asNumber_fallback (Fin x) v)" "finite_value (asNumber_zero v)"
  "finite_value (asNumber_or_null v) \<or> asNumber_or_null v = JNull"
  by (auto simp: finite_value_def asNumber_fallback_def asNumber_zero_def asNumber_or_null_def
      finite_or_null_def is_finite_num_def Let_def split: num.splits)

text \<open>A finite number is left as it is.\<close>

lemma conversions_fix:
  "is_finite_num x \<Longrightarrow> asNumber_fallback d (JNum x) = JNum x"
  "is_finite_num x \<Longrightarrow> asNumber_zero (JNum x) = JNum x"
  "is_finite_num x \<Longrightarrow> asNumber_or_null (JNum x) = JNum x" "asNumber_or_null JNull = JNull"
  by (simp_all add: asNumber_fallback_def asNumber_zero_def asNumber_or_null_def finite_or_null_def to_num_def)

lemma get_put [simp, obj_simps]: "get (JObj (put k w ps)) k' = (if k' = k then w else get (JObj ps) k')"
  by simp

lemma get_set_fields:
  "distinct (map fst fs) \<Longrightarrow>
     get (JObj (set_fields fs v ps)) k =
       (case map_of fs k of Some f \<Rightarrow> f (get v k) | None \<Rightarrow> get (JObj ps) k)"
proof (induction fs v ps rule: set_fields.induct)
  case (2 k' f fs v ps)
  then have "map_of fs k' = None" by (simp add: map_of_eq_None_iff)
  with 2 show ?case by (simp del: get_JObj split: option.splits)
qed simp

text \<open>What a normaliser returns, field by field.\<close>

lemma get_copy_with:
  "distinct (map fst fs) \<Longrightarrow>
     get (copy_with fs v) k = (case map_of fs k of Some f \<Rightarrow> f (get v k) | None \<Rightarrow> get (JObj (spread_props v)) k)"
  unfolding copy_with_def by (rule get_set_fields)

lemma get_spread_obj: "v = JObj ps \<Longrightarrow> get (JObj (spread_props v)) k = get v k"
  by (simp add: spread_props_def)

lemma normalize_fields_Inr: "normalize_fields fs v = Inr r \<Longrightarrow> r = copy_with fs v"
  by (auto simp: normalize_fields_def bind_out_Inr split: list.splits)

lemma normalize_fields_total: "\<not> nullish v \<Longrightarrow> normalize_fields fs v = Inr (copy_with fs v)"
  by (auto simp: normalize_fields_def member_read_ok split: list.splits)

lemma normalize_fields_nullish: "nullish v \<Longrightarrow> fs \<noteq> [] \<Longrightarrow> \<exists>m. normalize_fields fs v = Inl (JsError m)"
  by (cases fs) (auto simp: normalize_fields_def member_read_def)

lemma map_out_length: "map_out f xs = Inr ys \<Longrightarrow> length ys = length xs"
  by (induction xs arbitrary: ys) (auto simp: bind_out_Inr)

lemma map_out_nth: "map_out f xs = Inr ys \<Longrightarrow> i < length xs \<Longrightarrow> f (xs ! i) = Inr (ys ! i)"
  by (induction xs arbitrary: ys i) (auto simp: bind_out_Inr nth_Cons split: nat.splits)

lemma map_out_set: "map_out f xs = Inr ys \<Longrightarrow> y \<in> set ys \<Longrightarrow> \<exists>x \<in> set xs. f x = Inr y"
  by (induction xs arbitrary: ys) (auto simp: bind_out_Inr)

lemma map_out_total: "(\<And>x. x \<in> set xs \<Longrightarrow> \<exists>y. f x = Inr y) \<Longrightarrow> \<exists>ys. map_out f xs = Inr ys"
proof (induction xs)
  case (Cons x xs)
  then obtain y ys where "f x = Inr y" "map_out f xs = Inr ys" by (metis list.set_intros)
  then show ?case by simp
qed simp

lemma array_map_Inr:
  "array_map t f v = Inr r \<longleftrightarrow> (\<exists>vs ws. v = JArr vs \<and> map_out f vs = Inr ws \<and> r = JArr ws)"
  by (auto simp: array_map_def bind_out_Inr bind_out_Inl member_read_def nullish_def split: jsval.splits if_splits)

text \<open>The answer to 403 and 404 is null, everything else passes.\<close>

lemma null_when_forbidden_simps [simp]:
  "null_when_forbidden (Inr v) = Inr v" "null_when_forbidden (Inl (JsError m)) = Inl (JsError m)"
  "null_when_forbidden (Inl (ThrownValue v)) = Inl (ThrownValue v)"
  "null_when_forbidden (Inl (ApiError s c m)) = (if s = 403 \<or> s = 404 then Inr JNull else Inl (ApiError s c m))"
  by (simp_all add: null_when_forbidden_def)

end
