(* ===== verification/Auth.thy ===== *)
theory Auth
  imports QueryHooks
begin

text \<open>
  \<open>hooks/useAuth.ts\<close> and \<open>app/login/page.tsx\<close>: who is signed in, signing in and out, and
  the form that does it.  Signing in stores the scope before the request, so that the request
  itself carries it, and clears it again when the request fails.
\<close>

section \<open>The hook\<close>

definition AuthUser :: tstype where
  "AuthUser = TInterface
     (typed_fields TString [''tenant_id'', ''workspace'', ''user_id'', ''email'', ''full_name'']
      @ field ''permissions'' (TArray TString))"

definition AuthMeResponse :: tstype where
  "AuthMeResponse = TInterface (field ''ok'' (TLit (JBool True)) @ field ''user'' AuthUser)"

record login_payload = tenant_scope +
  lp_email :: string
  lp_password :: string

definition LoginResponse :: tstype where
  "LoginResponse = TInterface
     (field ''ok'' (TLit (JBool True)) @ field ''user'' AuthUser @ typed_fields TString [''session_token'', ''expires_at''])"

definition authQueryKey :: "tenant_scope option \<Rightarrow> query_key" where
  "authQueryKey scope = [JStr ''auth'', JStr ''me'', key_tenant scope, key_workspace scope]"

definition useAuth_query :: "browser \<Rightarrow> 'w query_options" where
  "useAuth_query b =
     (let scope = getStoredScope b
      in \<lparr>qo_key = authQueryKey scope,
          qo_enabled = scope_ready scope,
          qo_retry = Some False,
          qo_fn = (\<lambda>env b w. then_out (api_get env b ''/auth/me'' None w) (\<lambda>response. Inr (get response ''user'')))\<rparr>)"

text \<open>What the hook returns: \<open>query.data ?? null\<close> and \<open>Boolean(query.data)\<close>.\<close>

definition auth_user :: "jsval option \<Rightarrow> jsval" where
  "auth_user data = coalesce (case data of None \<Rightarrow> JUndef | Some v \<Rightarrow> v) JNull"

definition isAuthenticated :: "jsval option \<Rightarrow> bool" where
  "isAuthenticated data = (case data of None \<Rightarrow> False | Some v \<Rightarrow> truthy v)"

text \<open>The state signing in and out works on.\<close>

record session =
  ses_browser :: browser
  ses_cache :: cache

definition login_body :: "login_payload \<Rightarrow> jsval" where
  "login_body payload = JObj
     [(''tenant_id'', JStr (scope_tenantId payload)), (''workspace'', JStr (scope_workspace payload)),
      (''email'', JStr (lp_email payload)), (''password'', JStr (lp_password payload))]"

definition login :: "'w api_env \<Rightarrow> login_payload \<Rightarrow> session \<Rightarrow> 'w \<Rightarrow> unit outcome \<times> session \<times> 'w" where
  "login env payload s w =
     (let b = setStoredScope (tenant_scope.truncate payload) (ses_browser s)
      in case api_post env b ''/auth/login'' (login_body payload) w of
           (Inr _, w') \<Rightarrow>
             (Inr (), \<lparr>ses_browser = b, ses_cache = invalidateQueries [JStr ''auth''] (ses_cache s)\<rparr>, w')
         | (Inl e, w') \<Rightarrow> (Inl e, \<lparr>ses_browser = clearStoredScope b, ses_cache = ses_cache s\<rparr>, w'))"

definition logout :: "'w api_env \<Rightarrow> session \<Rightarrow> 'w \<Rightarrow> unit outcome \<times> session \<times> 'w" where
  "logout env s w =
     (case api_post env (ses_browser s) ''/auth/logout'' (JObj []) w of
        (r, w') \<Rightarrow>
          (bind_out r (\<lambda>_. Inr ()),
           \<lparr>ses_browser = clearStoredScope (ses_browser s), ses_cache = clear_cache (ses_cache s)\<rparr>, w'))"

text \<open>\<open>await auth.logout(); router.push("/login")\<close>: every page signs out this way.\<close>

definition logout_click :: "'w api_env \<Rightarrow> session \<Rightarrow> 'w \<Rightarrow> string option \<times> session \<times> 'w" where
  "logout_click env s w =
     (case logout env s w of (r, s', w') \<Rightarrow> (case r of Inl _ \<Rightarrow> None | Inr _ \<Rightarrow> Some ''/login'', s', w'))"

section \<open>The form\<close>

definition loginErrorMessage :: "thrown \<Rightarrow> string" where
  "loginErrorMessage error =
     (case error of
        ApiError status code message \<Rightarrow>
          ''Login failed ['' @ int_to_string status
            @ (if truthy code then '' ('' @ to_str code @ '')'' else []) @ '']: '' @ message
      | JsError message \<Rightarrow> ''Login failed: '' @ message
      | ThrownValue _ \<Rightarrow> ''Login failed.'')"

record login_form =
  lf_tenantId :: string
  lf_workspace :: string
  lf_email :: string
  lf_password :: string
  lf_submitError :: "string option"
  lf_isSubmitting :: bool

definition initial_form :: "browser \<Rightarrow> login_form" where
  "initial_form b =
     (let savedScope = getStoredScope b
      in \<lparr>lf_tenantId = orelse (map_option scope_tenantId savedScope) [],
          lf_workspace = orelse (map_option scope_workspace savedScope) [],
          lf_email = [], lf_password = [], lf_submitError = None, lf_isSubmitting = False\<rparr>)"

text \<open>\<open>handleSubmit\<close>: the form afterwards, the page navigated to, and the session.\<close>

definition handleSubmit ::
    "'w api_env \<Rightarrow> login_form \<Rightarrow> session \<Rightarrow> 'w \<Rightarrow> login_form \<times> string option \<times> session \<times> 'w" where
  "handleSubmit env form s w =
     (let payload = \<lparr>scope_tenantId = lf_tenantId form, scope_workspace = lf_workspace form,
            lp_email = lf_email form, lp_password = lf_password form\<rparr>
      in case login env payload s w of
           (Inr _, s', w') \<Rightarrow>
             (form\<lparr>lf_submitError := None, lf_isSubmitting := False\<rparr>, Some ''/findings'', s', w')
         | (Inl e, s', w') \<Rightarrow>
             (form\<lparr>lf_submitError := Some (loginErrorMessage e), lf_isSubmitting := False\<rparr>, None, s', w'))"

definition submit_disabled :: "login_form \<Rightarrow> bool \<Rightarrow> bool" where
  "submit_disabled form isLoading \<longleftrightarrow> lf_isSubmitting form \<or> isLoading"

definition submit_label :: "login_form \<Rightarrow> string" where
  "submit_label form = (if lf_isSubmitting form then ''Signing in...'' else ''Sign in'')"

section \<open>Facts\<close>

lemma truncate_payload [simp]:
  "scope_tenantId (tenant_scope.truncate p) = scope_tenantId p"
  "scope_workspace (tenant_scope.truncate p) = scope_workspace p"
  by (simp_all add: tenant_scope.defs)

text \<open>
  C18. Signing in is all or nothing: after a success the scope of the form (trimmed) is stored and
  every cached answer about the current user is marked stale, while every other cached answer stays
  valid, also when somebody else was signed in before; after a failure no scope is stored, the
  cache is as before, and the caller gets the error of the request.
\<close>

theorem login_all_or_nothing:
  assumes "login env payload s w = (r, s', w')" and "has_window (ses_browser s)"
    and "\<not> blank_scope (tenant_scope.truncate payload)"
  shows "case r of
      Inr _ \<Rightarrow>
        getStoredScope (ses_browser s') = Some (trimmed_scope (tenant_scope.truncate payload))
        \<and> (\<forall>k q. find_query k (ses_cache s) = Some q \<longrightarrow> take 1 (q_key q) = [JStr ''auth''] \<longrightarrow>
             (\<exists>q'. find_query k (ses_cache s') = Some q' \<and> st_invalidated (q_state q')))
        \<and> (\<forall>k q. find_query k (ses_cache s) = Some q \<longrightarrow> take 1 (q_key q) \<noteq> [JStr ''auth''] \<longrightarrow>
             find_query k (ses_cache s') = Some q)
    | Inl e \<Rightarrow>
        getStoredScope (ses_browser s') = None \<and> ses_cache s' = ses_cache s
        \<and> api_post env (setStoredScope (tenant_scope.truncate payload) (ses_browser s)) ''/auth/login''
            (login_body payload) w = (Inl e, w')"
proof (cases r)
  case (Inl e)
  with assms(1) show ?thesis
    using stored.clear_after_store by (auto simp: login_def Let_def split: prod.splits sum.splits)
next
  case (Inr u)
  then have s': "s' = \<lparr>ses_browser = setStoredScope (tenant_scope.truncate payload) (ses_browser s),
      ses_cache = invalidateQueries [JStr ''auth''] (ses_cache s)\<rparr>"
    using assms(1) by (auto simp: login_def Let_def split: prod.splits sum.splits)
  have "find_query k (ses_cache s') = Some (refetch_active (invalidate q))"
    if "find_query k (ses_cache s) = Some q" "take 1 (q_key q) = [JStr ''auth'']" for k q
    using that by (simp add: s' find_invalidate matches_plain)
  moreover have "find_query k (ses_cache s') = Some q"
    if "find_query k (ses_cache s) = Some q" "take 1 (q_key q) \<noteq> [JStr ''auth'']" for k q
    using that by (simp add: s' find_invalidate matches_plain)
  ultimately show ?thesis
    using Inr stored.load_store_some [OF assms(2,3)] refetch_active_stale(1) by (auto simp: s')
qed

text \<open>
  C19. Signing out cannot fail half-way: whatever the backend answers, also when the request throws,
  afterwards no scope is stored and no answer of any query is left in the cache.
\<close>

theorem logout_always_clears:
  "case logout env s w of (r, s', w') \<Rightarrow>
     getStoredScope (ses_browser s') = None \<and> ses_cache s' = [] \<and> getQueryData k (ses_cache s') = None
     \<and> api_post env (ses_browser s) ''/auth/logout'' (JObj []) w =
         (case r of Inl e \<Rightarrow> Inl e | Inr _ \<Rightarrow> fst (api_post env (ses_browser s) ''/auth/logout'' (JObj []) w), w')"
  by (auto simp: logout_def clear_cache_def getQueryData_def find_query_def bind_out_def split: prod.splits sum.splits)

text \<open>
  The login form always comes back to rest, and it navigates exactly when the login succeeded:
  after a submission it is not submitting, and either it goes to the findings with no error
  shown, or it stays, shows a message, keeps what was typed, and no scope is stored.
\<close>

lemma login_form_settles:
  assumes "handleSubmit env form s w = (form', route, s', w')"
  shows "\<not> lf_isSubmitting form' \<and> lf_email form' = lf_email form \<and> lf_tenantId form' = lf_tenantId form
    \<and> (route = Some ''/findings'' \<longleftrightarrow> lf_submitError form' = None)
    \<and> (route = None \<longrightarrow> getStoredScope (ses_browser s') = None
        \<and> (\<exists>e. lf_submitError form' = Some (loginErrorMessage e) \<and> take 12 (loginErrorMessage e) = ''Login failed''))"
proof -
  have prefix: "take 12 (loginErrorMessage e) = ''Login failed''" for e
    by (cases e) (simp_all add: loginErrorMessage_def)
  obtain r s1 w1 where l: "login env \<lparr>scope_tenantId = lf_tenantId form, scope_workspace = lf_workspace form,
      lp_email = lf_email form, lp_password = lf_password form\<rparr> s w = (r, s1, w1)"
    by (metis prod_cases3)
  show ?thesis
  proof (cases r)
    case (Inl e)
    then have "getStoredScope (ses_browser s1) = None"
      using l stored.clear_after_store by (auto simp: login_def Let_def split: prod.splits sum.splits)
    with Inl assms show ?thesis using prefix by (auto simp: handleSubmit_def l)
  next
    case (Inr u)
    with assms show ?thesis by (auto simp: handleSubmit_def l)
  qed
qed

definition sample_payload_login :: login_payload where
  "sample_payload_login = \<lparr>scope_tenantId = ''acme'', scope_workspace = ''prod'', lp_email = ''a@b'', lp_password = ''p''\<rparr>"

definition sample_session :: session where
  "sample_session = \<lparr>ses_browser = sample_browser, ses_cache = []\<rparr>"

lemma sample_login_fails: "\<exists>e s'. login sample_env sample_payload_login sample_session () = (Inl e, s', ())"
proof -
  obtain u where u: "buildUrl sample_env ''/auth/login''
      (scopedQuery (getStoredScope (setStoredScope (tenant_scope.truncate sample_payload_login) sample_browser)) None) = Inr u"
    by (simp add: buildUrl_def sample_env_def getApiBaseUrl_def)
  show ?thesis
    using u by (simp add: login_def sample_session_def api_post_def request_def no_options_def read_response_def
        sample_env_def response_ok_def Let_def)
qed

theorem login_all_or_nothing_witness:
  "\<exists>e s'. login sample_env sample_payload_login sample_session () = (Inl e, s', ())
     \<and> getStoredScope (ses_browser s') = None \<and> ses_cache s' = []"
proof -
  obtain e s' where l: "login sample_env sample_payload_login sample_session () = (Inl e, s', ())"
    using sample_login_fails by blast
  have "has_window (ses_browser sample_session)" "\<not> blank_scope (tenant_scope.truncate sample_payload_login)"
    by (simp_all add: sample_session_def sample_browser_def blank_scope_def sample_payload_login_def
        trim_def trim_start_def trim_end_def is_ws_def tenant_scope.defs)
  from login_all_or_nothing [OF l this] l show ?thesis by (auto simp: sample_session_def)
qed

lemma login_form_settles_witness:
  "\<exists>form' route s' w'. handleSubmit sample_env (initial_form sample_browser) sample_session () = (form', route, s', w')
     \<and> \<not> lf_isSubmitting form'"
proof -
  obtain form' route s' w' where h: "handleSubmit sample_env (initial_form sample_browser) sample_session () = (form', route, s', w')"
    by (metis prod_cases4)
  from login_form_settles [OF h] h show ?thesis by blast
qed

end
