(* ===== verification/View.thy ===== *)
theory View
  imports Prelude
begin

text \<open>
  What a page renders: elements with properties and children, text, and nothing where a
  condition is false.  A handler is the event of the page it raises, as a function of the value
  of the element (\<open>event.target.value\<close>).  Static class names and decorations are left out.
\<close>

datatype 'e attr =
    Prop string string
  | Flag string bool
  | On string "string \<Rightarrow> 'e"

datatype 'e jsx =
    Txt string
  | Nothing
  | El string "'e attr list" "'e jsx list"

text \<open>\<open>{c ? v : null}\<close>\<close>

definition show_if :: "bool \<Rightarrow> 'e jsx \<Rightarrow> 'e jsx" where
  "show_if c v = (if c then v else Nothing)"

definition button :: "bool \<Rightarrow> 'e \<Rightarrow> string \<Rightarrow> 'e jsx" where
  "button disabled e label = El ''button'' [Flag ''disabled'' disabled, On ''onClick'' (\<lambda>_. e)] [Txt label]"

definition labelled :: "string \<Rightarrow> string \<Rightarrow> 'e jsx" where
  "labelled label value = El ''p'' [] [El ''span'' [] [Txt label], Txt ('' '' @ value)]"

definition cell :: "string \<Rightarrow> 'e jsx" where
  "cell value = El ''td'' [] [Txt value]"

definition info_card :: "string \<Rightarrow> string \<Rightarrow> 'e jsx" where
  "info_card label value = El ''article'' [] [El ''p'' [] [Txt label], El ''p'' [] [Txt value]]"

definition option_of :: "string \<times> string \<Rightarrow> 'e jsx" where
  "option_of = (\<lambda>(value, label). El ''option'' [Prop ''value'' value] [Txt label])"

definition select :: "string \<Rightarrow> string \<Rightarrow> (string \<Rightarrow> 'e) \<Rightarrow> (string \<times> string) list \<Rightarrow> 'e jsx" where
  "select label value onChange options =
     El ''label'' [] [El ''span'' [] [Txt label],
       El ''select'' [Prop ''value'' value, On ''onChange'' onChange] (map option_of options)]"

definition text_input :: "string \<Rightarrow> bool \<Rightarrow> (string \<Rightarrow> 'e) \<Rightarrow> 'e jsx" where
  "text_input value disabled onChange =
     El ''input'' [Prop ''value'' value, Flag ''disabled'' disabled, On ''onChange'' onChange] []"

definition table :: "string list \<Rightarrow> 'e jsx list \<Rightarrow> 'e jsx" where
  "table headings rows =
     El ''table'' [] [El ''thead'' [] [El ''tr'' [] (map (\<lambda>h. El ''th'' [] [Txt h]) headings)], El ''tbody'' [] rows]"

section \<open>Reading a view\<close>

definition is_disabled :: "'e attr list \<Rightarrow> bool" where
  "is_disabled ps = list_ex (\<lambda>p. case p of Flag n b \<Rightarrow> n = ''disabled'' \<and> b | _ \<Rightarrow> False) ps"

definition click_events :: "'e attr list \<Rightarrow> 'e list" where
  "click_events ps = concat (map (\<lambda>p. case p of On n h \<Rightarrow> if n = ''onClick'' then [h []] else [] | _ \<Rightarrow> []) ps)"

text \<open>The events a user can raise by clicking, in the order of the page.\<close>

fun clickable :: "'e jsx \<Rightarrow> 'e list" where
  "clickable (Txt s) = []"
| "clickable Nothing = []"
| "clickable (El tag ps vs) = (if is_disabled ps then [] else click_events ps) @ concat (map clickable vs)"

text \<open>The text a user reads, in order.\<close>

fun view_text :: "'e jsx \<Rightarrow> string list" where
  "view_text (Txt s) = [s]"
| "view_text Nothing = []"
| "view_text (El tag ps vs) = concat (map view_text vs)"

lemma clickable_when [simp, view_simps]: "clickable (show_if c v) = (if c then clickable v else [])"
  by (simp add: show_if_def)

lemma clickable_button [simp, view_simps]: "clickable (button d e l) = (if d then [] else [e])"
  by (simp add: button_def is_disabled_def click_events_def)

lemma clickable_plain [simp, view_simps]:
  "clickable (labelled a b) = []" "clickable (cell a) = []" "clickable (info_card a b) = []" "clickable (option_of x) = []"
  "clickable (text_input a d f) = []"
  by (simp_all add: labelled_def cell_def info_card_def option_of_def text_input_def click_events_def case_prod_unfold)

lemma clickable_select [simp, view_simps]: "clickable (select a b f os) = []"
  by (auto simp: select_def click_events_def comp_def)

lemma clickable_table [simp, view_simps]: "clickable (table hs rs) = concat (map clickable rs)"
  by (simp add: table_def click_events_def comp_def)

lemma click_events_simps [simp, view_simps]:
  "click_events [] = []" "click_events (Prop a b # ps) = click_events ps" "click_events (Flag a c # ps) = click_events ps"
  "click_events (On n h # ps) = (if n = ''onClick'' then h [] # click_events ps else click_events ps)"
  by (simp_all add: click_events_def)

lemma is_disabled_simps [simp, view_simps]:
  "\<not> is_disabled []" "is_disabled (Prop a b # ps) = is_disabled ps" "is_disabled (On n h # ps) = is_disabled ps"
  "is_disabled (Flag a c # ps) \<longleftrightarrow> a = ''disabled'' \<and> c \<or> is_disabled ps"
  by (simp_all add: is_disabled_def)


section \<open>What a user can do\<close>

definition checkbox :: "bool \<Rightarrow> bool \<Rightarrow> (bool \<Rightarrow> 'e) \<Rightarrow> 'e jsx" where
  "checkbox checked disabled onChange =
     El ''input'' [Prop ''type'' ''checkbox'', Flag ''checked'' checked, Flag ''disabled'' disabled,
       On ''onChange'' (\<lambda>v. onChange (v = ''on''))] []"

text \<open>An event can be raised when some handler of an element that is not disabled has it among its results.\<close>

inductive raises :: "'e jsx \<Rightarrow> 'e \<Rightarrow> bool" where
  here: "\<not> is_disabled ps \<Longrightarrow> On n h \<in> set ps \<Longrightarrow> raises (El tag ps vs) (h x)"
| below: "v \<in> set vs \<Longrightarrow> raises v e \<Longrightarrow> raises (El tag ps vs) e"

inductive_cases raises_textE [elim!]: "raises (Txt s) e"
inductive_cases raises_nothingE [elim!]: "raises Nothing e"
inductive_cases raises_elE: "raises (El tag ps vs) e"

lemma raises_leaves [simp, view_simps]: "\<not> raises (Txt s) e" "\<not> raises Nothing e"
  by auto

fun attr_raises :: "'e attr \<Rightarrow> 'e \<Rightarrow> bool" where
  "attr_raises (On n h) e \<longleftrightarrow> (\<exists>x. e = h x)"
| "attr_raises _ e \<longleftrightarrow> False"

lemma attr_raises_iff: "attr_raises p e \<longleftrightarrow> (\<exists>n h x. p = On n h \<and> e = h x)"
  by (cases p) auto

lemma raises_El [simp, view_simps]:
  "raises (El tag ps vs) e \<longleftrightarrow>
     \<not> is_disabled ps \<and> (\<exists>p \<in> set ps. attr_raises p e) \<or> (\<exists>v \<in> set vs. raises v e)"
  by (auto simp: attr_raises_iff elim!: raises_elE intro: raises.intros)

lemma raises_plain [simp, view_simps]:
  "raises (show_if c v) e \<longleftrightarrow> c \<and> raises v e" "\<not> raises (labelled a b) e" "\<not> raises (cell a) e"
  "\<not> raises (info_card a b) e" "\<not> raises (option_of o') e"
  by (auto simp: show_if_def labelled_def cell_def info_card_def option_of_def split: prod.split)

lemma raises_controls [simp, view_simps]:
  "raises (button d e' l) e \<longleftrightarrow> \<not> d \<and> e = e'"
  "raises (text_input a d f) e \<longleftrightarrow> \<not> d \<and> (\<exists>x. e = f x)"
  "raises (select a b f os) e \<longleftrightarrow> (\<exists>x. e = f x)"
  "raises (table hs rs) e \<longleftrightarrow> (\<exists>r \<in> set rs. raises r e)"
  by (auto simp: button_def text_input_def select_def table_def)

lemma raises_checkbox [simp, view_simps]: "raises (checkbox c d g) e \<longleftrightarrow> \<not> d \<and> (\<exists>b. e = g b)"
proof -
  have "(\<exists>x :: string. e = g (x = ''on'')) \<longleftrightarrow> (\<exists>b. e = g b)"
  proof
    assume "\<exists>b. e = g b"
    then obtain b where "e = g b" ..
    then have "e = g ((if b then ''on'' else []) = ''on'')" by simp
    then show "\<exists>x :: string. e = g (x = ''on'')" ..
  qed blast
  then show ?thesis by (simp add: checkbox_def)
qed

lemma clickable_checkbox [simp, view_simps]: "clickable (checkbox c d g) = []"
  by (simp add: checkbox_def)

lemma click_events_raise: "e \<in> set (click_events ps) \<Longrightarrow> \<exists>p \<in> set ps. attr_raises p e"
  by (induction ps rule: list.induct) (auto simp: click_events_def split: if_splits attr.splits)

lemma clickable_raises: "e \<in> set (clickable v) \<Longrightarrow> raises v e"
  by (induction v rule: clickable.induct) (auto dest: click_events_raise split: if_splits)

end
