(* ===== verification/JsDate.thy ===== *)
theory JsDate
  imports JsNumber
begin

text \<open>
  The \<open>Date\<close> of ECMAScript as the frontend uses it: a time value is a number of
  milliseconds since 1970-01-01 UTC within 8.64e15 of it, the proleptic Gregorian calendar,
  the Date Time String Format read by \<open>new Date(s)\<close>, \<open>toISOString\<close>, and
  \<open>setUTCDate\<close>.  Two things ECMAScript leaves to the host are parameters
  (\<open>date_host\<close>): the reading of a string outside the format, and the offset of local time,
  which a date-time without an offset uses.
\<close>

section \<open>Calendar\<close>

text \<open>The years of the computation begin in March, so that the leap day is the last of a
  year; 146097 days make 400 years, 36524 a short century, 1461 a leap cycle.\<close>

definition march_year :: "int \<Rightarrow> int \<Rightarrow> int" where
  "march_year y m = (if m \<le> 2 then y - 1 else y)"

definition days_from_civil :: "int \<Rightarrow> int \<Rightarrow> int \<Rightarrow> int" where
  "days_from_civil y m d =
     (let y' = march_year y m; yoe = y' mod 400; mp = (m + 9) mod 12;
          doy = (153 * mp + 2) div 5 + d - 1
      in 146097 * (y' div 400) + 365 * yoe + yoe div 4 - yoe div 100 + doy - 719468)"

definition civil_from_days :: "int \<Rightarrow> int \<times> int \<times> int" where
  "civil_from_days z =
     (let era = (z + 719468) div 146097; doe = (z + 719468) mod 146097;
          c = min 3 (doe div 36524); r = doe - 36524 * c;
          q = r div 1461; s = r - 1461 * q;
          a = min 3 (s div 365); doy = s - 365 * a;
          mp = (5 * doy + 2) div 153;
          d = doy - (153 * mp + 2) div 5 + 1;
          m = (if mp < 10 then mp + 3 else mp - 9);
          y = 400 * era + 100 * c + 4 * q + a
      in (if m \<le> 2 then y + 1 else y, m, d))"

definition leap_year :: "int \<Rightarrow> bool" where
  "leap_year y \<longleftrightarrow> y mod 4 = 0 \<and> (y mod 100 \<noteq> 0 \<or> y mod 400 = 0)"

definition days_in_month :: "int \<Rightarrow> int \<Rightarrow> int" where
  "days_in_month y m =
     (if m = 2 then (if leap_year y then 29 else 28) else if m \<in> {4, 6, 9, 11} then 30 else 31)"

definition valid_civil :: "int \<Rightarrow> int \<Rightarrow> int \<Rightarrow> bool" where
  "valid_civil y m d \<longleftrightarrow> 1 \<le> m \<and> m \<le> 12 \<and> 1 \<le> d \<and> d \<le> days_in_month y m"

section \<open>Time values\<close>

abbreviation ms_per_day :: int where
  "ms_per_day \<equiv> 86400000"

definition time_clip :: "int \<Rightarrow> int option" where
  "time_clip t = (if \<bar>t\<bar> \<le> 8640000000000000 then Some t else None)"

definition time_of :: "int \<Rightarrow> int \<Rightarrow> int \<Rightarrow> int \<Rightarrow> int" where
  "time_of h mi s ms = 3600000 * h + 60000 * mi + 1000 * s + ms"

text \<open>\<open>d.setUTCDate(d.getUTCDate() + n)\<close>: day arithmetic within the month's frame.\<close>

definition get_utc_date :: "int \<Rightarrow> int" where
  "get_utc_date t = (case civil_from_days (t div ms_per_day) of (y, m, d) \<Rightarrow> d)"

definition set_utc_date :: "int \<Rightarrow> int \<Rightarrow> int option" where
  "set_utc_date t dt =
     (case civil_from_days (t div ms_per_day) of (y, m, _) \<Rightarrow>
        time_clip (ms_per_day * (days_from_civil y m 1 + dt - 1) + t mod ms_per_day))"

section \<open>toISOString\<close>

definition pad_int :: "nat \<Rightarrow> int \<Rightarrow> string" where
  "pad_int k n = pad_left k (nat_to_string (nat n))"

definition iso_year :: "int \<Rightarrow> string" where
  "iso_year y =
     (if 0 \<le> y \<and> y \<le> 9999 then pad_int 4 y
      else (if y < 0 then ''-'' else ''+'') @ pad_int 6 \<bar>y\<bar>)"

definition iso_date_text :: "int \<Rightarrow> string" where
  "iso_date_text t =
     (case civil_from_days (t div ms_per_day) of (y, m, d) \<Rightarrow>
        iso_year y @ ''-'' @ pad_int 2 m @ ''-'' @ pad_int 2 d)"

definition iso_clock_text :: "int \<Rightarrow> string" where
  "iso_clock_text t =
     (let r = t mod ms_per_day
      in pad_int 2 (r div 3600000) @ '':'' @ pad_int 2 (r div 60000 mod 60) @ '':''
         @ pad_int 2 (r div 1000 mod 60))"

definition to_iso_string :: "int \<Rightarrow> string" where
  "to_iso_string t =
     iso_date_text t @ ''T'' @ iso_clock_text t @ ''.'' @ pad_int 3 (t mod 1000) @ ''Z''"

section \<open>new Date(s)\<close>

record date_host =
  legacy_parse :: "string \<Rightarrow> int option"
  local_offset :: "int \<Rightarrow> int"

definition take_digits :: "nat \<Rightarrow> string \<Rightarrow> (int \<times> string) option" where
  "take_digits k s =
     (if k \<le> length s \<and> (\<forall>c \<in> set (take k s). is_digit c)
      then Some (int (digits_val (take k s)), drop k s) else None)"

definition read_year :: "string \<Rightarrow> (int \<times> string) option" where
  "read_year s =
     (case s of
        c # r \<Rightarrow>
          if c = CHR ''+'' then take_digits 6 r
          else if c = CHR ''-'' then
            (case take_digits 6 r of
               Some (y, q) \<Rightarrow> if y = 0 then None else Some (- y, q)
             | None \<Rightarrow> None)
          else take_digits 4 s
      | [] \<Rightarrow> None)"

text \<open>A field introduced by a separator: absent (the default), present, or malformed.\<close>

definition read_field :: "char \<Rightarrow> nat \<Rightarrow> int \<Rightarrow> string \<Rightarrow> (int \<times> string) option" where
  "read_field sep k dflt s =
     (case s of
        c # r \<Rightarrow> if c = sep then take_digits k r else Some (dflt, s)
      | [] \<Rightarrow> Some (dflt, s))"

definition read_must :: "char \<Rightarrow> nat \<Rightarrow> string \<Rightarrow> (int \<times> string) option" where
  "read_must sep k s =
     (case s of c # r \<Rightarrow> if c = sep then take_digits k r else None | [] \<Rightarrow> None)"

text \<open>The zone suffix: the offset in milliseconds, or local time when there is none.\<close>

definition read_zone :: "string \<Rightarrow> int option option" where
  "read_zone s =
     (if s = [] then Some None
      else if s = ''Z'' then Some (Some 0)
      else case s of
             c # r \<Rightarrow>
               if c = CHR ''+'' \<or> c = CHR ''-'' then
                 (case take_digits 2 r of
                    Some (h, q) \<Rightarrow>
                      (case read_must (CHR '':'') 2 q of
                         Some (mi, q') \<Rightarrow>
                           if q' = [] \<and> h < 24 \<and> mi < 60
                           then Some (Some ((if c = CHR ''-'' then - 1 else 1) * time_of h mi 0 0))
                           else None
                       | None \<Rightarrow> None)
                  | None \<Rightarrow> None)
               else None
           | [] \<Rightarrow> None)"

text \<open>Everything after the letter T: the time within the day, and the zone.\<close>

definition read_clock :: "string \<Rightarrow> (int \<times> int option) option" where
  "read_clock s =
     (case take_digits 2 s of
        None \<Rightarrow> None
      | Some (h, s1) \<Rightarrow>
          (case read_must (CHR '':'') 2 s1 of
             None \<Rightarrow> None
           | Some (mi, s2) \<Rightarrow>
               (case read_field (CHR '':'') 2 0 s2 of
                  None \<Rightarrow> None
                | Some (sec, s3) \<Rightarrow>
                    (case (if s3 = s2 then Some (0, s3) else read_field (CHR ''.'') 3 0 s3) of
                       None \<Rightarrow> None
                     | Some (ms, s4) \<Rightarrow>
                         (case read_zone s4 of
                            None \<Rightarrow> None
                          | Some z \<Rightarrow>
                              if mi < 60 \<and> sec < 60
                                 \<and> (h < 24 \<or> h = 24 \<and> mi = 0 \<and> sec = 0 \<and> ms = 0)
                              then Some (time_of h mi sec ms, z) else None)))))"

text \<open>A string of the Date Time String Format; \<open>None\<close> when it is not one.\<close>

definition parse_iso :: "date_host \<Rightarrow> string \<Rightarrow> int option option" where
  "parse_iso host s =
     (case read_year s of
        None \<Rightarrow> None
      | Some (y, s1) \<Rightarrow>
          (case read_field (CHR ''-'') 2 1 s1 of
             None \<Rightarrow> None
           | Some (m, s2) \<Rightarrow>
               (case (if s2 = s1 then Some (1, s2) else read_field (CHR ''-'') 2 1 s2) of
                  None \<Rightarrow> None
                | Some (d, s3) \<Rightarrow>
                    if 1 \<le> m \<and> m \<le> 12 \<and> 1 \<le> d \<and> d \<le> 31 then
                      (let day = ms_per_day * days_from_civil y m d in
                       case s3 of
                         [] \<Rightarrow> Some (time_clip day)
                       | c # r \<Rightarrow>
                           if c = CHR ''T'' then
                             (case read_clock r of
                                None \<Rightarrow> None
                              | Some (tm, Some z) \<Rightarrow> Some (time_clip (day + tm - z))
                              | Some (tm, None) \<Rightarrow>
                                  Some (time_clip (day + tm - local_offset host (day + tm))))
                           else None)
                    else None)))"

text \<open>The time value of \<open>new Date(s)\<close>; \<open>None\<close> is the invalid date, whose time is NaN.\<close>

definition new_date :: "date_host \<Rightarrow> string \<Rightarrow> int option" where
  "new_date host s = (case parse_iso host s of Some t \<Rightarrow> t | None \<Rightarrow> legacy_parse host s)"

section \<open>The calendar inverts\<close>

text \<open>Splitting the days of an era: centuries, leap cycles, years, day of the March year.\<close>

lemma era_split:
  fixes doe :: int
  assumes "0 \<le> doe" and "doe < 146097"
  defines "c \<equiv> min 3 (doe div 36524)"
  defines "r \<equiv> doe - 36524 * c"
  defines "q \<equiv> r div 1461"
  defines "s \<equiv> r - 1461 * q"
  defines "a \<equiv> min 3 (s div 365)"
  defines "doy \<equiv> s - 365 * a"
  shows "0 \<le> c \<and> c \<le> 3 \<and> 0 \<le> q \<and> q \<le> 24 \<and> 0 \<le> a \<and> a \<le> 3 \<and> 0 \<le> doy
    \<and> (doy \<le> 364 \<or> doy = 365 \<and> a = 3 \<and> (q \<noteq> 24 \<or> c = 3))
    \<and> doe = 36524 * c + 1461 * q + 365 * a + doy"
proof -
  have c: "0 \<le> c" "c \<le> 3" using assms(1) by (auto simp: c_def pos_imp_zdiv_nonneg_iff)
  have r: "0 \<le> r \<and> (r \<le> 36523 \<or> r = 36524 \<and> c = 3)"
  proof (cases "doe div 36524 \<le> 3")
    case True
    then show ?thesis using assms(1,2) unfolding r_def c_def min_def by (simp; linarith)
  next
    case False
    then have "c = 3" by (simp add: c_def)
    then show ?thesis using False assms(2) unfolding r_def by linarith
  qed
  have r': "0 \<le> r" "r \<le> 36524" using r by auto
  have q: "0 \<le> q" "q \<le> 24" using r' unfolding q_def by linarith+
  have s_mod: "s = r mod 1461" by (simp add: s_def q_def minus_mult_div_eq_mod)
  have s: "0 \<le> s" "s \<le> 1460" by (simp_all add: s_mod)
  have s24: "q = 24 \<longrightarrow> s \<le> 1459 \<or> c = 3" using r by (auto simp: s_def)
  have a: "0 \<le> a" "a \<le> 3" using s by (auto simp: a_def pos_imp_zdiv_nonneg_iff)
  have "0 \<le> doy \<and> (doy \<le> 364 \<or> doy = 365 \<and> a = 3 \<and> s = 1460)"
  proof (cases "s div 365 \<le> 3")
    case True
    then show ?thesis using s unfolding doy_def a_def min_def by (simp; linarith)
  next
    case False
    then have "a = 3" by (simp add: a_def)
    then show ?thesis using False s unfolding doy_def by linarith
  qed
  with c q a s24 show ?thesis by (auto simp: doy_def s_def r_def)
qed

lemma month_split:
  fixes doy :: int
  assumes "0 \<le> doy" and "doy \<le> 365"
  defines "mp \<equiv> (5 * doy + 2) div 153"
  defines "d \<equiv> doy - (153 * mp + 2) div 5 + 1"
  shows "0 \<le> mp \<and> mp \<le> 11 \<and> 1 \<le> d \<and> d \<le> 31 \<and> (mp \<in> {1, 3, 6, 8} \<longrightarrow> d \<le> 30)
    \<and> (mp = 11 \<longrightarrow> d \<le> 29 \<and> (d = 29 \<longrightarrow> doy = 365)) \<and> (153 * mp + 2) div 5 + d - 1 = doy"
proof -
  have mp: "0 \<le> mp" "mp \<le> 11" using assms(1,2) unfolding mp_def by linarith+
  have lo: "153 * mp \<le> 5 * doy + 2" and hi: "5 * doy + 2 < 153 * mp + 153"
    unfolding mp_def by linarith+
  have "mp = 0 \<or> mp = 1 \<or> mp = 2 \<or> mp = 3 \<or> mp = 4 \<or> mp = 5 \<or> mp = 6 \<or> mp = 7 \<or> mp = 8
      \<or> mp = 9 \<or> mp = 10 \<or> mp = 11" using mp by presburger
  then show ?thesis using lo hi assms(2) unfolding d_def by (elim disjE) auto
qed

lemma civil_from_days_valid:
  assumes "civil_from_days z = (y, m, d)"
  shows "valid_civil y m d \<and> days_from_civil y m d = z"
proof -
  define era where "era = (z + 719468) div 146097"
  define doe where "doe = (z + 719468) mod 146097"
  define c where "c = min 3 (doe div 36524)"
  define r where "r = doe - 36524 * c"
  define q where "q = r div 1461"
  define s where "s = r - 1461 * q"
  define a where "a = min 3 (s div 365)"
  define doy where "doy = s - 365 * a"
  define mp where "mp = (5 * doy + 2) div 153"
  define yoe where "yoe = 100 * c + 4 * q + a"
  note defs = era_def doe_def c_def r_def q_def s_def a_def doy_def mp_def
  have doe: "0 \<le> doe" "doe < 146097" by (simp_all add: doe_def)
  note e = era_split [OF doe, folded c_def, folded r_def, folded q_def, folded s_def,
      folded a_def, folded doy_def]
  have doy: "0 \<le> doy" "doy \<le> 365" using e by auto
  note ms = month_split [OF doy, folded mp_def]
  have z: "z = 146097 * era + doe - 719468" by (simp add: era_def doe_def)
  have "civil_from_days z =
     (let m = (if mp < 10 then mp + 3 else mp - 9)
      in (if m \<le> 2 then 400 * era + 100 * c + 4 * q + a + 1 else 400 * era + 100 * c + 4 * q + a, m,
          doy - (153 * mp + 2) div 5 + 1))"
    by (simp only: civil_from_days_def Let_def defs)
  then have m: "m = (if mp < 10 then mp + 3 else mp - 9)"
    and d: "d = doy - (153 * mp + 2) div 5 + 1"
    and y: "y = 400 * era + yoe + (if m \<le> 2 then 1 else 0)"
    using assms by (simp_all add: Let_def yoe_def split: if_splits)
  have my: "march_year y m = 400 * era + yoe" by (simp add: y march_year_def)
  have yoe: "0 \<le> yoe" "yoe < 400" using e by (auto simp: yoe_def)
  have yd: "(400 * era + yoe) div 400 = era" "(400 * era + yoe) mod 400 = yoe"
    using yoe by (simp_all add: div_add1_eq)
  have y4: "yoe div 4 = 25 * c + q" "yoe div 100 = c"
    using e unfolding yoe_def by linarith+
  have y365: "365 * yoe = 36500 * c + 1460 * q + 365 * a" by (simp add: yoe_def)
  have mp': "(m + 9) mod 12 = mp" using ms by (auto simp: m)
  have civ: "days_from_civil y m d = z"
    using e ms y365 by (simp add: days_from_civil_def my yd y4 mp' Let_def z d)
  have "valid_civil y m d"
  proof (cases "m = 2")
    case True
    then have mp11: "mp = 11" using ms by (auto simp: m split: if_splits)
    have y1: "y = 400 * era + yoe + 1" using True by (simp add: y)
    have "leap_year y" if "doy = 365"
    proof -
      have a: "a = 3" and qc: "q \<noteq> 24 \<or> c = 3" using e that by auto
      have "y = 4 * (100 * era + 25 * c + q + 1)" by (simp add: y1 yoe_def a)
      then have m4: "y mod 4 = 0" by simp
      show ?thesis
      proof (cases "q = 24")
        case True
        then have "y = 400 * (era + 1)" using qc by (simp add: y1 yoe_def a)
        then show ?thesis using m4 by (simp add: leap_year_def)
      next
        case False
        have "y = 4 * (q + 1) + (4 * era + c) * 100" by (simp add: y1 yoe_def a)
        then have "y mod 100 = 4 * (q + 1) mod 100" by (simp only: mod_mult_self1)
        also have "\<dots> = 4 * (q + 1)" using e False by (intro mod_pos_pos_trivial) auto
        finally have "y mod 100 \<noteq> 0" using e by simp
        then show ?thesis using m4 by (simp add: leap_year_def)
      qed
    qed
    moreover have "1 \<le> d \<and> d \<le> 29 \<and> (d = 29 \<longrightarrow> doy = 365)"
      using ms mp11 unfolding d by simp
    ultimately show ?thesis using True by (auto simp: valid_civil_def days_in_month_def)
  next
    case False
    have "m \<in> {4, 6, 9, 11} \<longrightarrow> mp \<in> {1, 3, 6, 8}" using ms by (auto simp: m)
    then show ?thesis using ms False by (auto simp: valid_civil_def days_in_month_def m d)
  qed
  with civ show ?thesis by simp
qed

section \<open>Reading back what toISOString writes\<close>

lemma digits_val_zeros: "digits_val (replicate k (CHR ''0'') @ ds) = digits_val ds"
  by (induction k) (simp_all add: digits_val_def digit_val_def)

lemma length_nat_to_string: "n < 10 ^ k \<Longrightarrow> 0 < k \<Longrightarrow> length (nat_to_string n) \<le> k"
proof (induction n arbitrary: k rule: nat_to_string.induct)
  case (1 n)
  show ?case
  proof (cases "n < 10")
    case True
    then show ?thesis using 1 by (simp add: nat_to_string.simps [of n])
  next
    case False
    obtain j where k: "k = Suc j" using "1.prems" by (cases k) auto
    have "0 < j" using False "1.prems" k by (cases j) auto
    moreover have "n div 10 < 10 ^ j" using "1.prems" k by (simp add: div_less_iff_less_mult mult.commute)
    ultimately have "length (nat_to_string (n div 10)) \<le> j" using 1 False by simp
    then show ?thesis using False k by (simp add: nat_to_string.simps [of n])
  qed
qed

lemma take_digits_pad:
  assumes "0 \<le> n" and "n < 10 ^ k" and "0 < k"
  shows "take_digits k (pad_int k n @ s) = Some (n, s)"
proof -
  have "nat n < 10 ^ k" using assms by (simp add: nat_less_iff)
  then have len: "length (nat_to_string (nat n)) \<le> k" using assms(3) by (rule length_nat_to_string)
  then have "length (pad_int k n) = k" by (simp add: pad_int_def pad_left_def)
  moreover have "\<forall>c \<in> set (pad_int k n). is_digit c"
    using nat_to_string_digits [of "nat n"] by (auto simp: pad_int_def pad_left_def is_digit_def)
  moreover have "digits_val (pad_int k n) = nat n"
    by (simp add: pad_int_def pad_left_def digits_val_zeros)
  ultimately show ?thesis using assms(1) by (simp add: take_digits_def)
qed

lemma pad_int_hd:
  assumes "0 \<le> n" and "n < 10 ^ k" and "0 < k"
  obtains c t where "pad_int k n = c # t" and "is_digit c"
proof -
  have "pad_int k n \<noteq> []" "\<forall>c \<in> set (pad_int k n). is_digit c"
    using nat_to_string_digits [of "nat n"] by (auto simp: pad_int_def pad_left_def is_digit_def)
  then show thesis using that by (cases "pad_int k n") auto
qed

lemma length_pad_int:
  assumes "0 \<le> n" and "n < 10 ^ k" and "0 < k"
  shows "length (pad_int k n) = k"
  using length_nat_to_string [of "nat n" k] assms by (simp add: pad_int_def pad_left_def nat_less_iff)

lemma read_year_iso:
  assumes "\<bar>y\<bar> < 1000000"
  shows "read_year (iso_year y @ CHR ''-'' # s) = Some (y, CHR ''-'' # s)"
proof (cases "0 \<le> y \<and> y \<le> 9999")
  case True
  then have y: "0 \<le> y" "y < 10 ^ 4" by auto
  obtain c t where ct: "pad_int 4 y = c # t" "is_digit c" by (rule pad_int_hd [OF y]) auto
  then show ?thesis
    using True take_digits_pad [OF y, of "CHR ''-'' # s"] digit_neq_marks [of c]
    by (simp add: read_year_def iso_year_def)
next
  case False
  then show ?thesis
    using assms take_digits_pad [of "\<bar>y\<bar>" 6 "CHR ''-'' # s"]
    by (auto simp: read_year_def iso_year_def abs_if)
qed

lemma iso_clock_parts:
  fixes r :: int
  assumes "0 \<le> r" and "r < ms_per_day"
  defines "h \<equiv> r div 3600000" and "mi \<equiv> r div 60000 mod 60" and "sec \<equiv> r div 1000 mod 60"
    and "ms \<equiv> r mod 1000"
  shows "0 \<le> h \<and> h < 24 \<and> 0 \<le> mi \<and> mi < 60 \<and> 0 \<le> sec \<and> sec < 60 \<and> 0 \<le> ms \<and> ms < 1000
    \<and> time_of h mi sec ms = r"
proof -
  have h: "0 \<le> h" "h < 24" using assms(1,2) by (simp_all add: h_def pos_imp_zdiv_nonneg_iff div_less_iff_less_mult)
  have s: "r = 1000 * (r div 1000) + ms" by (simp add: ms_def)
  have m: "r div 1000 = 60 * (r div 60000) + sec"
    using div_mult_mod_eq [of "r div 1000" 60] by (simp add: sec_def zdiv_zmult2_eq [symmetric])
  have hh: "r div 60000 = 60 * h + mi"
    using div_mult_mod_eq [of "r div 60000" 60] by (simp add: h_def mi_def zdiv_zmult2_eq [symmetric])
  have "time_of h mi sec ms = r" using s m hh by (simp add: time_of_def)
  moreover have "0 \<le> mi \<and> mi < 60" "0 \<le> sec \<and> sec < 60" "0 \<le> ms \<and> ms < 1000"
    by (simp_all add: mi_def sec_def ms_def)
  ultimately show ?thesis using h by blast
qed

lemma read_clock_iso:
  assumes "0 \<le> h" "h < 24" "0 \<le> mi" "mi < 60" "0 \<le> sec" "sec < 60" "0 \<le> ms" "ms < 1000"
  shows "read_clock (pad_int 2 h @ CHR '':'' # pad_int 2 mi @ CHR '':'' # pad_int 2 sec
           @ CHR ''.'' # pad_int 3 ms @ ''Z'') = Some (time_of h mi sec ms, Some 0)"
  using assms
  by (simp add: read_clock_def read_must_def read_field_def read_zone_def take_digits_pad)

lemma civil_year_bound:
  assumes "civil_from_days z = (y, m, d)" and "\<bar>z\<bar> \<le> 100000000"
  shows "\<bar>y\<bar> < 1000000"
proof -
  have v: "valid_civil y m d" "days_from_civil y m d = z"
    using civil_from_days_valid [OF assms(1)] by auto
  define e where "e = march_year y m div 400"
  define w where "w = march_year y m mod 400"
  define w4 where "w4 = w div 4"
  define w100 where "w100 = w div 100"
  define mp where "mp = (m + 9) mod 12"
  define p where "p = (153 * mp + 2) div 5"
  have w: "0 \<le> w" "w < 400" by (simp_all add: w_def)
  have w4: "0 \<le> w4" "w4 \<le> 99" and w100: "0 \<le> w100" "w100 \<le> 3"
    using w unfolding w4_def w100_def by linarith+
  have "0 \<le> mp" "mp < 12" by (simp_all add: mp_def)
  then have p: "0 \<le> p" "p \<le> 400" unfolding p_def by linarith+
  have d: "1 \<le> d" "d \<le> 31"
    using v(1) by (auto simp: valid_civil_def days_in_month_def split: if_splits)
  have z: "146097 * e + 365 * w + (w4 - w100) + (p + d - 1) - 719468 = z"
    using v(2) by (simp add: days_from_civil_def Let_def e_def w_def w4_def w100_def mp_def p_def)
  have y: "march_year y m = 400 * e + w" by (simp add: e_def w_def)
  have "march_year y m = y \<or> march_year y m = y - 1" by (simp add: march_year_def)
  then show ?thesis using w w4 w100 p d z y assms(2) by linarith
qed

text \<open>Every time value is read back from its \<open>toISOString\<close> form.\<close>

lemma new_date_iso:
  assumes "\<bar>t\<bar> \<le> 8640000000000000"
  shows "new_date host (to_iso_string t) = Some t"
proof -
  obtain y m d where c: "civil_from_days (t div ms_per_day) = (y, m, d)"
    by (cases "civil_from_days (t div ms_per_day)")
  have v: "valid_civil y m d" "days_from_civil y m d = t div ms_per_day"
    using civil_from_days_valid [OF c] by auto
  have md: "1 \<le> m" "m \<le> 12" "1 \<le> d" "d \<le> 31"
    using v(1) by (auto simp: valid_civil_def days_in_month_def split: if_splits)
  have "\<bar>t div ms_per_day\<bar> \<le> 100000000" using assms by linarith
  with c have y: "\<bar>y\<bar> < 1000000" by (rule civil_year_bound)
  define r where "r = t mod ms_per_day"
  have r: "0 \<le> r" "r < ms_per_day" by (simp_all add: r_def)
  note p = iso_clock_parts [OF r]
  have "t mod 1000 = r mod 1000" by (simp add: r_def mod_mod_cancel)
  then have shape: "to_iso_string t = iso_year y @ CHR ''-'' # pad_int 2 m @ CHR ''-'' # pad_int 2 d
      @ CHR ''T'' # pad_int 2 (r div 3600000) @ CHR '':'' # pad_int 2 (r div 60000 mod 60)
      @ CHR '':'' # pad_int 2 (r div 1000 mod 60) @ CHR ''.'' # pad_int 3 (r mod 1000) @ ''Z''"
    by (simp add: to_iso_string_def iso_date_text_def iso_clock_text_def c Let_def flip: r_def)
  have "t = ms_per_day * (t div ms_per_day) + r" by (simp add: r_def)
  then have "parse_iso host (to_iso_string t) = Some (Some t)"
    unfolding shape using md p assms
    by (simp add: parse_iso_def read_year_iso [OF y] read_field_def take_digits_pad read_clock_iso
        v(2) Let_def time_clip_def)
  then show ?thesis by (simp add: new_date_def)
qed

lemma set_utc_date_add:
  "set_utc_date t (get_utc_date t + n) = time_clip (t + ms_per_day * n)"
proof -
  obtain y m d where c: "civil_from_days (t div ms_per_day) = (y, m, d)"
    by (cases "civil_from_days (t div ms_per_day)")
  have v: "days_from_civil y m d = t div ms_per_day" using civil_from_days_valid [OF c] by auto
  have "days_from_civil y m 1 + (d + n) - 1 = days_from_civil y m d + n"
    by (simp add: days_from_civil_def Let_def)
  then have day: "days_from_civil y m 1 + (d + n) - 1 = t div ms_per_day + n"
    by (simp only: v)
  have "ms_per_day * (t div ms_per_day + n) + t mod ms_per_day = t + ms_per_day * n"
    by (simp add: distrib_left)
  then show ?thesis
    unfolding set_utc_date_def get_utc_date_def c prod.case day by (simp only:)
qed

text \<open>The pieces of the ISO form, for a year of four digits.\<close>

lemma length_iso_clock: "length (iso_clock_text t) = 8"
proof -
  have r: "0 \<le> t mod ms_per_day" "t mod ms_per_day < ms_per_day" by simp_all
  show ?thesis using iso_clock_parts [OF r] by (simp add: iso_clock_text_def Let_def length_pad_int)
qed

lemma length_iso_date:
  assumes "civil_from_days (t div ms_per_day) = (y, m, d)" and "0 \<le> y" and "y \<le> 9999"
  shows "length (iso_date_text t) = 10"
proof -
  have "valid_civil y m d" using civil_from_days_valid [OF assms(1)] by simp
  then have "1 \<le> m" "m \<le> 12" "1 \<le> d" "d \<le> 31"
    by (auto simp: valid_civil_def days_in_month_def split: if_splits)
  then show ?thesis using assms by (simp add: iso_date_text_def iso_year_def length_pad_int)
qed

end
