(* ===== verification/Dates.thy ===== *)
theory Dates
  imports JsDate
begin

text \<open>
  \<open>apps/frontend/src/lib/dates.ts\<close>: the UTC label every page prints for a timestamp.
\<close>

definition formatUtcDateTime :: "date_host \<Rightarrow> string option \<Rightarrow> string" where
  "formatUtcDateTime host value =
     (case value of
        None \<Rightarrow> ''-''
      | Some s \<Rightarrow>
          if s = [] then ''-''
          else (case new_date host s of
                  None \<Rightarrow> s
                | Some t \<Rightarrow>
                    (let iso = to_iso_string t
                     in slice 0 10 iso @ '' '' @ slice 11 19 iso @ '' UTC'')))"

lemma formatUtcDateTime_absent [simp]:
  "formatUtcDateTime host None = ''-''" "formatUtcDateTime host (Some []) = ''-''"
  by (simp_all add: formatUtcDateTime_def)

lemma formatUtcDateTime_invalid:
  "new_date host s = None \<Longrightarrow> s \<noteq> [] \<Longrightarrow> formatUtcDateTime host (Some s) = s"
  by (simp add: formatUtcDateTime_def)

lemma to_iso_not_Nil [simp]: "to_iso_string t \<noteq> []"
  by (simp add: to_iso_string_def)

lemma iso_slices:
  assumes "civil_from_days (t div ms_per_day) = (y, m, d)" and "0 \<le> y" and "y \<le> 9999"
  shows "slice 0 10 (to_iso_string t) = iso_date_text t"
    and "slice 11 19 (to_iso_string t) = iso_clock_text t"
  using length_iso_date [OF assms] length_iso_clock [of t]
  by (simp_all add: slice_def to_iso_string_def)

lemma formatUtcDateTime_time:
  assumes "new_date host s = Some t" and "s \<noteq> []"
    and "civil_from_days (t div ms_per_day) = (y, m, d)" and "0 \<le> y" and "y \<le> 9999"
  shows "formatUtcDateTime host (Some s) = iso_date_text t @ '' '' @ iso_clock_text t @ '' UTC''"
  using assms iso_slices [OF assms(3-5)] by (simp add: formatUtcDateTime_def Let_def)

text \<open>
  The label is the date and the clock of the instant the timestamp names: for every
  time value whose year has four digits, formatting its ISO text gives exactly the UTC date
  and time of day of that value, whatever the host does with other texts.
\<close>

lemma utc_label_of_iso:
  assumes "\<bar>t\<bar> \<le> 8640000000000000"
    and "civil_from_days (t div ms_per_day) = (y, m, d)" and "0 \<le> y" and "y \<le> 9999"
  shows "formatUtcDateTime host (Some (to_iso_string t)) =
    pad_int 4 y @ ''-'' @ pad_int 2 m @ ''-'' @ pad_int 2 d @ '' '' @ iso_clock_text t @ '' UTC''"
  using formatUtcDateTime_time [OF new_date_iso [OF assms(1)] to_iso_not_Nil assms(2-4)] assms
  by (simp add: iso_date_text_def iso_year_def)

lemma utc_label_of_iso_witness:
  "formatUtcDateTime \<lparr>legacy_parse = (\<lambda>_. None), local_offset = (\<lambda>_. 0)\<rparr>
     (Some (to_iso_string 1705314645000)) =
    pad_int 4 2024 @ ''-'' @ pad_int 2 1 @ ''-'' @ pad_int 2 15 @ '' ''
      @ iso_clock_text 1705314645000 @ '' UTC''"
proof (rule utc_label_of_iso)
  show "civil_from_days (1705314645000 div ms_per_day) = (2024, 1, 15)" by code_simp
qed simp_all

end
