(* ===== verification/PageCommon.thy ===== *)
theory PageCommon
  imports QueryHooks View Dates
begin

text \<open>
  What the pages share.  Every page file declares its own copies of these functions
  (\<open>parsePositiveInt\<close>, \<open>formatMoney\<close>, error messages, \<open>pushWithParams\<close>, the permission set, the
  arithmetic of pages); the copies agree, so they are modelled once, from the findings page,
  with the parts that differ as arguments.
\<close>

section \<open>Parameters of the address\<close>

definition parsePositiveInt :: "string option \<Rightarrow> num \<Rightarrow> num" where
  "parsePositiveInt value fallback =
     (if orelse value [] = [] then fallback
      else let parsed = parse_int10 (orelse value [])
           in if \<not> is_finite_num parsed \<or> num_lt parsed (int_num 1) then fallback else parsed)"

definition apply_update :: "string \<times> string option \<Rightarrow> search_params \<Rightarrow> search_params" where
  "apply_update = (\<lambda>(key, value) params.
     if orelse value [] = [] then usp_delete key params else usp_set key (orelse value []) params)"

definition pushWithParams :: "string \<Rightarrow> search_params \<Rightarrow> (string \<times> string option) list \<Rightarrow> string" where
  "pushWithParams path searchParams updates =
     (let params = fold apply_update updates (usp_parse (usp_serialize searchParams));
          query = usp_serialize params
      in if query \<noteq> [] then path @ ''?'' @ query else path)"

text \<open>\<open>text || null\<close> and \<open>text.trim() || null\<close> as the value of an update.\<close>

definition some_text :: "string \<Rightarrow> string option" where
  "some_text s = (if s = [] then None else Some s)"

section \<open>Pages\<close>

record paging =
  pg_page :: num
  pg_limit :: num
  pg_total :: num

definition page_offset :: "num \<Rightarrow> num \<Rightarrow> num" where
  "page_offset page limit = num_mul (num_sub page (int_num 1)) limit"

definition totalPages :: "num \<Rightarrow> num \<Rightarrow> num" where
  "totalPages count limit = num_max (int_num 1) (num_ceil (num_div count limit))"

definition canPrev :: "paging \<Rightarrow> bool" where
  "canPrev p = num_lt (int_num 1) (pg_page p)"

definition canNext :: "paging \<Rightarrow> bool" where
  "canNext p = num_lt (pg_page p) (totalPages (pg_total p) (pg_limit p))"

definition pageStart :: "paging \<Rightarrow> num" where
  "pageStart p =
     (if num_eq (pg_total p) (int_num 0) then int_num 0
      else num_add (page_offset (pg_page p) (pg_limit p)) (int_num 1))"

definition pageEnd :: "paging \<Rightarrow> nat \<Rightarrow> num" where
  "pageEnd p shown =
     (if num_eq (pg_total p) (int_num 0) then int_num 0
      else num_min (num_add (page_offset (pg_page p) (pg_limit p)) (int_num (int shown))) (pg_total p))"

definition setPage_updates :: "num \<Rightarrow> (string \<times> string option) list" where
  "setPage_updates nextPage = [(''page'', Some (num_to_string (num_max (int_num 1) nextPage)))]"

section \<open>Texts\<close>

definition formatMoney :: "string \<Rightarrow> jsval \<Rightarrow> string" where
  "formatMoney infinity_text value =
     (if value = JNull \<or> value = JNum NaN then ''-'' else intl_usd infinity_text (to_num value))"

text \<open>A value of type \<open>number\<close>.\<close>

definition number_of :: "jsval \<Rightarrow> num" where
  "number_of v = (case v of JNum x \<Rightarrow> x | _ \<Rightarrow> NaN)"

definition formatPercent :: "jsval \<Rightarrow> string" where
  "formatPercent value =
     (if value = JNull \<or> value = JNum NaN then ''-'' else to_fixed 1 (number_of value) @ ''%'')"

text \<open>The message of a failed call: a prefix, and what there is when the error says nothing.\<close>

definition apiErrorMessage :: "string \<Rightarrow> string \<Rightarrow> thrown \<Rightarrow> string" where
  "apiErrorMessage what otherwise error =
     (case error of
        ApiError status code message \<Rightarrow>
          what @ '' ['' @ int_to_string status @ (if truthy code then '' ('' @ to_str code @ '')'' else [])
            @ '']: '' @ message
      | JsError message \<Rightarrow> what @ '': '' @ message
      | ThrownValue _ \<Rightarrow> otherwise)"

text \<open>A number or a text in the place of a child.\<close>

fun child_text :: "jsval \<Rightarrow> string" where
  "child_text (JStr s) = s"
| "child_text (JNum x) = num_to_string x"
| "child_text _ = []"

abbreviation text_or_dash :: "jsval \<Rightarrow> string" where
  "text_or_dash v \<equiv> child_text (coalesce v (JStr ''-''))"

section \<open>Permissions and queries\<close>

text \<open>\<open>new Set(auth.user?.permissions ?? [])\<close>, for permissions of the declared type.\<close>

definition permission_list :: "jsval \<Rightarrow> jsval list" where
  "permission_list user = (case coalesce (get user ''permissions'') (JArr []) of JArr ps \<Rightarrow> ps | _ \<Rightarrow> [])"

definition has_permission :: "jsval \<Rightarrow> string \<Rightarrow> bool" where
  "has_permission user p \<longleftrightarrow> JStr p \<in> set (permission_list user)"

definition allowed :: "jsval \<Rightarrow> string \<Rightarrow> bool" where
  "allowed user p \<longleftrightarrow> has_permission user ''admin:full'' \<or> has_permission user p"

text \<open>
  What a page reads of a query: \<open>data\<close> is \<open>undefined\<close> until there is some.  The error is one the API
  client throws, so that testing it for truth, as the pages do, is testing whether there is one.
\<close>

record query_view =
  qv_data :: jsval
  qv_isLoading :: bool
  qv_error :: "thrown option"

definition qv_items :: "query_view \<Rightarrow> jsval list" where
  "qv_items q = (case coalesce (get (qv_data q) ''items'') (JArr []) of JArr vs \<Rightarrow> vs | _ \<Rightarrow> [])"

definition qv_total :: "query_view \<Rightarrow> num" where
  "qv_total q = (case coalesce (get (qv_data q) ''total'') (num_lit 0) of JNum x \<Rightarrow> x | _ \<Rightarrow> NaN)"

text \<open>Where the guard of every page sends the browser, if anywhere.\<close>

definition login_redirect :: "tenant_scope option \<Rightarrow> bool \<Rightarrow> bool \<Rightarrow> string option" where
  "login_redirect scope authLoading authenticated =
     (if scope = None then Some ''/login''
      else if \<not> authLoading \<and> \<not> authenticated then Some ''/login'' else None)"

section \<open>What a page shows and raises\<close>

text \<open>The dates of the host, and the sign its currency format has for an infinite amount.\<close>

record ui_host =
  uh_dates :: date_host
  uh_infinity :: string

definition money :: "ui_host \<Rightarrow> jsval \<Rightarrow> string" where
  "money host value = formatMoney (uh_infinity host) value"

definition text_option :: "jsval \<Rightarrow> string option" where
  "text_option v = (case v of JStr s \<Rightarrow> Some s | _ \<Rightarrow> None)"

definition date_label :: "ui_host \<Rightarrow> jsval \<Rightarrow> string" where
  "date_label host value = formatUtcDateTime (uh_dates host) (text_option value)"

text \<open>
  The events every page knows: going to another page, signing out, changing parameters of the
  address, turning pages, fetching again; and those of its own.
\<close>

datatype 'x page_event =
    Go string
  | Logout
  | Update "(string \<times> string option) list"
  | SetPage num
  | Refetch
  | Own 'x

definition event_pushes :: "string \<Rightarrow> search_params \<Rightarrow> 'x page_event \<Rightarrow> string option" where
  "event_pushes path searchParams e =
     (case e of
        Go p \<Rightarrow> Some p
      | Update us \<Rightarrow> Some (pushWithParams path searchParams us)
      | SetPage n \<Rightarrow> Some (pushWithParams path searchParams (setPage_updates n))
      | _ \<Rightarrow> None)"

text \<open>On the pages that have no \<open>pushWithParams\<close>: only the paths of their buttons and links.\<close>

definition plain_pushes :: "'x page_event \<Rightarrow> string option" where
  "plain_pushes e = (case e of Go p \<Rightarrow> Some p | _ \<Rightarrow> None)"

definition nav_button :: "bool \<Rightarrow> string \<Rightarrow> string \<Rightarrow> 'x page_event jsx" where
  "nav_button shown path label = show_if shown (button False (Go path) label)"

definition link :: "bool \<Rightarrow> string \<Rightarrow> string \<Rightarrow> 'x page_event jsx" where
  "link shown path label = show_if shown (El ''a'' [Prop ''href'' path, On ''onClick'' (\<lambda>_. Go path)] [Txt label])"

text \<open>The line under a list with the two page buttons.\<close>

definition range_text :: "paging \<Rightarrow> nat \<Rightarrow> string" where
  "range_text p shown = num_to_string (pageStart p) @ ''-'' @ num_to_string (pageEnd p shown)"

definition pager :: "paging \<Rightarrow> nat \<Rightarrow> 'x page_event jsx" where
  "pager p shown =
     El ''div'' []
       [El ''p'' [] [Txt (''Showing '' @ range_text p shown @ '' of '' @ num_to_string (pg_total p))],
        button (\<not> canPrev p) (SetPage (num_sub (pg_page p) (int_num 1))) ''Previous'',
        El ''span'' [] [Txt (''Page '' @ num_to_string (pg_page p) @ '' / '' @ num_to_string (totalPages (pg_total p) (pg_limit p)))],
        button (\<not> canNext p) (SetPage (num_add (pg_page p) (int_num 1))) ''Next'']"

text \<open>On other pages the buttons push the number themselves: \<open>Next\<close> without a lower bound.\<close>

definition push_pager :: "paging \<Rightarrow> nat \<Rightarrow> 'x page_event jsx" where
  "push_pager g shown =
     El ''div'' []
       [El ''p'' [] [Txt (''Showing '' @ range_text g shown @ '' of '' @ num_to_string (pg_total g))],
        button (\<not> canPrev g) (SetPage (num_sub (pg_page g) (int_num 1))) ''Previous'',
        El ''span'' [] [Txt (''Page '' @ num_to_string (pg_page g) @ '' / '' @ num_to_string (totalPages (pg_total g) (pg_limit g)))],
        button (\<not> canNext g) (Update [(''page'', Some (num_to_string (num_add (pg_page g) (int_num 1))))]) ''Next'']"

lemma clickable_pager [simp, view_simps]:
  "clickable (pager p shown) =
     (if canPrev p then [SetPage (num_sub (pg_page p) (int_num 1))] else [])
     @ (if canNext p then [SetPage (num_add (pg_page p) (int_num 1))] else [])"
  by (simp add: pager_def)

lemma clickable_nav_button [simp, view_simps]: "clickable (nav_button c p l) = (if c then [Go p] else [])"
  by (simp add: nav_button_def)

text \<open>\<open>String(v ?? "").trim()\<close>\<close>

definition trimmed_text :: "jsval \<Rightarrow> string" where
  "trimmed_text v = trim (to_str (coalesce v (JStr [])))"

definition param :: "string \<Rightarrow> search_params \<Rightarrow> string" where
  "param k sp = orelse (usp_get k sp) []"

text \<open>An input that follows a parameter of the address: its effect runs when the parameter has changed between two renders.\<close>

definition follow :: "string \<Rightarrow> search_params \<Rightarrow> search_params \<Rightarrow> string \<Rightarrow> string" where
  "follow k old new value = (if param k new = param k old then value else param k new)"

definition array_items :: "jsval \<Rightarrow> jsval list" where
  "array_items v = (case v of JArr vs \<Rightarrow> vs | _ \<Rightarrow> [])"

text \<open>A choice that sets a parameter and goes back to the first page.\<close>

definition set_filter :: "string \<Rightarrow> string \<Rightarrow> 'x page_event" where
  "set_filter key value = Update [(key, some_text value), (''page'', Some ''1'')]"

definition page_size_select :: "num \<Rightarrow> 'x page_event jsx" where
  "page_size_select limit =
     select ''Page size'' (num_to_string limit) (\<lambda>v. Update [(''limit'', Some v), (''page'', Some ''1'')])
       [(''25'', ''25''), (''50'', ''50''), (''100'', ''100'')]"

definition query_error :: "(thrown \<Rightarrow> string) \<Rightarrow> query_view \<Rightarrow> 'x page_event jsx" where
  "query_error message q =
     (case qv_error q of
        None \<Rightarrow> Nothing
      | Some e \<Rightarrow> El ''div'' [] [El ''p'' [] [Txt (message e)], button False Refetch ''Retry''])"

definition page_error :: "string \<Rightarrow> thrown \<Rightarrow> string" where
  "page_error what = apiErrorMessage what what"

section \<open>The contract of the parameters\<close>

locale param_store =
  fixes lookup :: "'k \<Rightarrow> 'p \<Rightarrow> 'v option"
    and assign :: "'k \<Rightarrow> 'v \<Rightarrow> 'p \<Rightarrow> 'p"
    and delete :: "'k \<Rightarrow> 'p \<Rightarrow> 'p"
  assumes lookup_assign: "lookup k' (assign k v p) = (if k' = k then Some v else lookup k' p)"
    and lookup_delete: "lookup k' (delete k p) = (if k' = k then None else lookup k' p)"
begin

definition update :: "'k \<times> 'v option \<Rightarrow> 'p \<Rightarrow> 'p" where
  "update = (\<lambda>(k, v) p. case v of None \<Rightarrow> delete k p | Some w \<Rightarrow> assign k w p)"

lemma lookup_update: "lookup k' (update (k, v) p) = (if k' = k then v else lookup k' p)"
  by (cases v) (simp_all add: update_def lookup_assign lookup_delete)

text \<open>A batch of updates to different keys sets those and leaves the others.\<close>

lemma lookup_updates:
  assumes "distinct (map fst us)"
  shows "lookup k (fold update us p) = (case map_of us k of Some v \<Rightarrow> v | None \<Rightarrow> lookup k p)"
  using assms
proof (induction us arbitrary: p)
  case (Cons u us)
  obtain k' v where u: "u = (k', v)" by (cases u)
  with Cons.prems have "map_of us k' = None" by (simp add: map_of_eq_None_iff)
  with Cons show ?case by (auto simp: u lookup_update split: option.splits)
qed simp

end

interpretation params: param_store usp_get usp_set usp_delete
  by unfold_locales simp_all

lemma apply_update_eq: "apply_update (k, v) = params.update (k, if orelse v [] = [] then None else v)"
  by (cases v) (auto simp: apply_update_def params.update_def fun_eq_iff)

lemma fold_apply_update: "fold apply_update us = fold params.update (map (\<lambda>(k, v). (k, if orelse v [] = [] then None else v)) us)"
proof (induction us)
  case (Cons u us)
  then show ?case by (cases u) (simp add: apply_update_eq)
qed simp

text \<open>What the address says after a push, for every parameter.\<close>

lemma pushed_param:
  assumes "distinct (map fst us)"
  shows "usp_get k (fold apply_update us sp) =
    (case map_of us k of
       Some v \<Rightarrow> if orelse v [] = [] then None else v
     | None \<Rightarrow> usp_get k sp)"
proof -
  let ?us = "map (\<lambda>(k, v). (k, if orelse v [] = [] then None else v)) us"
  have d: "distinct (map fst ?us)" using assms by (simp add: comp_def case_prod_unfold)
  have "map_of ?us k = map_option (\<lambda>v. if orelse v [] = [] then None else v) (map_of us k)"
    by (induction us) auto
  with params.lookup_updates [OF d] show ?thesis
    by (simp add: fold_apply_update split: option.split)
qed

lemma pushWithParams_eq:
  "pushWithParams path sp us =
     (let query = usp_serialize (fold apply_update us sp) in if query \<noteq> [] then path @ ''?'' @ query else path)"
  by (simp add: pushWithParams_def usp_roundtrip)

text \<open>
  C23. Navigation keeps the rest of the address: the page is sent to its own path with a query
  string that decodes to the current parameters in which exactly the updated ones differ, set
  to their new text or gone when that is empty; there is no question mark when nothing is left.
\<close>

theorem push_changes_only_updates:
  assumes "distinct (map fst updates)"
  shows "\<exists>query. pushWithParams path searchParams updates = (if query = [] then path else path @ ''?'' @ query)
    \<and> usp_get k (usp_parse query) =
        (case map_of updates k of
           Some v \<Rightarrow> if orelse v [] = [] then None else v
         | None \<Rightarrow> usp_get k searchParams)"
  by (intro exI [of _ "usp_serialize (fold apply_update updates searchParams)"])
    (simp add: pushWithParams_eq Let_def usp_roundtrip pushed_param [OF assms])

theorem push_changes_only_updates_witness:
  "\<exists>query. pushWithParams ''/findings'' [(''q'', ''idle''), (''page'', ''4'')] [(''state'', Some ''open''), (''page'', Some ''1'')]
      = (if query = [] then ''/findings'' else ''/findings'' @ ''?'' @ query)
    \<and> usp_get ''q'' (usp_parse query) = Some ''idle''"
  using push_changes_only_updates [of "[(''state'', Some ''open''), (''page'', Some ''1'')]" "''/findings''"
      "[(''q'', ''idle''), (''page'', ''4'')]" "''q''"]
  by (simp add: usp_get_def)

section \<open>Facts about pages\<close>

lemma is_finite_int [simp]: "is_finite_num (int_num n)"
  by (simp add: is_finite_num_def)

lemma parsePositiveInt_range:
  assumes "1 \<le> d"
  shows "\<exists>x. parsePositiveInt v (int_num d) = Fin x \<and> 1 \<le> x"
proof (cases "orelse v [] = [] \<or> \<not> is_finite_num (parse_int10 (orelse v []))
    \<or> num_lt (parse_int10 (orelse v [])) (int_num 1)")
  case True
  then have "parsePositiveInt v (int_num d) = int_num d"
    by (auto simp: parsePositiveInt_def Let_def simp del: of_int_1)
  with assms show ?thesis by simp
next
  case False
  then obtain x where x: "parse_int10 (orelse v []) = Fin x" by (auto simp: is_finite_num_def split: num.splits)
  with False have "1 \<le> x" by simp
  with False x show ?thesis by (simp add: parsePositiveInt_def Let_def is_finite_num_def)
qed

lemma parsePositiveInt_text:
  assumes "1 \<le> n" and "n \<le> 2 ^ 53"
  shows "parsePositiveInt (Some (num_to_string (int_num n))) fallback = int_num n"
proof -
  obtain k where k: "n = int k" using assms(1) by (metis nonneg_int_cases order_trans zero_le_one)
  have s: "num_to_string (int_num n) = nat_to_string k"
    using assms num_to_string_nat [of k] by (simp add: k of_nat_le_iff [symmetric] del: of_nat_le_iff)
  have r: "parse_int10 (nat_to_string k) = int_num n"
    using parse_int10_nat [of k] rnd_int [of n] assms by (simp add: k)
  show ?thesis using assms(1) by (simp add: parsePositiveInt_def s r)
qed

text \<open>
  The page number and the page size of an address are always usable: whatever the parameter
  says, the parsed value is a finite number of at least one (the default when it says nothing
  usable), and a page number the code itself wrote into the address is read back exactly.
\<close>

theorem page_param_usable:
  assumes "1 \<le> d" and "1 \<le> n" and "n \<le> 2 ^ 53"
  shows "(\<exists>x. parsePositiveInt v (int_num d) = Fin x \<and> 1 \<le> x)
    \<and> parsePositiveInt (usp_get ''page'' (usp_parse (usp_serialize
         (fold apply_update (setPage_updates (int_num n)) sp)))) (int_num d) = int_num n"
proof -
  have "num_max (int_num 1) (int_num n) = int_num n" using assms(2) by (simp add: num_max_int max_def del: of_int_1)
  moreover have "num_to_string (int_num n) \<noteq> []"
    using assms(2,3) num_to_string_int [of n] by simp
  ultimately have "usp_get ''page'' (fold apply_update (setPage_updates (int_num n)) sp) = Some (num_to_string (int_num n))"
    using pushed_param [of "setPage_updates (int_num n)" "''page''" sp] by (simp add: setPage_updates_def del: of_int_1)
  then show ?thesis
    using parsePositiveInt_range [OF assms(1)] parsePositiveInt_text [OF assms(2,3)] by (simp add: usp_roundtrip)
qed

theorem page_param_usable_witness:
  "parsePositiveInt (usp_get ''page'' (usp_parse (usp_serialize
       (fold apply_update (setPage_updates (int_num 7)) [])))) (int_num 1) = int_num 7"
  using page_param_usable [of 1 7 None "[]"] by simp

lemma totalPages_int:
  assumes "0 \<le> t" and "t < 2 ^ 52" and "0 < l" and "l < 2 ^ 52"
  shows "totalPages (int_num t) (int_num l) = int_num (max 1 \<lceil>(of_int t :: rat) / of_int l\<rceil>)"
  using ceil_div_int [OF assms] num_max_int [of 1] by (simp add: totalPages_def)

lemma less_total_pages:
  assumes "0 < l"
  shows "p < \<lceil>(of_int t :: rat) / of_int l\<rceil> \<longleftrightarrow> p * l < t"
proof -
  have "p < \<lceil>(of_int t :: rat) / of_int l\<rceil> \<longleftrightarrow> (of_int p :: rat) < of_int t / of_int l"
    by (simp add: less_ceiling_iff)
  also have "\<dots> \<longleftrightarrow> (of_int (p * l) :: rat) < of_int t" using assms by (simp add: pos_less_divide_eq)
  finally show ?thesis by (simp only: of_int_less_iff)
qed

abbreviation int_page :: "int \<Rightarrow> int \<Rightarrow> int \<Rightarrow> paging" where
  "int_page p l t \<equiv> \<lparr>pg_page = int_num p, pg_limit = int_num l, pg_total = int_num t\<rparr>"

lemma page_offset_int:
  assumes "1 \<le> p" and "1 \<le> l" and "p * l \<le> 2 ^ 52"
  shows "page_offset (int_num p) (int_num l) = int_num ((p - 1) * l)"
proof -
  have "0 \<le> (p - 1) * l" using assms by simp
  moreover have "(p - 1) * l \<le> 2 ^ 52" using assms by (simp add: left_diff_distrib)
  moreover have "p \<le> p * l" using assms by (simp add: mult_le_cancel_left1)
  then have "p \<le> 2 ^ 52" using assms(3) by simp
  ultimately show ?thesis
    using assms(1) num_sub_int [of p 1] num_mul_int [of "p - 1" l] by (simp add: page_offset_def)
qed

text \<open>
  C21. The pages of a list cover it without gap or overlap: on a page that has entries, the shown
  range starts right after the entries of the pages before it and ends with the last entry
  of the page; \<open>Next\<close> is enabled exactly when entries are left, and then the next page
  starts where this one ended; \<open>Previous\<close> is enabled on every page but the first.
\<close>

theorem pages_tile_the_list:
  assumes "1 \<le> p" and "1 \<le> l" and "l < 2 ^ 52" and "p * l \<le> 2 ^ 52" and "t < 2 ^ 52" and "(p - 1) * l < t"
  defines "here \<equiv> int_page p l t" and "shown \<equiv> nat (min l (t - (p - 1) * l))"
  shows "pageStart here = int_num ((p - 1) * l + 1)
    \<and> pageEnd here shown = int_num (min (p * l) t)
    \<and> (canPrev here \<longleftrightarrow> 1 < p) \<and> (canNext here \<longleftrightarrow> p * l < t)
    \<and> (canNext here \<and> (p + 1) * l \<le> 2 ^ 52 \<longrightarrow>
         pageStart (int_page (p + 1) l t) = num_add (pageEnd here shown) (int_num 1))"
proof -
  have o: "0 \<le> (p - 1) * l" "(p - 1) * l + l = p * l" using assms(1,2) by (simp_all add: left_diff_distrib)
  have t0: "0 < t" using o assms(6) by linarith
  have off: "page_offset (int_num p) (int_num l) = int_num ((p - 1) * l)" by (rule page_offset_int [OF assms(1,2,4)])
  have "(p - 1) * l \<le> 2 ^ 52" using o assms(2,4) by linarith
  then have "num_add (int_num ((p - 1) * l)) (int_num 1) = int_num ((p - 1) * l + 1)"
    using o(1) by (intro num_add_int) simp
  then have start: "pageStart here = int_num ((p - 1) * l + 1)"
    using t0 by (simp add: pageStart_def here_def off num_eq_def del: num_add.simps)
  have shown: "int shown = min l (t - (p - 1) * l)" using assms(2,6) by (simp add: shown_def)
  have "num_add (int_num ((p - 1) * l)) (int_num (int shown)) = int_num ((p - 1) * l + int shown)"
  proof (rule num_add_int)
    have "int shown \<le> l" using shown by simp
    moreover have "0 \<le> int shown" by (rule of_nat_0_le_iff)
    ultimately show "\<bar>(p - 1) * l + int shown\<bar> \<le> 2 ^ 53" using o assms(4) by simp
  qed
  moreover have "min ((p - 1) * l + int shown) t = min (p * l) t" using o by (simp add: shown min_def)
  ultimately have fin: "pageEnd here shown = int_num (min (p * l) t)"
    using t0 num_min_int [of "(p - 1) * l + int shown" t] by (simp add: pageEnd_def here_def off num_eq_def)
  have l0: "0 < l" using assms(2) by simp
  have nxt: "canNext here \<longleftrightarrow> p * l < t"
  proof -
    have "canNext here \<longleftrightarrow> p < max 1 \<lceil>(of_int t :: rat) / of_int l\<rceil>"
      using totalPages_int [of t l] t0 assms(3,5) l0 by (simp add: canNext_def here_def del: num_lt.simps)
    also have "\<dots> \<longleftrightarrow> p * l < t" 
      using assms(1) unfolding less_max_iff_disj less_total_pages [OF l0] by linarith
    finally show ?thesis .
  qed
  have prev: "canPrev here \<longleftrightarrow> 1 < p" by (simp add: canPrev_def here_def)
  have "pageStart (int_page (p + 1) l t) = num_add (pageEnd here shown) (int_num 1)"
    if "canNext here" "(p + 1) * l \<le> 2 ^ 52"
  proof -
    have "page_offset (int_num (p + 1)) (int_num l) = int_num (p * l)"
      using page_offset_int [of "p + 1" l] assms(1,2) that(2) by simp
    moreover have "min (p * l) t = p * l" using that(1) nxt by simp
    ultimately show ?thesis using t0 by (simp add: pageStart_def fin num_eq_def)
  qed
  then show ?thesis using start fin nxt prev by blast
qed

theorem pages_tile_the_list_witness:
  "pageStart (int_page 3 50 120) = int_num 101 \<and> pageEnd (int_page 3 50 120) 20 = int_num 120 \<and> \<not> canNext (int_page 3 50 120)"
  using pages_tile_the_list [of 3 50 120] by simp

text \<open>A host for examples.\<close>

definition sample_host :: ui_host where
  "sample_host = \<lparr>uh_dates = \<lparr>legacy_parse = (\<lambda>_. None), local_offset = (\<lambda>_. 0)\<rparr>, uh_infinity = ''$Infinity''\<rparr>"

end
