(* ===== verification/LoginPage.thy ===== *)
theory LoginPage
  imports Auth PageCommon
begin

text \<open>
  \<open>app/login/page.tsx\<close>: the form that signs a user in.  Its state and its submission are in the theory
  of the authentication; here is what it shows and what typing does.
\<close>

datatype login_event =
    SetTenant string
  | SetWorkspace string
  | SetEmail string
  | SetPassword string
  | SubmitLogin

definition required_input :: "string \<Rightarrow> string \<Rightarrow> string \<Rightarrow> (string \<Rightarrow> login_event) \<Rightarrow> login_event page_event jsx" where
  "required_input kind label value change =
     El ''label'' [] [El ''span'' [] [Txt label],
       El ''input'' [Prop ''type'' kind, Prop ''value'' value, Flag ''required'' True, On ''onChange'' (\<lambda>v. Own (change v))] []]"

definition login_form_view :: "login_form \<Rightarrow> bool \<Rightarrow> login_event page_event jsx" where
  "login_form_view form isLoading =
     El ''form'' [On ''onSubmit'' (\<lambda>_. Own SubmitLogin)]
       [El ''h2'' [] [Txt ''Sign in''], El ''p'' [] [Txt ''Enter your tenant/workspace and account credentials.''],
        required_input ''text'' ''Tenant ID'' (lf_tenantId form) SetTenant,
        required_input ''text'' ''Workspace'' (lf_workspace form) SetWorkspace,
        required_input ''email'' ''Email'' (lf_email form) SetEmail,
        required_input ''password'' ''Password'' (lf_password form) SetPassword,
        (if orelse (lf_submitError form) [] = [] then Nothing else El ''p'' [] [Txt (orelse (lf_submitError form) [])]),
        El ''button'' [Prop ''type'' ''submit'', Flag ''disabled'' (submit_disabled form isLoading)] [Txt (submit_label form)],
        El ''p'' [] [Txt ''Secure session cookie authentication with scoped tenant/workspace validation.'']]"

definition feature :: "string \<times> string list \<Rightarrow> 'e jsx" where
  "feature = (\<lambda>(title, lines). El ''article'' [] (map (\<lambda>l. El ''p'' [] [Txt l]) (title # lines)))"

text \<open>The long dash of the last feature is no character of one byte; it stands as \<open>--\<close> here.\<close>

definition login_intro :: "login_event page_event jsx" where
  "login_intro =
     El ''section'' []
       ([El ''p'' [] [Txt ''McKay System 1.0''], El ''h1'' [] [Txt ''SaaS FinOps Platform, in real time.''],
         El ''p'' [] [Txt ''Detect waste, enforce policy, and execute remediations with deterministic, tenant-safe operations.'']]
        @ map feature
           [(''Detect'', [''Scans AWS assets & cost signals'', ''Produces consistent, explainable findings'']),
            (''Prioritize'', [''Correlates & ranks by impact & risk'', ''Provide the tool you need for FinOps'']),
            (''Governance & Audit'',
             [''Ownership routing, SLA aging, audit trail (immutable findings + state history) -- built for real ops teams''])])"

definition LoginPage :: "login_form \<Rightarrow> bool \<Rightarrow> login_event page_event jsx" where
  "LoginPage form isLoading = El ''main'' [] [login_intro, login_form_view form isLoading]"

definition login_step :: "login_event \<Rightarrow> login_form \<Rightarrow> login_form" where
  "login_step e form =
     (case e of
        SetTenant v \<Rightarrow> form\<lparr>lf_tenantId := v\<rparr>
      | SetWorkspace v \<Rightarrow> form\<lparr>lf_workspace := v\<rparr>
      | SetEmail v \<Rightarrow> form\<lparr>lf_email := v\<rparr>
      | SetPassword v \<Rightarrow> form\<lparr>lf_password := v\<rparr>
      | SubmitLogin \<Rightarrow> form\<lparr>lf_submitError := None, lf_isSubmitting := True\<rparr>)"

end
