(* ===== verification/ResourceKey.thy ===== *)
theory ResourceKey
  imports JsValue UrlParams
begin

text \<open>
  \<open>lib/graph/resourceKey.ts\<close>: the key of a resource in the graph of the backend,
  \<open>aws:account:region:service:type:id\<close>, computed from the payload of a finding or of a
  recommendation.  The backend addresses the nodes of its graph by the same key, so what
  matters is that every spelling of a resource type and of a service arrives at one text.
\<close>

section \<open>The code\<close>

definition asRecord :: "jsval \<Rightarrow> jsval" where
  "asRecord v =
     (if \<not> truthy v then JNull
      else case v of
             JObj _ \<Rightarrow> v
           | _ \<Rightarrow> JNull)"

fun firstNonEmptyText :: "jsval list \<Rightarrow> string option" where
  "firstNonEmptyText [] = None"
| "firstNonEmptyText (v # vs) =
     (let txt_v = trim (to_str (coalesce v (JStr [])))
      in if txt_v \<noteq> [] then Some txt_v else firstNonEmptyText vs)"

text \<open>The resource type and the service.\<close>

definition inferResourceKind :: "string option \<Rightarrow> string option \<Rightarrow> string \<times> string" where
  "inferResourceKind resourceId resourceArn =
     (let arnText = to_lower (trim (orelse resourceArn []));
          resourceText = trim (orelse resourceId [])
      in if arnText \<noteq> [] \<and> contains_str arnText '':elasticloadbalancing:'' then (''load_balancer'', ''elbv2'')
         else if arnText \<noteq> [] \<and> contains_str arnText '':lambda:'' then (''function'', ''lambda'')
         else if arnText \<noteq> [] \<and> contains_str arnText '':rds:'' then (''db_instance'', ''rds'')
         else if arnText \<noteq> [] \<and> contains_str arnText '':s3:::'' then (''bucket'', ''s3'')
         else if starts_with resourceText ''i-'' then (''instance'', ''ec2'')
         else if starts_with resourceText ''vol-'' then (''volume'', ''ec2'')
         else if starts_with resourceText ''vpc-'' then (''vpc'', ''vpc'')
         else if starts_with resourceText ''subnet-'' then (''subnet'', ''vpc'')
         else if starts_with resourceText ''nat-'' then (''nat_gateway'', ''vpc'')
         else if starts_with resourceText ''sg-'' then (''security_group'', ''ec2'')
         else if starts_with resourceText ''rtb-'' then (''route_table'', ''vpc'')
         else if starts_with resourceText ''tg-'' then (''target_group'', ''elbv2'')
         else (''resource'', ''unknown''))"

text \<open>
  \<open>aliases[name] ?? name\<close>, as text.  The alias table is an object literal, so two lower-case
  names that are not in it are found on \<open>Object.prototype\<close>: \<open>constructor\<close> is a function and
  \<open>__proto__\<close> an object, and the callers turn them into text.
\<close>

definition alias_lookup :: "(string \<times> string) list \<Rightarrow> string \<Rightarrow> string" where
  "alias_lookup aliases name =
     (case map_of aliases name of
        Some s \<Rightarrow> s
      | None \<Rightarrow>
          if name = ''constructor'' then ''function Object() { [native code] }''
          else if name = ''__proto__'' then ''[object Object]''
          else name)"

definition type_aliases :: "(string \<times> string) list" where
  "type_aliases =
     [(''ebs_volume'', ''volume''), (''ebs_snapshot'', ''snapshot''), (''s3_bucket'', ''bucket''),
      (''ec2_instance'', ''instance''), (''security_group'', ''security_group''),
      (''nat_gateway'', ''nat_gateway''), (''db_instance'', ''db_instance'')]"

definition type_text :: "string option \<Rightarrow> string" where
  "type_text resourceType =
     (let s = replace_char (CHR ''-'') ''_'' (to_lower (trim (orelse resourceType [])))
      in if s = [] then ''resource'' else s)"

definition normalizeResourceType :: "string option \<Rightarrow> string" where
  "normalizeResourceType resourceType = alias_lookup type_aliases (type_text resourceType)"

definition service_aliases :: "(string \<times> string) list" where
  "service_aliases =
     [(''amazonec2'', ''ec2''), (''ec2'', ''ec2''), (''vpc'', ''vpc''), (''amazons3'', ''s3''),
      (''s3'', ''s3''), (''elasticloadbalancingv2'', ''elbv2''), (''elbv2'', ''elbv2''),
      (''rds'', ''rds''), (''awslambda'', ''lambda''), (''lambda'', ''lambda'')]"

definition service_text :: "string option \<Rightarrow> string" where
  "service_text service =
     (let s = filter (\<lambda>c. \<not> is_ws c) (to_lower (trim (orelse service [])))
      in if s = [] then ''unknown'' else s)"

definition normalizeService :: "string option \<Rightarrow> string option \<Rightarrow> string" where
  "normalizeService service resourceType =
     (let normalized = service_text service;
          normalizedType = normalizeResourceType resourceType
      in if normalizedType \<in> {''vpc'', ''subnet'', ''nat_gateway'', ''route_table''} then ''vpc''
         else if normalizedType \<in> {''instance'', ''volume'', ''snapshot'', ''security_group''} then ''ec2''
         else if normalizedType = ''bucket'' then ''s3''
         else if normalizedType \<in> {''load_balancer'', ''target_group''} then ''elbv2''
         else if normalizedType = ''db_instance'' then ''rds''
         else if normalizedType = ''function'' then ''lambda''
         else alias_lookup service_aliases normalized)"

record key_fallback =
  fb_accountId :: "string option"
  fb_region :: "string option"
  fb_service :: "string option"

definition no_fallback :: key_fallback where
  "no_fallback = \<lparr>fb_accountId = None, fb_region = None, fb_service = None\<rparr>"

definition dimension_id_keys :: "string list" where
  "dimension_id_keys =
     [''resource_id'', ''instance_id'', ''bucket'', ''bucket_name'', ''db_instance_identifier'',
      ''db_cluster_identifier'', ''nat_gateway_id'', ''function_name'', ''load_balancer_name'',
      ''volume_id'', ''snapshot_id'', ''file_system_id'', ''vault_name'', ''plan_name'',
      ''cluster_name'', ''service_name'']"

definition payload_account :: "jsval \<Rightarrow> key_fallback \<Rightarrow> string option" where
  "payload_account payload fallback =
     firstNonEmptyText [get (asRecord (get payload ''scope'')) ''account_id'',
       get payload ''account_id'', js_string_or_undef (fb_accountId fallback)]"

definition payload_arn :: "jsval \<Rightarrow> string option" where
  "payload_arn payload =
     firstNonEmptyText [get (asRecord (get payload ''scope'')) ''resource_arn'', get payload ''resource_arn'']"

definition payload_resource_id :: "jsval \<Rightarrow> string option" where
  "payload_resource_id payload =
     firstNonEmptyText
       ([get (asRecord (get payload ''scope'')) ''resource_id'', get payload ''resource_id'']
        @ map (get (asRecord (get payload ''dimensions''))) dimension_id_keys)"

definition dimensions_arn :: "jsval \<Rightarrow> string option" where
  "dimensions_arn payload =
     firstNonEmptyText [get (asRecord (get payload ''dimensions'')) ''load_balancer_arn'',
       get (asRecord (get payload ''dimensions'')) ''resource_arn'']"

abbreviation or_else :: "'a option \<Rightarrow> 'a option \<Rightarrow> 'a option" where
  "or_else a b \<equiv> (case a of None \<Rightarrow> b | Some x \<Rightarrow> Some x)"

definition native_id :: "jsval \<Rightarrow> string option" where
  "native_id payload = or_else (payload_arn payload) (or_else (payload_resource_id payload) (dimensions_arn payload))"

definition key_region :: "jsval \<Rightarrow> key_fallback \<Rightarrow> string" where
  "key_region payload fallback =
     orelse (firstNonEmptyText [get (asRecord (get payload ''scope'')) ''region'', get payload ''region'',
       js_string_or_undef (fb_region fallback)]) []"

definition key_type :: "jsval \<Rightarrow> string" where
  "key_type payload =
     (let inferred = inferResourceKind (payload_resource_id payload) (or_else (payload_arn payload) (dimensions_arn payload))
      in normalizeResourceType (firstNonEmptyText
           [get (asRecord (get payload ''scope'')) ''resource_type'', get payload ''resource_type'',
            JStr (fst inferred)]))"

definition key_service :: "jsval \<Rightarrow> key_fallback \<Rightarrow> string" where
  "key_service payload fallback =
     (let inferred = inferResourceKind (payload_resource_id payload) (or_else (payload_arn payload) (dimensions_arn payload))
      in normalizeService (firstNonEmptyText
           [get (asRecord (get payload ''scope'')) ''service'', get payload ''service'',
            js_string_or_undef (fb_service fallback), JStr (snd inferred)])
           (Some (key_type payload)))"

definition graphResourceKeyFromPayload :: "jsval props option \<Rightarrow> key_fallback \<Rightarrow> string option" where
  "graphResourceKeyFromPayload payload fallback =
     (case payload of
        None \<Rightarrow> None
      | Some ps \<Rightarrow>
          (case payload_account (JObj ps) fallback of
             None \<Rightarrow> None
           | Some accountId \<Rightarrow>
               (case native_id (JObj ps) of
                  None \<Rightarrow> None
                | Some nativeId \<Rightarrow>
                    Some (''aws:'' @ accountId @ '':'' @ key_region (JObj ps) fallback @ '':''
                      @ key_service (JObj ps) fallback @ '':'' @ key_type (JObj ps) @ '':'' @ nativeId))))"

section \<open>The texts it is built from\<close>

text \<open>The first text that is not blank, trimmed.\<close>

lemma firstNonEmptyText_trimmed: "firstNonEmptyText vs = Some t \<Longrightarrow> t \<noteq> [] \<and> trim t = t"
  by (induction vs) (auto simp: Let_def split: if_splits)

lemma firstNonEmptyText_from:
  "firstNonEmptyText vs = Some t \<Longrightarrow> \<exists>v \<in> set vs. \<not> nullish v \<and> t = trim (to_str v)"
proof (induction vs)
  case (Cons v vs)
  then show ?case by (cases "nullish v") (auto simp: Let_def coalesce_def split: if_splits)
qed simp

lemma firstNonEmptyText_None:
  "firstNonEmptyText vs = None \<longleftrightarrow> (\<forall>v \<in> set vs. nullish v \<or> trim (to_str v) = [])"
  by (induction vs) (auto simp: Let_def coalesce_def)

lemma set_replace_char: "set (replace_char d r s) \<subseteq> (set s - {d}) \<union> set r"
  by (induction s) (auto simp: replace_char_def)

lemma replace_char_absent: "d \<notin> set s \<Longrightarrow> replace_char d r s = s"
  by (induction s) (auto simp: replace_char_def)

lemma replace_char_map: "replace_char d [e] s = map (\<lambda>c. if c = d then e else c) s"
  by (induction s) (auto simp: replace_char_def)

text \<open>A trimmed text stays trimmed when a character is replaced by one that is no white space.\<close>

lemma trim_hd_last: "trim s \<noteq> [] \<Longrightarrow> \<not> is_ws (hd (trim s)) \<and> \<not> is_ws (last (trim s))"
proof -
  assume ne: "trim s \<noteq> []"
  have "\<not> is_ws (hd (trim_start s))"
    using ne by (intro hd_trim_start) (auto simp: trim_def)
  moreover have "hd (trim s) = hd (trim_start s)"
    using hd_trim_end [of "trim_start s"] ne by (simp add: trim_def)
  moreover have "last (trim s) = hd (dropWhile is_ws (rev (trim_start s)))"
    by (simp add: trim_def trim_end_def last_rev)
  moreover have "dropWhile is_ws (rev (trim_start s)) \<noteq> []"
    using ne by (auto simp: trim_def trim_end_def)
  ultimately show ?thesis using hd_dropWhile by metis
qed

lemma trim_map_keeps:
  assumes "\<And>c. is_ws (f c) \<longleftrightarrow> is_ws c"
  shows "trim (map f (trim s)) = map f (trim s)"
proof (cases "trim s = []")
  case False
  then show ?thesis
    using trim_hd_last [OF False] assms by (intro trim_fix) (auto simp: hd_map last_map)
qed simp

lemma type_text_ne: "type_text t \<noteq> []"
  by (simp add: type_text_def Let_def)

definition type_char :: "char \<Rightarrow> char" where
  "type_char c = (if lower_char c = CHR ''-'' then CHR ''_'' else lower_char c)"

lemma type_char_facts:
  "type_char (type_char c) = type_char c" "is_ws (type_char c) \<longleftrightarrow> is_ws c"
proof -
  have m: "lower_char (CHR ''_'') = CHR ''_''" "\<not> is_ws (CHR ''_'')" "\<not> is_ws (CHR ''-'')"
    by (simp_all add: lower_char_def is_ws_def)
  show "type_char (type_char c) = type_char c" by (simp add: type_char_def m)
  show "is_ws (type_char c) \<longleftrightarrow> is_ws c"
    by (metis is_ws_lower_char m(2,3) type_char_def)
qed

lemma type_text_map:
  "type_text t = (let s = map type_char (trim (orelse t [])) in if s = [] then ''resource'' else s)"
  by (simp add: type_text_def replace_char_map to_lower_def comp_def type_char_def)

lemma type_text_idem: "type_text (Some (type_text t)) = type_text t"
proof (cases "trim (orelse t []) = []")
  case True
  then have "type_text t = ''resource''" by (simp add: type_text_map)
  moreover have "type_text (Some ''resource'') = ''resource''" by code_simp
  ultimately show ?thesis by simp
next
  case False
  then have e: "type_text t = map type_char (trim (orelse t []))" by (simp add: type_text_map)
  have "trim (type_text t) = type_text t"
    unfolding e by (rule trim_map_keeps) (simp add: type_char_facts)
  moreover have "map type_char (type_text t) = type_text t" by (simp add: e type_char_facts)
  ultimately show ?thesis by (simp add: type_text_map [of "Some _"] type_text_ne)
qed

lemma type_aliases_fixed:
  "(a, b) \<in> set type_aliases \<Longrightarrow> type_text (Some b) = b \<and> alias_lookup type_aliases b = b"
proof -
  assume "(a, b) \<in> set type_aliases"
  then have "b \<in> set (map snd type_aliases)" by force
  moreover have "\<forall>b \<in> set (map snd type_aliases). type_text (Some b) = b \<and> alias_lookup type_aliases b = b"
    by code_simp
  ultimately show ?thesis by blast
qed

text \<open>The names the alias tables do not answer with an entry of their own or the name itself.\<close>

definition proto_names :: "string set" where
  "proto_names = {''constructor'', ''__proto__''}"

lemma alias_lookup_cases:
  assumes "name \<notin> proto_names"
  shows "(name, alias_lookup aliases name) \<in> set aliases \<or> alias_lookup aliases name = name \<and> map_of aliases name = None"
  using assms map_of_SomeD [of aliases name]
  by (auto simp: alias_lookup_def proto_names_def split: option.splits)

lemma normalizeResourceType_fixed:
  assumes "type_text t \<notin> proto_names"
  shows "normalizeResourceType (Some (normalizeResourceType t)) = normalizeResourceType t"
  using alias_lookup_cases [OF assms, of type_aliases]
proof
  assume "(type_text t, alias_lookup type_aliases (type_text t)) \<in> set type_aliases"
  from type_aliases_fixed [OF this] show ?thesis by (simp add: normalizeResourceType_def)
next
  assume "alias_lookup type_aliases (type_text t) = type_text t \<and> map_of type_aliases (type_text t) = None"
  then show ?thesis by (simp add: normalizeResourceType_def type_text_idem)
qed

text \<open>The service, likewise.\<close>

lemma service_text_ne: "service_text s \<noteq> []"
  by (simp add: service_text_def Let_def)

lemma filter_lower: "filter (\<lambda>c. \<not> is_ws c) (to_lower s) = to_lower (filter (\<lambda>c. \<not> is_ws c) s)"
  by (induction s) (auto simp: to_lower_def)

lemma service_text_idem: "service_text (Some (service_text s)) = service_text s"
proof (cases "filter (\<lambda>c. \<not> is_ws c) (to_lower (trim (orelse s []))) = []")
  case True
  then have "service_text s = ''unknown''" by (simp add: service_text_def Let_def)
  moreover have "service_text (Some ''unknown'') = ''unknown''" by code_simp
  ultimately show ?thesis by simp
next
  case False
  define t where "t = filter (\<lambda>c. \<not> is_ws c) (to_lower (trim (orelse s [])))"
  have e: "service_text s = t" using False by (simp add: service_text_def t_def Let_def)
  have "trim t = t" by (rule trim_no_ws) (simp add: t_def)
  moreover have "to_lower t = t" by (simp add: t_def filter_lower)
  moreover have "filter (\<lambda>c. \<not> is_ws c) t = t" by (simp add: t_def)
  ultimately have "service_text (Some t) = t" using False by (simp add: service_text_def t_def [symmetric])
  then show ?thesis by (simp add: e)
qed

lemma service_aliases_fixed:
  "(a, b) \<in> set service_aliases \<Longrightarrow> service_text (Some b) = b \<and> alias_lookup service_aliases b = b"
proof -
  assume "(a, b) \<in> set service_aliases"
  then have "b \<in> set (map snd service_aliases)" by force
  moreover have "\<forall>b \<in> set (map snd service_aliases). service_text (Some b) = b \<and> alias_lookup service_aliases b = b"
    by code_simp
  ultimately show ?thesis by blast
qed

lemma service_lookup_fixed:
  assumes "service_text s \<notin> proto_names"
  defines "r \<equiv> alias_lookup service_aliases (service_text s)"
  shows "alias_lookup service_aliases (service_text (Some r)) = r"
  using alias_lookup_cases [OF assms(1), of service_aliases]
proof
  assume "(service_text s, alias_lookup service_aliases (service_text s)) \<in> set service_aliases"
  from service_aliases_fixed [OF this] show ?thesis by (simp add: r_def)
next
  assume "alias_lookup service_aliases (service_text s) = service_text s \<and> map_of service_aliases (service_text s) = None"
  then show ?thesis by (simp add: r_def service_text_idem)
qed

text \<open>
  The resource type and the service of a graph key are normal forms: normalising them again
  changes neither, whatever their case, white space and dashes were, so the same resource gets
  the same key from every payload that spells them differently.  The two names that the
  alias tables inherit from \<open>Object.prototype\<close> are the exception.
\<close>

theorem resource_kind_normal_form:
  assumes "type_text t \<notin> proto_names" and "service_text s \<notin> proto_names"
  shows "normalizeResourceType (Some (normalizeResourceType t)) = normalizeResourceType t
    \<and> normalizeService (Some (normalizeService s t)) (Some (normalizeResourceType t)) = normalizeService s t"
  using normalizeResourceType_fixed [OF assms(1)] service_lookup_fixed [OF assms(2)]
  by (simp add: normalizeService_def Let_def)

theorem resource_kind_normal_form_witness:
  "normalizeResourceType (Some ''volume'') = ''volume''
    \<and> normalizeService (Some ''ec2'') (Some ''volume'') = ''ec2''"
proof -
  have t: "type_text (Some '' EBS-Volume '') \<notin> proto_names" "service_text (Some ''Amazon EC2'') \<notin> proto_names"
    by (code_simp, code_simp)
  have v: "normalizeResourceType (Some '' EBS-Volume '') = ''volume''"
    "normalizeService (Some ''Amazon EC2'') (Some '' EBS-Volume '') = ''ec2''"
    by (code_simp, code_simp)
  show ?thesis using resource_kind_normal_form [OF t] by (simp only: v)
qed

section \<open>The key\<close>

text \<open>The places a key takes the account and the id of the resource from.\<close>

definition account_sources :: "jsval \<Rightarrow> key_fallback \<Rightarrow> jsval list" where
  "account_sources p fallback =
     [get (asRecord (get p ''scope'')) ''account_id'', get p ''account_id'',
      js_string_or_undef (fb_accountId fallback)]"

definition id_sources :: "jsval \<Rightarrow> jsval list" where
  "id_sources p =
     [get (asRecord (get p ''scope'')) ''resource_arn'', get p ''resource_arn'',
      get (asRecord (get p ''scope'')) ''resource_id'', get p ''resource_id'',
      get (asRecord (get p ''dimensions'')) ''load_balancer_arn'',
      get (asRecord (get p ''dimensions'')) ''resource_arn'']
     @ map (get (asRecord (get p ''dimensions''))) dimension_id_keys"

definition blank_value :: "jsval \<Rightarrow> bool" where
  "blank_value v \<longleftrightarrow> nullish v \<or> trim (to_str v) = []"

lemma first_None_blank: "firstNonEmptyText vs = None \<longleftrightarrow> list_all blank_value vs"
  by (simp add: firstNonEmptyText_None blank_value_def list_all_iff)

lemma payload_account_None: "payload_account p fb = None \<longleftrightarrow> list_all blank_value (account_sources p fb)"
  unfolding payload_account_def first_None_blank account_sources_def ..

lemma native_id_None: "native_id p = None \<longleftrightarrow> list_all blank_value (id_sources p)"
proof -
  have "native_id p = None \<longleftrightarrow>
      payload_arn p = None \<and> payload_resource_id p = None \<and> dimensions_arn p = None"
    by (simp add: native_id_def split: option.split)
  also have "\<dots> \<longleftrightarrow> list_all blank_value (id_sources p)"
    unfolding payload_arn_def payload_resource_id_def dimensions_arn_def first_None_blank id_sources_def
    by (simp only: list_all_append list.pred_inject simp_thms) (rule iffI; elim conjE; intro conjI; assumption)
  finally show ?thesis .
qed

text \<open>
  A payload has no graph key exactly when it is absent, or every field that may name its
  account is blank, or every field that may name the resource is blank.
\<close>

lemma graph_key_absent_iff:
  "graphResourceKeyFromPayload payload fallback = None \<longleftrightarrow>
     (case payload of
        None \<Rightarrow> True
      | Some ps \<Rightarrow> list_all blank_value (account_sources (JObj ps) fallback)
                 \<or> list_all blank_value (id_sources (JObj ps)))"
  unfolding payload_account_None [symmetric] native_id_None [symmetric]
  by (auto simp: graphResourceKeyFromPayload_def split: option.splits)

text \<open>A key can be taken apart at its colons when the fields before the id have none.\<close>

definition colon_free :: "jsval \<Rightarrow> key_fallback \<Rightarrow> bool" where
  "colon_free p fallback \<longleftrightarrow>
     (\<forall>s \<in> {orelse (payload_account p fallback) [], key_region p fallback, key_service p fallback, key_type p}.
        CHR '':'' \<notin> set s)"

lemma split_key:
  assumes "graphResourceKeyFromPayload (Some ps) fallback = Some k" and "colon_free (JObj ps) fallback"
  shows "\<exists>account nativeId. payload_account (JObj ps) fallback = Some account \<and> native_id (JObj ps) = Some nativeId
    \<and> split_on (CHR '':'') k = [''aws'', account, key_region (JObj ps) fallback, key_service (JObj ps) fallback,
        key_type (JObj ps)] @ split_on (CHR '':'') nativeId"
proof -
  obtain account nativeId where a: "payload_account (JObj ps) fallback = Some account"
    and n: "native_id (JObj ps) = Some nativeId"
    and k: "k = ''aws'' @ CHR '':'' # account @ CHR '':'' # key_region (JObj ps) fallback @ CHR '':''
      # key_service (JObj ps) fallback @ CHR '':'' # key_type (JObj ps) @ CHR '':'' # nativeId"
    using assms(1) by (auto simp: graphResourceKeyFromPayload_def split: option.splits)
  have "CHR '':'' \<notin> set account" "CHR '':'' \<notin> set ''aws''"
    using assms(2) by (simp_all add: colon_free_def a)
  then show ?thesis
    using assms(2) by (simp add: a n k split_on_append colon_free_def del: append.simps)
qed

text \<open>
  C13. Different resources do not share a graph key: two payloads with the same key name the same
  account, region, service, resource type and native id (when none of the first four
  contains a colon, which separates the fields; the native id may).
\<close>

theorem graph_key_injective:
  assumes "graphResourceKeyFromPayload (Some ps) fallback = Some k" and "colon_free (JObj ps) fallback"
    and "graphResourceKeyFromPayload (Some qs) fallback' = Some k" and "colon_free (JObj qs) fallback'"
  shows "payload_account (JObj ps) fallback = payload_account (JObj qs) fallback'
    \<and> key_region (JObj ps) fallback = key_region (JObj qs) fallback'
    \<and> key_service (JObj ps) fallback = key_service (JObj qs) fallback'
    \<and> key_type (JObj ps) = key_type (JObj qs) \<and> native_id (JObj ps) = native_id (JObj qs)"
  using split_key [OF assms(1,2)] split_key [OF assms(3,4)] join_split_on [of "CHR '':''"]
  by (metis append_Cons append_Nil list.inject)

text \<open>Two payloads of one volume, one with the fields of the scope and one flat.\<close>

definition sample_payload :: "jsval props" where
  "sample_payload =
     [(''scope'', JObj [(''account_id'', JStr ''123''), (''region'', JStr ''eu-west-1''),
        (''resource_id'', JStr ''vol-1''), (''resource_type'', JStr ''EBS-Volume''), (''service'', JStr ''AmazonEC2'')])]"

definition sample_flat_payload :: "jsval props" where
  "sample_flat_payload =
     [(''account_id'', JNum (Fin 123)), (''region'', JStr '' eu-west-1''), (''resource_id'', JStr ''vol-1'')]"

lemma sample_keys:
  "graphResourceKeyFromPayload (Some sample_payload) no_fallback = Some ''aws:123:eu-west-1:ec2:volume:vol-1''"
  "graphResourceKeyFromPayload (Some sample_flat_payload) no_fallback = Some ''aws:123:eu-west-1:ec2:volume:vol-1''"
  "colon_free (JObj sample_payload) no_fallback" "colon_free (JObj sample_flat_payload) no_fallback"
  by (code_simp, code_simp, code_simp, code_simp)

theorem graph_key_injective_witness:
  "native_id (JObj sample_payload) = native_id (JObj sample_flat_payload)
    \<and> key_type (JObj sample_payload) = key_type (JObj sample_flat_payload)"
  using graph_key_injective [OF sample_keys(1,3,2,4)] by blast

end
