(* ===== verification/FindingsHooks.thy ===== *)
theory FindingsHooks
  imports QueryHooks
begin

text \<open>
  The hooks that read findings and the resource graph: \<open>hooks/useFindings.ts\<close>,
  \<open>hooks/useFindingGraphContext.ts\<close> and \<open>hooks/useRunGraphContextLatest.ts\<close>, with the
  types they declare.  The parameter of a hook that may be left out is an option.
\<close>

section \<open>Findings\<close>

definition FindingItem :: tstype where
  "FindingItem = TInterface
     (typed_fields TString [''tenant_id'', ''workspace'', ''fingerprint''] @ field ''run_id'' (nullable TString)
      @ typed_fields TString [''check_id'', ''service'', ''severity'', ''title'']
      @ field ''estimated_monthly_savings'' (nullable TNumber)
      @ typed_fields (nullable TString) [''account_id'', ''region'', ''category'', ''group_key'', ''state'', ''snooze_until'', ''reason'']
      @ field ''effective_state'' TString
      @ typed_fields (nullable TString) [''first_detected_at'', ''first_opened_at'', ''detected_at'', ''owner_id'', ''owner_email'',
          ''owner_name'', ''team_id'', ''sla_deadline'', ''sla_status'']
      @ field ''payload'' (nullable TDict))"

definition FindingsResponse :: tstype where
  "FindingsResponse = TInterface
     (field ''ok'' (TLit (JBool True)) @ typed_fields TString [''tenant_id'', ''workspace'']
      @ typed_fields TNumber [''limit'', ''offset'', ''total''] @ field ''items'' (TArray FindingItem))"

definition CategoryTotalsItem :: tstype where
  "CategoryTotalsItem = TInterface (field ''category'' TString @ typed_fields TNumber [''finding_count'', ''total_savings''])"

definition FindingsGroupedCategoryResponse :: tstype where
  "FindingsGroupedCategoryResponse = extends FindingsResponse
     (field ''group_by'' (TLit (JStr ''category'')) @ field ''category_totals'' (TArray CategoryTotalsItem))"

record findings_options =
  fo_limit :: "num option"
  fo_offset :: "num option"
  fo_state :: "string option"
  fo_severity :: "string option"
  fo_q :: "string option"
  fo_order :: "string option"
  fo_enabled :: "bool option"

definition findingsQueryKey :: "tenant_scope option \<Rightarrow> findings_options \<Rightarrow> query_key" where
  "findingsQueryKey scope options =
     [JStr ''findings'', key_tenant scope, key_workspace scope,
      JNum (orelse (fo_limit options) (Fin 50)), JNum (orelse (fo_offset options) (Fin 0)),
      JStr (orelse (fo_state options) []), JStr (orelse (fo_severity options) []),
      JStr (orelse (fo_q options) []), JStr (orelse (fo_order options) ''savings_desc'')]"

definition groupedFindingsCategoryQueryKey :: "tenant_scope option \<Rightarrow> findings_options \<Rightarrow> query_key" where
  "groupedFindingsCategoryQueryKey scope options =
     [JStr ''findings'', JStr ''grouped'', JStr ''category'', key_tenant scope, key_workspace scope,
      JNum (orelse (fo_limit options) (Fin 50)), JNum (orelse (fo_offset options) (Fin 0)),
      JStr (orelse (fo_state options) []), JStr (orelse (fo_severity options) []),
      JStr (orelse (fo_q options) []), JStr (orelse (fo_order options) ''savings_desc'')]"

text \<open>Both hooks send the same parameters.\<close>

definition findings_query :: "findings_options \<Rightarrow> jsval props" where
  "findings_query options =
     [(''limit'', JNum (orelse (fo_limit options) (Fin 50))), (''offset'', JNum (orelse (fo_offset options) (Fin 0))),
      (''state'', JStr (orelse (fo_state options) [])), (''severity'', JStr (orelse (fo_severity options) [])),
      (''q'', JStr (orelse (fo_q options) [])), (''order'', JStr (orelse (fo_order options) ''savings_desc''))]"

definition useFindings :: "browser \<Rightarrow> findings_options \<Rightarrow> 'w query_options" where
  "useFindings b options =
     (let scope = getStoredScope b
      in \<lparr>qo_key = findingsQueryKey scope options,
          qo_enabled = (scope_ready scope \<and> orelse (fo_enabled options) True),
          qo_retry = None,
          qo_fn = (\<lambda>env b w. api_get env b ''/findings'' (Some (findings_query options)) w)\<rparr>)"

definition useFindingsGroupedCategory :: "browser \<Rightarrow> findings_options \<Rightarrow> 'w query_options" where
  "useFindingsGroupedCategory b options =
     (let scope = getStoredScope b
      in \<lparr>qo_key = groupedFindingsCategoryQueryKey scope options,
          qo_enabled = (scope_ready scope \<and> orelse (fo_enabled options) True),
          qo_retry = None,
          qo_fn = (\<lambda>env b w. api_get env b ''/findings/grouped/category'' (Some (findings_query options)) w)\<rparr>)"

section \<open>The resource graph\<close>

definition GraphContextResource :: tstype where
  "GraphContextResource = TInterface
     (field ''resource_key'' TString @ optional_fields (nullable TString) [''provider'']
      @ typed_fields TString [''service'', ''resource_type'']
      @ optional_fields (nullable TString) [''account_id'', ''region'', ''resource_id'', ''resource_arn'', ''resource_name'',
          ''parent_resource_key'', ''state'', ''owner_hint'']
      @ optional_fields (nullable TBoolean) [''is_deleted'']
      @ optional_fields (nullable TString) [''latest_run_id'', ''latest_run_ts''])"

definition GraphContextNeighbor :: tstype where
  "GraphContextNeighbor = TInterface
     (typed_fields TString [''edge_key'', ''edge_type'', ''direction'', ''directionality'', ''confidence'', ''source_kind'',
        ''service'', ''account_id'', ''region'']
      @ field ''resource'' GraphContextResource)"

definition RunGraphContextLatestResponse :: tstype where
  "RunGraphContextLatestResponse = TInterface
     (field ''ok'' (TLit (JBool True)) @ typed_fields TString [''tenant_id'', ''workspace'']
      @ field ''run'' (nullable (TInterface (typed_fields TString [''run_id'', ''run_ts''])))
      @ field ''resource'' (nullable GraphContextResource)
      @ field ''neighbors'' (TArray GraphContextNeighbor)
      @ typed_fields TNumber [''total_neighbors'', ''neighbor_limit''])"

definition FindingGraphContextResponse :: tstype where
  "FindingGraphContextResponse = extends (omit ''run'' RunGraphContextLatestResponse)
     (field ''fingerprint'' TString @ typed_fields (nullable TString) [''run_id'', ''resource_key''])"

text \<open>The neighbour limit of both hooks defaults to 12, and the hook is enabled by default.\<close>

definition graphContextQueryKey :: "tenant_scope option \<Rightarrow> string option \<Rightarrow> num \<Rightarrow> query_key" where
  "graphContextQueryKey scope resourceKey neighborLimit =
     [JStr ''runs'', JStr ''latest'', JStr ''graph'', JStr ''context'', key_tenant scope, key_workspace scope,
      js_string_or_null resourceKey, JNum neighborLimit]"

definition useRunGraphContextLatest :: "browser \<Rightarrow> string option \<Rightarrow> bool \<Rightarrow> num \<Rightarrow> 'w query_options" where
  "useRunGraphContextLatest b resourceKey enabled neighborLimit =
     (let scope = getStoredScope b
      in \<lparr>qo_key = graphContextQueryKey scope resourceKey neighborLimit,
          qo_enabled = (scope_ready scope \<and> truthy (js_string_or_null resourceKey) \<and> enabled),
          qo_retry = Some False,
          qo_fn = (\<lambda>env b w. forbidden_null (api_get env b ''/runs/latest/graph/context''
            (Some [(''resource_key'', js_string_or_null resourceKey), (''neighbor_limit'', JNum neighborLimit)]) w))\<rparr>)"

definition findingGraphQueryKey :: "tenant_scope option \<Rightarrow> string option \<Rightarrow> num \<Rightarrow> query_key" where
  "findingGraphQueryKey scope fingerprint neighborLimit =
     [JStr ''findings'', JStr ''graph'', key_tenant scope, key_workspace scope,
      js_string_or_null fingerprint, JNum neighborLimit]"

definition useFindingGraphContext :: "browser \<Rightarrow> string option \<Rightarrow> bool \<Rightarrow> num \<Rightarrow> 'w query_options" where
  "useFindingGraphContext b fingerprint enabled neighborLimit =
     (let scope = getStoredScope b
      in \<lparr>qo_key = findingGraphQueryKey scope fingerprint neighborLimit,
          qo_enabled = (scope_ready scope \<and> truthy (js_string_or_null fingerprint) \<and> enabled),
          qo_retry = Some False,
          qo_fn = (\<lambda>env b w. forbidden_null (api_get env b
            (''/findings/'' @ to_str (js_string_or_null fingerprint) @ ''/graph'')
            (Some [(''neighbor_limit'', JNum neighborLimit)]) w))\<rparr>)"

section \<open>Facts\<close>

text \<open>A finding is a list of fields; these are the ones the lifecycle action replaces.\<close>

lemma FindingItem_fields:
  "FindingItem = TInterface (fields_of FindingItem)"
  "distinct (map fst (fields_of FindingItem))"
  "map_of (fields_of FindingItem) ''state'' = Some (False, nullable TString)"
  "map_of (fields_of FindingItem) ''effective_state'' = Some (False, TString)"
  "map_of (fields_of FindingItem) ''snooze_until'' = Some (False, nullable TString)"
  "map_of (fields_of FindingItem) ''reason'' = Some (False, nullable TString)"
  "map_of (fields_of FindingItem) ''fingerprint'' = Some (False, TString)"
  by (code_simp, code_simp, code_simp, code_simp, code_simp, code_simp, code_simp)

lemma FindingItem_field:
  assumes "conforms FindingItem v" and "map_of (fields_of FindingItem) k = Some (False, t)"
  shows "conforms t (get v k)"
  using assms FindingItem_fields(1) conforms_interfaceD map_of_SomeD by metis

end
