(* ===== verification/CoverageHooks.thy ===== *)
theory CoverageHooks
  imports FindingsHooks
begin

text \<open>
  The hooks that read runs and their coverage: \<open>hooks/useRunsLatest.ts\<close>,
  \<open>hooks/useRunCoverageLatest.ts\<close> and \<open>hooks/useRunCoverageDetails.ts\<close>.  Each reads one
  endpoint, answers \<open>null\<close> to a status of 403 or 404 and turns the numbers of the response
  into finite numbers (or \<open>null\<close>).  At the end, what the ten hooks that hide a missing permission or run do
  with the outcome of their request.
\<close>

section \<open>The latest run\<close>

definition RunLatestItem :: tstype where
  "RunLatestItem = TInterface
     (typed_fields TString [''tenant_id'', ''workspace'', ''run_id'', ''run_ts'']
      @ typed_fields (nullable TString) [''status'', ''artifact_prefix'', ''ingested_at'', ''engine_version'', ''pricing_version'', ''pricing_source'']
      @ typed_fields (nullable TBoolean) [''raw_present'', ''correlated_present'', ''enriched_present'']
      @ field ''coverage_pct'' (nullable TNumber) @ field ''coverage_status'' (nullable TString)
      @ typed_fields (nullable TNumber) [''coverage_targets'', ''coverage_failed'', ''permission_gap_count''])"

definition RunLatestResponse :: tstype where
  "RunLatestResponse = TInterface (typed_fields TString [''tenant_id'', ''workspace''] @ field ''run'' (nullable RunLatestItem))"

text \<open>\<open>normalizeRun\<close> is the same function in both files.\<close>

definition run_number_fields :: "string list" where
  "run_number_fields = [''coverage_pct'', ''coverage_targets'', ''coverage_failed'', ''permission_gap_count'']"

definition normalizeRun :: "jsval \<Rightarrow> jsval" where
  "normalizeRun run =
     (if \<not> truthy run then JNull else copy_with (map (\<lambda>k. (k, asNumber_or_null)) run_number_fields) run)"

definition useRunsLatest :: "browser \<Rightarrow> bool \<Rightarrow> 'w query_options" where
  "useRunsLatest b enabled =
     (let scope = getStoredScope b
      in \<lparr>qo_key = [JStr ''runs'', JStr ''latest'', key_tenant scope, key_workspace scope],
          qo_enabled = (scope_ready scope \<and> enabled),
          qo_retry = Some False,
          qo_fn = (\<lambda>env b w. forbidden_null (then_out (api_get env b ''/runs/latest'' None w) (\<lambda>response.
             Inr (normalizeRun (get response ''run'')))))\<rparr>)"

section \<open>The coverage of the latest run\<close>

definition RunCoverageLatestRun :: tstype where
  "RunCoverageLatestRun = TInterface
     (typed_fields TString [''tenant_id'', ''workspace'', ''run_id'', ''run_ts''] @ field ''status'' (nullable TString)
      @ field ''coverage_pct'' (nullable TNumber) @ field ''coverage_status'' (nullable TString)
      @ typed_fields (nullable TNumber) [''coverage_targets'', ''coverage_failed'', ''permission_gap_count''])"

definition summary_number_fields :: "string list" where
  "summary_number_fields =
     [''targets_total'', ''assessed_total'', ''assessed_with_findings'', ''assessed_no_issue'', ''assessment_failed'',
      ''skipped_total'', ''not_assessed_total'', ''permission_gap_count'', ''coverage_pct'']"

definition RunCoverageSummary :: tstype where
  "RunCoverageSummary = TInterface (typed_fields TNumber summary_number_fields @ typed_fields TString [''coverage_status'', ''confidence''])"

definition RunCoverageLatestResponse :: tstype where
  "RunCoverageLatestResponse = TInterface
     (field ''ok'' (TLit (JBool True)) @ typed_fields TString [''tenant_id'', ''workspace'']
      @ field ''run'' (nullable RunCoverageLatestRun) @ field ''coverage'' (nullable RunCoverageSummary))"

text \<open>The fields of a summary go through \<open>Number\<close> without a test for finiteness.\<close>

definition normalizeSummary :: "jsval \<Rightarrow> jsval" where
  "normalizeSummary summary =
     (if \<not> truthy summary then JNull
      else copy_with (map (\<lambda>k. (k, number_or_zero)) summary_number_fields) summary)"

definition useRunCoverageLatest :: "browser \<Rightarrow> bool \<Rightarrow> 'w query_options" where
  "useRunCoverageLatest b enabled =
     (let scope = getStoredScope b
      in \<lparr>qo_key = [JStr ''runs'', JStr ''latest'', JStr ''coverage'', key_tenant scope, key_workspace scope],
          qo_enabled = (scope_ready scope \<and> enabled),
          qo_retry = Some False,
          qo_fn = (\<lambda>env b w. forbidden_null (then_out (api_get env b ''/runs/latest/coverage'' None w) (\<lambda>response.
             Inr (copy_with [(''run'', \<lambda>_. normalizeRun (get response ''run'')),
                             (''coverage'', \<lambda>_. normalizeSummary (get response ''coverage''))] response))))\<rparr>)"

section \<open>Coverage in detail\<close>

definition CoverageLatestRunRef :: tstype where
  "CoverageLatestRunRef = TInterface (typed_fields TString [''run_id'', ''run_ts''])"

definition CoverageCheckerItem :: tstype where
  "CoverageCheckerItem = TInterface
     (typed_fields (nullable TString) [''account_id'', ''region'']
      @ typed_fields TString [''service'', ''checker_id'', ''checker_scope'', ''status'']
      @ field ''findings_count'' TNumber @ field ''duration_ms'' (nullable TNumber) @ field ''confidence'' TString
      @ field ''completeness_pct'' (nullable TNumber) @ field ''permission_gap_count'' TNumber
      @ typed_fields (nullable TString) [''error_class'', ''error_code'', ''error_message'', ''skip_reason'', ''started_at'', ''finished_at''])"

definition CoverageIssueItem :: tstype where
  "CoverageIssueItem = TInterface
     (typed_fields (nullable TString) [''account_id'', ''region'']
      @ typed_fields TString [''service'', ''checker_id'', ''issue_type'']
      @ typed_fields (nullable TString) [''operation'', ''error_code'', ''message'']
      @ field ''is_retryable'' TBoolean @ field ''severity'' TString @ field ''payload'' (nullable TDict)
      @ field ''created_at'' (nullable TString))"

definition CoverageSummaryItem :: tstype where
  "CoverageSummaryItem = TInterface
     (typed_fields TNumber [''targets_total'', ''assessed_total'', ''assessment_failed'', ''skipped_total'',
        ''not_assessed_total'', ''permission_gap_count'', ''coverage_pct'']
      @ field ''coverage_status'' TString)"

definition CoverageServiceSummaryItem :: tstype where
  "CoverageServiceSummaryItem = extends CoverageSummaryItem (field ''service'' TString)"

definition CoverageAccountSummaryItem :: tstype where
  "CoverageAccountSummaryItem = extends CoverageSummaryItem (typed_fields (nullable TString) [''account_id'', ''region''])"

text \<open>The four responses of the latest run share their shape.\<close>

definition coverage_response :: "tstype \<Rightarrow> tstype" where
  "coverage_response item = TInterface
     (field ''ok'' (TLit (JBool True)) @ typed_fields TString [''tenant_id'', ''workspace'']
      @ field ''run'' (nullable CoverageLatestRunRef) @ field ''items'' (TArray item))"

definition CoverageCheckersResponse :: tstype where
  "CoverageCheckersResponse = coverage_response CoverageCheckerItem"

definition CoverageIssuesResponse :: tstype where
  "CoverageIssuesResponse = coverage_response CoverageIssueItem"

definition CoverageServicesResponse :: tstype where
  "CoverageServicesResponse = coverage_response CoverageServiceSummaryItem"

definition CoverageAccountsResponse :: tstype where
  "CoverageAccountsResponse = coverage_response CoverageAccountSummaryItem"

definition CoverageHistoryItem :: tstype where
  "CoverageHistoryItem = TInterface
     (typed_fields TString [''run_id'', ''run_ts''] @ field ''status'' (nullable TString)
      @ typed_fields TNumber [''targets_total'', ''assessed_total'', ''assessment_failed'', ''skipped_total'',
          ''not_assessed_total'', ''permission_gap_count'', ''coverage_pct'']
      @ field ''coverage_status'' (nullable TString) @ field ''confidence'' TString)"

definition CoverageRegressionSummary :: tstype where
  "CoverageRegressionSummary = TInterface
     (typed_fields CoverageHistoryItem [''latest'', ''previous'']
      @ typed_fields TNumber [''coverage_pct_delta'', ''assessment_failed_delta'', ''permission_gap_delta'']
      @ field ''status_worsened'' TBoolean @ field ''severity'' TString)"

definition CoverageServiceRegressionItem :: tstype where
  "CoverageServiceRegressionItem = TInterface
     (field ''service'' TString @ typed_fields CoverageServiceSummaryItem [''latest'', ''previous'']
      @ typed_fields TNumber [''coverage_pct_delta'', ''assessment_failed_delta'', ''permission_gap_delta'']
      @ field ''status_worsened'' TBoolean)"

definition CoverageHistoryResponse :: tstype where
  "CoverageHistoryResponse = TInterface
     (field ''ok'' (TLit (JBool True)) @ typed_fields TString [''tenant_id'', ''workspace'']
      @ field ''items'' (TArray CoverageHistoryItem) @ field ''limit'' TNumber)"

definition CoverageRegressionResponse :: tstype where
  "CoverageRegressionResponse = TInterface
     (field ''ok'' (TLit (JBool True)) @ typed_fields TString [''tenant_id'', ''workspace'']
      @ field ''runs'' (TArray CoverageLatestRunRef) @ field ''summary'' (nullable CoverageRegressionSummary)
      @ field ''service_regressions'' (TArray CoverageServiceRegressionItem)
      @ field ''checker_regressions'' (TInterface (field ''count'' TNumber))
      @ optional_fields TString [''message''])"

record coverage_filters =
  cf_status :: "string option"
  cf_service :: "string option"
  cf_region :: "string option"
  cf_accountId :: "string option"
  cf_checkerId :: "string option"
  cf_issueType :: "string option"
  cf_limit :: "num option"
  cf_offset :: "num option"
  cf_dateFrom :: "string option"
  cf_dateTo :: "string option"

subsection \<open>Normalisers\<close>

text \<open>\<open>asNumber(value)\<close> with its default fallback of zero.\<close>

definition asNumber0 :: "jsval \<Rightarrow> jsval" where
  "asNumber0 = asNumber_fallback (Fin 0)"

definition summary_item_fields :: "string list" where
  "summary_item_fields = [''targets_total'', ''assessed_total'', ''assessment_failed'', ''skipped_total'',
     ''not_assessed_total'', ''permission_gap_count'', ''coverage_pct'']"

definition normalizeCoverageSummaryItem :: "jsval \<Rightarrow> jsval outcome" where
  "normalizeCoverageSummaryItem item = normalize_fields (map (\<lambda>k. (k, asNumber0)) summary_item_fields) item"

definition normalizeCoverageHistoryItem :: "jsval \<Rightarrow> jsval outcome" where
  "normalizeCoverageHistoryItem item = normalize_fields (map (\<lambda>k. (k, asNumber0)) summary_item_fields) item"

definition null_or_number :: "jsval \<Rightarrow> jsval" where
  "null_or_number v = (if v = JNull then JNull else asNumber0 v)"

definition normalizeCheckerItem :: "jsval \<Rightarrow> jsval outcome" where
  "normalizeCheckerItem item = normalize_fields
     [(''findings_count'', asNumber0), (''duration_ms'', null_or_number), (''completeness_pct'', null_or_number),
      (''permission_gap_count'', asNumber0)] item"

definition delta_fields :: "string list" where
  "delta_fields = [''coverage_pct_delta'', ''assessment_failed_delta'', ''permission_gap_delta'']"

definition normalizeRegressionSummary :: "jsval \<Rightarrow> jsval outcome" where
  "normalizeRegressionSummary summary =
     (if \<not> truthy summary then Inr JNull
      else bind_out (normalizeCoverageHistoryItem (get summary ''latest'')) (\<lambda>latest.
           bind_out (normalizeCoverageHistoryItem (get summary ''previous'')) (\<lambda>previous.
           Inr (copy_with ([(''latest'', \<lambda>_. latest), (''previous'', \<lambda>_. previous)]
                  @ map (\<lambda>k. (k, asNumber0)) delta_fields) summary))))"

definition normalizeServiceRegressionItem :: "jsval \<Rightarrow> jsval outcome" where
  "normalizeServiceRegressionItem item =
     bind_out (member_read item ''latest'') (\<lambda>latest0.
     bind_out (normalizeCoverageSummaryItem latest0) (\<lambda>latest.
     bind_out (normalizeCoverageSummaryItem (get item ''previous'')) (\<lambda>previous.
     Inr (copy_with ([(''latest'', \<lambda>_. latest), (''previous'', \<lambda>_. previous)]
            @ map (\<lambda>k. (k, asNumber0)) delta_fields) item))))"

subsection \<open>Hooks\<close>

text \<open>The response with its items normalised: \<open>{...response, items: response.items.map(f)}\<close>.\<close>

definition with_items :: "(jsval \<Rightarrow> jsval outcome) \<Rightarrow> jsval \<Rightarrow> jsval outcome" where
  "with_items f response =
     bind_out (array_map ''response.items'' f (get response ''items'')) (\<lambda>items.
       Inr (copy_with [(''items'', \<lambda>_. items)] response))"

abbreviation key_text :: "string option \<Rightarrow> jsval" where
  "key_text s \<equiv> JStr (orelse s [])"

definition useRunCoverageCheckers :: "browser \<Rightarrow> coverage_filters \<Rightarrow> bool \<Rightarrow> 'w query_options" where
  "useRunCoverageCheckers b filters enabled =
     (let scope = getStoredScope b
      in \<lparr>qo_key = [JStr ''runs'', JStr ''latest'', JStr ''coverage'', JStr ''checkers'', key_tenant scope, key_workspace scope,
            key_text (cf_status filters), key_text (cf_service filters), key_text (cf_region filters),
            key_text (cf_accountId filters), key_text (cf_checkerId filters),
            JNum (orelse (cf_limit filters) (Fin 200)), JNum (orelse (cf_offset filters) (Fin 0))],
          qo_enabled = (scope_ready scope \<and> enabled),
          qo_retry = Some False,
          qo_fn = (\<lambda>env b w. forbidden_null (then_out (api_get env b ''/runs/latest/coverage/checkers''
            (Some [(''status'', js_string_or_undef (cf_status filters)), (''service'', js_string_or_undef (cf_service filters)),
               (''region'', js_string_or_undef (cf_region filters)), (''account_id'', js_string_or_undef (cf_accountId filters)),
               (''checker_id'', js_string_or_undef (cf_checkerId filters)),
               (''limit'', JNum (orelse (cf_limit filters) (Fin 200))), (''offset'', JNum (orelse (cf_offset filters) (Fin 0)))]) w)
            (with_items normalizeCheckerItem)))\<rparr>)"

definition useRunCoverageIssues :: "browser \<Rightarrow> coverage_filters \<Rightarrow> bool \<Rightarrow> 'w query_options" where
  "useRunCoverageIssues b filters enabled =
     (let scope = getStoredScope b
      in \<lparr>qo_key = [JStr ''runs'', JStr ''latest'', JStr ''coverage'', JStr ''issues'', key_tenant scope, key_workspace scope,
            key_text (cf_service filters), key_text (cf_region filters), key_text (cf_accountId filters),
            key_text (cf_checkerId filters), key_text (cf_issueType filters),
            JNum (orelse (cf_limit filters) (Fin 200)), JNum (orelse (cf_offset filters) (Fin 0))],
          qo_enabled = (scope_ready scope \<and> enabled),
          qo_retry = Some False,
          qo_fn = (\<lambda>env b w. forbidden_null (api_get env b ''/runs/latest/coverage/issues''
            (Some [(''service'', js_string_or_undef (cf_service filters)), (''region'', js_string_or_undef (cf_region filters)),
               (''account_id'', js_string_or_undef (cf_accountId filters)), (''checker_id'', js_string_or_undef (cf_checkerId filters)),
               (''issue_type'', js_string_or_undef (cf_issueType filters)),
               (''limit'', JNum (orelse (cf_limit filters) (Fin 200))), (''offset'', JNum (orelse (cf_offset filters) (Fin 0)))]) w))\<rparr>)"

definition useRunCoverageServices :: "browser \<Rightarrow> coverage_filters \<Rightarrow> bool \<Rightarrow> 'w query_options" where
  "useRunCoverageServices b filters enabled =
     (let scope = getStoredScope b
      in \<lparr>qo_key = [JStr ''runs'', JStr ''latest'', JStr ''coverage'', JStr ''services'', key_tenant scope, key_workspace scope,
            key_text (cf_status filters), key_text (cf_region filters), key_text (cf_accountId filters)],
          qo_enabled = (scope_ready scope \<and> enabled),
          qo_retry = Some False,
          qo_fn = (\<lambda>env b w. forbidden_null (then_out (api_get env b ''/runs/latest/coverage/services''
            (Some [(''status'', js_string_or_undef (cf_status filters)), (''region'', js_string_or_undef (cf_region filters)),
               (''account_id'', js_string_or_undef (cf_accountId filters))]) w)
            (with_items normalizeCoverageSummaryItem)))\<rparr>)"

definition useRunCoverageAccounts :: "browser \<Rightarrow> coverage_filters \<Rightarrow> bool \<Rightarrow> 'w query_options" where
  "useRunCoverageAccounts b filters enabled =
     (let scope = getStoredScope b
      in \<lparr>qo_key = [JStr ''runs'', JStr ''latest'', JStr ''coverage'', JStr ''accounts'', key_tenant scope, key_workspace scope,
            key_text (cf_status filters), key_text (cf_service filters), key_text (cf_region filters), key_text (cf_accountId filters)],
          qo_enabled = (scope_ready scope \<and> enabled),
          qo_retry = Some False,
          qo_fn = (\<lambda>env b w. forbidden_null (then_out (api_get env b ''/runs/latest/coverage/accounts''
            (Some [(''status'', js_string_or_undef (cf_status filters)), (''service'', js_string_or_undef (cf_service filters)),
               (''region'', js_string_or_undef (cf_region filters)), (''account_id'', js_string_or_undef (cf_accountId filters))]) w)
            (with_items normalizeCoverageSummaryItem)))\<rparr>)"

definition useRunCoverageHistory :: "browser \<Rightarrow> coverage_filters \<Rightarrow> bool \<Rightarrow> 'w query_options" where
  "useRunCoverageHistory b filters enabled =
     (let scope = getStoredScope b
      in \<lparr>qo_key = [JStr ''runs'', JStr ''coverage'', JStr ''history'', key_tenant scope, key_workspace scope,
            key_text (cf_status filters), key_text (cf_dateFrom filters), key_text (cf_dateTo filters),
            JNum (orelse (cf_limit filters) (Fin 20))],
          qo_enabled = (scope_ready scope \<and> enabled),
          qo_retry = Some False,
          qo_fn = (\<lambda>env b w. forbidden_null (then_out (api_get env b ''/runs/coverage/history''
            (Some [(''status'', js_string_or_undef (cf_status filters)), (''date_from'', js_string_or_undef (cf_dateFrom filters)),
               (''date_to'', js_string_or_undef (cf_dateTo filters)), (''limit'', JNum (orelse (cf_limit filters) (Fin 20)))]) w)
            (with_items normalizeCoverageHistoryItem)))\<rparr>)"

definition normalize_regressions :: "jsval \<Rightarrow> jsval outcome" where
  "normalize_regressions response =
     bind_out (normalizeRegressionSummary (get response ''summary'')) (\<lambda>summary.
     bind_out (array_map ''response.service_regressions'' normalizeServiceRegressionItem
                 (get response ''service_regressions'')) (\<lambda>services.
     Inr (copy_with [(''summary'', \<lambda>_. summary), (''service_regressions'', \<lambda>_. services),
            (''checker_regressions'', \<lambda>checkers. JObj [(''count'', asNumber0 (get checkers ''count''))])] response)))"

definition useRunCoverageRegressionLatest :: "browser \<Rightarrow> bool \<Rightarrow> 'w query_options" where
  "useRunCoverageRegressionLatest b enabled =
     (let scope = getStoredScope b
      in \<lparr>qo_key = [JStr ''runs'', JStr ''coverage'', JStr ''regressions'', JStr ''latest'', key_tenant scope, key_workspace scope],
          qo_enabled = (scope_ready scope \<and> enabled),
          qo_retry = Some False,
          qo_fn = (\<lambda>env b w. forbidden_null (then_out (api_get env b ''/runs/coverage/regressions/latest'' None w)
            normalize_regressions))\<rparr>)"

section \<open>Rows of a response\<close>

text \<open>
  Every hook that hides a missing permission or a missing run, with the path and the query of
  the request it makes: the two of the latest run, the six of its coverage, and the two that
  read the resource graph of the latest run.
\<close>

definition filter_query :: "(string \<times> string option) list \<Rightarrow> jsval props" where
  "filter_query = map (\<lambda>(k, v). (k, js_string_or_undef v))"

definition page_query :: "coverage_filters \<Rightarrow> jsval props" where
  "page_query filters =
     [(''limit'', JNum (orelse (cf_limit filters) (Fin 200))), (''offset'', JNum (orelse (cf_offset filters) (Fin 0)))]"

definition run_reads ::
    "browser \<Rightarrow> bool \<Rightarrow> coverage_filters \<Rightarrow> string option \<Rightarrow> num \<Rightarrow> (string \<times> jsval props option \<times> 'w query_options) list" where
  "run_reads b enabled filters item neighborLimit =
     (let status = (''status'', cf_status filters); service = (''service'', cf_service filters);
          region = (''region'', cf_region filters); account = (''account_id'', cf_accountId filters);
          checker = (''checker_id'', cf_checkerId filters)
      in [(''/runs/latest'', None, useRunsLatest b enabled),
          (''/runs/latest/coverage'', None, useRunCoverageLatest b enabled),
          (''/runs/latest/coverage/checkers'',
             Some (filter_query [status, service, region, account, checker] @ page_query filters),
             useRunCoverageCheckers b filters enabled),
          (''/runs/latest/coverage/issues'',
             Some (filter_query [service, region, account, checker, (''issue_type'', cf_issueType filters)] @ page_query filters),
             useRunCoverageIssues b filters enabled),
          (''/runs/latest/coverage/services'',
             Some (filter_query [status, region, account]), useRunCoverageServices b filters enabled),
          (''/runs/latest/coverage/accounts'',
             Some (filter_query [status, service, region, account]), useRunCoverageAccounts b filters enabled),
          (''/runs/coverage/history'',
             Some (filter_query [status, (''date_from'', cf_dateFrom filters), (''date_to'', cf_dateTo filters)]
               @ [(''limit'', JNum (orelse (cf_limit filters) (Fin 20)))]),
             useRunCoverageHistory b filters enabled),
          (''/runs/coverage/regressions/latest'', None, useRunCoverageRegressionLatest b enabled),
          (''/runs/latest/graph/context'',
             Some [(''resource_key'', js_string_or_null item), (''neighbor_limit'', JNum neighborLimit)],
             useRunGraphContextLatest b item enabled neighborLimit),
          (''/findings/'' @ to_str (js_string_or_null item) @ ''/graph'',
             Some [(''neighbor_limit'', JNum neighborLimit)],
             useFindingGraphContext b item enabled neighborLimit)])"

text \<open>An \<open>ApiError\<close> is an answer of the backend; a normaliser that fails throws a plain error.\<close>

definition api_failure :: "'a outcome \<Rightarrow> bool" where
  "api_failure r = (case r of Inl (ApiError status code message) \<Rightarrow> True | _ \<Rightarrow> False)"

named_theorems no_api

lemma api_failure_simps [simp]:
  "\<not> api_failure (Inr v)" "\<not> api_failure (Inl (JsError m))" "\<not> api_failure (Inl (ThrownValue x))"
  "api_failure (Inl (ApiError status code message))"
  by (simp_all add: api_failure_def)

lemma no_api_bind [no_api]:
  "api_failure (bind_out m f) \<longleftrightarrow> api_failure m \<or> (\<exists>x. m = Inr x \<and> api_failure (f x))"
  by (cases m) (auto simp: api_failure_def)

lemma no_api_member [no_api]: "\<not> api_failure (member_read v k)"
  by (simp add: member_read_def)

lemma no_api_fields [no_api]: "\<not> api_failure (normalize_fields fs v)"
  by (cases fs) (auto simp: normalize_fields_def no_api)

lemma no_api_map [no_api]: "(\<And>x. \<not> api_failure (f x)) \<Longrightarrow> \<not> api_failure (map_out f xs)"
  by (induction xs) (auto simp: no_api)

lemma no_api_array [no_api]: "(\<And>x. \<not> api_failure (f x)) \<Longrightarrow> \<not> api_failure (array_map t f v)"
  by (cases v) (auto simp: array_map_def no_api)

lemma no_api_items [no_api]: "(\<And>x. \<not> api_failure (f x)) \<Longrightarrow> \<not> api_failure (with_items f v)"
  by (simp add: with_items_def no_api)

lemma no_api_normalisers [no_api]:
  "\<not> api_failure (normalizeCheckerItem v)" "\<not> api_failure (normalizeCoverageSummaryItem v)"
  "\<not> api_failure (normalizeCoverageHistoryItem v)" "\<not> api_failure (normalizeRegressionSummary v)"
  "\<not> api_failure (normalizeServiceRegressionItem v)" "\<not> api_failure (normalize_regressions v)"
proof -
  show items: "\<not> api_failure (normalizeCheckerItem v)" "\<not> api_failure (normalizeCoverageSummaryItem v)"
    "\<not> api_failure (normalizeCoverageHistoryItem v)" for v
    by (simp_all add: normalizeCheckerItem_def normalizeCoverageSummaryItem_def normalizeCoverageHistoryItem_def no_api)
  show rows: "\<not> api_failure (normalizeRegressionSummary v)" "\<not> api_failure (normalizeServiceRegressionItem v)" for v
    by (simp_all add: normalizeRegressionSummary_def normalizeServiceRegressionItem_def items no_api)
  show "\<not> api_failure (normalize_regressions v)"
    by (simp add: normalize_regressions_def rows no_api)
qed

text \<open>What a hook makes of the outcome of its request, with the normaliser of its answer.\<close>

lemma forbidden_null_outcome:
  assumes "\<And>v. \<not> api_failure (f v)"
  shows "\<exists>r'. forbidden_null (then_out (r, w) f) = (r', w)
    \<and> (case r of
         Inl e \<Rightarrow> r' = (case e of ApiError status code message \<Rightarrow> if status \<in> {403, 404} then Inr JNull else Inl e | _ \<Rightarrow> Inl e)
       | Inr answer \<Rightarrow> r' = f answer \<and> \<not> api_failure r')"
proof (cases r)
  case (Inl e)
  then show ?thesis by (cases e) (auto simp: forbidden_null_def)
next
  case (Inr v)
  have "null_when_forbidden (f v) = f v"
    using assms [of v] by (auto simp: null_when_forbidden_def api_failure_def split: sum.splits thrown.splits)
  then show ?thesis using Inr assms by (simp add: forbidden_null_def)
qed

lemma then_out_id: "then_out m Inr = m"
  by (cases m; cases "fst m") (auto simp: then_out_def)

text \<open>Each of them is its request, its normaliser and the \<open>catch\<close>.\<close>

lemma run_reads_shape:
  assumes "(path, query, hook) \<in> set (run_reads b enabled filters item neighborLimit)"
  shows "\<exists>f. (\<forall>v. \<not> api_failure (f v))
    \<and> (\<forall>env w. qo_fn hook env b w = forbidden_null (then_out (api_get env b path query w) f))"
proof -
  have direct: "\<exists>f. (\<forall>v. \<not> api_failure (f v)) \<and> (\<forall>env w. forbidden_null (api_get env b p q w) =
      forbidden_null (then_out (api_get env b p q (w :: 'a)) f))" for p q
    by (intro exI [of _ Inr]) (simp add: then_out_id)
  from assms show ?thesis
    unfolding run_reads_def Let_def set_simps insert_iff empty_iff prod.inject
    apply (elim disjE conjE FalseE)
    apply (simp_all add: useRunsLatest_def useRunCoverageLatest_def useRunCoverageCheckers_def useRunCoverageIssues_def
        useRunCoverageServices_def useRunCoverageAccounts_def useRunCoverageHistory_def useRunCoverageRegressionLatest_def
        useRunGraphContextLatest_def useFindingGraphContext_def filter_query_def page_query_def Let_def direct)
    apply (rule exI, rule conjI [rotated], (rule allI)+, rule refl, simp add: no_api)+
    done
qed

text \<open>
  C34. The hooks about runs treat a missing permission and a missing run as no data, and nothing else.
  Each of the ten makes one request, with its path and the filters it was given: an
  \<open>ApiError\<close> of status 403 or 404 becomes \<open>null\<close>, every other failure of the request
  reaches the query unchanged, and an answer never ends as an \<open>ApiError\<close>, also when it has
  not the shape the hook expects.
\<close>

theorem run_hooks_hide_forbidden:
  assumes "(path, query, hook) \<in> set (run_reads b enabled filters item neighborLimit)"
    and "api_get env b path query w = (r, w')"
  shows "\<exists>r'. qo_fn hook env b w = (r', w')
    \<and> (case r of
         Inl e \<Rightarrow> r' = (case e of ApiError status code message \<Rightarrow> if status \<in> {403, 404} then Inr JNull else Inl e | _ \<Rightarrow> Inl e)
       | Inr answer \<Rightarrow> \<not> api_failure r')"
proof -
  obtain f where f: "\<not> api_failure (f v)"
    and hook: "qo_fn hook env b w = forbidden_null (then_out (api_get env b path query w) f)" for v
    using run_reads_shape [OF assms(1)] by blast
  obtain r' where "forbidden_null (then_out (r, w') f) = (r', w')"
    and "case r of
         Inl e \<Rightarrow> r' = (case e of ApiError status code message \<Rightarrow> if status \<in> {403, 404} then Inr JNull else Inl e | _ \<Rightarrow> Inl e)
       | Inr answer \<Rightarrow> r' = f answer \<and> \<not> api_failure r'"
    using forbidden_null_outcome [of f r w', OF f] by blast
  then show ?thesis by (intro exI [of _ r']) (auto simp: hook assms(2) split: sum.splits)
qed

text \<open>The value of a number field of a normalised row.\<close>

lemma get_number_row:
  assumes "normalize_fields (map (\<lambda>k. (k, asNumber0)) ks) item = Inr row" and "k \<in> set ks" and "distinct ks"
  shows "get row k = asNumber0 (get item k)"
proof -
  have "map_of (map (\<lambda>k. (k, asNumber0)) ks) k = Some asNumber0"
    using assms(2,3) by (intro map_of_is_SomeI) (auto simp: comp_def)
  moreover have "distinct (map fst (map (\<lambda>k. (k, asNumber0)) ks))" using assms(3) by (simp add: comp_def)
  ultimately show ?thesis using get_copy_with normalize_fields_Inr [OF assms(1)] by simp
qed

lemma finite_asNumber0 [simp]: "finite_value (asNumber0 v)"
  by (simp add: asNumber0_def)

lemma finite_null_or_number: "finite_value (null_or_number v) \<or> null_or_number v = JNull"
  by (simp add: null_or_number_def)

text \<open>Normalising twice is normalising once.\<close>

lemma set_fields_fix:
  assumes "\<And>k f. (k, f) \<in> set fs \<Longrightarrow> map_of ps k = Some (f (get v k))"
  shows "set_fields fs v ps = ps"
  using assms by (induction fs v ps rule: set_fields.induct) (auto simp: put_same)

lemma map_of_set_fields:
  "distinct (map fst fs) \<Longrightarrow> (k, f) \<in> set fs \<Longrightarrow> map_of (set_fields fs v ps) k = Some (f (get v k))"
proof (induction fs v ps rule: set_fields.induct)
  case (2 k' f' fs v ps)
  have keep: "map_of (set_fields gs v qs) k = map_of qs k" if "k \<notin> fst ` set gs" for gs qs
    using that by (induction gs v qs rule: set_fields.induct) auto
  show ?case
  proof (cases "(k, f) \<in> set fs")
    case True
    with 2 show ?thesis by simp
  next
    case False
    with 2 keep [of fs] show ?thesis by auto
  qed
qed simp

lemma copy_with_idem:
  assumes "distinct (map fst fs)" and "\<And>k f x. (k, f) \<in> set fs \<Longrightarrow> f (f x) = f x"
  shows "copy_with fs (copy_with fs v) = copy_with fs v"
proof -
  define ps where "ps = set_fields fs v (spread_props v)"
  have "map_of ps k = Some (f (get v k))" if "(k, f) \<in> set fs" for k f
    using map_of_set_fields [OF assms(1) that] by (simp add: ps_def)
  then have "set_fields fs (JObj ps) ps = ps"
    using assms(2) by (intro set_fields_fix) (metis get_JObj option.case(2))
  then show ?thesis by (simp add: copy_with_def ps_def spread_props_def)
qed

lemma normalize_fields_idem:
  assumes "normalize_fields fs v = Inr r" and "distinct (map fst fs)"
    and "\<And>k f x. (k, f) \<in> set fs \<Longrightarrow> f (f x) = f x"
  shows "normalize_fields fs r = Inr r"
proof -
  have r: "r = copy_with fs v" using normalize_fields_Inr [OF assms(1)] .
  then have "\<not> nullish r" by (simp add: copy_with_def)
  from normalize_fields_total [OF this] show ?thesis using copy_with_idem [OF assms(2,3)] by (simp add: r)
qed

lemma asNumber0_idem: "asNumber0 (asNumber0 x) = asNumber0 x" "null_or_number (null_or_number x) = null_or_number x"
  by (auto simp: asNumber0_def null_or_number_def asNumber_fallback_def Let_def to_num_def is_finite_num_def)

definition checker_number_fields :: "string list" where
  "checker_number_fields = [''findings_count'', ''permission_gap_count'']"

definition checker_nullable_fields :: "string list" where
  "checker_nullable_fields = [''duration_ms'', ''completeness_pct'']"

text \<open>
  Whatever the backend sends as checker rows, a query that has data has one row per row of the
  response, in its order, whose counts are finite numbers and whose duration and completeness
  are finite numbers or \<open>null\<close>; the other fields are copied, and normalising a row again
  changes nothing.
\<close>

lemma checker_rows_normalised:
  assumes "with_items normalizeCheckerItem response = Inr d"
  shows "\<exists>items rows. get response ''items'' = JArr items \<and> get d ''items'' = JArr rows \<and> length rows = length items
    \<and> (\<forall>i < length items. normalizeCheckerItem (items ! i) = Inr (rows ! i)
          \<and> normalizeCheckerItem (rows ! i) = Inr (rows ! i)
          \<and> list_all (\<lambda>k. finite_value (get (rows ! i) k)) checker_number_fields
          \<and> list_all (\<lambda>k. finite_value (get (rows ! i) k) \<or> get (rows ! i) k = JNull) checker_nullable_fields)"
proof -
  obtain items rows where i: "get response ''items'' = JArr items"
    and rows: "map_out normalizeCheckerItem items = Inr rows" and d: "d = copy_with [(''items'', \<lambda>_. JArr rows)] response"
    using assms by (auto simp: with_items_def bind_out_Inr array_map_Inr)
  have row: "normalizeCheckerItem r' = Inr r'
      \<and> list_all (\<lambda>k. finite_value (get r' k)) checker_number_fields
      \<and> list_all (\<lambda>k. finite_value (get r' k) \<or> get r' k = JNull) checker_nullable_fields"
    if "normalizeCheckerItem x = Inr r'" for x r'
  proof -
    let ?fs = "[(''findings_count'', asNumber0), (''duration_ms'', null_or_number), (''completeness_pct'', null_or_number),
      (''permission_gap_count'', asNumber0)]"
    have n: "normalize_fields ?fs x = Inr r'" using that by (simp add: normalizeCheckerItem_def)
    have "normalize_fields ?fs r' = Inr r'"
      by (rule normalize_fields_idem [OF n]) (auto simp: asNumber0_idem)
    moreover have "get r' k = (case map_of ?fs k of Some f \<Rightarrow> f (get x k) | None \<Rightarrow> get (JObj (spread_props x)) k)" for k
      unfolding normalize_fields_Inr [OF n] by (rule get_copy_with) simp
    ultimately show ?thesis
      using finite_null_or_number
      by (simp add: normalizeCheckerItem_def checker_number_fields_def checker_nullable_fields_def del: get_JObj)
  qed
  have "get d ''items'' = JArr rows" by (simp add: d get_copy_with del: get_JObj)
  then show ?thesis
    using i map_out_length [OF rows] map_out_nth [OF rows] row
    by (intro exI [of _ items] exI [of _ rows]) blast
qed

definition no_filters :: coverage_filters where
  "no_filters = \<lparr>cf_status = None, cf_service = None, cf_region = None, cf_accountId = None, cf_checkerId = None,
     cf_issueType = None, cf_limit = None, cf_offset = None, cf_dateFrom = None, cf_dateTo = None\<rparr>"

theorem run_hooks_hide_forbidden_witness:
  "qo_fn (useRunCoverageServices sample_browser no_filters True) sample_env sample_browser () = (Inr JNull, ())"
proof -
  let ?q = "Some (filter_query [(''status'', None), (''region'', None), (''account_id'', None)])"
  obtain u where u: "buildUrl sample_env ''/runs/latest/coverage/services'' (scopedQuery (getStoredScope sample_browser) ?q) = Inr u"
    by (simp add: buildUrl_def sample_env_def getApiBaseUrl_def)
  obtain code message where e:
      "api_get sample_env sample_browser ''/runs/latest/coverage/services'' ?q () = (Inl (ApiError 404 code message), ())"
    using u by (simp add: api_get_def request_def no_options_def read_response_def sample_env_def response_ok_def
        parseApiError_def Let_def)
  show ?thesis
    using run_hooks_hide_forbidden [OF _ e, of "useRunCoverageServices sample_browser no_filters True" True no_filters None "Fin 12"]
    by (simp add: run_reads_def no_filters_def Let_def)
qed

lemma checker_rows_normalised_witness:
  "\<exists>rows. get (JObj [(''items'', JArr rows)]) ''items'' = JArr rows \<and> length rows = 1
     \<and> finite_value (get (rows ! 0) ''findings_count'')"
proof -
  let ?response = "JObj [(''items'', JArr [JObj [(''findings_count'', JStr ''12''), (''duration_ms'', JNull)]])]"
  have "\<exists>d. with_items normalizeCheckerItem ?response = Inr d"
    by (simp add: with_items_def array_map_def normalizeCheckerItem_def normalize_fields_def member_read_def)
  then obtain d where "with_items normalizeCheckerItem ?response = Inr d" ..
  from checker_rows_normalised [OF this] show ?thesis
    by (auto simp: checker_number_fields_def)
qed

end
