(* ===== verification/Components.thy ===== *)
theory Components
  imports PageCommon ResourceKey FindingsHooks CoverageHooks
begin

text \<open>
  The components the pages embed: \<open>components/coverage/RunCoverageBanner.tsx\<close> and
  \<open>components/graph/ResourceGraphContextPanel.tsx\<close>.
\<close>

section \<open>The coverage banner\<close>

text \<open>A text field of the declared type \<open>string | null\<close>, \<open>value ?? ""\<close>.\<close>

definition text_of :: "jsval \<Rightarrow> string" where
  "text_of v = (case v of JStr s \<Rightarrow> s | _ \<Rightarrow> [])"

record tone =
  tone_panel :: string
  tone_badge :: string
  tone_accent :: string

definition coverageTone :: "jsval \<Rightarrow> tone" where
  "coverageTone status =
     (let s = to_lower (trim (text_of status))
      in if s = ''healthy'' then
           \<lparr>tone_panel = ''border-emerald-200 bg-emerald-50/90'',
            tone_badge = ''border-emerald-300 bg-emerald-100 text-emerald-800'', tone_accent = ''text-emerald-900''\<rparr>
         else if s = ''partial'' then
           \<lparr>tone_panel = ''border-amber-200 bg-amber-50/90'',
            tone_badge = ''border-amber-300 bg-amber-100 text-amber-800'', tone_accent = ''text-amber-900''\<rparr>
         else if s = ''degraded'' \<or> s = ''failed'' then
           \<lparr>tone_panel = ''border-rose-200 bg-rose-50/90'',
            tone_badge = ''border-rose-300 bg-rose-100 text-rose-800'', tone_accent = ''text-rose-900''\<rparr>
         else
           \<lparr>tone_panel = ''border-slate-200 bg-white/85'',
            tone_badge = ''border-slate-300 bg-slate-100 text-slate-700'', tone_accent = ''text-slate-900''\<rparr>)"

definition capitalize :: "string \<Rightarrow> string" where
  "capitalize part = to_upper (take 1 part) @ drop 1 part"

text \<open>\<open>some_words\<close> as \<open>Some Words\<close>; the label for a blank text is an argument.\<close>

definition format_words :: "string \<Rightarrow> jsval \<Rightarrow> string" where
  "format_words blank value =
     (let normalized = trim (text_of value)
      in if normalized = [] then blank else join '' '' (map capitalize (split_on (CHR ''_'') normalized)))"

definition formatStatus :: "jsval \<Rightarrow> string" where
  "formatStatus value = format_words ''Unknown'' value"

definition formatCoveragePct :: "jsval \<Rightarrow> string" where
  "formatCoveragePct value =
     (case value of JNum x \<Rightarrow> if x = NaN then ''-'' else to_fixed 2 x @ ''%'' | _ \<Rightarrow> ''-'')"

definition plural :: "num \<Rightarrow> string" where
  "plural n = (if num_eq n (int_num 1) then [] else ''s'')"

definition healthy_message :: string where
  "healthy_message = ''Latest run coverage looks healthy, so findings and recommendations were generated from a complete successful assessment set.''"

definition coverageMessage :: "jsval \<Rightarrow> jsval \<Rightarrow> string" where
  "coverageMessage summary run =
     (let permissionGaps = to_num (get summary ''permission_gap_count'');
          failed = to_num (get summary ''assessment_failed'');
          skipped = num_add (to_num (get summary ''skipped_total'')) (to_num (get summary ''not_assessed_total''))
      in if num_lt (int_num 0) failed then
           num_to_string failed @ '' assessment target'' @ plural failed
             @ '' failed in the latest run, so absence of findings does not always mean clean coverage.''
         else if num_lt (int_num 0) permissionGaps then
           num_to_string permissionGaps @ '' permission gap'' @ plural permissionGaps
             @ '' reduced visibility for the latest run''
             @ (if truthy (get run ''run_id'') then '' ('' @ to_str (get run ''run_id'') @ '')'' else []) @ ''.''
         else if num_lt (int_num 0) skipped then
           num_to_string skipped @ '' target'' @ plural skipped
             @ '' were skipped or not assessed, so the current results are only partially complete.''
         else healthy_message)"

definition RunCoverageBanner :: "jsval \<Rightarrow> jsval \<Rightarrow> 'e jsx" where
  "RunCoverageBanner run summary =
     (if \<not> truthy run \<or> \<not> truthy summary then Nothing
      else let status = coalesce (coalesce (get summary ''coverage_status'') (get run ''coverage_status'')) JNull;
               t = coverageTone status
           in El ''section'' [Prop ''className'' (tone_panel t)]
                [El ''p'' [Prop ''className'' (tone_accent t)] [Txt ''Coverage visibility''],
                 El ''p'' [] [Txt (coverageMessage summary run)],
                 El ''span'' [Prop ''className'' (tone_badge t)] [Txt (formatStatus status)],
                 info_card ''Coverage'' (formatCoveragePct (get summary ''coverage_pct'')),
                 info_card ''Confidence'' (formatStatus (get summary ''confidence'')),
                 info_card ''Assessed'' (child_text (get summary ''assessed_total'') @ '' / '' @ child_text (get summary ''targets_total'')),
                 info_card ''Failed'' (child_text (get summary ''assessment_failed'')),
                 info_card ''Permission Gaps'' (child_text (get summary ''permission_gap_count''))])"

section \<open>The related resources\<close>

definition graphErrorMessage :: "thrown \<Rightarrow> string" where
  "graphErrorMessage = apiErrorMessage ''Failed to load related resources'' ''Failed to load related resources.''"

definition resource_label :: "jsval \<Rightarrow> string" where
  "resource_label resource =
     orelse (firstNonEmptyText [get resource ''resource_name'', get resource ''resource_id'',
       get resource ''resource_arn'', get resource ''resource_key'']) []"

record panel_props =
  pp_fingerprint :: "string option"
  pp_payload :: "jsval props option"
  pp_fallback :: key_fallback
  pp_enabled :: bool

text \<open>The two queries of the panel; with a fingerprint the second one is never enabled.\<close>

definition panel_resourceKey :: "panel_props \<Rightarrow> string option" where
  "panel_resourceKey p = graphResourceKeyFromPayload (pp_payload p) (pp_fallback p)"

definition panel_by_finding :: "panel_props \<Rightarrow> bool" where
  "panel_by_finding p \<longleftrightarrow> truthy (js_string_or_undef (pp_fingerprint p))"

definition panel_finding_query :: "browser \<Rightarrow> panel_props \<Rightarrow> 'w query_options" where
  "panel_finding_query b p = useFindingGraphContext b (pp_fingerprint p) (pp_enabled p) (int_num 12)"

definition panel_resource_query :: "browser \<Rightarrow> panel_props \<Rightarrow> 'w query_options" where
  "panel_resource_query b p =
     useRunGraphContextLatest b (if panel_by_finding p then None else panel_resourceKey p) (pp_enabled p) (int_num 12)"

definition resolvedResourceKey :: "panel_props \<Rightarrow> query_view \<Rightarrow> jsval" where
  "resolvedResourceKey p finding =
     (if panel_by_finding p
      then coalesce (get (qv_data finding) ''resource_key'') (js_string_or_null (panel_resourceKey p))
      else js_string_or_null (panel_resourceKey p))"

definition neighbors_of :: "jsval \<Rightarrow> jsval list" where
  "neighbors_of data = (case get data ''neighbors'' of JArr vs \<Rightarrow> vs | _ \<Rightarrow> [])"

definition neighbor_row :: "jsval \<Rightarrow> 'e jsx" where
  "neighbor_row neighbor =
     (let resource = get neighbor ''resource''
      in El ''div'' []
           [El ''p'' [] [Txt (resource_label resource)],
            El ''span'' [] [Txt (child_text (get neighbor ''edge_type''))],
            El ''p'' [] [Txt (child_text (get neighbor ''direction'') @ '' | '' @ child_text (get resource ''service'') @ '' | ''
              @ child_text (get resource ''resource_type'') @ '' | '' @ child_text (get neighbor ''source_kind''))],
            show_if (truthy (get resource ''state'')) (El ''p'' [] [Txt (''State: '' @ child_text (get resource ''state''))])])"

definition ResourceGraphContextPanel :: "panel_props \<Rightarrow> query_view \<Rightarrow> query_view \<Rightarrow> 'e jsx" where
  "ResourceGraphContextPanel p finding resource =
     (let graphContext = (if panel_by_finding p then finding else resource);
          key = resolvedResourceKey p finding;
          data = qv_data graphContext;
          node = get data ''resource'';
          neighbors = neighbors_of data
      in El ''section'' []
           [El ''h3'' [] [Txt ''Related Resources''],
            show_if (\<not> truthy key) (El ''p'' [] [Txt ''This item does not expose a stable primary resource identity yet, so graph context is unavailable.'']),
            show_if (truthy key) (El ''p'' [] [Txt (child_text key)]),
            show_if (qv_isLoading graphContext \<and> truthy key) (El ''p'' [] [Txt ''Loading related resources...'']),
            (case qv_error graphContext of
               Some e \<Rightarrow> show_if (truthy key) (El ''p'' [] [Txt (graphErrorMessage e)])
             | None \<Rightarrow> Nothing),
            show_if (\<not> qv_isLoading graphContext \<and> qv_error graphContext = None \<and> truthy key \<and> truthy node \<and> neighbors = [])
              (El ''p'' [] [Txt ''No direct related resources were found in the latest graph snapshot.'']),
            show_if (truthy node)
              (El ''div'' []
                [El ''p'' [] [Txt (''Primary: '' @ resource_label node)],
                 El ''p'' [] [Txt (child_text (get node ''service'') @ '' | '' @ child_text (get node ''resource_type''))]]),
            show_if (neighbors \<noteq> [])
              (El ''div'' []
                (map neighbor_row neighbors
                 @ [show_if (num_lt (int_num (int (length neighbors))) (to_num (get data ''total_neighbors'')))
                     (El ''p'' [] [Txt (''Showing '' @ nat_to_string (length neighbors) @ '' of ''
                        @ child_text (get data ''total_neighbors'') @ '' direct relationships.'')])]))])"

section \<open>What the banner promises\<close>

text \<open>The last letter but one of a message, before its full stop.\<close>

definition letter_before_stop :: "string \<Rightarrow> char" where
  "letter_before_stop s = hd (tl (rev s))"

text \<open>
  The banner calls the latest run complete exactly when nothing is missing: the healthy message
  is shown only if no assessment failed, no permission was missing and no target was skipped or
  left out; otherwise the first of these, in this order, is named with its count.
\<close>

lemma banner_healthy_iff:
  "coverageMessage summary run = healthy_message \<longleftrightarrow>
     \<not> num_lt (int_num 0) (to_num (get summary ''assessment_failed''))
     \<and> \<not> num_lt (int_num 0) (to_num (get summary ''permission_gap_count''))
     \<and> \<not> num_lt (int_num 0) (num_add (to_num (get summary ''skipped_total'')) (to_num (get summary ''not_assessed_total'')))"
proof -
  have h: "letter_before_stop healthy_message = CHR ''t''" by (simp add: healthy_message_def letter_before_stop_def)
  have "coverageMessage summary run \<noteq> healthy_message"
    if "num_lt (int_num 0) (to_num (get summary ''assessment_failed''))
      \<or> num_lt (int_num 0) (to_num (get summary ''permission_gap_count''))
      \<or> num_lt (int_num 0) (num_add (to_num (get summary ''skipped_total'')) (to_num (get summary ''not_assessed_total'')))"
  proof
    assume "coverageMessage summary run = healthy_message"
    then have "letter_before_stop (coverageMessage summary run) = CHR ''t''" by (simp add: h)
    with that show False
      by (auto simp: coverageMessage_def Let_def letter_before_stop_def split: if_splits)
  qed
  then show ?thesis by (auto simp: coverageMessage_def Let_def)
qed

text \<open>
  The panel asks the backend for one graph only: with a fingerprint it reads the graph of the
  finding and the query by resource key is never enabled, without one it is the other way
  round, and without permission neither is.
\<close>

lemma panel_asks_once:
  "\<not> (qo_enabled (panel_finding_query b p) \<and> qo_enabled (panel_resource_query b p))
    \<and> (qo_enabled (panel_finding_query b p) \<longleftrightarrow>
        scope_ready (getStoredScope b) \<and> panel_by_finding p \<and> pp_enabled p)
    \<and> (qo_enabled (panel_resource_query b p) \<longleftrightarrow>
        scope_ready (getStoredScope b) \<and> \<not> panel_by_finding p \<and> pp_enabled p
        \<and> truthy (js_string_or_null (panel_resourceKey p)))"
  by (cases "pp_fingerprint p")
    (auto simp: panel_finding_query_def panel_resource_query_def useFindingGraphContext_def useRunGraphContextLatest_def
      panel_by_finding_def js_string_or_null_def js_string_or_undef_def Let_def split: option.splits)

end
