(* ===== verification/Lifecycle.thy ===== *)
theory Lifecycle
  imports FindingsHooks JsDate
begin

text \<open>
  \<open>hooks/useFindingLifecycle.ts\<close>: ignoring, resolving or snoozing a finding.  The mutation
  cancels the fetches of the findings list, writes the expected outcome into the cache, posts
  the action, restores the list when the post fails, and invalidates it in the end.  Between
  these steps the browser may run anything else on the cache; the relation \<open>lifecycle_run\<close>
  lets every step of the cache happen there.
\<close>

section \<open>The code\<close>

datatype lifecycle_action = Ignore | Resolve | Snooze

record lifecycle_input =
  li_action :: lifecycle_action
  li_fingerprint :: string
  li_reason :: "string option"
  li_snoozeDays :: "int option"
  li_tenantId :: string
  li_workspace :: string
  li_updatedBy :: "string option"

definition action_name :: "lifecycle_action \<Rightarrow> string" where
  "action_name a = (case a of Ignore \<Rightarrow> ''ignore'' | Resolve \<Rightarrow> ''resolve'' | Snooze \<Rightarrow> ''snooze'')"

text \<open>The time of day is an argument; \<open>toISOString\<close> throws beyond the last time value.\<close>

definition snoozeUntilIso :: "int \<Rightarrow> int \<Rightarrow> string outcome" where
  "snoozeUntilIso now days =
     (case set_utc_date now (get_utc_date now + days) of
        None \<Rightarrow> Inl (JsError ''Invalid time value'')
      | Some t \<Rightarrow> Inr (to_iso_string t))"

record optimistic_state =
  os_effectiveState :: string
  os_state :: string
  os_snoozeUntil :: "string option"

definition optimisticState :: "int \<Rightarrow> lifecycle_input \<Rightarrow> optimistic_state outcome" where
  "optimisticState now input =
     (if li_action input = Resolve then
        Inr \<lparr>os_effectiveState = ''resolved'', os_state = ''resolved'', os_snoozeUntil = None\<rparr>
      else if li_action input = Ignore then
        Inr \<lparr>os_effectiveState = ''ignored'', os_state = ''ignored'', os_snoozeUntil = None\<rparr>
      else bind_out (snoozeUntilIso now (orelse (li_snoozeDays input) 7)) (\<lambda>until.
        Inr \<lparr>os_effectiveState = ''snoozed'', os_state = ''snoozed'', os_snoozeUntil = Some until\<rparr>))"

text \<open>\<open>input.reason?.trim() || other\<close> and \<open>input.updatedBy || "frontend-ui"\<close>.\<close>

definition trimmed_reason :: "lifecycle_input \<Rightarrow> jsval" where
  "trimmed_reason input = js_string_or_undef (map_option trim (li_reason input))"

definition lifecycle_body :: "int \<Rightarrow> lifecycle_input \<Rightarrow> jsval outcome" where
  "lifecycle_body now input =
     (let body = [(''tenant_id'', JStr (li_tenantId input)), (''workspace'', JStr (li_workspace input)),
          (''fingerprint'', JStr (li_fingerprint input)),
          (''reason'', js_or (trimmed_reason input) JUndef),
          (''updated_by'', js_or (js_string_or_undef (li_updatedBy input)) (JStr ''frontend-ui''))]
      in if li_action input = Snooze
         then bind_out (snoozeUntilIso now (orelse (li_snoozeDays input) 7)) (\<lambda>until.
                Inr (JObj (put ''snooze_until'' (JStr until) body)))
         else Inr (JObj body))"

definition lifecycle_mutationFn ::
    "'w api_env \<Rightarrow> browser \<Rightarrow> int \<Rightarrow> lifecycle_input \<Rightarrow> 'w \<Rightarrow> unit outcome \<times> 'w" where
  "lifecycle_mutationFn env b now input w =
     (case lifecycle_body now input of
        Inl e \<Rightarrow> (Inl e, w)
      | Inr body \<Rightarrow> then_out (api_post env b (''/lifecycle/'' @ action_name (li_action input)) body w) (\<lambda>_. Inr ()))"

text \<open>The new text of one item, and the new list.\<close>

definition apply_to_item :: "optimistic_state \<Rightarrow> lifecycle_input \<Rightarrow> jsval \<Rightarrow> jsval" where
  "apply_to_item nxt input item =
     copy_with [(''state'', \<lambda>_. JStr (os_state nxt)), (''effective_state'', \<lambda>_. JStr (os_effectiveState nxt)),
       (''snooze_until'', \<lambda>_. js_string_or_null (os_snoozeUntil nxt)),
       (''reason'', js_or (trimmed_reason input))] item"

definition optimistic_item :: "optimistic_state \<Rightarrow> lifecycle_input \<Rightarrow> jsval \<Rightarrow> jsval outcome" where
  "optimistic_item nxt input item =
     bind_out (member_read item ''fingerprint'') (\<lambda>fp.
       Inr (if fp = JStr (li_fingerprint input) then apply_to_item nxt input item else item))"

definition optimistic_response :: "optimistic_state \<Rightarrow> lifecycle_input \<Rightarrow> jsval \<Rightarrow> jsval outcome" where
  "optimistic_response nxt input previous =
     bind_out (array_map ''previous.items'' (optimistic_item nxt input) (get previous ''items'')) (\<lambda>items.
       Inr (copy_with [(''items'', \<lambda>_. items)] previous))"

text \<open>
  \<open>onMutate\<close> after the cancellation: the snapshot to roll back to (\<open>undefined\<close> when the list
  is not cached) and the cache with the expected outcome written.
\<close>

definition onMutate_write :: "int \<Rightarrow> lifecycle_input \<Rightarrow> query_key \<Rightarrow> cache \<Rightarrow> jsval outcome \<times> cache" where
  "onMutate_write now input key c =
     (let previous = (case getQueryData key c of None \<Rightarrow> JUndef | Some d \<Rightarrow> d)
      in if \<not> truthy previous then (Inr JUndef, c)
         else case bind_out (optimisticState now input) (\<lambda>nxt. optimistic_response nxt input previous) of
                Inl e \<Rightarrow> (Inl e, c)
              | Inr d \<Rightarrow> (Inr previous, setQueryData key d c))"

definition onError_rollback :: "jsval \<Rightarrow> query_key \<Rightarrow> cache \<Rightarrow> cache" where
  "onError_rollback previous key c = (if truthy previous then setQueryData key previous c else c)"

definition onSettled :: "query_key \<Rightarrow> cache \<Rightarrow> cache" where
  "onSettled key c = invalidateQueries key c"

text \<open>The end of the mutation: roll back on an error, invalidate in any case.\<close>

definition lifecycle_finish :: "query_key \<Rightarrow> jsval \<Rightarrow> unit outcome \<Rightarrow> cache \<Rightarrow> cache" where
  "lifecycle_finish key previous r c =
     onSettled key (case r of Inl _ \<Rightarrow> onError_rollback previous key c | Inr _ \<Rightarrow> c)"

abbreviation cache_steps :: "cache \<Rightarrow> cache \<Rightarrow> bool" where
  "cache_steps \<equiv> cache_step\<^sup>*\<^sup>*"

text \<open>
  A whole run from a cache \<open>c\<close>: steps \<open>before\<close> the snapshot while the cancellation is
  awaited, the write, steps \<open>during\<close> the post, and the end.  When \<open>onMutate\<close> throws,
  nothing is posted.  \<open>onMutate\<close> is the one of the render in which the action was started and works
  on its \<open>key\<close>; \<open>useMutation\<close> hands the options of every later render to the pending mutation, so
  \<open>onError\<close> and \<open>onSettled\<close> are those of the last render, with the key \<open>shown\<close> of the list that is
  on the screen by then.
\<close>

inductive lifecycle_run ::
    "'w api_env \<Rightarrow> browser \<Rightarrow> lifecycle_input \<Rightarrow> query_key \<Rightarrow> query_key \<Rightarrow> cache \<Rightarrow> 'w \<Rightarrow>
     unit outcome \<Rightarrow> cache \<Rightarrow> 'w \<Rightarrow> bool"
  for env b input key shown c w where
  mutate_throws:
    "cache_steps (cancelQueries key c) c1 \<Longrightarrow> onMutate_write now input key c1 = (Inl e, c2) \<Longrightarrow>
     lifecycle_run env b input key shown c w (Inl e) (lifecycle_finish shown JUndef (Inl e) c2) w"
| posted:
    "cache_steps (cancelQueries key c) c1 \<Longrightarrow> onMutate_write now input key c1 = (Inr previous, c2) \<Longrightarrow>
     lifecycle_mutationFn env b now' input w = (r, w') \<Longrightarrow> cache_steps c2 c3 \<Longrightarrow>
     lifecycle_run env b input key shown c w r (lifecycle_finish shown previous r c3) w'"

inductive_cases lifecycle_runE: "lifecycle_run env b input key shown c w r c' w'"

section \<open>The date of a snooze\<close>

lemma snoozeUntilIso_reads_back:
  assumes "snoozeUntilIso now days = Inr s"
  shows "new_date host s = Some (now + ms_per_day * days)"
proof -
  obtain t where t: "set_utc_date now (get_utc_date now + days) = Some t" and s: "s = to_iso_string t"
    using assms by (auto simp: snoozeUntilIso_def split: option.splits)
  have "time_clip (now + ms_per_day * days) = Some t" using t by (simp add: set_utc_date_add)
  then have "t = now + ms_per_day * days" "\<bar>t\<bar> \<le> 8640000000000000"
    by (auto simp: time_clip_def split: if_splits)
  then show ?thesis using new_date_iso s by simp
qed

lemma snoozeUntilIso_ok:
  "\<bar>now + ms_per_day * days\<bar> \<le> 8640000000000000 \<Longrightarrow> \<exists>s. snoozeUntilIso now days = Inr s"
  by (simp add: snoozeUntilIso_def set_utc_date_add time_clip_def)

lemma api_post_post:
  "api_post env b path body w = request env b path (no_options\<lparr>opt_method := Some ''POST'', opt_body := body\<rparr>) w"
  by (simp add: api_post_def)

text \<open>
  A snooze is posted with the instant exactly the chosen number of days (seven when none is
  given) after the moment of the click, whatever the calendar does in between, next to the
  fingerprint, tenant and workspace of the finding; the other actions carry no date.
\<close>

theorem snooze_body_date:
  assumes "lifecycle_body now input = Inr body"
  shows "get body ''fingerprint'' = JStr (li_fingerprint input)
    \<and> get body ''tenant_id'' = JStr (li_tenantId input) \<and> get body ''workspace'' = JStr (li_workspace input)
    \<and> (if li_action input = Snooze
       then \<exists>s. get body ''snooze_until'' = JStr s
              \<and> new_date host s = Some (now + ms_per_day * orelse (li_snoozeDays input) 7)
       else get body ''snooze_until'' = JUndef)"
  using assms snoozeUntilIso_reads_back
  by (auto simp: lifecycle_body_def Let_def bind_out_Inr split: if_splits)

definition sample_input :: lifecycle_input where
  "sample_input =
     \<lparr>li_action = Snooze, li_fingerprint = ''fp-1'', li_reason = Some '' later '', li_snoozeDays = Some 14,
      li_tenantId = ''acme'', li_workspace = ''prod'', li_updatedBy = None\<rparr>"

theorem snooze_body_date_witness:
  "\<exists>body s. lifecycle_body 0 sample_input = Inr body \<and> get body ''snooze_until'' = JStr s
     \<and> new_date \<lparr>legacy_parse = (\<lambda>_. None), local_offset = (\<lambda>_. 0)\<rparr> s = Some (14 * ms_per_day)"
proof -
  obtain s where s: "snoozeUntilIso 0 14 = Inr s" using snoozeUntilIso_ok [of 0 14] by auto
  then obtain body where b: "lifecycle_body 0 sample_input = Inr body"
    by (simp add: lifecycle_body_def sample_input_def Let_def)
  show ?thesis
    using snooze_body_date [OF b, of "\<lparr>legacy_parse = (\<lambda>_. None), local_offset = (\<lambda>_. 0)\<rparr>"] b
    by (auto simp: sample_input_def)
qed

section \<open>The optimistic update\<close>

lemma optimistic_response_items:
  assumes "optimistic_response nxt input previous = Inr d"
  obtains vs ws where "get previous ''items'' = JArr vs" and "map_out (optimistic_item nxt input) vs = Inr ws"
    and "d = copy_with [(''items'', \<lambda>_. JArr ws)] previous"
  using assms by (auto simp: optimistic_response_def bind_out_Inr array_map_Inr)

lemma optimistic_item_Inr:
  "optimistic_item nxt input item = Inr item' \<longleftrightarrow>
     \<not> nullish item
     \<and> item' = (if get item ''fingerprint'' = JStr (li_fingerprint input) then apply_to_item nxt input item else item)"
  by (auto simp: optimistic_item_def bind_out_Inr member_read_def)

lemma onMutate_write_cases:
  assumes "onMutate_write now input key c = (Inr previous, c')" and "truthy previous"
  obtains nxt d where "getQueryData key c = Some previous" and "optimisticState now input = Inr nxt"
    and "optimistic_response nxt input previous = Inr d" and "c' = setQueryData key d c"
  using assms by (auto simp: onMutate_write_def Let_def bind_out_Inr split: option.splits if_splits sum.splits)

lemma optimistic_response_defined: "optimistic_response nxt input previous = Inr d \<Longrightarrow> d \<noteq> JUndef"
  by (auto simp: copy_with_def elim: optimistic_response_items)

lemma get_copy_item [simp]:
  "get (copy_with [(''items'', \<lambda>_. ws)] previous) k = (if k = ''items'' then ws else get (JObj (spread_props previous)) k)"
  by (simp add: get_copy_with del: get_JObj)

text \<open>
  C4. The optimistic update is local: it replaces the cached list by one of the same length in the
  same order, in which every finding with another fingerprint is untouched and one with the
  fingerprint shows the state, the snooze date and the reason of the action and keeps all its
  other fields; the rest of the response and every other cached query stay as they were.
\<close>

theorem optimistic_update_local:
  assumes "onMutate_write now input key c = (Inr previous, c')" and "truthy previous" and "previous = JObj ps"
  shows "\<exists>vs ws nxt d.
      optimisticState now input = Inr nxt \<and> getQueryData key c' = Some d
    \<and> get previous ''items'' = JArr vs \<and> get d ''items'' = JArr ws \<and> length ws = length vs
    \<and> (\<forall>i < length vs. ws ! i =
          (if get (vs ! i) ''fingerprint'' = JStr (li_fingerprint input) then apply_to_item nxt input (vs ! i) else vs ! i))
    \<and> (\<forall>k. k \<noteq> ''items'' \<longrightarrow> get d k = get previous k)
    \<and> (\<forall>k. hashKey k \<noteq> hashKey key \<longrightarrow> getQueryData k c' = getQueryData k c)"
proof -
  obtain nxt d where nxt: "optimisticState now input = Inr nxt"
    and d: "optimistic_response nxt input previous = Inr d" and c': "c' = setQueryData key d c"
    using onMutate_write_cases [OF assms(1,2)] by metis
  obtain vs ws where vs: "get previous ''items'' = JArr vs"
    and ws: "map_out (optimistic_item nxt input) vs = Inr ws" and dd: "d = copy_with [(''items'', \<lambda>_. JArr ws)] previous"
    using optimistic_response_items [OF d] by metis
  have "getQueryData key c' = Some d"
    using queries.read_own_write optimistic_response_defined [OF d] by (simp add: c')
  moreover have "\<forall>k. hashKey k \<noteq> hashKey key \<longrightarrow> getQueryData k c' = getQueryData k c"
    using queries.write_other by (simp add: c')
  moreover have "\<forall>i < length vs. ws ! i =
      (if get (vs ! i) ''fingerprint'' = JStr (li_fingerprint input) then apply_to_item nxt input (vs ! i) else vs ! i)"
    using map_out_nth [OF ws] by (simp add: optimistic_item_Inr)
  moreover have "\<forall>k. k \<noteq> ''items'' \<longrightarrow> get d k = get previous k"
    using get_spread_obj [OF assms(3)] by (simp add: dd del: get_JObj)
  ultimately show ?thesis
    using nxt vs map_out_length [OF ws] by (auto simp: dd simp del: get_JObj)
qed

text \<open>A findings list with two entries, in the cache under its key, and the action resolving one.\<close>

definition sample_key :: query_key where
  "sample_key = [JStr ''findings'', JStr ''acme'', JStr ''prod'']"

definition sample_previous :: jsval where
  "sample_previous = JObj [(''total'', JNum (Fin 2)), (''items'', JArr
     [JObj [(''fingerprint'', JStr ''fp-1''), (''state'', JStr ''open''), (''reason'', JNull)],
      JObj [(''fingerprint'', JStr ''fp-2''), (''state'', JStr ''open''), (''reason'', JNull)]])]"

definition sample_next :: jsval where
  "sample_next = JObj [(''total'', JNum (Fin 2)), (''items'', JArr
     [JObj [(''fingerprint'', JStr ''fp-1''), (''state'', JStr ''resolved''), (''reason'', JStr ''later''),
        (''effective_state'', JStr ''resolved''), (''snooze_until'', JNull)],
      JObj [(''fingerprint'', JStr ''fp-2''), (''state'', JStr ''open''), (''reason'', JNull)]])]"

definition sample_resolve :: lifecycle_input where
  "sample_resolve = sample_input\<lparr>li_action := Resolve\<rparr>"

definition sample_cache :: cache where
  "sample_cache = cancelQueries sample_key (setQueryData sample_key sample_previous [])"

lemma sample_cache_data: "getQueryData sample_key sample_cache = Some sample_previous"
proof -
  have "cache_ok (setQueryData sample_key sample_previous [])"
    by (rule cache_ok_step [OF cache_step.set_data]) (simp add: cache_ok_def)
  from cancel_reads [OF this] show ?thesis
    by (simp add: sample_cache_def queries.read_own_write sample_previous_def)
qed

lemma sample_write:
  "onMutate_write 0 sample_resolve sample_key sample_cache = (Inr sample_previous, setQueryData sample_key sample_next sample_cache)"
proof -
  have "bind_out (optimisticState 0 sample_resolve) (\<lambda>nxt. optimistic_response nxt sample_resolve sample_previous) = Inr sample_next"
    by code_simp
  moreover have "truthy sample_previous" by (simp add: sample_previous_def)
  ultimately show ?thesis by (simp add: onMutate_write_def sample_cache_data)
qed

theorem optimistic_update_local_witness:
  "\<exists>vs ws d. getQueryData sample_key (setQueryData sample_key sample_next sample_cache) = Some d
     \<and> get sample_previous ''items'' = JArr vs \<and> get d ''items'' = JArr ws \<and> length ws = length vs"
proof -
  have "truthy sample_previous" by (simp add: sample_previous_def)
  from optimistic_update_local [OF sample_write this sample_previous_def]
  show ?thesis by (elim exE conjE) (intro exI conjI, assumption+)
qed

lemma conforms_item:
  assumes "conforms FindingItem item"
  shows "conforms FindingItem (apply_to_item nxt input item)"
proof -
  obtain ps where item: "item = JObj ps"
    using assms FindingItem_fields(1) conforms_interface_obj by metis
  have reason: "conforms (nullable TString) (js_or (trimmed_reason input) (get item ''reason''))"
    using FindingItem_field [OF assms FindingItem_fields(6)]
    by (auto simp: js_or_def trimmed_reason_def js_string_or_undef_def split: option.splits)
  have key: "t = t'" if "(k, b, t) \<in> set (fields_of FindingItem)"
    and "map_of (fields_of FindingItem) k = Some (b', t')" for k b b' t t'
    using that FindingItem_fields(2) by (metis Pair_inject map_of_is_SomeI option.inject)
  have step: "conforms FindingItem (JObj (put k w qs))"
    if "conforms FindingItem (JObj qs)" and "map_of (fields_of FindingItem) k = Some (False, t)"
      and "conforms t w" for k w t qs
    using that conforms_put [of "fields_of FindingItem" qs k w] key FindingItem_fields(1) by metis
  show ?thesis
    unfolding apply_to_item_def copy_with_def set_fields.simps item spread_props_def jsval.case
    using assms item reason
    by (intro step [OF _ FindingItem_fields(6)] step [OF _ FindingItem_fields(5)]
        step [OF _ FindingItem_fields(4)] step [OF _ FindingItem_fields(3)])
      (auto simp: js_string_or_null_def split: option.splits)
qed

lemma FindingsResponse_items:
  "FindingsResponse = TInterface (fields_of FindingsResponse)" "distinct (map fst (fields_of FindingsResponse))"
  "(''items'', False, TArray FindingItem) \<in> set (fields_of FindingsResponse)"
  by (simp_all add: FindingsResponse_def ts_simps)

lemma conforms_nonnull: "conforms FindingItem item \<Longrightarrow> \<not> nullish item"
  using FindingItem_fields(1) conforms_interface_obj nullish_simps(7) by metis

lemma optimistic_response_typed:
  assumes "conforms FindingsResponse previous"
  shows "\<exists>d. optimistic_response nxt input previous = Inr d \<and> conforms FindingsResponse d"
proof -
  obtain ps where ps: "previous = JObj ps"
    using assms FindingsResponse_items(1) conforms_interface_obj by metis
  have "conforms (TArray FindingItem) (get previous ''items'')"
    using assms FindingsResponse_items(1,3) conforms_interfaceD by metis
  then obtain vs where vs: "get previous ''items'' = JArr vs" and ok: "\<forall>v \<in> set vs. conforms FindingItem v"
    by (auto split: jsval.splits)
  obtain ws where ws: "map_out (optimistic_item nxt input) vs = Inr ws"
    using map_out_total [of vs "optimistic_item nxt input"] ok conforms_nonnull by (metis optimistic_item_Inr)
  have "conforms FindingItem w" if "w \<in> set ws" for w
    using map_out_set [OF ws that] ok conforms_item by (auto simp: optimistic_item_Inr split: if_splits)
  then have arr: "conforms (TArray FindingItem) (JArr ws)" by simp
  have "conforms FindingsResponse (JObj (put ''items'' (JArr ws) ps))"
    using assms arr conforms_put [of "fields_of FindingsResponse" ps "''items''" "JArr ws"] FindingsResponse_items
    unfolding ps by (metis Pair_inject map_of_is_SomeI option.inject)
  then show ?thesis
    using vs ws by (simp add: optimistic_response_def array_map_def copy_with_def ps spread_props_def del: get_JObj)
qed

text \<open>
  C35. The optimistic list is as well-typed as the one it replaces: from a cached response of the
  declared type, with the snooze date in the range of time values, the update does not throw
  and writes a response of the declared type.
\<close>

theorem optimistic_update_typed:
  assumes "getQueryData key c = Some previous" and "conforms FindingsResponse previous"
    and "\<bar>now + ms_per_day * orelse (li_snoozeDays input) 7\<bar> \<le> 8640000000000000"
  shows "\<exists>d. onMutate_write now input key c = (Inr previous, setQueryData key d c) \<and> conforms FindingsResponse d"
proof -
  obtain ps where "previous = JObj ps"
    using assms(2) FindingsResponse_items(1) conforms_interface_obj by metis
  then have "truthy previous" by simp
  moreover have "\<exists>nxt. optimisticState now input = Inr nxt"
    using snoozeUntilIso_ok [OF assms(3)] by (cases "li_action input") (auto simp: optimisticState_def)
  then obtain nxt where "optimisticState now input = Inr nxt" ..
  moreover obtain d where "optimistic_response nxt input previous = Inr d" "conforms FindingsResponse d"
    using optimistic_response_typed [OF assms(2)] by metis
  ultimately show ?thesis by (auto simp: onMutate_write_def assms(1))
qed

definition typed_sample :: jsval where
  "typed_sample = JObj [(''ok'', JBool True), (''tenant_id'', JStr ''acme''), (''workspace'', JStr ''prod''),
     (''limit'', JNum (Fin 50)), (''offset'', JNum (Fin 0)), (''total'', JNum (Fin 1)),
     (''items'', JArr [JObj (map (\<lambda>(k, b, t). (k, if conforms t JNull then JNull else JStr ''fp-1'')) (fields_of FindingItem))])]"

theorem optimistic_update_typed_witness:
  "\<exists>d. onMutate_write 0 sample_input sample_key (setQueryData sample_key typed_sample []) =
         (Inr typed_sample, setQueryData sample_key d (setQueryData sample_key typed_sample []))
     \<and> conforms FindingsResponse d"
proof (rule optimistic_update_typed)
  show "getQueryData sample_key (setQueryData sample_key typed_sample []) = Some typed_sample"
    by (rule queries.read_own_write) (simp add: typed_sample_def)
  show "conforms FindingsResponse typed_sample" by code_simp
qed (simp add: sample_input_def)

section \<open>The end of a run\<close>

lemma matches_own_key: "plain_key key \<Longrightarrow> q_key q = key \<Longrightarrow> matches key q"
  by (simp add: matches_plain)

lemma finish_invalidates:
  assumes "find_query key (lifecycle_finish key previous r c) = Some q" and "plain_key key" and "q_key q = key"
  shows "st_invalidated (q_state q) \<and> (isActive q \<longrightarrow> st_fetching (q_state q))"
proof -
  define c1 where "c1 = (case r of Inl _ \<Rightarrow> onError_rollback previous key c | Inr _ \<Rightarrow> c)"
  obtain q' where q': "find_query key c1 = Some q'"
    and q: "q = (if matches key q' then refetch_active (invalidate q') else q')"
    using assms(1) by (auto simp: lifecycle_finish_def onSettled_def find_invalidate c1_def [symmetric])
  have "q_key q' = key" using assms(3) by (auto simp: q split: if_splits)
  then have "q = refetch_active (invalidate q')" using matches_own_key [OF assms(2)] by (simp add: q)
  moreover have "isActive (refetch_active (invalidate q')) = isActive q'"
    by (auto simp: query_ops isActive_def)
  ultimately show ?thesis using refetch_active_stale by metis
qed

text \<open>
  C5. However a lifecycle action ends, and whatever else ran on the cache meanwhile, the list the
  page shows by then does not stay as it is: if it is cached it is marked stale, and a list on
  the screen is being fetched from the backend again.
\<close>

theorem lifecycle_always_refetches:
  assumes "lifecycle_run env b input key shown c w r c' w'" and "plain_key shown"
    and "find_query shown c' = Some q" and "q_key q = shown"
  shows "st_invalidated (q_state q) \<and> (isActive q \<longrightarrow> st_fetching (q_state q))"
  using assms(1)
proof cases
  case (mutate_throws c1 now e c2)
  then show ?thesis using finish_invalidates assms(2-4) by metis
next
  case (posted c1 now previous c2 now' c3)
  then show ?thesis using finish_invalidates assms(2-4) by metis
qed

lemma failed_finish_reads:
  assumes "truthy previous"
  shows "getQueryData shown (lifecycle_finish shown previous (Inl e) c) = Some previous"
    and "hashKey k \<noteq> hashKey shown \<Longrightarrow>
      getQueryData k (lifecycle_finish shown previous (Inl e) c) = getQueryData k c"
proof -
  have "previous \<noteq> JUndef" using assms by auto
  moreover have "getQueryData k (lifecycle_finish shown previous (Inl e) c) =
      getQueryData k (setQueryData shown previous c)" for k
    using assms queries.read_inval by (simp add: lifecycle_finish_def onSettled_def onError_rollback_def)
  ultimately show "getQueryData shown (lifecycle_finish shown previous (Inl e) c) = Some previous"
    and "hashKey k \<noteq> hashKey shown \<Longrightarrow>
      getQueryData k (lifecycle_finish shown previous (Inl e) c) = getQueryData k c"
    using queries.read_own_write queries.write_other by auto
qed

text \<open>
  C3. A failed action leaves no trace in the list, as long as the page still shows that list: when
  the post throws, the cached list is again the one taken before the optimistic update, also when
  fetches were answered or other code wrote to the cache while the post was pending, and no other
  cached query is changed by the roll back.
\<close>

theorem failed_action_rolls_back:
  assumes "cache_steps (cancelQueries key c) c1"
    and "onMutate_write now input key c1 = (Inr previous, c2)" and "truthy previous"
    and "lifecycle_mutationFn env b now' input w = (Inl e, w')"
    and "cache_steps c2 c3"
  defines "c4 \<equiv> lifecycle_finish key previous (Inl e) c3"
  shows "lifecycle_run env b input key key c w (Inl e) c4 w'
    \<and> getQueryData key c4 = getQueryData key c1 \<and> getQueryData key c1 = Some previous
    \<and> (\<forall>k. hashKey k \<noteq> hashKey key \<longrightarrow> getQueryData k c4 = getQueryData k c3)"
  using lifecycle_run.posted [OF assms(1,2,4,5)] onMutate_write_cases [OF assms(2,3)]
    failed_finish_reads [OF assms(3)] by (metis c4_def)

text \<open>
  C7. When the page has moved on to another list before the post fails (the next page, another
  filter), the roll back hits the wrong list: the rows of the list the action was taken on are
  written over the list on the screen, and the list the action was taken on keeps the optimistic
  change that the backend refused.
\<close>

theorem roll_back_hits_shown_list:
  assumes "cache_steps (cancelQueries key c) c1"
    and "onMutate_write now input key c1 = (Inr previous, c2)" and "truthy previous"
    and "lifecycle_mutationFn env b now' input w = (Inl e, w')"
    and "cache_steps c2 c3" and "getQueryData key c3 = getQueryData key c2"
    and "hashKey shown \<noteq> hashKey key"
  defines "c4 \<equiv> lifecycle_finish shown previous (Inl e) c3"
  shows "lifecycle_run env b input key shown c w (Inl e) c4 w'
    \<and> getQueryData shown c4 = getQueryData key c1
    \<and> (\<exists>nxt d. optimisticState now input = Inr nxt \<and> optimistic_response nxt input previous = Inr d
         \<and> getQueryData key c4 = Some d)"
proof -
  obtain nxt d where "getQueryData key c1 = Some previous" "optimisticState now input = Inr nxt"
    and d: "optimistic_response nxt input previous = Inr d" "c2 = setQueryData key d c1"
    using onMutate_write_cases [OF assms(2,3)] by metis
  moreover have "getQueryData key c2 = Some d"
    using queries.read_own_write optimistic_response_defined [OF d(1)] by (simp add: d(2))
  moreover note lifecycle_run.posted [OF assms(1,2,4,5), where shown = shown] failed_finish_reads [OF assms(3), where shown = shown and e = e and c = c3]
  ultimately show ?thesis using assms(6,7) unfolding c4_def by metis
qed

text \<open>A run on the sample list against a backend that answers 404.\<close>

lemma sample_post_fails:
  "\<exists>e. lifecycle_mutationFn sample_env sample_browser 0 sample_resolve () = (Inl e, ())"
proof -
  obtain body where b: "lifecycle_body 0 sample_resolve = Inr body"
    by (simp add: lifecycle_body_def sample_resolve_def sample_input_def Let_def)
  obtain u where u: "buildUrl sample_env (''/lifecycle/'' @ action_name (li_action sample_resolve))
      (scopedQuery (getStoredScope sample_browser) None) = Inr u"
    by (simp add: buildUrl_def sample_env_def getApiBaseUrl_def)
  show ?thesis
    using u by (simp add: lifecycle_mutationFn_def b api_post_def request_def no_options_def
        read_response_def sample_env_def response_ok_def)
qed

lemma sample_start: "cache_steps (cancelQueries sample_key (setQueryData sample_key sample_previous [])) sample_cache"
  by (simp add: sample_cache_def)

theorem failed_action_rolls_back_witness:
  "\<exists>e c. lifecycle_run sample_env sample_browser sample_resolve sample_key sample_key
       (setQueryData sample_key sample_previous []) () (Inl e) c ()
     \<and> getQueryData sample_key c = Some sample_previous"
proof -
  obtain e where e: "lifecycle_mutationFn sample_env sample_browser 0 sample_resolve () = (Inl e, ())"
    using sample_post_fails by blast
  have "truthy sample_previous" by (simp add: sample_previous_def)
  from failed_action_rolls_back [OF sample_start sample_write this e rtranclp.rtrancl_refl]
  show ?thesis by (elim conjE) (intro exI conjI, assumption, simp only:)
qed

lemma sample_plain: "plain_key sample_key"
  by (simp add: sample_key_def)

lemma sample_finish:
  "\<exists>q. find_query sample_key
         (lifecycle_finish sample_key sample_previous (Inl e) (setQueryData sample_key sample_next sample_cache)) = Some q
     \<and> q_key q = sample_key"
proof -
  have "find_query sample_key (setQueryData sample_key sample_previous []) =
      Some (manual_data sample_previous (new_query sample_key))"
    by (simp add: find_set sample_previous_def) (simp add: find_query_def)
  then obtain q where q: "find_query sample_key sample_cache = Some q" "q_key q = sample_key"
    by (simp add: sample_cache_def cancelQueries_def)
  then show ?thesis
    by (simp add: lifecycle_finish_def onSettled_def onError_rollback_def find_invalidate find_set
        sample_previous_def sample_next_def)
qed

theorem lifecycle_always_refetches_witness:
  "\<exists>e c q. lifecycle_run sample_env sample_browser sample_resolve sample_key sample_key
       (setQueryData sample_key sample_previous []) () (Inl e) c ()
     \<and> find_query sample_key c = Some q \<and> st_invalidated (q_state q)"
proof -
  obtain e where e: "lifecycle_mutationFn sample_env sample_browser 0 sample_resolve () = (Inl e, ())"
    using sample_post_fails by blast
  obtain q where q: "find_query sample_key (lifecycle_finish sample_key sample_previous (Inl e)
      (setQueryData sample_key sample_next sample_cache)) = Some q" "q_key q = sample_key"
    using sample_finish by blast
  note run = lifecycle_run.posted [OF sample_start sample_write e rtranclp.rtrancl_refl, where shown = sample_key]
  show ?thesis
    using run q(1) conjunct1 [OF lifecycle_always_refetches [OF run sample_plain q]]
    by (intro exI conjI)
qed

text \<open>The same action when the page has turned to the second page of the list before the answer.\<close>

definition sample_key2 :: query_key where
  "sample_key2 = sample_key @ [JStr ''page 2'']"

theorem roll_back_hits_shown_list_witness:
  "\<exists>e c. lifecycle_run sample_env sample_browser sample_resolve sample_key sample_key2
       (setQueryData sample_key sample_previous []) () (Inl e) c ()
     \<and> getQueryData sample_key2 c = Some sample_previous \<and> (\<exists>d. getQueryData sample_key c = Some d)"
proof -
  obtain e where e: "lifecycle_mutationFn sample_env sample_browser 0 sample_resolve () = (Inl e, ())"
    using sample_post_fails by blast
  have t: "truthy sample_previous" by (simp add: sample_previous_def)
  have "plain_key sample_key2" "sample_key2 \<noteq> sample_key"
    by (simp_all add: sample_key2_def sample_key_def)
  then have "hashKey sample_key2 \<noteq> hashKey sample_key" using hashKey_inject sample_plain by blast
  from roll_back_hits_shown_list [OF sample_start sample_write t e rtranclp.rtrancl_refl refl this]
  show ?thesis unfolding sample_cache_data by blast
qed

end
