(* ===== verification/Grouping.thy ===== *)
theory Grouping
  imports Prelude "HOL-Library.Multiset"
begin

text \<open>
  The loop several pages use to group the rows of a table: a \<open>Map\<close> from keys to arrays, filled
  in one pass, whose entries are shown in the order in which their keys were first met; and the
  insertion order of a \<open>Set\<close>.
\<close>

definition bucket_add :: "('a \<Rightarrow> 'k) \<Rightarrow> 'a \<Rightarrow> ('k \<times> 'a list) list \<Rightarrow> ('k \<times> 'a list) list" where
  "bucket_add key x buckets = put (key x) (orelse (map_of buckets (key x)) [] @ [x]) buckets"

definition group_by :: "('a \<Rightarrow> 'k) \<Rightarrow> 'a list \<Rightarrow> ('k \<times> 'a list) list" where
  "group_by key xs = fold (bucket_add key) xs []"

definition set_add :: "'a \<Rightarrow> 'a list \<Rightarrow> 'a list" where
  "set_add x xs = (if x \<in> set xs then xs else xs @ [x])"

definition set_of_list :: "'a list \<Rightarrow> 'a list" where
  "set_of_list xs = fold set_add xs []"

section \<open>Facts\<close>

lemma keys_put: "keys_of (put k v ps) = set_add k (keys_of ps)"
  by (induction k v ps rule: put.induct) (auto simp: set_add_def)

lemma set_set_add [simp]: "set (set_add x xs) = insert x (set xs)"
  by (auto simp: set_add_def)

lemma distinct_set_add [simp]: "distinct (set_add x xs) \<longleftrightarrow> distinct xs"
  by (auto simp: set_add_def)

lemma fold_set_add: "set (fold set_add xs acc) = set acc \<union> set xs" "distinct (fold set_add xs acc) \<longleftrightarrow> distinct acc"
  by (induction xs arbitrary: acc) auto

lemma set_of_list [simp]: "set (set_of_list xs) = set xs" "distinct (set_of_list xs)"
  using fold_set_add [of xs "[]"] by (simp_all add: set_of_list_def)

lemma group_by_snoc: "group_by key (xs @ [x]) = bucket_add key x (group_by key xs)"
  by (simp add: group_by_def)

lemma set_of_list_snoc: "set_of_list (xs @ [x]) = set_add x (set_of_list xs)"
  by (simp add: set_of_list_def)

text \<open>The keys are those of the rows, in the order they are first met.\<close>

lemma keys_group_by: "keys_of (group_by key xs) = set_of_list (map key xs)"
proof (induction xs rule: rev_induct)
  case (snoc x xs)
  then show ?case by (simp add: group_by_snoc set_of_list_snoc bucket_add_def keys_put)
qed (simp add: group_by_def set_of_list_def)

lemma distinct_group_by: "distinct (keys_of (group_by key xs))"
  by (simp add: keys_group_by)

text \<open>A bucket holds exactly the rows with its key, in their order.\<close>

lemma map_of_group_by:
  "map_of (group_by key xs) k = (if k \<in> key ` set xs then Some (filter (\<lambda>x. key x = k) xs) else None)"
proof (induction xs rule: rev_induct)
  case (snoc x xs)
  have "filter (\<lambda>y. key y = key x) xs = []" if "key x \<notin> key ` set xs"
    using that by (auto simp: filter_empty_conv image_iff)
  with snoc show ?case by (auto simp: group_by_snoc bucket_add_def)
qed (simp add: group_by_def)

lemma group_by_bucket:
  "(k, ys) \<in> set (group_by key xs) \<longleftrightarrow> k \<in> key ` set xs \<and> ys = filter (\<lambda>x. key x = k) xs"
proof -
  have "(k, ys) \<in> set (group_by key xs) \<longleftrightarrow> map_of (group_by key xs) k = Some ys"
    using distinct_group_by [of key xs] by (simp add: map_of_eq_Some_iff)
  then show ?thesis by (auto simp: map_of_group_by)
qed

lemma filter_mset_split: "filter_mset P M + filter_mset (\<lambda>x. \<not> P x) M = M"
  by (induction M) auto

lemma mset_buckets:
  "distinct ks \<Longrightarrow> key ` set xs \<subseteq> set ks \<Longrightarrow>
     mset (concat (map (\<lambda>k. filter (\<lambda>x. key x = k) xs) ks)) = mset xs"
proof (induction ks arbitrary: xs)
  case (Cons k ks)
  let ?r = "filter (\<lambda>x. key x \<noteq> k) xs"
  have same: "filter (\<lambda>x. key x = j) ?r = filter (\<lambda>x. key x = j) xs" if "j \<in> set ks" for j
    using that Cons.prems(1) by (auto intro: filter_cong)
  have "mset (concat (map (\<lambda>j. filter (\<lambda>x. key x = j) ?r) ks)) = mset ?r"
    using Cons.prems by (intro Cons.IH) auto
  then have "mset (concat (map (\<lambda>j. filter (\<lambda>x. key x = j) xs) ks)) = mset ?r"
    using same by (metis (no_types, lifting) map_eq_conv)
  then show ?case using filter_mset_split [of "\<lambda>x. key x = k" "mset xs"] by simp
qed (cases xs; simp)

text \<open>No row is lost and none is shown twice.\<close>

lemma mset_group_by: "mset (concat (map snd (group_by key xs))) = mset xs"
proof -
  have "map snd (group_by key xs) = map (\<lambda>k. filter (\<lambda>x. key x = k) xs) (keys_of (group_by key xs))"
    using group_by_bucket [of _ _ key xs] by (auto simp: map_eq_conv)
  then show ?thesis by (simp add: keys_group_by mset_buckets)
qed

text \<open>Every bucket has a row.\<close>

lemma group_by_not_Nil: "(k, ys) \<in> set (group_by key xs) \<Longrightarrow> ys \<noteq> []"
  by (auto simp: group_by_bucket filter_empty_conv)

end
