(* ===== verification/FindingsPage.thy ===== *)
theory FindingsPage
  imports Components Lifecycle Auth JsJson Grouping
begin

text \<open>
  \<open>app/findings/FindingsClientPage.tsx\<close>: what the page derives from its address, its queries and
  its own state, what it shows, and what its handlers do.  The list it shows is the cached
  answer of one of two queries; triage of a finding goes through \<open>Lifecycle\<close>.
\<close>

section \<open>Texts\<close>

definition findingsErrorMessage :: "thrown \<Rightarrow> string" where
  "findingsErrorMessage = apiErrorMessage ''Failed to load findings'' ''Failed to load findings.''"

definition lifecycleErrorMessage :: "thrown \<Rightarrow> string" where
  "lifecycleErrorMessage = apiErrorMessage ''Action failed'' ''Action failed.''"

definition findingAdvice :: "jsval \<Rightarrow> string option" where
  "findingAdvice payload =
     (if \<not> truthy payload then None
      else let advice = trimmed_text (get payload ''advice'')
           in if advice \<noteq> [] then Some advice else some_text (trimmed_text (get payload ''recommendation'')))"

definition dimension_name_keys :: "string list" where
  "dimension_name_keys =
     [''resource_name'', ''resource_id'', ''resource_arn'', ''instance_id'', ''bucket'', ''bucket_name'',
      ''db_instance_identifier'', ''db_cluster_identifier'', ''nat_gateway_id'', ''function_name'',
      ''load_balancer_name'', ''load_balancer_arn'', ''distribution_id'', ''volume_id'', ''snapshot_id'',
      ''file_system_id'', ''vault_name'', ''plan_name'', ''cluster_name'', ''service_name'']"

text \<open>The page reads \<open>scope?.k\<close> of \<open>asRecord(payload.scope)\<close>: a value that is no record has no fields.\<close>

definition record_value :: "jsval \<Rightarrow> jsval" where
  "record_value v = (case v of JObj ps \<Rightarrow> JObj ps | _ \<Rightarrow> JNull)"

definition impactedResourceName :: "jsval \<Rightarrow> string option" where
  "impactedResourceName payload =
     (if \<not> truthy payload then None
      else let resource_keys = [''resource_name'', ''resource_id'', ''resource_arn'']
           in firstNonEmptyText
                (map (get payload) resource_keys
                 @ map (get (record_value (get payload ''scope''))) resource_keys
                 @ map (get (record_value (get payload ''dimensions''))) dimension_name_keys))"

definition severityBadgeClass :: "string \<Rightarrow> string" where
  "severityBadgeClass value =
     (let normalized = to_lower (trim value)
      in if normalized = ''critical'' then ''border-rose-300 bg-rose-50 text-rose-800''
         else if normalized = ''high'' then ''border-orange-300 bg-orange-50 text-orange-800''
         else if normalized = ''medium'' then ''border-amber-300 bg-amber-50 text-amber-800''
         else if normalized = ''low'' then ''border-emerald-300 bg-emerald-50 text-emerald-800''
         else ''border-zinc-300 bg-zinc-100 text-zinc-700'')"

definition stateBadgeClass :: "string \<Rightarrow> string" where
  "stateBadgeClass value =
     (let normalized = to_lower (trim value)
      in if normalized = ''open'' then ''border-cyan-300 bg-cyan-50 text-cyan-800''
         else if normalized = ''snoozed'' then ''border-amber-300 bg-amber-50 text-amber-800''
         else if normalized = ''resolved'' then ''border-emerald-300 bg-emerald-50 text-emerald-800''
         else if normalized = ''ignored'' then ''border-zinc-300 bg-zinc-100 text-zinc-700''
         else ''border-zinc-300 bg-zinc-100 text-zinc-700'')"

section \<open>The run the findings come from\<close>

record run_summary =
  rs_runIdLabel :: string
  rs_runDateLabel :: string
  rs_sourceLabel :: string

text \<open>The state of the loop: the run ids met, and the latest detection with its time; \<open>None\<close> is
  negative infinity.\<close>

record detection_scan =
  ds_runIds :: "string list"
  ds_latestMs :: "int option"
  ds_latestValue :: "string option"

definition scan_item :: "date_host \<Rightarrow> jsval \<Rightarrow> detection_scan \<Rightarrow> detection_scan" where
  "scan_item host item s =
     (let runId = trimmed_text (get item ''run_id'');
          s1 = (if runId \<noteq> [] then s\<lparr>ds_runIds := set_add runId (ds_runIds s)\<rparr> else s);
          detectedAt = trimmed_text (get item ''detected_at'')
      in if detectedAt = [] then s1
         else case new_date host detectedAt of
                None \<Rightarrow> s1
              | Some ms \<Rightarrow>
                  if (case ds_latestMs s1 of None \<Rightarrow> True | Some latest \<Rightarrow> latest \<le> ms)
                  then s1\<lparr>ds_latestMs := Some ms, ds_latestValue := Some detectedAt\<rparr> else s1)"

definition scan_items :: "date_host \<Rightarrow> jsval list \<Rightarrow> detection_scan" where
  "scan_items host items = fold (scan_item host) items \<lparr>ds_runIds = [], ds_latestMs = None, ds_latestValue = None\<rparr>"

definition run_ids_label :: "string list \<Rightarrow> string" where
  "run_ids_label ids =
     (if length ids = 1 then hd ids
      else if 1 < length ids then nat_to_string (length ids) @ '' runs (mixed)'' else ''-'')"

definition runDateSummary :: "date_host \<Rightarrow> jsval list \<Rightarrow> jsval \<Rightarrow> run_summary" where
  "runDateSummary host items latestRun =
     (if truthy (get latestRun ''run_id'')
      then \<lparr>rs_runIdLabel = child_text (get latestRun ''run_id''),
            rs_runDateLabel = formatUtcDateTime host (text_option (get latestRun ''run_ts'')),
            rs_sourceLabel = ''latest run metadata''\<rparr>
      else let s = scan_items host items
           in \<lparr>rs_runIdLabel = run_ids_label (ds_runIds s),
               rs_runDateLabel = (case ds_latestValue s of None \<Rightarrow> ''-'' | Some v \<Rightarrow> formatUtcDateTime host (Some v)),
               rs_sourceLabel = ''derived from findings''\<rparr>)"

section \<open>What the address says\<close>

definition orderFilter :: "search_params \<Rightarrow> string" where
  "orderFilter sp = (if usp_get ''order'' sp = Some ''detected_desc'' then ''detected_desc'' else ''savings_desc'')"

definition groupByFilter :: "search_params \<Rightarrow> string" where
  "groupByFilter sp = (if usp_get ''group_by'' sp = Some ''category'' then ''category'' else ''none'')"

definition limitFilter :: "search_params \<Rightarrow> num" where
  "limitFilter sp = parsePositiveInt (usp_get ''limit'' sp) (int_num 50)"

definition page_number :: "search_params \<Rightarrow> num" where
  "page_number sp = parsePositiveInt (usp_get ''page'' sp) (int_num 1)"

definition list_options :: "search_params \<Rightarrow> bool \<Rightarrow> findings_options" where
  "list_options sp enabled =
     \<lparr>fo_limit = Some (limitFilter sp), fo_offset = Some (page_offset (page_number sp) (limitFilter sp)),
      fo_state = Some (param ''state'' sp), fo_severity = Some (param ''severity'' sp), fo_q = Some (param ''q'' sp),
      fo_order = Some (orderFilter sp), fo_enabled = Some enabled\<rparr>"

text \<open>The two list queries of the page, and the key the lifecycle actions work on.\<close>

definition findings_list :: "browser \<Rightarrow> search_params \<Rightarrow> 'w query_options" where
  "findings_list b sp = useFindings b (list_options sp (groupByFilter sp \<noteq> ''category''))"

definition grouped_list :: "browser \<Rightarrow> search_params \<Rightarrow> 'w query_options" where
  "grouped_list b sp = useFindingsGroupedCategory b (list_options sp (groupByFilter sp = ''category''))"

definition lifecycleQueryKey :: "browser \<Rightarrow> search_params \<Rightarrow> query_key" where
  "lifecycleQueryKey b sp =
     (let scope = getStoredScope b; options = (list_options sp True)\<lparr>fo_enabled := None\<rparr>
      in if groupByFilter sp = ''category'' then groupedFindingsCategoryQueryKey scope options
         else findingsQueryKey scope options)"

section \<open>The page\<close>

text \<open>What a render of the page sees.\<close>

record findings_page =
  fp_browser :: browser
  fp_params :: search_params
  fp_scope :: tenant_scope
  fp_user :: jsval
  fp_findings :: query_view
  fp_groupedFindings :: query_view
  fp_latestRun :: query_view
  fp_latestCoverage :: query_view
  fp_isPending :: bool

record findings_state =
  fs_searchInput :: string
  fs_selectedFingerprint :: "string option"
  fs_actionReason :: string
  fs_actionFeedback :: "string option"
  fs_actionError :: "string option"

definition activeFindings :: "findings_page \<Rightarrow> query_view" where
  "activeFindings p = (if groupByFilter (fp_params p) = ''category'' then fp_groupedFindings p else fp_findings p)"

definition categoryName :: "jsval \<Rightarrow> string" where
  "categoryName item =
     (let t = trimmed_text (get item ''category'') in if t \<noteq> [] then t else ''uncategorized'')"

definition groupedItems :: "findings_page \<Rightarrow> (string \<times> jsval list) list" where
  "groupedItems p =
     (if groupByFilter (fp_params p) \<noteq> ''category'' then []
      else group_by categoryName (qv_items (activeFindings p)))"

definition category_totals :: "findings_page \<Rightarrow> jsval" where
  "category_totals p = get (qv_data (fp_groupedFindings p)) ''category_totals''"

definition categoryCountsByName :: "findings_page \<Rightarrow> (string \<times> num) list" where
  "categoryCountsByName p =
     fold (\<lambda>item. put (categoryName item) (to_num (coalesce (get item ''finding_count'') (num_lit 0))))
       (array_items (category_totals p)) []"

text \<open>For savings of the declared type, a number or \<open>null\<close>: a text would be appended by \<open>+\<close>.\<close>

definition pageSavings :: "findings_page \<Rightarrow> num" where
  "pageSavings p =
     foldl (\<lambda>acc item. num_add acc (to_num (coalesce (get item ''estimated_monthly_savings'') (num_lit 0))))
       (int_num 0) (qv_items (activeFindings p))"

definition visibleCategoryCount :: "findings_page \<Rightarrow> nat" where
  "visibleCategoryCount p = length (set_of_list (map categoryName (qv_items (activeFindings p))))"

definition categoryCount :: "findings_page \<Rightarrow> nat" where
  "categoryCount p =
     (if groupByFilter (fp_params p) = ''category'' \<and> \<not> nullish (category_totals p)
      then length (array_items (category_totals p)) else visibleCategoryCount p)"

definition runSummary :: "ui_host \<Rightarrow> findings_page \<Rightarrow> run_summary" where
  "runSummary host p = runDateSummary (uh_dates host) (qv_items (activeFindings p)) (qv_data (fp_latestRun p))"

definition has_fingerprint :: "string option \<Rightarrow> jsval \<Rightarrow> bool" where
  "has_fingerprint fp item \<longleftrightarrow> get item ''fingerprint'' = js_string_or_null fp"

definition selectedFinding :: "findings_page \<Rightarrow> findings_state \<Rightarrow> jsval" where
  "selectedFinding p s =
     (case find (has_fingerprint (fs_selectedFingerprint s)) (qv_items (activeFindings p)) of
        None \<Rightarrow> JNull | Some item \<Rightarrow> item)"

definition canTriage :: "findings_page \<Rightarrow> bool" where
  "canTriage p = allowed (fp_user p) ''findings:update''"

definition page_state :: "findings_page \<Rightarrow> paging" where
  "page_state p =
     \<lparr>pg_page = page_number (fp_params p), pg_limit = limitFilter (fp_params p), pg_total = qv_total (activeFindings p)\<rparr>"

section \<open>Handlers\<close>

datatype findings_event =
    SetSearchInput string
  | SubmitSearch
  | OpenFinding jsval
  | CloseDrawer
  | SetActionReason string
  | RunAction lifecycle_action string "int option"

type_synonym findings_events = "findings_event page_event"

definition openFinding :: "jsval \<Rightarrow> findings_state \<Rightarrow> findings_state" where
  "openFinding item s =
     s\<lparr>fs_selectedFingerprint := text_option (get item ''fingerprint''),
       fs_actionReason := text_of (get item ''reason''), fs_actionError := None, fs_actionFeedback := None\<rparr>"

definition closeDrawer :: "findings_state \<Rightarrow> findings_state" where
  "closeDrawer s = s\<lparr>fs_selectedFingerprint := None, fs_actionError := None, fs_actionFeedback := None\<rparr>"

text \<open>The effects after a render: the search field follows the address, and the drawer closes when its
  finding is no longer in the list.\<close>

definition sync_search :: "findings_page \<Rightarrow> findings_state \<Rightarrow> findings_state" where
  "sync_search p s = s\<lparr>fs_searchInput := param ''q'' (fp_params p)\<rparr>"

definition drop_missing_selection :: "findings_page \<Rightarrow> findings_state \<Rightarrow> findings_state" where
  "drop_missing_selection p s =
     (if orelse (fs_selectedFingerprint s) [] = [] then s
      else if list_ex (has_fingerprint (fs_selectedFingerprint s)) (qv_items (activeFindings p)) then s
      else s\<lparr>fs_selectedFingerprint := None, fs_actionReason := [], fs_actionError := None, fs_actionFeedback := None\<rparr>)"

text \<open>
  \<open>runAction\<close> up to its \<open>await\<close>: the input of the mutation, if it is started at all; and the end,
  with the outcome of the mutation.
\<close>

definition action_input :: "findings_page \<Rightarrow> findings_state \<Rightarrow> lifecycle_action \<Rightarrow> int option \<Rightarrow> lifecycle_input" where
  "action_input p s action days =
     \<lparr>li_action = action,
      li_fingerprint = text_of (get (selectedFinding p s) ''fingerprint''),
      li_reason = some_text (trim (fs_actionReason s)),
      li_snoozeDays = (if action = Snooze then days else None),
      li_tenantId = scope_tenantId (fp_scope p), li_workspace = scope_workspace (fp_scope p),
      li_updatedBy = text_option (js_or (get (fp_user p) ''email'') (js_or (get (fp_user p) ''user_id'') JUndef))\<rparr>"

definition runAction_start ::
    "findings_page \<Rightarrow> lifecycle_action \<Rightarrow> int option \<Rightarrow> findings_state \<Rightarrow> findings_state \<times> lifecycle_input option" where
  "runAction_start p action days s =
     (if \<not> truthy (selectedFinding p s) \<or> \<not> canTriage p then (s, None)
      else (s\<lparr>fs_actionError := None, fs_actionFeedback := None\<rparr>, Some (action_input p s action days)))"

definition action_feedback :: "lifecycle_action \<Rightarrow> string \<Rightarrow> int option \<Rightarrow> string" where
  "action_feedback action label days =
     (if action = Snooze then ''Finding snoozed for '' @ int_to_string (orelse days 0) @ '' days.''
      else ''Finding set to '' @ to_lower label @ ''.'')"

definition runAction_end ::
    "lifecycle_action \<Rightarrow> string \<Rightarrow> int option \<Rightarrow> unit outcome \<Rightarrow> findings_state \<Rightarrow> findings_state" where
  "runAction_end action label days r s =
     (case r of
        Inr _ \<Rightarrow> s\<lparr>fs_actionFeedback := Some (action_feedback action label days)\<rparr>
      | Inl e \<Rightarrow> s\<lparr>fs_actionError := Some (lifecycleErrorMessage e)\<rparr>)"

text \<open>
  A whole run of \<open>runAction\<close> on the cache and the backend.  While the mutation runs the page may
  render again (\<open>p1\<close>, perhaps with another list) and change its state (\<open>s1\<close>).
\<close>

inductive action_run ::
    "'w api_env \<Rightarrow> findings_page \<Rightarrow> lifecycle_action \<Rightarrow> string \<Rightarrow> int option \<Rightarrow>
     findings_state \<Rightarrow> cache \<Rightarrow> 'w \<Rightarrow> findings_state \<Rightarrow> cache \<Rightarrow> 'w \<Rightarrow> bool"
  for env p action label days s c w where
  refused:
    "runAction_start p action days s = (s', None) \<Longrightarrow> action_run env p action label days s c w s' c w"
| ran:
    "runAction_start p action days s = (s', Some mutation) \<Longrightarrow>
     lifecycle_run env (fp_browser p) mutation (lifecycleQueryKey (fp_browser p) (fp_params p))
       (lifecycleQueryKey (fp_browser (p1 :: findings_page)) (fp_params p1)) c w r c' w' \<Longrightarrow>
     action_run env p action label days s c w (runAction_end action label days r s1) c' w'"

inductive_cases action_runE: "action_run env p action label days s c w s' c' w'"

text \<open>The events of the page that change its own state at once, and the address it pushes.\<close>

definition findings_step :: "findings_page \<Rightarrow> findings_event \<Rightarrow> findings_state \<Rightarrow> findings_state \<times> string option" where
  "findings_step p e s =
     (case e of
        SetSearchInput v \<Rightarrow> (s\<lparr>fs_searchInput := v\<rparr>, None)
      | SubmitSearch \<Rightarrow>
          (s, Some (pushWithParams ''/findings'' (fp_params p)
                [(''q'', some_text (trim (fs_searchInput s))), (''page'', Some ''1'')]))
      | OpenFinding item \<Rightarrow> (openFinding item s, None)
      | CloseDrawer \<Rightarrow> (closeDrawer s, None)
      | SetActionReason v \<Rightarrow> (s\<lparr>fs_actionReason := v\<rparr>, None)
      | RunAction action label days \<Rightarrow> (fst (runAction_start p action days s), None))"

definition findings_pushes :: "findings_page \<Rightarrow> findings_state \<Rightarrow> findings_events \<Rightarrow> string option" where
  "findings_pushes p s e =
     (case e of
        Own own \<Rightarrow> snd (findings_step p own s)
      | _ \<Rightarrow> event_pushes ''/findings'' (fp_params p) e)"

section \<open>The view\<close>

definition renderFindingRow :: "ui_host \<Rightarrow> jsval \<Rightarrow> findings_events jsx" where
  "renderFindingRow host item =
     (let resource = orelse (impactedResourceName (get item ''payload'')) ''-''
      in El ''tr'' []
           [El ''td'' [] [El ''span'' [Prop ''className'' (severityBadgeClass (text_of (get item ''severity'')))]
              [Txt (child_text (get item ''severity''))]],
            cell (text_or_dash (get item ''category'')),
            cell (child_text (get item ''service'')),
            El ''td'' [] [El ''span'' [Prop ''title'' resource] [Txt resource]],
            El ''td'' [] [button False (Own (OpenFinding item)) (child_text (get item ''title''))],
            cell (money host (get item ''estimated_monthly_savings'')),
            El ''td'' [] [El ''span'' [Prop ''className'' (stateBadgeClass (text_of (get item ''effective_state'')))]
              [Txt (child_text (get item ''effective_state''))]],
            cell (text_or_dash (get item ''region''))])"

definition findings_header :: "ui_host \<Rightarrow> findings_page \<Rightarrow> findings_events jsx" where
  "findings_header host p =
     (let canReadRuns = allowed (fp_user p) ''runs:read'';
          canReadRecommendations = allowed (fp_user p) ''findings:read'';
          canReadUsers = allowed (fp_user p) ''users:read'';
          run = runSummary host p
      in El ''header'' []
           [El ''p'' [] [Txt ''FinOps Findings''], El ''h1'' [] [Txt ''Findings Control Center''],
            El ''p'' [] [Txt (''Tenant: '' @ scope_tenantId (fp_scope p) @ '' | Workspace: '' @ scope_workspace (fp_scope p))],
            El ''p'' [] [Txt (''Run date: '' @ rs_runDateLabel run @ '' | Run ID: '' @ rs_runIdLabel run
              @ '' ('' @ rs_sourceLabel run @ '')'')],
            nav_button canReadRecommendations ''/recommendations'' ''Recommendations'',
            nav_button canReadRecommendations ''/remediations'' ''Realized Savings'',
            nav_button canReadRuns ''/dashboard'' ''Dashboard'',
            nav_button canReadRuns ''/coverage'' ''Coverage'',
            nav_button canReadUsers ''/users'' ''Users'',
            button False Logout ''Logout''])"

definition findings_cards :: "ui_host \<Rightarrow> findings_page \<Rightarrow> findings_events jsx" where
  "findings_cards host p =
     El ''section'' []
       [info_card ''Total Findings'' (num_to_string (qv_total (activeFindings p))),
        info_card ''Current Page'' (range_text (page_state p) (length (qv_items (activeFindings p)))),
        info_card ''Page Savings'' (money host (JNum (pageSavings p))),
        info_card ''Categories'' (nat_to_string (categoryCount p))]"

definition findings_toolbar :: "findings_page \<Rightarrow> findings_state \<Rightarrow> findings_events jsx" where
  "findings_toolbar p s =
     (let sp = fp_params p
      in El ''section'' []
           [select ''State'' (param ''state'' sp) (set_filter ''state'')
              [([], ''All''), (''open'', ''Open''), (''snoozed'', ''Snoozed''), (''resolved'', ''Resolved''), (''ignored'', ''Ignored'')],
            select ''Severity'' (param ''severity'' sp) (set_filter ''severity'')
              [([], ''All''), (''critical'', ''Critical''), (''high'', ''High''), (''medium'', ''Medium''), (''low'', ''Low''), (''info'', ''Info'')],
            select ''Sort'' (orderFilter sp) (set_filter ''order'')
              [(''savings_desc'', ''Savings desc''), (''detected_desc'', ''Detected desc'')],
            select ''Group by'' (groupByFilter sp)
              (\<lambda>v. Update [(''group_by'', if v = ''category'' then Some ''category'' else None), (''page'', Some ''1'')])
              [(''none'', ''None''), (''category'', ''Category (server-side)'')],
            page_size_select (limitFilter sp),
            El ''form'' [On ''onSubmit'' (\<lambda>_. Own SubmitSearch)]
              [El ''span'' [] [Txt ''Search''],
               text_input (fs_searchInput s) False (\<lambda>v. Own (SetSearchInput v)),
               El ''button'' [Prop ''type'' ''submit''] [Txt ''Apply'']]])"

definition group_rows :: "ui_host \<Rightarrow> findings_page \<Rightarrow> string \<times> jsval list \<Rightarrow> findings_events jsx list" where
  "group_rows host p bucket =
     El ''tr'' [] [cell (''Category: '' @ fst bucket @ '' (''
       @ num_to_string (orelse (map_of (categoryCountsByName p) (fst bucket)) (int_num (int (length (snd bucket))))) @ '')'')]
     # map (renderFindingRow host) (snd bucket)"

definition finding_rows :: "ui_host \<Rightarrow> findings_page \<Rightarrow> findings_events jsx list" where
  "finding_rows host p =
     (if groupByFilter (fp_params p) = ''category'' then concat (map (group_rows host p) (groupedItems p))
      else map (renderFindingRow host) (qv_items (activeFindings p)))"

definition findings_table :: "ui_host \<Rightarrow> findings_page \<Rightarrow> findings_events jsx" where
  "findings_table host p =
     (let q = activeFindings p; shown = length (qv_items q)
      in show_if (\<not> qv_isLoading q \<and> truthy (qv_data q))
           (El ''div'' []
             [table [''Severity'', ''Category'', ''Service'', ''Resource'', ''Title'', ''Savings'', ''State'', ''Region'']
                (finding_rows host p),
              show_if (shown = 0) (El ''p'' [] [Txt ''No findings match the current filters.'']),
              pager (page_state p) shown]))"


text \<open>\<open>JSON.stringify(v, null, 2)\<close>: the members on lines of their own, indented by the depth.\<close>

definition newline :: string where
  "newline = [CHR 0x0A]"

definition json_block :: "string \<Rightarrow> string \<Rightarrow> string \<Rightarrow> string list \<Rightarrow> string" where
  "json_block left right indent parts =
     (if parts = [] then left @ right
      else left @ newline @ indent @ ''  '' @ join ('','' @ newline @ indent @ ''  '') parts @ newline @ indent @ right)"

fun stringify_indented :: "string \<Rightarrow> jsval \<Rightarrow> string" where
  "stringify_indented indent (JArr vs) = json_block ''['' '']'' indent (map (stringify_indented (indent @ ''  '')) vs)"
| "stringify_indented indent (JObj ps) =
     json_block ''{'' ''}'' indent (concat (map (\<lambda>(k, v).
       if v = JUndef then [] else [quote_string k @ '': '' @ stringify_indented (indent @ ''  '') v]) ps))"
| "stringify_indented indent v = stringify v"

definition triage_disabled :: "findings_page \<Rightarrow> bool" where
  "triage_disabled p \<longleftrightarrow> \<not> canTriage p \<or> fp_isPending p"

definition message_line :: "string option \<Rightarrow> 'e jsx" where
  "message_line m = (case m of None \<Rightarrow> Nothing | Some t \<Rightarrow> show_if (t \<noteq> []) (El ''p'' [] [Txt t]))"

definition drawer_facts :: "ui_host \<Rightarrow> jsval \<Rightarrow> findings_events jsx" where
  "drawer_facts host item =
     El ''div'' []
       [labelled ''Check:'' (child_text (get item ''check_id'')),
        labelled ''Category:'' (text_or_dash (get item ''category'')),
        labelled ''Run ID:'' (text_or_dash (get item ''run_id'')),
        labelled ''Resource:'' (orelse (impactedResourceName (get item ''payload'')) ''-''),
        labelled ''Service:'' (child_text (get item ''service'')),
        labelled ''Severity:'' (child_text (get item ''severity'')),
        labelled ''State:'' (child_text (get item ''effective_state'')),
        labelled ''Savings:'' (money host (get item ''estimated_monthly_savings'')),
        labelled ''Account:'' (text_or_dash (get item ''account_id'')),
        labelled ''Region:'' (text_or_dash (get item ''region'')),
        labelled ''Detected:'' (date_label host (get item ''detected_at'')),
        labelled ''Opened:'' (date_label host (get item ''first_opened_at'')),
        labelled ''Snooze Until:'' (date_label host (get item ''snooze_until'')),
        labelled ''Owner:'' (text_or_dash (get item ''owner_email''))]"

text \<open>The panel of related resources gets the identity of the finding.\<close>

definition finding_panel_props :: "findings_page \<Rightarrow> jsval \<Rightarrow> panel_props" where
  "finding_panel_props p item =
     \<lparr>pp_fingerprint = text_option (get item ''fingerprint''),
      pp_payload = (case get item ''payload'' of JObj ps \<Rightarrow> Some ps | _ \<Rightarrow> None),
      pp_fallback = \<lparr>fb_accountId = text_option (get item ''account_id''), fb_region = text_option (get item ''region''),
                     fb_service = text_option (get item ''service'')\<rparr>,
      pp_enabled = allowed (fp_user p) ''runs:read''\<rparr>"

definition action_buttons :: "findings_page \<Rightarrow> findings_events jsx list" where
  "action_buttons p =
     [button (triage_disabled p) (Own (RunAction Resolve ''Resolved'' None)) ''Resolve'',
      button (triage_disabled p) (Own (RunAction Ignore ''Ignored'' None)) ''Ignore'',
      button (triage_disabled p) (Own (RunAction Snooze ''Snoozed'' (Some 7))) ''Snooze 7d'',
      button (triage_disabled p) (Own (RunAction Snooze ''Snoozed'' (Some 14))) ''Snooze 14d'',
      button (triage_disabled p) (Own (RunAction Snooze ''Snoozed'' (Some 30))) ''Snooze 30d'']"

definition findings_drawer ::
    "ui_host \<Rightarrow> findings_page \<Rightarrow> findings_state \<Rightarrow> query_view \<Rightarrow> query_view \<Rightarrow> findings_events jsx" where
  "findings_drawer host p s finding_graph resource_graph =
     (let item = selectedFinding p s
      in show_if (truthy item)
           (El ''div'' []
             [button False (Own CloseDrawer) [],
              El ''aside'' []
                [El ''h2'' [] [Txt (child_text (get item ''title''))],
                 El ''p'' [] [Txt (child_text (get item ''fingerprint''))],
                 button False (Own CloseDrawer) ''Close'',
                 drawer_facts host item,
                 El ''section'' [] [El ''h3'' [] [Txt ''Checker Advice''],
                   El ''p'' [] [Txt (orelse (findingAdvice (get item ''payload'')) ''-'')]],
                 ResourceGraphContextPanel (finding_panel_props p item) finding_graph resource_graph,
                 El ''section'' []
                   ([El ''h3'' [] [Txt ''Lifecycle Actions''],
                     El ''p'' [] [Txt (if canTriage p then ''State updates are applied optimistically and synced with backend.''
                       else ''Missing permission: findings:update'')],
                     text_input (fs_actionReason s) (triage_disabled p) (\<lambda>v. Own (SetActionReason v)),
                     message_line (fs_actionError s), message_line (fs_actionFeedback s)]
                    @ action_buttons p),
                 El ''section'' [] [El ''h3'' [] [Txt ''Raw Payload''],
                   El ''pre'' [] [Txt (stringify_indented [] (coalesce (get item ''payload'') (JObj [])))]]]]))"

definition FindingsClientPage ::
    "ui_host \<Rightarrow> findings_page \<Rightarrow> findings_state \<Rightarrow> query_view \<Rightarrow> query_view \<Rightarrow> findings_events jsx" where
  "FindingsClientPage host p s finding_graph resource_graph =
     El ''main'' []
       [findings_header host p,
        RunCoverageBanner (get (qv_data (fp_latestCoverage p)) ''run'') (get (qv_data (fp_latestCoverage p)) ''coverage''),
        findings_cards host p,
        findings_toolbar p s,
        show_if (qv_isLoading (activeFindings p)) (El ''p'' [] [Txt ''Loading findings...'']),
        query_error findingsErrorMessage (activeFindings p),
        findings_table host p,
        findings_drawer host p s finding_graph resource_graph]"


section \<open>Facts\<close>

lemma clickable_texts [simp, view_simps]:
  "clickable (message_line m) = []" "clickable (RunCoverageBanner r c) = []" "clickable (neighbor_row n) = []"
  by (simp_all add: message_line_def RunCoverageBanner_def neighbor_row_def Let_def split: option.split)

lemma clickable_panel [simp, view_simps]: "clickable (ResourceGraphContextPanel pp q r) = []"
  by (simp add: ResourceGraphContextPanel_def Let_def comp_def split: option.split)

lemma clickable_query_error [simp, view_simps]:
  "clickable (query_error m q) = (if qv_error q = None then [] else [Refetch])"
  by (simp add: query_error_def split: option.split)

lemma clickable_page_size [simp, view_simps]: "clickable (page_size_select l) = []"
  by (simp add: page_size_select_def)

lemma clickable_finding_row [simp, view_simps]: "clickable (renderFindingRow host item) = [Own (OpenFinding item)]"
  by (simp add: renderFindingRow_def Let_def)

lemma clickable_group_rows [simp, view_simps]:
  "concat (map clickable (group_rows host p g)) = map (\<lambda>item. Own (OpenFinding item)) (snd g)"
  by (simp add: group_rows_def comp_def concat_map_singleton)

lemma clickable_groups:
  "concat (map clickable (concat (map (group_rows host p) gs))) = map (\<lambda>item. Own (OpenFinding item)) (concat (map snd gs))"
  by (induction gs) (simp_all add: map_concat)

lemma clickable_finding_rows:
  "concat (map clickable (finding_rows host p)) =
     map (\<lambda>item. Own (OpenFinding item))
       (if groupByFilter (fp_params p) = ''category'' then concat (map snd (groupedItems p)) else qv_items (activeFindings p))"
proof (cases "groupByFilter (fp_params p) = ''category''")
  case True
  then show ?thesis by (simp add: finding_rows_def clickable_groups)
next
  case False
  then show ?thesis by (simp add: finding_rows_def comp_def concat_map_singleton)
qed

lemma clickable_drawer:
  "clickable (findings_drawer host p s q r) =
     (if truthy (selectedFinding p s)
      then [Own CloseDrawer, Own CloseDrawer]
        @ (if triage_disabled p then []
           else map Own [RunAction Resolve ''Resolved'' None, RunAction Ignore ''Ignored'' None,
             RunAction Snooze ''Snoozed'' (Some 7), RunAction Snooze ''Snoozed'' (Some 14), RunAction Snooze ''Snoozed'' (Some 30)])
      else [])"
  by (simp add: findings_drawer_def drawer_facts_def action_buttons_def Let_def)

text \<open>
  C12. Grouping hides nothing: in the table, grouped or not, every finding of the shown page can be
  opened exactly once; and in the grouped table each category has one block, the blocks stand in
  the order in which their categories first occur, and a block lists exactly the findings of its
  category in the order of the response.
\<close>

theorem table_shows_every_finding:
  "mset (concat (map clickable (finding_rows host p))) = mset (map (\<lambda>item. Own (OpenFinding item)) (qv_items (activeFindings p)))
    \<and> groupedItems p =
        (if groupByFilter (fp_params p) = ''category''
         then map (\<lambda>k. (k, filter (\<lambda>item. categoryName item = k) (qv_items (activeFindings p))))
                (set_of_list (map categoryName (qv_items (activeFindings p))))
         else [])"
proof
  let ?items = "qv_items (activeFindings p)"
  have "mset (concat (map snd (groupedItems p))) = mset ?items" if "groupByFilter (fp_params p) = ''category''"
    using that by (simp add: groupedItems_def mset_group_by)
  then show "mset (concat (map clickable (finding_rows host p))) = mset (map (\<lambda>item. Own (OpenFinding item)) ?items)"
    unfolding clickable_finding_rows mset_map by simp
  have "group_by categoryName ?items = map (\<lambda>k. (k, filter (\<lambda>item. categoryName item = k) ?items)) (keys_of (group_by categoryName ?items))"
    by (simp add: comp_def) (rule map_idI [symmetric], auto simp: group_by_bucket)
  then show "groupedItems p = (if groupByFilter (fp_params p) = ''category''
         then map (\<lambda>k. (k, filter (\<lambda>item. categoryName item = k) ?items)) (set_of_list (map categoryName ?items)) else [])"
    by (simp add: groupedItems_def keys_group_by)
qed


text \<open>
  Triage is offered exactly to those who may do it: a click in the page can start an action on
  a finding only when a finding is selected, the user has the permission \<open>findings:update\<close> (or is
  an administrator) and no other action is pending; then all five actions can be started.
\<close>

theorem triage_offered_iff:
  "(\<exists>a l d. Own (RunAction a l d) \<in> set (clickable (FindingsClientPage host p s q r))) \<longleftrightarrow>
     truthy (selectedFinding p s) \<and> allowed (fp_user p) ''findings:update'' \<and> \<not> fp_isPending p"
proof -
  have rest: "Own (RunAction a l d) \<notin> set (clickable (findings_header host p)) \<and>
      Own (RunAction a l d) \<notin> set (clickable (findings_cards host p)) \<and>
      Own (RunAction a l d) \<notin> set (clickable (findings_toolbar p s)) \<and>
      Own (RunAction a l d) \<notin> set (clickable (findings_table host p))" for a l d
  proof -
    have "Own (RunAction a l d) \<notin> set (concat (map clickable (finding_rows host p)))"
      unfolding clickable_finding_rows by auto
    then show ?thesis
      by (auto simp: findings_header_def findings_cards_def findings_toolbar_def findings_table_def Let_def)
  qed
  have "Own (RunAction a l d) \<in> set (clickable (FindingsClientPage host p s q r)) \<longleftrightarrow>
      Own (RunAction a l d) \<in> set (clickable (findings_drawer host p s q r))" for a l d
    using rest [of a l d] by (simp add: FindingsClientPage_def)
  then show ?thesis by (auto simp: clickable_drawer triage_disabled_def canTriage_def)
qed

text \<open>The scan over the findings: what it keeps is a latest detection among those that are dates.\<close>

definition detection_time :: "date_host \<Rightarrow> jsval \<Rightarrow> int option" where
  "detection_time host item =
     (let t = trimmed_text (get item ''detected_at'') in if t = [] then None else new_date host t)"

definition scan_ok :: "date_host \<Rightarrow> jsval list \<Rightarrow> detection_scan \<Rightarrow> bool" where
  "scan_ok host items s \<longleftrightarrow>
     set (ds_runIds s) = (\<lambda>i. trimmed_text (get i ''run_id'')) ` set items - {[]} \<and> distinct (ds_runIds s) \<and>
     (case ds_latestMs s of
        None \<Rightarrow> ds_latestValue s = None \<and> (\<forall>i \<in> set items. detection_time host i = None)
      | Some ms \<Rightarrow>
          (\<exists>i \<in> set items. detection_time host i = Some ms \<and> ds_latestValue s = Some (trimmed_text (get i ''detected_at'')))
          \<and> (\<forall>i \<in> set items. \<forall>t. detection_time host i = Some t \<longrightarrow> t \<le> ms))"

lemma scan_item_ok:
  assumes "scan_ok host items s"
  shows "scan_ok host (items @ [i]) (scan_item host i s)"
proof -
  have ids: "(\<lambda>i. trimmed_text (get i ''run_id'')) ` set (items @ [i]) - {[]} =
      (if trimmed_text (get i ''run_id'') \<noteq> [] then insert (trimmed_text (get i ''run_id'')) else id)
        ((\<lambda>i. trimmed_text (get i ''run_id'')) ` set items - {[]})" by auto
  show ?thesis
  proof (cases "detection_time host i")
    case None
    then show ?thesis
      using assms unfolding scan_ok_def ids
      by (auto simp: scan_item_def Let_def detection_time_def split: option.splits if_splits)
  next
    case (Some t)
    then show ?thesis
      using assms unfolding scan_ok_def ids
      by (auto simp: scan_item_def Let_def detection_time_def split: option.splits if_splits intro: order_trans)
  qed
qed

lemma scan_items_ok: "scan_ok host items (scan_items host items)"
proof (induction items rule: rev_induct)
  case Nil
  show ?case by (simp add: scan_items_def scan_ok_def)
next
  case (snoc i items)
  then show ?case using scan_item_ok by (simp add: scan_items_def)
qed


text \<open>
  Without metadata of the latest run, the page dates the findings by their latest detection:
  the label shows a finding whose detection time is at least that of every other finding with a
  readable detection time, and it is a dash only when there is none; the run is named only when
  all findings with a run id have the same one, otherwise the number of different runs is shown.
\<close>

lemma run_summary_latest_detection:
  fixes items :: "jsval list"
  assumes "\<not> truthy (get latestRun ''run_id'')"
  defines "ids \<equiv> (\<lambda>i. trimmed_text (get i ''run_id'')) ` set items - {[]}"
  shows "((\<forall>i \<in> set items. detection_time host i = None) \<and> rs_runDateLabel (runDateSummary host items latestRun) = ''-''
      \<or> (\<exists>i \<in> set items. \<exists>t. detection_time host i = Some t
           \<and> (\<forall>j \<in> set items. \<forall>u. detection_time host j = Some u \<longrightarrow> u \<le> t)
           \<and> rs_runDateLabel (runDateSummary host items latestRun) =
               formatUtcDateTime host (Some (trimmed_text (get i ''detected_at'')))))
    \<and> (if card ids = 0 then rs_runIdLabel (runDateSummary host items latestRun) = ''-''
       else if card ids = 1 then rs_runIdLabel (runDateSummary host items latestRun) \<in> ids
       else rs_runIdLabel (runDateSummary host items latestRun) = nat_to_string (card ids) @ '' runs (mixed)'')"
proof -
  let ?s = "scan_items host items"
  have ok: "scan_ok host items ?s" by (rule scan_items_ok)
  have ids: "set (ds_runIds ?s) = ids" "card ids = length (ds_runIds ?s)"
    using ok distinct_card [of "ds_runIds ?s"] by (auto simp: scan_ok_def ids_def)
  have "run_ids_label (ds_runIds ?s) \<in> ids" if "card ids = 1"
    using that ids by (cases "ds_runIds ?s") (auto simp: run_ids_label_def)
  then have "if card ids = 0 then run_ids_label (ds_runIds ?s) = ''-''
      else if card ids = 1 then run_ids_label (ds_runIds ?s) \<in> ids
      else run_ids_label (ds_runIds ?s) = nat_to_string (card ids) @ '' runs (mixed)''"
    unfolding ids(2) by (cases "ds_runIds ?s") (auto simp: run_ids_label_def)
  moreover have "(\<forall>i \<in> set items. detection_time host i = None) \<and> ds_latestValue ?s = None
      \<or> (\<exists>i \<in> set items. \<exists>t. detection_time host i = Some t
           \<and> (\<forall>j \<in> set items. \<forall>u. detection_time host j = Some u \<longrightarrow> u \<le> t)
           \<and> ds_latestValue ?s = Some (trimmed_text (get i ''detected_at'')))"
    using ok by (cases "ds_latestMs ?s") (auto simp: scan_ok_def)
  moreover have "rs_runIdLabel (runDateSummary host items latestRun) = run_ids_label (ds_runIds ?s)"
    and "rs_runDateLabel (runDateSummary host items latestRun) =
      (case ds_latestValue ?s of None \<Rightarrow> ''-'' | Some v \<Rightarrow> formatUtcDateTime host (Some v))"
    using assms(1) by (simp_all add: runDateSummary_def Let_def)
  ultimately show ?thesis by (simp only:) (fastforce split: option.split)
qed

definition sample_findings :: "jsval list" where
  "sample_findings =
     [JObj [(''run_id'', JStr ''run-7''), (''detected_at'', JStr ''2026-02-03T04:05:06Z'')],
      JObj [(''run_id'', JNull), (''detected_at'', JStr ''yesterday'')],
      JObj [(''run_id'', JStr ''run-7 ''), (''detected_at'', JStr ''2026-01-31'')]]"

lemma run_summary_latest_detection_witness:
  "rs_runIdLabel (runDateSummary \<lparr>legacy_parse = (\<lambda>_. None), local_offset = (\<lambda>_. 0)\<rparr> sample_findings JNull) = ''run-7''"
proof -
  have "(\<lambda>i. trimmed_text (get i ''run_id'')) ` set sample_findings - {[]} = {''run-7''}"
    by (auto simp: sample_findings_def trimmed_text_def coalesce_def nullish_def trim_def trim_start_def trim_end_def is_ws_def)
  then show ?thesis
    using run_summary_latest_detection [of JNull sample_findings "\<lparr>legacy_parse = (\<lambda>_. None), local_offset = (\<lambda>_. 0)\<rparr>"]
    by simp
qed

lemma key_of_shown_list:
  "lifecycleQueryKey b sp =
     (if groupByFilter sp = ''category'' then qo_key (grouped_list b sp :: 'w query_options)
      else qo_key (findings_list b sp :: 'w query_options))"
  by (simp add: lifecycleQueryKey_def grouped_list_def findings_list_def useFindings_def useFindingsGroupedCategory_def
      findingsQueryKey_def groupedFindingsCategoryQueryKey_def list_options_def Let_def)

text \<open>
  C11. A triage action is a whole or nothing at all: without a selected finding or without permission
  neither the page nor the cache nor the backend sees anything of it; otherwise it is one run of
  the lifecycle mutation, started on the list the page shows, for the selected finding of that list and
  with the tenant and workspace of the page, and the page tells its outcome.
\<close>

theorem triage_runs_on_shown_finding:
  assumes "action_run env p action label days s c w s' c' w'"
  shows "if \<not> truthy (selectedFinding p s) \<or> \<not> canTriage p then s' = s \<and> c' = c \<and> w' = w
    else \<exists>input item r s1 p1.
        item \<in> set (qv_items (activeFindings p)) \<and> has_fingerprint (fs_selectedFingerprint s) item
      \<and> li_fingerprint input = text_of (get item ''fingerprint'') \<and> li_action input = action
      \<and> li_tenantId input = scope_tenantId (fp_scope p) \<and> li_workspace input = scope_workspace (fp_scope p)
      \<and> lifecycle_run env (fp_browser p) input
          (if groupByFilter (fp_params p) = ''category''
           then qo_key (grouped_list (fp_browser p) (fp_params p) :: 'w query_options)
           else qo_key (findings_list (fp_browser p) (fp_params p) :: 'w query_options))
          (lifecycleQueryKey (fp_browser (p1 :: findings_page)) (fp_params p1)) c w r c' w'
      \<and> s' = (case r of Inl e \<Rightarrow> s1\<lparr>fs_actionError := Some (lifecycleErrorMessage e)\<rparr>
               | Inr _ \<Rightarrow> s1\<lparr>fs_actionFeedback := Some (action_feedback action label days)\<rparr>)"
  using assms
proof cases
  case refused
  then show ?thesis by (auto simp: runAction_start_def split: if_splits)
next
  case (ran s0 input p1 r s1)
  then have sel: "truthy (selectedFinding p s)" "canTriage p" and input: "input = action_input p s action days"
    by (auto simp: runAction_start_def split: if_splits)
  obtain item where item: "find (has_fingerprint (fs_selectedFingerprint s)) (qv_items (activeFindings p)) = Some item"
    using sel(1) by (auto simp: selectedFinding_def split: option.splits)
  then have "item \<in> set (qv_items (activeFindings p))" "has_fingerprint (fs_selectedFingerprint s) item"
    by (auto simp: find_Some_iff)
  moreover have "selectedFinding p s = item" using item by (simp add: selectedFinding_def)
  ultimately have input_ok: "item \<in> set (qv_items (activeFindings p)) \<and> has_fingerprint (fs_selectedFingerprint s) item
      \<and> li_fingerprint input = text_of (get item ''fingerprint'') \<and> li_action input = action
      \<and> li_tenantId input = scope_tenantId (fp_scope p) \<and> li_workspace input = scope_workspace (fp_scope p)"
    by (simp add: input action_input_def)
  have run: "lifecycle_run env (fp_browser p) input
      (if groupByFilter (fp_params p) = ''category''
       then qo_key (grouped_list (fp_browser p) (fp_params p) :: 'w query_options)
       else qo_key (findings_list (fp_browser p) (fp_params p) :: 'w query_options))
      (lifecycleQueryKey (fp_browser p1) (fp_params p1)) c w r c' w'"
    using ran by (simp only: key_of_shown_list [where 'w = 'w])
  have "s' = (case r of Inl e \<Rightarrow> s1\<lparr>fs_actionError := Some (lifecycleErrorMessage e)\<rparr>
               | Inr _ \<Rightarrow> s1\<lparr>fs_actionFeedback := Some (action_feedback action label days)\<rparr>)"
    using ran by (simp add: runAction_end_def split: sum.split)
  then show ?thesis using sel input_ok run by (simp only: simp_thms if_False) blast
qed


text \<open>A page with one finding selected, an administrator, and a backend that answers 404.\<close>

definition sample_item :: jsval where
  "sample_item = JObj [(''fingerprint'', JStr ''fp-1''), (''title'', JStr ''Idle volume'')]"

definition sample_list :: query_view where
  "sample_list = \<lparr>qv_data = JObj [(''total'', JNum (Fin 1)), (''items'', JArr [sample_item])], qv_isLoading = False, qv_error = None\<rparr>"

definition no_query :: query_view where
  "no_query = \<lparr>qv_data = JUndef, qv_isLoading = False, qv_error = None\<rparr>"

definition sample_page :: findings_page where
  "sample_page =
     \<lparr>fp_browser = sample_browser, fp_params = [], fp_scope = \<lparr>scope_tenantId = ''acme'', scope_workspace = ''prod''\<rparr>,
      fp_user = JObj [(''permissions'', JArr [JStr ''admin:full''])], fp_findings = sample_list,
      fp_groupedFindings = no_query, fp_latestRun = no_query, fp_latestCoverage = no_query, fp_isPending = False\<rparr>"

definition sample_state :: findings_state where
  "sample_state =
     \<lparr>fs_searchInput = [], fs_selectedFingerprint = Some ''fp-1'', fs_actionReason = [], fs_actionFeedback = None,
      fs_actionError = None\<rparr>"

lemma sample_selected: "selectedFinding sample_page sample_state = sample_item"
  by (simp add: selectedFinding_def sample_page_def sample_state_def activeFindings_def groupByFilter_def usp_get_def
      sample_list_def qv_items_def sample_item_def has_fingerprint_def js_string_or_null_def coalesce_def nullish_def)

lemma sample_canTriage: "canTriage sample_page"
  by (simp add: canTriage_def allowed_def has_permission_def permission_list_def sample_page_def coalesce_def nullish_def)

lemma post_404: "\<exists>e. lifecycle_mutationFn sample_env sample_browser now input () = (Inl e, ())"
proof (cases "lifecycle_body now input")
  case (Inr body)
  obtain u where u: "buildUrl sample_env (''/lifecycle/'' @ action_name (li_action input))
      (scopedQuery (getStoredScope sample_browser) None) = Inr u"
    by (simp add: buildUrl_def sample_env_def getApiBaseUrl_def)
  show ?thesis
    using u by (simp add: lifecycle_mutationFn_def Inr api_post_def request_def no_options_def
        read_response_def sample_env_def response_ok_def)
qed (simp add: lifecycle_mutationFn_def)

lemma sample_action_run:
  "\<exists>e c'. action_run sample_env sample_page Resolve ''Resolved'' None sample_state [] ()
     (runAction_end Resolve ''Resolved'' None (Inl e) sample_state) c' ()"
proof -
  let ?input = "action_input sample_page sample_state Resolve None"
  obtain e where e: "lifecycle_mutationFn sample_env (fp_browser sample_page) 0 ?input () = (Inl e, ())"
    using post_404 [of 0 ?input] by (auto simp: sample_page_def)
  have m: "onMutate_write 0 ?input key [] = (Inr JUndef, [])" for key
    by (simp add: onMutate_write_def getQueryData_def find_query_def)
  have "cache_steps (cancelQueries key []) []" for key by (simp add: cancelQueries_def on_matching_def)
  from lifecycle_run.posted [OF this m e rtranclp.rtrancl_refl]
  have "\<exists>c'. lifecycle_run sample_env (fp_browser sample_page) ?input
      (lifecycleQueryKey (fp_browser sample_page) (fp_params sample_page))
      (lifecycleQueryKey (fp_browser sample_page) (fp_params sample_page)) [] () (Inl e) c' ()" by blast
  then obtain c' where c': "lifecycle_run sample_env (fp_browser sample_page) ?input
      (lifecycleQueryKey (fp_browser sample_page) (fp_params sample_page))
      (lifecycleQueryKey (fp_browser sample_page) (fp_params sample_page)) [] () (Inl e) c' ()" ..
  have "truthy (selectedFinding sample_page sample_state)" unfolding sample_selected by (simp add: sample_item_def)
  then have "runAction_start sample_page Resolve None sample_state =
      (sample_state\<lparr>fs_actionError := None, fs_actionFeedback := None\<rparr>, Some ?input)"
    using sample_canTriage by (simp add: runAction_start_def)
  from action_run.ran [OF this c'] show ?thesis by blast
qed

theorem triage_runs_on_shown_finding_witness:
  "\<exists>e s' c' input shown r. action_run sample_env sample_page Resolve ''Resolved'' None sample_state [] () s' c' ()
     \<and> s' = runAction_end Resolve ''Resolved'' None (Inl e) sample_state
     \<and> lifecycle_run sample_env sample_browser input
          (qo_key (findings_list sample_browser [] :: unit query_options)) shown [] () r c' ()"
proof -
  obtain e c' where run: "action_run sample_env sample_page Resolve ''Resolved'' None sample_state [] ()
     (runAction_end Resolve ''Resolved'' None (Inl e) sample_state) c' ()" using sample_action_run by blast
  have "truthy (selectedFinding sample_page sample_state)" unfolding sample_selected by (simp add: sample_item_def)
  moreover have "groupByFilter (fp_params sample_page) \<noteq> ''category''" "fp_browser sample_page = sample_browser"
      "fp_params sample_page = []"
    by (simp_all add: sample_page_def groupByFilter_def usp_get_def)
  ultimately show ?thesis
    using run triage_runs_on_shown_finding [OF run] sample_canTriage by (simp only: simp_thms if_False) blast
qed

end
