(* ===== verification/ListHooks.thy ===== *)
theory ListHooks
  imports QueryHooks
begin

text \<open>
  The hooks that read recommendations and the impact of remediations:
  \<open>hooks/useRecommendations.ts\<close> and \<open>hooks/useRemediationImpact.ts\<close>.
\<close>

section \<open>Recommendations\<close>

definition RecommendationValue :: tstype where
  "RecommendationValue = TInterface (typed_fields TString [''kind'', ''value''])"

definition RecommendationGraphRelatedResource :: tstype where
  "RecommendationGraphRelatedResource = TInterface
     (typed_fields (nullable TString) [''resource_key'', ''service'', ''resource_type'', ''resource_name'', ''edge_type'', ''source_kind'', ''confidence''])"

definition RecommendationGraphPackage :: tstype where
  "RecommendationGraphPackage = TInterface
     (typed_fields TString [''package_key'', ''package_kind'', ''package_title'', ''package_reason'']
      @ field ''related_resource_count'' TNumber @ field ''blast_radius'' TString
      @ typed_fields (TArray TString) [''related_services'', ''dependency_checklist'']
      @ field ''sample_related_resources'' (TArray RecommendationGraphRelatedResource)
      @ optional_fields (nullable TString) [''package_cluster_key'']
      @ optional_fields (nullable TNumber) [''package_estimated_monthly_savings'', ''package_estimated_annual_savings'']
      @ optional_fields (nullable TString) [''savings_owner_fingerprint'']
      @ optional_fields (nullable (TArray TString)) [''suppressed_fingerprints'']
      @ optional_fields (nullable TString) [''owner_hint'']
      @ optional_fields (nullable (TArray TString)) [''owner_hint_candidates'']
      @ optional_fields (nullable TString) [''package_owner_hint'']
      @ optional_fields (nullable TNumber) [''actionability_score'']
      @ optional_fields (nullable TString) [''actionability_label''])"

definition RecommendationItem :: tstype where
  "RecommendationItem = TInterface
     (typed_fields TString [''fingerprint'', ''check_id'', ''service'', ''severity''] @ field ''category'' (nullable TString)
      @ typed_fields TString [''title'', ''recommendation_type'', ''action'', ''priority'', ''action_type'']
      @ field ''target'' RecommendationValue @ field ''checker_advice'' TString @ field ''current'' RecommendationValue
      @ typed_fields TNumber [''estimated_monthly_savings'', ''estimated_annual_savings'', ''effective_estimated_monthly_savings'',
          ''effective_estimated_annual_savings'', ''actionability_score'']
      @ field ''actionability_label'' TString @ field ''confidence'' TNumber @ typed_fields TString [''confidence_label'', ''pricing_source'']
      @ field ''pricing_version'' (nullable TString) @ field ''requires_approval'' TBoolean
      @ typed_fields (nullable TString) [''region'', ''account_id'', ''detected_at''] @ field ''effective_state'' TString
      @ field ''is_primary_package_savings_owner'' TBoolean
      @ typed_fields (nullable TString) [''suppressed_by_fingerprint'', ''owner_hint'', ''resource_key'']
      @ field ''graph_package'' (nullable RecommendationGraphPackage) @ field ''payload'' (nullable TDict))"

definition RecommendationsResponse :: tstype where
  "RecommendationsResponse = TInterface
     (field ''ok'' (TLit (JBool True)) @ typed_fields TString [''tenant_id'', ''workspace'']
      @ typed_fields TNumber [''limit'', ''offset'', ''total''] @ field ''items'' (TArray RecommendationItem))"

record recommendations_options =
  ro_limit :: "num option"
  ro_offset :: "num option"
  ro_state :: "string option"
  ro_severity :: "string option"
  ro_service :: "string option"
  ro_checkId :: "string option"
  ro_q :: "string option"
  ro_minSavings :: "num option"
  ro_order :: "string option"

definition min_savings_text :: "num option \<Rightarrow> string" where
  "min_savings_text m = (case m of None \<Rightarrow> [] | Some x \<Rightarrow> num_to_string x)"

definition recommendationsQueryKey :: "tenant_scope option \<Rightarrow> recommendations_options \<Rightarrow> query_key" where
  "recommendationsQueryKey scope options =
     [JStr ''recommendations'', key_tenant scope, key_workspace scope,
      JNum (orelse (ro_limit options) (Fin 50)), JNum (orelse (ro_offset options) (Fin 0)),
      JStr (orelse (ro_state options) ''open''), JStr (orelse (ro_severity options) []),
      JStr (orelse (ro_service options) []), JStr (orelse (ro_checkId options) []), JStr (orelse (ro_q options) []),
      JStr (min_savings_text (ro_minSavings options)), JStr (orelse (ro_order options) ''savings_desc'')]"

definition useRecommendations :: "browser \<Rightarrow> recommendations_options \<Rightarrow> 'w query_options" where
  "useRecommendations b options =
     (let scope = getStoredScope b
      in \<lparr>qo_key = recommendationsQueryKey scope options,
          qo_enabled = scope_ready scope,
          qo_retry = None,
          qo_fn = (\<lambda>env b w. api_get env b ''/recommendations''
            (Some [(''limit'', JNum (orelse (ro_limit options) (Fin 50))), (''offset'', JNum (orelse (ro_offset options) (Fin 0))),
               (''state'', JStr (orelse (ro_state options) ''open'')), (''severity'', JStr (orelse (ro_severity options) [])),
               (''service'', JStr (orelse (ro_service options) [])), (''check_id'', JStr (orelse (ro_checkId options) [])),
               (''q'', JStr (orelse (ro_q options) [])),
               (''min_savings'', case ro_minSavings options of None \<Rightarrow> JNull | Some x \<Rightarrow> JNum x),
               (''order'', JStr (orelse (ro_order options) ''savings_desc''))]) w)\<rparr>)"

section \<open>Remediation impact\<close>

definition RemediationImpactItem :: tstype where
  "RemediationImpactItem = TInterface
     (typed_fields TString [''tenant_id'', ''workspace'', ''action_id'', ''fingerprint'', ''check_id'', ''action_type'', ''action_status'', ''verification_status'']
      @ field ''baseline_estimated_monthly_savings'' TNumber @ field ''current_estimated_monthly_savings'' (nullable TNumber)
      @ field ''realized_monthly_savings'' TNumber @ field ''realization_rate_pct'' (nullable TNumber)
      @ typed_fields (nullable TString) [''latest_run_id'', ''latest_run_ts''] @ field ''present_in_latest'' (nullable TBoolean)
      @ typed_fields TString [''finalized_at'', ''computed_at''] @ field ''version'' TNumber
      @ typed_fields TString [''outcome_status'', ''outcome_label'', ''realization_band'']
      @ typed_fields TNumber [''estimated_not_realized_monthly_savings'', ''savings_delta_monthly''])"

definition RemediationImpactSummary :: tstype where
  "RemediationImpactSummary = TInterface
     (typed_fields TNumber [''actions_count'', ''resolved_count'', ''persistent_count'', ''pending_count'', ''failed_count'',
        ''fully_realized_count'', ''partial_realization_count'', ''no_realization_count'', ''baseline_total_monthly_savings'',
        ''realized_total_monthly_savings'', ''estimated_not_realized_monthly_savings'']
      @ field ''realization_rate_pct'' (nullable TNumber))"

definition RemediationImpactQualityRow :: tstype where
  "RemediationImpactQualityRow = TInterface
     (field ''group_key'' TString
      @ typed_fields TNumber [''actions_count'', ''fully_realized_count'', ''partial_realization_count'', ''no_realization_count'',
          ''pending_count'', ''failed_count'', ''baseline_total_monthly_savings'', ''realized_total_monthly_savings'',
          ''estimated_not_realized_monthly_savings'']
      @ typed_fields (nullable TNumber) [''realization_rate_pct'', ''effective_success_rate_pct''])"

definition RemediationImpactResponse :: tstype where
  "RemediationImpactResponse = TInterface
     (field ''ok'' (TLit (JBool True)) @ typed_fields TString [''tenant_id'', ''workspace'']
      @ typed_fields TNumber [''limit'', ''offset'', ''total'', ''refreshed''] @ field ''summary'' RemediationImpactSummary
      @ field ''quality'' (TInterface (typed_fields (TArray RemediationImpactQualityRow) [''by_recommendation_type'', ''by_check_id'']))
      @ field ''items'' (TArray RemediationImpactItem))"

record remediation_options =
  mo_limit :: "num option"
  mo_offset :: "num option"
  mo_actionStatus :: "string option"
  mo_verificationStatus :: "string option"
  mo_actionType :: "string option"
  mo_checkId :: "string option"
  mo_refresh :: "bool option"

definition remediationImpactQueryKey :: "tenant_scope option \<Rightarrow> remediation_options \<Rightarrow> query_key" where
  "remediationImpactQueryKey scope options =
     [JStr ''remediation-impact'', key_tenant scope, key_workspace scope,
      JNum (orelse (mo_limit options) (Fin 50)), JNum (orelse (mo_offset options) (Fin 0)),
      JStr (orelse (mo_actionStatus options) []), JStr (orelse (mo_verificationStatus options) []),
      JStr (orelse (mo_actionType options) []), JStr (orelse (mo_checkId options) []),
      JBool (orelse (mo_refresh options) False)]"

definition useRemediationImpact :: "browser \<Rightarrow> remediation_options \<Rightarrow> 'w query_options" where
  "useRemediationImpact b options =
     (let scope = getStoredScope b
      in \<lparr>qo_key = remediationImpactQueryKey scope options,
          qo_enabled = scope_ready scope,
          qo_retry = None,
          qo_fn = (\<lambda>env b w. api_get env b ''/remediations/impact''
            (Some [(''limit'', JNum (orelse (mo_limit options) (Fin 50))), (''offset'', JNum (orelse (mo_offset options) (Fin 0))),
               (''action_status'', JStr (orelse (mo_actionStatus options) [])),
               (''verification_status'', JStr (orelse (mo_verificationStatus options) [])),
               (''action_type'', JStr (orelse (mo_actionType options) [])), (''check_id'', JStr (orelse (mo_checkId options) [])),
               (''refresh'', JBool (orelse (mo_refresh options) False))]) w)\<rparr>)"

end
