(* ===== verification/RecommendationsPage.thy ===== *)
theory RecommendationsPage
  imports Components ListHooks Auth Grouping
begin

text \<open>
  \<open>app/recommendations/RecommendationsClientPage.tsx\<close>: the list of recommendations, grouped by the
  package they belong to, with filters in the address and collapsible groups.  The renders of the
  page are modelled too, as far as the effect that initialises the groups depends on the identity
  of the array it is computed from.
\<close>

section \<open>Texts\<close>

definition ALL_STATE_FILTER :: string where
  "ALL_STATE_FILTER = ''open,snoozed,resolved,ignored''"

definition parseNonNegativeFloat :: "string \<Rightarrow> num option" where
  "parseNonNegativeFloat value =
     (if value = [] then None
      else let parsed = parse_float value
           in if \<not> is_finite_num parsed \<or> num_lt parsed (int_num 0) then None else Some parsed)"

definition recommendationsErrorMessage :: "thrown \<Rightarrow> string" where
  "recommendationsErrorMessage = apiErrorMessage ''Failed to load recommendations'' ''Failed to load recommendations.''"

text \<open>A badge class by the trimmed text in lower case; the last class is for every other text.\<close>

definition badge_class :: "(string \<times> string) list \<Rightarrow> jsval \<Rightarrow> string" where
  "badge_class classes v = orelse (map_of classes (to_lower (trim (text_of v)))) ''border-zinc-300 bg-zinc-100 text-zinc-700''"

definition priorityBadgeClass :: "jsval \<Rightarrow> string" where
  "priorityBadgeClass = badge_class
     [(''p1'', ''border-red-300 bg-red-50 text-red-800''), (''p2'', ''border-amber-300 bg-amber-50 text-amber-800'')]"

definition confidenceBadgeClass :: "jsval \<Rightarrow> string" where
  "confidenceBadgeClass = badge_class
     [(''high'', ''border-emerald-300 bg-emerald-50 text-emerald-800''), (''medium'', ''border-amber-300 bg-amber-50 text-amber-800'')]"

definition recStateBadgeClass :: "jsval \<Rightarrow> string" where
  "recStateBadgeClass = badge_class
     [(''open'', ''border-cyan-300 bg-cyan-50 text-cyan-800''), (''snoozed'', ''border-amber-300 bg-amber-50 text-amber-800''),
      (''resolved'', ''border-emerald-300 bg-emerald-50 text-emerald-800''), (''ignored'', ''border-zinc-300 bg-zinc-100 text-zinc-700'')]"

definition actionabilityBadgeClass :: "jsval \<Rightarrow> string" where
  "actionabilityBadgeClass = badge_class
     [(''high'', ''border-fuchsia-300 bg-fuchsia-50 text-fuchsia-800''), (''medium'', ''border-sky-300 bg-sky-50 text-sky-800'')]"

definition packageOwnerBadgeClass :: "bool \<Rightarrow> string" where
  "packageOwnerBadgeClass isOwner =
     (if isOwner then ''border-emerald-300 bg-emerald-50 text-emerald-800'' else ''border-amber-300 bg-amber-50 text-amber-800'')"

section \<open>Groups\<close>

definition owns_savings :: "jsval \<Rightarrow> bool" where
  "owns_savings item = truthy (get item ''is_primary_package_savings_owner'')"

text \<open>
  The sums and the groups are those of items of the declared type: a saving is a number or \<open>null\<close> (a
  text would be appended by \<open>+\<close>), and a package key is a text or \<open>null\<close>.
\<close>

definition effective_savings :: "jsval \<Rightarrow> num" where
  "effective_savings item = to_num (coalesce (get item ''effective_estimated_monthly_savings'') (num_lit 0))"

definition recommendationPackageGroupKey :: "jsval \<Rightarrow> string" where
  "recommendationPackageGroupKey item =
     (let package = get item ''graph_package''
      in to_str (coalesce (get package ''package_cluster_key'')
           (coalesce (get package ''package_key'') (JStr (''item:'' @ to_str (get item ''fingerprint''))))))"

definition recommendationPackageGroupTitle :: "jsval \<Rightarrow> jsval" where
  "recommendationPackageGroupTitle item =
     coalesce (get (get item ''graph_package'') ''package_title'') (JStr ''Standalone recommendation'')"

record package_group =
  gr_key :: string
  gr_title :: jsval
  gr_items :: "jsval list"
  gr_effectiveMonthlySavings :: num
  gr_suppressedCount :: nat

definition suppressed_one :: "jsval \<Rightarrow> nat" where
  "suppressed_one item = (if owns_savings item then 0 else 1)"

definition new_group :: "jsval \<Rightarrow> package_group" where
  "new_group item =
     \<lparr>gr_key = recommendationPackageGroupKey item, gr_title = recommendationPackageGroupTitle item, gr_items = [item],
      gr_effectiveMonthlySavings = effective_savings item, gr_suppressedCount = suppressed_one item\<rparr>"

definition extend_group :: "jsval \<Rightarrow> package_group \<Rightarrow> package_group" where
  "extend_group item g =
     g\<lparr>gr_items := gr_items g @ [item],
       gr_effectiveMonthlySavings := num_add (gr_effectiveMonthlySavings g) (effective_savings item),
       gr_suppressedCount := gr_suppressedCount g + suppressed_one item\<rparr>"

definition add_to_groups :: "jsval \<Rightarrow> (string \<times> package_group) list \<Rightarrow> (string \<times> package_group) list" where
  "add_to_groups item groups =
     (let key = recommendationPackageGroupKey item
      in put key (case map_of groups key of None \<Rightarrow> new_group item | Some g \<Rightarrow> extend_group item g) groups)"

definition recommendationGroups :: "jsval list \<Rightarrow> package_group list" where
  "recommendationGroups visible = map snd (fold add_to_groups visible [])"

definition defaultCollapsedGroupKeys :: "package_group list \<Rightarrow> bool props" where
  "defaultCollapsedGroupKeys groups = fold (\<lambda>g. put (gr_key g) (1 < length (gr_items g))) groups []"

section \<open>State\<close>

record recs_page =
  cp_browser :: browser
  cp_params :: search_params
  cp_scope :: tenant_scope
  cp_user :: jsval
  cp_recommendations :: query_view
  cp_latestCoverage :: query_view

record recs_state =
  cs_searchInput :: string
  cs_serviceInput :: string
  cs_checkIdInput :: string
  cs_minSavingsInput :: string
  cs_selectedFingerprint :: "string option"
  cs_hideSuppressed :: bool
  cs_groupByPackage :: bool
  cs_collapsedGroups :: "bool props"

definition recs_initial :: "recs_page \<Rightarrow> recs_state" where
  "recs_initial p =
     \<lparr>cs_searchInput = param ''q'' (cp_params p), cs_serviceInput = param ''service'' (cp_params p),
      cs_checkIdInput = param ''check_id'' (cp_params p), cs_minSavingsInput = param ''min_savings'' (cp_params p),
      cs_selectedFingerprint = None, cs_hideSuppressed = False, cs_groupByPackage = True, cs_collapsedGroups = []\<rparr>"

definition recs_stateFilter :: "search_params \<Rightarrow> string" where
  "recs_stateFilter sp = (let t = trim (param ''state'' sp) in if t = [] then ''open'' else t)"

definition recs_orderFilter :: "search_params \<Rightarrow> string" where
  "recs_orderFilter sp = (if usp_get ''order'' sp = Some ''detected_desc'' then ''detected_desc'' else ''savings_desc'')"

definition recs_limit :: "search_params \<Rightarrow> num" where
  "recs_limit sp = parsePositiveInt (usp_get ''limit'' sp) (int_num 50)"

definition recs_page_number :: "search_params \<Rightarrow> num" where
  "recs_page_number sp = parsePositiveInt (usp_get ''page'' sp) (int_num 1)"

definition recs_query :: "recs_page \<Rightarrow> 'w query_options" where
  "recs_query p =
     (let sp = cp_params p
      in useRecommendations (cp_browser p)
           \<lparr>ro_limit = Some (recs_limit sp), ro_offset = Some (page_offset (recs_page_number sp) (recs_limit sp)),
            ro_state = Some (recs_stateFilter sp), ro_severity = Some (param ''severity'' sp),
            ro_service = Some (param ''service'' sp), ro_checkId = Some (param ''check_id'' sp), ro_q = Some (param ''q'' sp),
            ro_minSavings = parseNonNegativeFloat (param ''min_savings'' sp), ro_order = Some (recs_orderFilter sp)\<rparr>)"

definition recommendationItems :: "recs_page \<Rightarrow> jsval list" where
  "recommendationItems p = qv_items (cp_recommendations p)"

definition visibleRecommendations :: "recs_page \<Rightarrow> recs_state \<Rightarrow> jsval list" where
  "visibleRecommendations p s =
     (if cs_hideSuppressed s then filter owns_savings (recommendationItems p) else recommendationItems p)"

definition shown_groups :: "recs_page \<Rightarrow> recs_state \<Rightarrow> package_group list" where
  "shown_groups p s = recommendationGroups (visibleRecommendations p s)"

definition recs_pageSavings :: "recs_page \<Rightarrow> recs_state \<Rightarrow> num" where
  "recs_pageSavings p s = foldl (\<lambda>acc item. num_add acc (effective_savings item)) (int_num 0) (visibleRecommendations p s)"

definition approvalRequiredCount :: "recs_page \<Rightarrow> recs_state \<Rightarrow> nat" where
  "approvalRequiredCount p s = length (filter (\<lambda>item. truthy (get item ''requires_approval'')) (visibleRecommendations p s))"

definition recs_suppressedCount :: "recs_page \<Rightarrow> nat" where
  "recs_suppressedCount p = length (filter (\<lambda>item. \<not> owns_savings item) (recommendationItems p))"

definition selectedRecommendation :: "recs_page \<Rightarrow> recs_state \<Rightarrow> jsval" where
  "selectedRecommendation p s =
     (case find (\<lambda>item. get item ''fingerprint'' = js_string_or_null (cs_selectedFingerprint s)) (recommendationItems p) of
        None \<Rightarrow> JNull | Some item \<Rightarrow> item)"

definition recs_paging :: "recs_page \<Rightarrow> paging" where
  "recs_paging p =
     \<lparr>pg_page = recs_page_number (cp_params p), pg_limit = recs_limit (cp_params p), pg_total = qv_total (cp_recommendations p)\<rparr>"

section \<open>Effects and handlers\<close>

definition sync_recs_inputs :: "search_params \<Rightarrow> recs_page \<Rightarrow> recs_state \<Rightarrow> recs_state" where
  "sync_recs_inputs old p s =
     s\<lparr>cs_searchInput := follow ''q'' old (cp_params p) (cs_searchInput s),
       cs_serviceInput := follow ''service'' old (cp_params p) (cs_serviceInput s),
       cs_checkIdInput := follow ''check_id'' old (cp_params p) (cs_checkIdInput s),
       cs_minSavingsInput := follow ''min_savings'' old (cp_params p) (cs_minSavingsInput s)\<rparr>"

definition drop_missing_recommendation :: "recs_page \<Rightarrow> recs_state \<Rightarrow> recs_state" where
  "drop_missing_recommendation p s =
     (if orelse (cs_selectedFingerprint s) [] = [] then s
      else if list_ex (\<lambda>item. get item ''fingerprint'' = js_string_or_null (cs_selectedFingerprint s)) (recommendationItems p)
      then s else s\<lparr>cs_selectedFingerprint := None\<rparr>)"

text \<open>The effect on the groups keeps what the user chose and gives new groups their default.\<close>

definition next_collapsed :: "package_group list \<Rightarrow> bool props \<Rightarrow> bool props" where
  "next_collapsed groups current =
     (let defaults = defaultCollapsedGroupKeys groups
      in fold (\<lambda>g. put (gr_key g)
           (orelse (map_of current (gr_key g)) (orelse (map_of defaults (gr_key g)) False))) groups [])"

definition sync_collapsed :: "recs_page \<Rightarrow> recs_state \<Rightarrow> recs_state" where
  "sync_collapsed p s = s\<lparr>cs_collapsedGroups := next_collapsed (shown_groups p s) (cs_collapsedGroups s)\<rparr>"

definition is_collapsed :: "recs_state \<Rightarrow> string \<Rightarrow> bool" where
  "is_collapsed s key = orelse (map_of (cs_collapsedGroups s) key) False"

definition toggleGroupCollapsed :: "string \<Rightarrow> recs_state \<Rightarrow> recs_state" where
  "toggleGroupCollapsed key s = s\<lparr>cs_collapsedGroups := put key (\<not> is_collapsed s key) (cs_collapsedGroups s)\<rparr>"

definition togglePrimaryOwnersMode :: "recs_state \<Rightarrow> recs_state" where
  "togglePrimaryOwnersMode s =
     (let hide = (\<not> cs_hideSuppressed s)
      in s\<lparr>cs_hideSuppressed := hide, cs_groupByPackage := (if hide then False else cs_groupByPackage s)\<rparr>)"

definition applySearchFilters :: "recs_page \<Rightarrow> recs_state \<Rightarrow> (string \<times> string option) list" where
  "applySearchFilters p s =
     [(''q'', some_text (trim (cs_searchInput s))), (''service'', some_text (trim (cs_serviceInput s))),
      (''check_id'', some_text (trim (cs_checkIdInput s))),
      (''min_savings'', map_option num_to_string (parseNonNegativeFloat (cs_minSavingsInput s))), (''page'', Some ''1'')]"

definition clear_filters :: "recs_state \<Rightarrow> recs_state" where
  "clear_filters s = s\<lparr>cs_searchInput := [], cs_serviceInput := [], cs_checkIdInput := [], cs_minSavingsInput := []\<rparr>"

definition clear_updates :: "(string \<times> string option) list" where
  "clear_updates = [(''q'', None), (''service'', None), (''check_id'', None), (''min_savings'', None), (''page'', Some ''1'')]"


section \<open>Renders\<close>

text \<open>
  React compares the dependencies of a memo or an effect by identity.  The array of items is the
  one of the cached answer, or, when there is none, the empty array of \<open>recommendations.data?.items ?? []\<close>;
  the groups are computed again when it (or the mode) has changed, and then the effect stores a new
  object of collapsed groups, which makes the page render again.  As written, every render makes an
  empty array of its own; \<open>kept\<close> says that the build keeps the first one, which is up to the React
  compiler that \<open>next.config.ts\<close> turns on.
\<close>

datatype array_ref = CachedItems | FreshItems nat

definition items_ref :: "bool \<Rightarrow> recs_page \<Rightarrow> nat \<Rightarrow> array_ref" where
  "items_ref kept p n =
     (if nullish (get (qv_data (cp_recommendations p)) ''items'') then FreshItems (if kept then 0 else n) else CachedItems)"

partial_function (option) settle_renders ::
    "bool \<Rightarrow> recs_page \<Rightarrow> nat \<Rightarrow> (bool \<times> array_ref) option \<Rightarrow> recs_state \<Rightarrow> (nat \<times> recs_state) option" where
  "settle_renders kept p n previous s =
     (let deps = (cs_hideSuppressed s, items_ref kept p n)
      in if previous = Some deps then Some (n, s)
         else settle_renders kept p (Suc n) (Some deps) (sync_collapsed p s))"

section \<open>The view\<close>

datatype recs_event =
    SetRecsSearch string
  | SetRecsService string
  | SetRecsCheckId string
  | SetRecsMinSavings string
  | SubmitFilters
  | ClearFilters
  | SetHideSuppressed bool
  | SetGroupByPackage bool
  | TogglePrimaryOwners
  | ToggleGroup string
  | OpenRecommendation jsval
  | CloseRecommendation

definition recs_header :: "recs_page \<Rightarrow> recs_event page_event jsx" where
  "recs_header p =
     (let canReadFindings = allowed (cp_user p) ''findings:read''
      in El ''header'' []
           [El ''p'' [] [Txt ''FinOps Actions''], El ''h1'' [] [Txt ''Recommendations Studio''],
            El ''p'' [] [Txt (''Tenant: '' @ scope_tenantId (cp_scope p) @ '' | Workspace: '' @ scope_workspace (cp_scope p))],
            nav_button canReadFindings ''/dashboard'' ''Dashboard'',
            nav_button canReadFindings ''/findings'' ''Findings'',
            nav_button canReadFindings ''/remediations'' ''Realized Savings'',
            nav_button (allowed (cp_user p) ''runs:read'') ''/coverage'' ''Coverage'',
            nav_button (allowed (cp_user p) ''users:read'') ''/users'' ''Users'',
            button False Logout ''Logout''])"

definition recs_cards :: "ui_host \<Rightarrow> recs_page \<Rightarrow> recs_state \<Rightarrow> recs_event page_event jsx" where
  "recs_cards host p s =
     El ''section'' []
       [info_card ''Eligible Actions'' (num_to_string (qv_total (cp_recommendations p))),
        info_card ''Current Page'' (range_text (recs_paging p) (length (recommendationItems p))),
        info_card ''Recommendation Savings'' (money host (JNum (recs_pageSavings p s))),
        info_card ''Needs Approval'' (nat_to_string (approvalRequiredCount p s)),
        info_card ''Suppressed'' (nat_to_string (recs_suppressedCount p))]"

definition recs_toolbar :: "recs_page \<Rightarrow> recs_state \<Rightarrow> recs_event page_event jsx" where
  "recs_toolbar p s =
     (let sp = cp_params p
      in El ''section'' []
           [select ''State'' (recs_stateFilter sp) (\<lambda>v. Update [(''state'', Some v), (''page'', Some ''1'')])
              [(''open'', ''Open''), (ALL_STATE_FILTER, ''All states''), (''snoozed'', ''Snoozed''), (''resolved'', ''Resolved''),
               (''ignored'', ''Ignored'')],
            select ''Severity'' (param ''severity'' sp) (set_filter ''severity'')
              [([], ''All''), (''critical'', ''Critical''), (''high'', ''High''), (''medium'', ''Medium''), (''low'', ''Low''), (''info'', ''Info'')],
            select ''Sort'' (recs_orderFilter sp) (set_filter ''order'')
              [(''savings_desc'', ''Savings desc''), (''detected_desc'', ''Detected desc'')],
            page_size_select (recs_limit sp),
            El ''form'' [On ''onSubmit'' (\<lambda>_. Own SubmitFilters)]
              [El ''span'' [] [Txt ''Search title''], text_input (cs_searchInput s) False (\<lambda>v. Own (SetRecsSearch v)),
               El ''span'' [] [Txt ''Service''], text_input (cs_serviceInput s) False (\<lambda>v. Own (SetRecsService v)),
               El ''span'' [] [Txt ''Check ID''], text_input (cs_checkIdInput s) False (\<lambda>v. Own (SetRecsCheckId v)),
               El ''span'' [] [Txt ''Min monthly savings''], text_input (cs_minSavingsInput s) False (\<lambda>v. Own (SetRecsMinSavings v)),
               El ''button'' [Prop ''type'' ''submit''] [Txt ''Apply''],
               button False (Own ClearFilters) ''Clear'',
               checkbox (cs_hideSuppressed s) False (\<lambda>b. Own (SetHideSuppressed b)), Txt ''Hide suppressed'',
               checkbox (cs_groupByPackage s) (cs_hideSuppressed s) (\<lambda>b. Own (SetGroupByPackage b)), Txt ''Group by package'',
               button False (Own TogglePrimaryOwners) (if cs_hideSuppressed s then ''Show all package members'' else ''Primary owners only'')]])"

definition badge :: "string \<Rightarrow> string \<Rightarrow> 'e jsx" where
  "badge cls label = El ''span'' [Prop ''className'' cls] [Txt label]"

text \<open>\<open>v !== null && v !== undefined && v !== w\<close> for numbers, and what is shown under the savings.\<close>

definition other_number :: "jsval \<Rightarrow> jsval \<Rightarrow> bool" where
  "other_number v w \<longleftrightarrow> \<not> nullish v \<and> \<not> strict_eq v w"

definition savings_note :: "ui_host \<Rightarrow> jsval \<Rightarrow> string" where
  "savings_note host item =
     (let package_total = get (get item ''graph_package'') ''package_estimated_monthly_savings''
      in if \<not> owns_savings item then ''Counted in '' @ child_text (get item ''suppressed_by_fingerprint'')
         else if other_number package_total (get item ''estimated_monthly_savings'') then ''Package total '' @ money host package_total
         else ''Raw '' @ money host (get item ''estimated_monthly_savings''))"

definition recommendation_row :: "ui_host \<Rightarrow> jsval \<Rightarrow> recs_event page_event jsx" where
  "recommendation_row host item =
     (let package = get item ''graph_package''
      in El ''tr'' []
           [El ''td'' [] [badge (priorityBadgeClass (get item ''priority'')) (to_upper (text_of (get item ''priority'')))],
            El ''td'' [] [button False (Own (OpenRecommendation item)) (child_text (get item ''title'')),
              El ''p'' [] [Txt (child_text (get item ''recommendation_type'') @ '' | '' @ child_text (get item ''service'') @ '' | ''
                @ child_text (get item ''check_id''))]],
            El ''td'' [] [badge (packageOwnerBadgeClass (owns_savings item)) (if owns_savings item then ''Primary owner'' else ''Suppressed''),
              El ''p'' [] [Txt (if truthy package then child_text (get package ''package_title'') else ''No package context'')]],
            cell (child_text (get item ''action_type'')),
            El ''td'' [] [El ''span'' [] [Txt (money host (get item ''effective_estimated_monthly_savings''))],
              El ''span'' [] [Txt (savings_note host item)]],
            El ''td'' [] [badge (actionabilityBadgeClass (get item ''actionability_label''))
                (child_text (get item ''actionability_score'') @ '' ('' @ child_text (get item ''actionability_label'') @ '')''),
              El ''span'' [] [Txt (if truthy (get item ''owner_hint'') then ''Owner '' @ child_text (get item ''owner_hint'') else ''Owner TBD'')]],
            El ''td'' [] [badge (confidenceBadgeClass (get item ''confidence_label''))
              (child_text (get item ''confidence'') @ ''% ('' @ child_text (get item ''confidence_label'') @ '')'')],
            cell (if truthy (get item ''requires_approval'') then ''Required'' else ''No''),
            El ''td'' [] [badge (recStateBadgeClass (get item ''effective_state'')) (child_text (get item ''effective_state''))]])"

definition group_header :: "ui_host \<Rightarrow> recs_state \<Rightarrow> package_group \<Rightarrow> recs_event page_event jsx" where
  "group_header host s g =
     (let collapsed = is_collapsed s (gr_key g);
          owner = (case gr_items g of [] \<Rightarrow> JUndef | item # _ \<Rightarrow> get (get item ''graph_package'') ''owner_hint'')
      in El ''tr'' []
           [button False (Own (ToggleGroup (gr_key g))) (if collapsed then ''+'' else ''-''),
            El ''p'' [] [Txt ''Package''], El ''p'' [] [Txt (child_text (gr_title g))],
            El ''span'' [] [Txt (nat_to_string (length (gr_items g)) @ '' item(s)'')],
            show_if (1 < length (gr_items g)) (El ''span'' [] [Txt (if collapsed then ''Collapsed'' else ''Expanded'')]),
            show_if (truthy owner) (El ''span'' [] [Txt (''Owner '' @ child_text owner)]),
            El ''span'' [] [Txt (money host (JNum (gr_effectiveMonthlySavings g)))]])"

definition group_block :: "ui_host \<Rightarrow> recs_state \<Rightarrow> package_group \<Rightarrow> recs_event page_event jsx list" where
  "group_block host s g =
     group_header host s g # (if is_collapsed s (gr_key g) then [] else map (recommendation_row host) (gr_items g))"

definition flat_rows :: "ui_host \<Rightarrow> recs_page \<Rightarrow> recs_state \<Rightarrow> recs_event page_event jsx list" where
  "flat_rows host p s = (if cs_groupByPackage s then [] else map (recommendation_row host) (visibleRecommendations p s))"

definition recommendation_rows :: "ui_host \<Rightarrow> recs_page \<Rightarrow> recs_state \<Rightarrow> recs_event page_event jsx list" where
  "recommendation_rows host p s =
     concat (map (group_block host s) (if cs_groupByPackage s then shown_groups p s else [])) @ flat_rows host p s"

definition recs_pager :: "paging \<Rightarrow> nat \<Rightarrow> recs_event page_event jsx" where
  "recs_pager g shown = push_pager g shown"

definition recommendations_table :: "ui_host \<Rightarrow> recs_page \<Rightarrow> recs_state \<Rightarrow> recs_event page_event jsx" where
  "recommendations_table host p s =
     (let q = cp_recommendations p
      in show_if (\<not> qv_isLoading q \<and> truthy (qv_data q))
           (El ''div'' []
             [table [''Priority'', ''Recommendation'', ''Package'', ''Action Type'', ''Effective Savings / month'', ''Actionability'',
                ''Confidence'', ''Approval'', ''State''] (recommendation_rows host p s),
              show_if (visibleRecommendations p s = [])
                (El ''p'' [] [Txt ''No recommendation-eligible actions match the current filters.'']),
              recs_pager (recs_paging p) (length (recommendationItems p))]))"


definition recommendation_facts :: "ui_host \<Rightarrow> jsval \<Rightarrow> recs_event page_event jsx" where
  "recommendation_facts host item =
     El ''div'' []
       [labelled ''Type:'' (child_text (get item ''recommendation_type'')),
        labelled ''Priority:'' (to_upper (text_of (get item ''priority''))),
        labelled ''Action Type:'' (child_text (get item ''action_type'')),
        labelled ''State:'' (child_text (get item ''effective_state'')),
        labelled ''Service:'' (child_text (get item ''service'')),
        labelled ''Severity:'' (child_text (get item ''severity'')),
        labelled ''Category:'' (text_or_dash (get item ''category'')),
        labelled ''Detected:'' (date_label host (get item ''detected_at'')),
        labelled ''Region:'' (text_or_dash (get item ''region'')),
        labelled ''Account:'' (text_or_dash (get item ''account_id'')),
        labelled ''Monthly Savings:'' (money host (get item ''effective_estimated_monthly_savings'')),
        labelled ''Annual Savings:'' (money host (get item ''effective_estimated_annual_savings'')),
        labelled ''Actionability:'' (child_text (get item ''actionability_score'') @ '' ('' @ child_text (get item ''actionability_label'') @ '')''),
        labelled ''Owner Hint:'' (text_or_dash (get item ''owner_hint'')),
        labelled ''Confidence:'' (child_text (get item ''confidence'') @ ''% ('' @ child_text (get item ''confidence_label'') @ '')''),
        labelled ''Approval:'' (if truthy (get item ''requires_approval'') then ''Required'' else ''Not required'')]"

definition package_context :: "jsval \<Rightarrow> recs_event page_event jsx" where
  "package_context item =
     (let package = get item ''graph_package''; services = array_items (get package ''related_services'')
      in El ''section'' []
           (El ''h3'' [] [Txt ''Package Context'']
            # (if truthy package
               then [labelled ''Package:'' (child_text (get package ''package_title'')),
                     labelled ''Reason:'' (child_text (get package ''package_reason'')),
                     labelled ''Ownership:'' (if owns_savings item then ''This item owns package savings.''
                       else ''Savings are owned by '' @ to_str (coalesce (get item ''suppressed_by_fingerprint'') (JStr ''another item'')) @ ''.''),
                     labelled ''Blast Radius:'' (child_text (get package ''blast_radius'') @ '' (''
                       @ child_text (get package ''related_resource_count'') @ '' related resource(s))''),
                     labelled ''Related Services:'' (if services \<noteq> [] then join '', '' (map child_text services) else ''-''),
                     labelled ''Suggested Owner:'' (child_text (coalesce (get package ''package_owner_hint'')
                       (coalesce (get item ''owner_hint'') (JStr ''-'')))),
                     El ''p'' [] [Txt ''Dependency Checklist''],
                     El ''ul'' [] (map (\<lambda>entry. El ''li'' [] [Txt (child_text entry)]) (array_items (get package ''dependency_checklist'')))]
               else [El ''p'' [] [Txt ''No graph package context is available for this recommendation.'']])))"

text \<open>The panel of related resources; it gets no fingerprint here.\<close>

definition recommendation_panel_props :: "recs_page \<Rightarrow> jsval \<Rightarrow> panel_props" where
  "recommendation_panel_props p item =
     \<lparr>pp_fingerprint = None,
      pp_payload = (case get item ''payload'' of JObj ps \<Rightarrow> Some ps | _ \<Rightarrow> None),
      pp_fallback = \<lparr>fb_accountId = text_option (get item ''account_id''), fb_region = text_option (get item ''region''),
                     fb_service = text_option (get item ''service'')\<rparr>,
      pp_enabled = allowed (cp_user p) ''runs:read''\<rparr>"

definition action_plan :: "jsval \<Rightarrow> recs_event page_event jsx" where
  "action_plan item =
     El ''section'' []
       [El ''h3'' [] [Txt ''Normalized Action Plan''],
        El ''p'' [] [Txt (child_text (get item ''action''))],
        labelled ''Current:'' (child_text (get (get item ''current'') ''kind'') @ '' = '' @ child_text (get (get item ''current'') ''value'')),
        labelled ''Target:'' (child_text (get (get item ''target'') ''kind'') @ '' = '' @ child_text (get (get item ''target'') ''value'')),
        labelled ''Pricing Source:'' (child_text (get item ''pricing_source'')),
        labelled ''Pricing Version:'' (child_text (coalesce (get item ''pricing_version'') (JStr ''unknown'')))]"

definition recommendation_drawer ::
    "ui_host \<Rightarrow> recs_page \<Rightarrow> recs_state \<Rightarrow> query_view \<Rightarrow> query_view \<Rightarrow> recs_event page_event jsx" where
  "recommendation_drawer host p s finding_graph resource_graph =
     (let item = selectedRecommendation p s
      in show_if (truthy item)
           (El ''div'' []
             [button False (Own CloseRecommendation) [],
              El ''aside'' []
                [El ''h2'' [] [Txt (child_text (get item ''title''))],
                 El ''p'' [] [Txt (child_text (get item ''fingerprint''))],
                 button False (Own CloseRecommendation) ''Close'',
                 recommendation_facts host item,
                 package_context item,
                 El ''section'' [] [El ''h3'' [] [Txt ''Why This Recommendation''],
                   El ''p'' [] [Txt (child_text (js_or (get item ''checker_advice'') (JStr ''-'')))]],
                 ResourceGraphContextPanel (recommendation_panel_props p item) finding_graph resource_graph,
                 action_plan item]]))"

definition RecommendationsClientPage ::
    "ui_host \<Rightarrow> recs_page \<Rightarrow> recs_state \<Rightarrow> query_view \<Rightarrow> query_view \<Rightarrow> recs_event page_event jsx" where
  "RecommendationsClientPage host p s finding_graph resource_graph =
     El ''main'' []
       [recs_header p, recs_cards host p s,
        RunCoverageBanner (get (qv_data (cp_latestCoverage p)) ''run'') (get (qv_data (cp_latestCoverage p)) ''coverage''),
        El ''section'' [] [Txt ''Recommendations show recommendation-eligible actions only. Access-denied verification issues and permission gaps stay on Coverage, and Findings may still contain savings signals that have not yet been normalized into recommendations.''],
        recs_toolbar p s,
        show_if (qv_isLoading (cp_recommendations p)) (El ''p'' [] [Txt ''Loading recommendations...'']),
        query_error recommendationsErrorMessage (cp_recommendations p),
        recommendations_table host p s,
        recommendation_drawer host p s finding_graph resource_graph]"

text \<open>What an event changes at once, and the parameters it pushes.\<close>

definition recs_step :: "recs_page \<Rightarrow> recs_event \<Rightarrow> recs_state \<Rightarrow> recs_state \<times> (string \<times> string option) list option" where
  "recs_step p e s =
     (case e of
        SetRecsSearch v \<Rightarrow> (s\<lparr>cs_searchInput := v\<rparr>, None)
      | SetRecsService v \<Rightarrow> (s\<lparr>cs_serviceInput := v\<rparr>, None)
      | SetRecsCheckId v \<Rightarrow> (s\<lparr>cs_checkIdInput := v\<rparr>, None)
      | SetRecsMinSavings v \<Rightarrow> (s\<lparr>cs_minSavingsInput := v\<rparr>, None)
      | SubmitFilters \<Rightarrow> (s, Some (applySearchFilters p s))
      | ClearFilters \<Rightarrow> (clear_filters s, Some clear_updates)
      | SetHideSuppressed b \<Rightarrow> (s\<lparr>cs_hideSuppressed := b\<rparr>, None)
      | SetGroupByPackage b \<Rightarrow> (s\<lparr>cs_groupByPackage := b\<rparr>, None)
      | TogglePrimaryOwners \<Rightarrow> (togglePrimaryOwnersMode s, None)
      | ToggleGroup key \<Rightarrow> (toggleGroupCollapsed key s, None)
      | OpenRecommendation item \<Rightarrow> (s\<lparr>cs_selectedFingerprint := text_option (get item ''fingerprint'')\<rparr>, None)
      | CloseRecommendation \<Rightarrow> (s\<lparr>cs_selectedFingerprint := None\<rparr>, None))"

definition recs_pushes :: "recs_page \<Rightarrow> recs_state \<Rightarrow> recs_event page_event \<Rightarrow> string option" where
  "recs_pushes p s e =
     (case e of
        Own own \<Rightarrow> map_option (pushWithParams ''/recommendations'' (cp_params p)) (snd (recs_step p own s))
      | _ \<Rightarrow> event_pushes ''/recommendations'' (cp_params p) e)"


section \<open>The groups as a specification\<close>

text \<open>A package group as a function of its recommendations.\<close>

definition package_group_of :: "string \<Rightarrow> jsval list \<Rightarrow> package_group" where
  "package_group_of key items =
     \<lparr>gr_key = key, gr_title = recommendationPackageGroupTitle (hd items), gr_items = items,
      gr_effectiveMonthlySavings = foldl num_add (effective_savings (hd items)) (map effective_savings (tl items)),
      gr_suppressedCount = length (filter (\<lambda>item. \<not> owns_savings item) items)\<rparr>"

abbreviation tag_groups :: "(string \<times> jsval list) list \<Rightarrow> (string \<times> package_group) list" where
  "tag_groups \<equiv> map (\<lambda>(k, items). (k, package_group_of k items))"

lemma put_tag: "tag_groups (put k items bs) = put k (package_group_of k items) (tag_groups bs)"
  by (induction k items bs rule: put.induct) auto

lemma map_of_tag: "map_of (tag_groups bs) k = map_option (package_group_of k) (map_of bs k)"
  by (induction bs) auto

lemma new_group_of: "package_group_of (recommendationPackageGroupKey item) [item] = new_group item"
  by (simp add: package_group_of_def new_group_def suppressed_one_def)

lemma extend_group_of:
  "items \<noteq> [] \<Longrightarrow> package_group_of k (items @ [item]) = extend_group item (package_group_of k items)"
  by (cases items) (simp_all add: package_group_of_def extend_group_def suppressed_one_def)

lemma groups_refine_buckets:
  "fold add_to_groups items [] = tag_groups (group_by recommendationPackageGroupKey items)"
proof (induction items rule: rev_induct)
  case (snoc item items)
  let ?k = "recommendationPackageGroupKey item" and ?bs = "group_by recommendationPackageGroupKey items"
  have "ys \<noteq> []" if "map_of ?bs ?k = Some ys" for ys
    using that group_by_not_Nil map_of_SomeD by metis
  then have "(case map_of (tag_groups ?bs) ?k of None \<Rightarrow> new_group item | Some g \<Rightarrow> extend_group item g) =
      package_group_of ?k (orelse (map_of ?bs ?k) [] @ [item])"
    by (auto simp: map_of_tag new_group_of extend_group_of split: option.split)
  with snoc show ?case
    by (simp add: group_by_snoc bucket_add_def add_to_groups_def put_tag Let_def)
qed (simp add: group_by_def)

lemma recommendationGroups_eq:
  "recommendationGroups visible = map (\<lambda>(k, items). package_group_of k items) (group_by recommendationPackageGroupKey visible)"
  by (simp add: recommendationGroups_def groups_refine_buckets comp_def case_prod_unfold)

lemma group_keys: "map gr_key (recommendationGroups visible) = set_of_list (map recommendationPackageGroupKey visible)"
  by (simp add: recommendationGroups_eq comp_def case_prod_unfold package_group_of_def keys_group_by [symmetric])

text \<open>
  C14. The one-pass grouping refines its specification: there is one group per package key, in the
  order of first occurrence; a group holds exactly the visible recommendations with its key in the
  order of the list, its title is that of its first one, its savings are their effective savings
  added up in that order, and it counts the suppressed ones among them.  No visible recommendation
  is lost or counted twice.
\<close>

theorem package_groups_refine:
  "recommendationGroups (visibleRecommendations p s) =
     map (\<lambda>k. package_group_of k (filter (\<lambda>item. recommendationPackageGroupKey item = k) (visibleRecommendations p s)))
       (set_of_list (map recommendationPackageGroupKey (visibleRecommendations p s)))
    \<and> mset (concat (map gr_items (shown_groups p s))) = mset (visibleRecommendations p s)"
proof
  let ?vs = "visibleRecommendations p s"
  have "group_by recommendationPackageGroupKey ?vs =
      map (\<lambda>k. (k, filter (\<lambda>item. recommendationPackageGroupKey item = k) ?vs)) (keys_of (group_by recommendationPackageGroupKey ?vs))"
    by (simp add: comp_def) (rule map_idI [symmetric], auto simp: group_by_bucket)
  then show "recommendationGroups ?vs =
     map (\<lambda>k. package_group_of k (filter (\<lambda>item. recommendationPackageGroupKey item = k) ?vs))
       (set_of_list (map recommendationPackageGroupKey ?vs))"
    by (metis (no_types, lifting) case_prod_conv keys_group_by list.map_comp map_eq_conv comp_apply recommendationGroups_eq)
  have "map gr_items (shown_groups p s) = map snd (group_by recommendationPackageGroupKey ?vs)"
    by (simp add: shown_groups_def recommendationGroups_eq comp_def case_prod_unfold package_group_of_def)
  then show "mset (concat (map gr_items (shown_groups p s))) = mset ?vs" by (simp only: mset_group_by)
qed

section \<open>Renders settle\<close>

text \<open>With a new array in every render the dependencies are never those of the render before.\<close>

definition stale_deps :: "nat \<Rightarrow> (bool \<times> array_ref) option \<Rightarrow> bool" where
  "stale_deps n previous = (case previous of
     None \<Rightarrow> True | Some (h, CachedItems) \<Rightarrow> False | Some (h, FreshItems m) \<Rightarrow> m < n)"

lemma settle_diverges:
  assumes ret: "settle_renders kept p n prev s = Some r" and "\<not> kept"
    and no_items: "nullish (get (qv_data (cp_recommendations p)) ''items'')" and "stale_deps n prev"
  shows False
proof -
  have "\<not> kept \<longrightarrow> nullish (get (qv_data (cp_recommendations p)) ''items'') \<longrightarrow> stale_deps n prev \<longrightarrow> False"
  proof (rule settle_renders.raw_induct [where P = "\<lambda>kept p n prev s r.
      \<not> kept \<longrightarrow> nullish (get (qv_data (cp_recommendations p)) ''items'') \<longrightarrow> stale_deps n prev \<longrightarrow> False", OF _ ret], intro impI)
    fix f kept p n prev s r
    assume IH: "\<And>kept p n prev s r. f kept p n prev s = Some r \<Longrightarrow>
        \<not> kept \<longrightarrow> nullish (get (qv_data (cp_recommendations p)) ''items'') \<longrightarrow> stale_deps n prev \<longrightarrow> False"
      and eq: "(let deps = (cs_hideSuppressed s, items_ref kept p n)
         in if prev = Some deps then Some (n, s) else f kept p (Suc n) (Some deps) (sync_collapsed p s)) = Some r"
      and no: "\<not> kept" "nullish (get (qv_data (cp_recommendations p)) ''items'')" "stale_deps n prev"
    have ref: "items_ref kept p n = FreshItems n" using no(1,2) by (simp add: items_ref_def)
    then have "prev \<noteq> Some (cs_hideSuppressed s, items_ref kept p n)" using no(3) by (auto simp: stale_deps_def)
    then have "f kept p (Suc n) (Some (cs_hideSuppressed s, items_ref kept p n)) (sync_collapsed p s) = Some r"
      using eq by (simp add: Let_def)
    from IH [OF this] show False using no(1,2) by (simp add: stale_deps_def items_ref_def)
  qed
  then show False using assms(2-4) by blast
qed

lemma hide_sync [simp]: "cs_hideSuppressed (sync_collapsed p s) = cs_hideSuppressed s"
  by (simp add: sync_collapsed_def)

text \<open>
  C15. The page settles after its first effect exactly when it has items or the build keeps the empty
  array: then it renders twice, and the collapsed groups are those of the effect.  As the code is
  written, while there are no items (the list is loading, or its request has failed) every render
  makes a new empty array, so the effect runs after every render and there is no end to the renders.
\<close>

theorem renders_settle_iff_items:
  "settle_renders kept p 0 None s =
     (if nullish (get (qv_data (cp_recommendations p)) ''items'') \<and> \<not> kept then None else Some (1, sync_collapsed p s))"
proof (cases "nullish (get (qv_data (cp_recommendations p)) ''items'') \<and> \<not> kept")
  case True
  then have "settle_renders kept p 0 None s \<noteq> Some r" for r
    using settle_diverges [of kept p 0 None s r] by (auto simp: stale_deps_def)
  with True show ?thesis by (cases "settle_renders kept p 0 None s") auto
next
  case False
  then have ref: "items_ref kept p n = items_ref kept p 0" for n by (auto simp: items_ref_def)
  have "settle_renders kept p 0 None s = settle_renders kept p 1 (Some (cs_hideSuppressed s, items_ref kept p 0)) (sync_collapsed p s)"
    by (subst settle_renders.simps) simp
  also have "\<dots> = Some (1, sync_collapsed p s)"
    by (subst settle_renders.simps) (simp add: ref [of "Suc 0"])
  finally show ?thesis using False by auto
qed

section \<open>Collapsed groups\<close>

lemma map_of_fold_put:
  "distinct (map key gs) \<Longrightarrow>
     map_of (fold (\<lambda>g. put (key g) (v g)) gs acc) k =
       (case find (\<lambda>g. key g = k) gs of Some g \<Rightarrow> Some (v g) | None \<Rightarrow> map_of acc k)"
proof (induction gs arbitrary: acc)
  case (Cons g gs)
  have "find (\<lambda>g'. key g' = k) gs = None" if "key g = k"
    using that Cons.prems by (auto simp: find_None_iff image_iff)
  with Cons show ?case by (auto split: option.split)
qed simp

lemma find_own_key: "distinct (map key gs) \<Longrightarrow> g \<in> set gs \<Longrightarrow> find (\<lambda>g'. key g' = key g) gs = Some g"
  by (induction gs) auto

text \<open>
  The user decides which groups are open: after the effect, a group the user (or an earlier
  render) has set keeps its state, a new one is closed exactly when it has more than one
  recommendation, and groups that are not shown are forgotten; the toggle of a group reverses it and
  leaves all others alone.
\<close>

theorem collapse_choices_kept:
  assumes "g \<in> set (shown_groups p s)"
  shows "is_collapsed (sync_collapsed p s) (gr_key g) =
      (case map_of (cs_collapsedGroups s) (gr_key g) of Some b \<Rightarrow> b | None \<Rightarrow> 1 < length (gr_items g))
    \<and> (\<forall>k. k \<notin> gr_key ` set (shown_groups p s) \<longrightarrow> map_of (cs_collapsedGroups (sync_collapsed p s)) k = None)
    \<and> (\<forall>k. is_collapsed (toggleGroupCollapsed (gr_key g) s) k = (is_collapsed s k \<noteq> (k = gr_key g)))"
proof -
  have d: "distinct (map gr_key (shown_groups p s))" by (simp add: shown_groups_def group_keys)
  have c: "map_of (cs_collapsedGroups (sync_collapsed p s)) k =
      (case find (\<lambda>g. gr_key g = k) (shown_groups p s) of
         Some g \<Rightarrow> Some (orelse (map_of (cs_collapsedGroups s) (gr_key g))
           (orelse (map_of (defaultCollapsedGroupKeys (shown_groups p s)) (gr_key g)) False))
       | None \<Rightarrow> None)" for k
    by (simp add: sync_collapsed_def next_collapsed_def Let_def map_of_fold_put [OF d] cong: option.case_cong)
  have "map_of (defaultCollapsedGroupKeys (shown_groups p s)) (gr_key g) = Some (1 < length (gr_items g))"
    using map_of_fold_put [OF d, of "\<lambda>g. 1 < length (gr_items g)" "[]" "gr_key g"] find_own_key [OF d assms]
    by (simp add: defaultCollapsedGroupKeys_def)
  moreover have "find (\<lambda>g. gr_key g = k) (shown_groups p s) = None" if "k \<notin> gr_key ` set (shown_groups p s)" for k
    using that by (auto simp: find_None_iff)
  ultimately show ?thesis
    using c find_own_key [OF d assms] by (auto simp: is_collapsed_def toggleGroupCollapsed_def split: option.splits)
qed

definition sample_recs :: recs_page where
  "sample_recs =
     \<lparr>cp_browser = \<lparr>has_window = True, session_storage = (\<lambda>_. None)\<rparr>, cp_params = [],
      cp_scope = \<lparr>scope_tenantId = ''acme'', scope_workspace = ''prod''\<rparr>, cp_user = JNull,
      cp_recommendations = \<lparr>qv_data = JObj [(''items'', JArr
         [JObj [(''fingerprint'', JStr ''r1''), (''graph_package'', JObj [(''package_key'', JStr ''pk'')])],
          JObj [(''fingerprint'', JStr ''r2'')],
          JObj [(''fingerprint'', JStr ''r3''), (''graph_package'', JObj [(''package_key'', JStr ''pk'')])]])],
        qv_isLoading = False, qv_error = None\<rparr>,
      cp_latestCoverage = \<lparr>qv_data = JUndef, qv_isLoading = False, qv_error = None\<rparr>\<rparr>"

theorem collapse_choices_kept_witness:
  "is_collapsed (sync_collapsed sample_recs (recs_initial sample_recs)) ''pk''
    \<and> \<not> is_collapsed (toggleGroupCollapsed ''pk'' (sync_collapsed sample_recs (recs_initial sample_recs))) ''pk''"
proof -
  let ?s = "recs_initial sample_recs"
  have vis: "visibleRecommendations sample_recs t = array_items (get (qv_data (cp_recommendations sample_recs)) ''items'')"
    if "\<not> cs_hideSuppressed t" for t
    using that by (simp add: visibleRecommendations_def recommendationItems_def qv_items_def sample_recs_def array_items_def)
  have "\<not> cs_hideSuppressed ?s" by (simp add: recs_initial_def)
  then have g: "\<exists>g. g \<in> set (shown_groups sample_recs t) \<and> gr_key g = ''pk'' \<and> length (gr_items g) = 2"
    if "\<not> cs_hideSuppressed t" for t
    using vis [OF that]
    by (simp add: shown_groups_def sample_recs_def array_items_def recommendationGroups_def add_to_groups_def new_group_def
        extend_group_def recommendationPackageGroupKey_def coalesce_def nullish_def Let_def conj_disj_distribR ex_disj_distrib)
  obtain g where g1: "g \<in> set (shown_groups sample_recs ?s)" "gr_key g = ''pk''" "length (gr_items g) = 2"
    using g [of ?s] by (auto simp: recs_initial_def)
  obtain g' where g2: "g' \<in> set (shown_groups sample_recs (sync_collapsed sample_recs ?s))" "gr_key g' = ''pk''"
    using g [of "sync_collapsed sample_recs ?s"] by (auto simp: recs_initial_def)
  have "is_collapsed (sync_collapsed sample_recs ?s) ''pk''"
    using collapse_choices_kept [OF g1(1)] g1(2,3) by (simp add: recs_initial_def)
  then show ?thesis using collapse_choices_kept [OF g2(1)] g2(2) by simp
qed

end
