(* ===== verification/AdminHooks.thy ===== *)
theory AdminHooks
  imports QueryHooks
begin

text \<open>
  The hooks of the administration pages: \<open>hooks/useUsersAdmin.ts\<close> (users of a workspace and
  their roles) and \<open>hooks/useTenantAdmin.ts\<close> (workspaces of a tenant, role bindings, audit,
  directory).  A mutation is the request it makes and what it does to the cache on success.
\<close>

section \<open>Users\<close>

definition UserItem :: tstype where
  "UserItem = TInterface
     (typed_fields TString [''tenant_id'', ''workspace'', ''user_id'', ''email'']
      @ typed_fields (nullable TString) [''full_name'', ''external_id'', ''auth_provider'']
      @ typed_fields TBoolean [''is_active'', ''is_superadmin'']
      @ typed_fields (nullable TString) [''last_login_at'', ''created_at'', ''updated_at'', ''role_id'', ''role_name'',
          ''assignment_source'', ''source_workspace''])"

definition UsersResponse :: tstype where
  "UsersResponse = TInterface
     (field ''ok'' (TLit (JBool True)) @ typed_fields TString [''tenant_id'', ''workspace'']
      @ typed_fields TNumber [''limit'', ''offset'', ''total''] @ field ''items'' (TArray UserItem))"

definition UserRole :: tstype where
  "UserRole = TInterface
     (field ''role_id'' TString @ typed_fields (nullable TString) [''name'', ''description''] @ field ''is_system'' TBoolean
      @ typed_fields (nullable TString) [''granted_by'', ''granted_at'', ''assignment_source'', ''source_workspace'']
      @ field ''permissions'' (TArray TString))"

definition UserRoleResponse :: tstype where
  "UserRoleResponse = TInterface
     (field ''ok'' (TLit (JBool True)) @ typed_fields TString [''tenant_id'', ''workspace'', ''user_id''] @ field ''role'' (nullable UserRole))"

definition RoleCatalogItem :: tstype where
  "RoleCatalogItem = TInterface
     (typed_fields TString [''tenant_id'', ''workspace'', ''role_id''] @ typed_fields (nullable TString) [''name'', ''description'']
      @ field ''is_system'' TBoolean @ field ''permissions'' (TArray TString)
      @ typed_fields (nullable TString) [''created_at'', ''updated_at''])"

definition RolesCatalogResponse :: tstype where
  "RolesCatalogResponse = TInterface
     (field ''ok'' (TLit (JBool True)) @ typed_fields TString [''tenant_id'', ''workspace''] @ field ''total'' TNumber
      @ field ''items'' (TArray RoleCatalogItem))"

definition CreateUserPayload :: tstype where
  "CreateUserPayload = TInterface
     (typed_fields TString [''tenant_id'', ''workspace'', ''user_id'', ''email'']
      @ optional_fields TString [''password'', ''full_name'', ''external_id'', ''auth_provider'']
      @ optional_fields TBoolean [''is_active'', ''is_superadmin''])"

definition SetUserRolePayload :: tstype where
  "SetUserRolePayload = TInterface (typed_fields TString [''tenant_id'', ''workspace'', ''role_id''] @ optional_fields TString [''granted_by''])"

record users_options =
  uo_limit :: "num option"
  uo_offset :: "num option"
  uo_q :: "string option"
  uo_includeInactive :: "bool option"
  uo_enabled :: "bool option"

definition usersQueryKey :: "tenant_scope option \<Rightarrow> users_options \<Rightarrow> query_key" where
  "usersQueryKey scope options =
     [JStr ''users'', key_tenant scope, key_workspace scope,
      JNum (orelse (uo_limit options) (Fin 25)), JNum (orelse (uo_offset options) (Fin 0)),
      JStr (orelse (uo_q options) []), JBool (orelse (uo_includeInactive options) False)]"

definition userRoleQueryKey :: "tenant_scope option \<Rightarrow> string option \<Rightarrow> query_key" where
  "userRoleQueryKey scope userId =
     [JStr ''users'', JStr ''role'', key_tenant scope, key_workspace scope, JStr (orelse userId [])]"

definition rolesCatalogQueryKey :: "tenant_scope option \<Rightarrow> query_key" where
  "rolesCatalogQueryKey scope = [JStr ''users'', JStr ''roles'', key_tenant scope, key_workspace scope]"

definition useUsers :: "browser \<Rightarrow> users_options \<Rightarrow> 'w query_options" where
  "useUsers b options =
     (let scope = getStoredScope b
      in \<lparr>qo_key = usersQueryKey scope options,
          qo_enabled = (scope_ready scope \<and> orelse (uo_enabled options) True),
          qo_retry = None,
          qo_fn = (\<lambda>env b w. api_get env b ''/users''
            (Some [(''limit'', JNum (orelse (uo_limit options) (Fin 25))), (''offset'', JNum (orelse (uo_offset options) (Fin 0))),
               (''q'', JStr (orelse (uo_q options) [])), (''include_inactive'', JBool (orelse (uo_includeInactive options) False))]) w)\<rparr>)"

definition useUserRole :: "browser \<Rightarrow> string option \<Rightarrow> bool \<Rightarrow> 'w query_options" where
  "useUserRole b userId enabled =
     (let scope = getStoredScope b
      in \<lparr>qo_key = userRoleQueryKey scope userId,
          qo_enabled = (scope_ready scope \<and> truthy (js_string_or_null userId) \<and> enabled),
          qo_retry = None,
          qo_fn = (\<lambda>env b w. api_get env b
            (''/users/'' @ encodeURIComponent (to_str (js_string_or_null userId)) @ ''/role'') None w)\<rparr>)"

definition useRolesCatalog :: "browser \<Rightarrow> bool \<Rightarrow> 'w query_options" where
  "useRolesCatalog b enabled =
     (let scope = getStoredScope b
      in \<lparr>qo_key = rolesCatalogQueryKey scope,
          qo_enabled = (scope_ready scope \<and> enabled),
          qo_retry = None,
          qo_fn = (\<lambda>env b w. api_get env b ''/users/roles'' None w)\<rparr>)"

text \<open>Mutations of users: the request, and the cache after a success.\<close>

definition invalidateUsers :: "tenant_scope option \<Rightarrow> cache \<Rightarrow> cache" where
  "invalidateUsers scope c = invalidateQueries [JStr ''users'', key_tenant scope, key_workspace scope] c"

definition createUser :: "'w api_env \<Rightarrow> browser \<Rightarrow> jsval \<Rightarrow> 'w \<Rightarrow> jsval outcome \<times> 'w" where
  "createUser env b payload w = api_post env b ''/users'' payload w"

definition deactivateUser :: "'w api_env \<Rightarrow> browser \<Rightarrow> string \<Rightarrow> 'w \<Rightarrow> jsval outcome \<times> 'w" where
  "deactivateUser env b userId w = api_del env b (''/users/'' @ encodeURIComponent userId) w"

definition setUserRole :: "'w api_env \<Rightarrow> browser \<Rightarrow> string \<Rightarrow> jsval \<Rightarrow> 'w \<Rightarrow> jsval outcome \<times> 'w" where
  "setUserRole env b userId payload w = api_put env b (''/users/'' @ encodeURIComponent userId @ ''/role'') payload w"

definition setUserRole_onSuccess :: "tenant_scope option \<Rightarrow> string \<Rightarrow> cache \<Rightarrow> cache" where
  "setUserRole_onSuccess scope userId c =
     invalidateQueries (userRoleQueryKey scope (Some userId)) (invalidateUsers scope c)"

definition setTenantRole :: "'w api_env \<Rightarrow> browser \<Rightarrow> string \<Rightarrow> jsval \<Rightarrow> 'w \<Rightarrow> jsval outcome \<times> 'w" where
  "setTenantRole env b userId payload w = api_put env b (''/users/'' @ encodeURIComponent userId @ ''/role/tenant'') payload w"

text \<open>A mutation as its caller sees it: the outcome, with \<open>onSuccess\<close> run on the cache.\<close>

definition mutate_then :: "('a outcome \<times> 'w) \<Rightarrow> (cache \<Rightarrow> cache) \<Rightarrow> cache \<Rightarrow> 'a outcome \<times> cache \<times> 'w" where
  "mutate_then rw onSuccess c = (case rw of (Inl e, w) \<Rightarrow> (Inl e, c, w) | (Inr v, w) \<Rightarrow> (Inr v, onSuccess c, w))"

text \<open>The two mutations of roles; the one for the tenant has \<open>onSuccess: invalidateUsers\<close>.\<close>

definition setTenantRole_onSuccess :: "tenant_scope option \<Rightarrow> cache \<Rightarrow> cache" where
  "setTenantRole_onSuccess scope c = invalidateUsers scope c"

definition setUserRole_mutation ::
    "'w api_env \<Rightarrow> browser \<Rightarrow> string \<Rightarrow> jsval \<Rightarrow> cache \<Rightarrow> 'w \<Rightarrow> jsval outcome \<times> cache \<times> 'w" where
  "setUserRole_mutation env b userId payload c w =
     mutate_then (setUserRole env b userId payload w) (setUserRole_onSuccess (getStoredScope b) userId) c"

definition setTenantRole_mutation ::
    "'w api_env \<Rightarrow> browser \<Rightarrow> string \<Rightarrow> jsval \<Rightarrow> cache \<Rightarrow> 'w \<Rightarrow> jsval outcome \<times> cache \<times> 'w" where
  "setTenantRole_mutation env b userId payload c w =
     mutate_then (setTenantRole env b userId payload w) (setTenantRole_onSuccess (getStoredScope b)) c"

section \<open>Tenant administration\<close>

definition TenantWorkspaceItem :: tstype where
  "TenantWorkspaceItem = TInterface
     (typed_fields TString [''tenant_id'', ''workspace''] @ field ''display_name'' (nullable TString)
      @ typed_fields TString [''provider'', ''scope_kind''] @ typed_fields (nullable TString) [''scope_native_id'', ''environment'']
      @ field ''status'' TString
      @ typed_fields (nullable TString) [''created_by'', ''updated_by'', ''registered_at'', ''activated_at'', ''archived_at'', ''updated_at''])"

definition TenantRoleBindingItem :: tstype where
  "TenantRoleBindingItem = TInterface
     (typed_fields TString [''tenant_id'', ''workspace'', ''user_id'', ''role_id'', ''source_workspace'']
      @ field ''applies_to_future_workspaces'' TBoolean
      @ typed_fields (nullable TString) [''granted_by'', ''granted_at'', ''updated_at''])"

definition TenantWorkspacesResponse :: tstype where
  "TenantWorkspacesResponse = TInterface
     (field ''ok'' (TLit (JBool True)) @ typed_fields TString [''tenant_id'', ''workspace''] @ field ''total'' TNumber
      @ field ''items'' (TArray TenantWorkspaceItem))"

definition TenantRoleBindingsResponse :: tstype where
  "TenantRoleBindingsResponse = TInterface
     (field ''ok'' (TLit (JBool True)) @ typed_fields TString [''tenant_id'', ''workspace''] @ field ''total'' TNumber
      @ field ''items'' (TArray TenantRoleBindingItem))"

definition TenantAdminAuditItem :: tstype where
  "TenantAdminAuditItem = TInterface
     (field ''id'' TNumber
      @ typed_fields TString [''tenant_id'', ''workspace'', ''entity_type'', ''entity_id'', ''event_type'', ''event_category'']
      @ typed_fields (nullable TDict) [''previous_value'', ''new_value'']
      @ typed_fields (nullable TString) [''actor_id'', ''actor_email'', ''actor_name'', ''source'', ''correlation_id'', ''created_at''])"

definition TenantAdminAuditResponse :: tstype where
  "TenantAdminAuditResponse = TInterface
     (field ''ok'' (TLit (JBool True)) @ typed_fields TString [''tenant_id'', ''workspace''] @ typed_fields TNumber [''limit'', ''offset'']
      @ typed_fields (nullable TString) [''event_category'', ''entity_type'', ''target_workspace'', ''q'']
      @ field ''total'' TNumber @ field ''items'' (TArray TenantAdminAuditItem))"

definition TenantDirectoryUserItem :: tstype where
  "TenantDirectoryUserItem = TInterface
     (typed_fields TString [''tenant_id'', ''user_id'', ''email''] @ typed_fields (nullable TString) [''full_name'', ''auth_provider'']
      @ typed_fields TBoolean [''is_active'', ''is_superadmin''] @ field ''last_login_at'' (nullable TString)
      @ typed_fields TNumber [''workspace_count'', ''active_workspace_count''] @ field ''workspaces'' (TArray TString)
      @ typed_fields (nullable TString) [''inherited_role_id'', ''inherited_source_workspace'']
      @ field ''applies_to_future_workspaces'' TBoolean)"

definition TenantDirectoryResponse :: tstype where
  "TenantDirectoryResponse = TInterface
     (field ''ok'' (TLit (JBool True)) @ typed_fields TString [''tenant_id'', ''workspace''] @ typed_fields TNumber [''limit'', ''offset'']
      @ field ''q'' (nullable TString) @ field ''include_inactive'' TBoolean @ field ''total'' TNumber
      @ field ''items'' (TArray TenantDirectoryUserItem))"

definition TenantWorkspaceUpsertPayload :: tstype where
  "TenantWorkspaceUpsertPayload = TInterface
     (typed_fields TString [''tenant_id'', ''workspace'']
      @ optional_fields TString [''target_workspace'', ''display_name'', ''provider'', ''scope_kind'', ''scope_native_id'', ''environment'',
          ''status'', ''created_by'', ''updated_by'']
      @ optional_fields TBoolean [''force_lifecycle_change''] @ optional_fields TString [''migrate_inherited_access_to_workspace''])"

definition TenantRoleBindingPayload :: tstype where
  "TenantRoleBindingPayload = TInterface
     (typed_fields TString [''tenant_id'', ''workspace'', ''role_id''] @ optional_fields TString [''source_workspace'', ''granted_by'']
      @ optional_fields TBoolean [''applies_to_future_workspaces''])"

record audit_options =
  ao_limit :: "num option"
  ao_offset :: "num option"
  ao_eventCategory :: "string option"
  ao_entityType :: "string option"
  ao_targetWorkspace :: "string option"
  ao_q :: "string option"

record directory_options =
  do_limit :: "num option"
  do_offset :: "num option"
  do_q :: "string option"
  do_includeInactive :: "bool option"

definition workspacesQueryKey :: "tenant_scope option \<Rightarrow> query_key" where
  "workspacesQueryKey scope = [JStr ''tenant-admin'', JStr ''workspaces'', key_tenant scope, key_workspace scope]"

definition bindingsQueryKey :: "tenant_scope option \<Rightarrow> query_key" where
  "bindingsQueryKey scope = [JStr ''tenant-admin'', JStr ''role-bindings'', key_tenant scope, key_workspace scope]"

definition auditQueryKey :: "tenant_scope option \<Rightarrow> audit_options \<Rightarrow> query_key" where
  "auditQueryKey scope options =
     [JStr ''tenant-admin'', JStr ''audit'', key_tenant scope, key_workspace scope,
      JNum (orelse (ao_limit options) (Fin 50)), JNum (orelse (ao_offset options) (Fin 0)),
      JStr (orelse (ao_eventCategory options) []), JStr (orelse (ao_entityType options) []),
      JStr (orelse (ao_targetWorkspace options) []), JStr (orelse (ao_q options) [])]"

definition directoryQueryKey :: "tenant_scope option \<Rightarrow> directory_options \<Rightarrow> query_key" where
  "directoryQueryKey scope options =
     [JStr ''tenant-admin'', JStr ''users'', key_tenant scope, key_workspace scope,
      JNum (orelse (do_limit options) (Fin 50)), JNum (orelse (do_offset options) (Fin 0)),
      JStr (orelse (do_q options) []), JBool (orelse (do_includeInactive options) False)]"

definition useTenantWorkspaces :: "browser \<Rightarrow> bool \<Rightarrow> 'w query_options" where
  "useTenantWorkspaces b enabled =
     (let scope = getStoredScope b
      in \<lparr>qo_key = workspacesQueryKey scope, qo_enabled = (scope_ready scope \<and> enabled), qo_retry = None,
          qo_fn = (\<lambda>env b w. api_get env b ''/tenant-admin/workspaces'' None w)\<rparr>)"

definition useTenantRoleBindings :: "browser \<Rightarrow> bool \<Rightarrow> 'w query_options" where
  "useTenantRoleBindings b enabled =
     (let scope = getStoredScope b
      in \<lparr>qo_key = bindingsQueryKey scope, qo_enabled = (scope_ready scope \<and> enabled), qo_retry = None,
          qo_fn = (\<lambda>env b w. api_get env b ''/tenant-admin/role-bindings'' None w)\<rparr>)"

text \<open>\<open>text || undefined\<close>\<close>

definition text_or_undef :: "string option \<Rightarrow> jsval" where
  "text_or_undef s = js_or (JStr (orelse s [])) JUndef"

definition useTenantAdminAudit :: "browser \<Rightarrow> audit_options \<Rightarrow> bool \<Rightarrow> 'w query_options" where
  "useTenantAdminAudit b options enabled =
     (let scope = getStoredScope b
      in \<lparr>qo_key = auditQueryKey scope options, qo_enabled = (scope_ready scope \<and> enabled), qo_retry = None,
          qo_fn = (\<lambda>env b w. api_get env b ''/tenant-admin/audit''
            (Some [(''limit'', JNum (orelse (ao_limit options) (Fin 50))), (''offset'', JNum (orelse (ao_offset options) (Fin 0))),
               (''event_category'', text_or_undef (ao_eventCategory options)), (''entity_type'', text_or_undef (ao_entityType options)),
               (''target_workspace'', text_or_undef (ao_targetWorkspace options)), (''q'', text_or_undef (ao_q options))]) w)\<rparr>)"

definition useTenantDirectory :: "browser \<Rightarrow> directory_options \<Rightarrow> bool \<Rightarrow> 'w query_options" where
  "useTenantDirectory b options enabled =
     (let scope = getStoredScope b
      in \<lparr>qo_key = directoryQueryKey scope options, qo_enabled = (scope_ready scope \<and> enabled), qo_retry = None,
          qo_fn = (\<lambda>env b w. api_get env b ''/tenant-admin/users''
            (Some [(''limit'', JNum (orelse (do_limit options) (Fin 50))), (''offset'', JNum (orelse (do_offset options) (Fin 0))),
               (''q'', text_or_undef (do_q options)), (''include_inactive'', JBool (orelse (do_includeInactive options) False))]) w)\<rparr>)"

definition invalidateAll :: "tenant_scope option \<Rightarrow> cache \<Rightarrow> cache" where
  "invalidateAll scope c = invalidateQueries [JStr ''tenant-admin'', key_tenant scope, key_workspace scope] c"

text \<open>\<open>payload.target_workspace?.trim() || payload.workspace\<close>, for a payload of the declared type.\<close>

definition upsert_target :: "jsval \<Rightarrow> jsval" where
  "upsert_target payload =
     js_or (case get payload ''target_workspace'' of JStr s \<Rightarrow> JStr (trim s) | _ \<Rightarrow> JUndef) (get payload ''workspace'')"

definition upsertWorkspace :: "'w api_env \<Rightarrow> browser \<Rightarrow> jsval \<Rightarrow> 'w \<Rightarrow> jsval outcome \<times> 'w" where
  "upsertWorkspace env b payload w =
     (let targetWorkspace = upsert_target payload
      in if strict_eq targetWorkspace (get payload ''workspace'') \<and> \<not> truthy (get payload ''target_workspace'')
         then api_post env b ''/tenant-admin/workspaces'' (copy_with [(''target_workspace'', \<lambda>_. targetWorkspace)] payload) w
         else api_put env b (''/tenant-admin/workspaces/'' @ encodeURIComponent (to_str targetWorkspace)) payload w)"

definition upsertRoleBinding :: "'w api_env \<Rightarrow> browser \<Rightarrow> string \<Rightarrow> jsval \<Rightarrow> 'w \<Rightarrow> jsval outcome \<times> 'w" where
  "upsertRoleBinding env b userId payload w =
     api_put env b (''/tenant-admin/users/'' @ encodeURIComponent userId @ ''/role-binding'') payload w"

definition deleteRoleBinding :: "'w api_env \<Rightarrow> browser \<Rightarrow> string \<Rightarrow> 'w \<Rightarrow> jsval outcome \<times> 'w" where
  "deleteRoleBinding env b userId w =
     api_del env b (''/tenant-admin/users/'' @ encodeURIComponent userId @ ''/role-binding'') w"

section \<open>What a success refreshes\<close>

text \<open>An operation that marks every query under a plain prefix, and leaves the others alone.\<close>

lemma invalidate_prefix:
  assumes "plain_key fs" and "find_query k c = Some q"
  shows "find_query k (invalidateQueries fs c) =
    Some (if take (length fs) (q_key q) = fs then refetch_active (invalidate q) else q)"
  using assms by (simp add: find_invalidate matches_plain)

lemma scope_key_simps [simp]:
  "key_tenant (Some sc) = JStr (scope_tenantId sc)" "key_workspace (Some sc) = JStr (scope_workspace sc)"
  by (simp_all add: key_tenant_def key_workspace_def js_string_or_undef_def)

lemma refetch_invalidate_facts:
  "st_invalidated (q_state (refetch_active (invalidate q)))"
  "isActive (refetch_active (invalidate q)) = isActive q"
  "isActive q \<Longrightarrow> st_fetching (q_state (refetch_active (invalidate q)))"
  "st_data (q_state (refetch_active (invalidate q))) = st_data (q_state q)"
  by (auto simp: query_ops isActive_def)

text \<open>
  Setting the role of a user in the workspace refreshes what the users page shows: every cached
  page of the user list of the workspace and the cached role of that user are marked stale, and
  are being fetched again when they are on the screen, without losing the data shown meanwhile.
\<close>

lemma set_user_role_refreshes:
  assumes "find_query k c = Some q"
    and "q_key q = usersQueryKey (Some sc) options \<or> q_key q = userRoleQueryKey (Some sc) (Some userId)"
  shows "\<exists>q'. find_query k (setUserRole_onSuccess (Some sc) userId c) = Some q'
    \<and> st_invalidated (q_state q') \<and> (isActive q \<longrightarrow> st_fetching (q_state q'))
    \<and> st_data (q_state q') = st_data (q_state q)"
proof -
  let ?users = "[JStr ''users'', JStr (scope_tenantId sc), JStr (scope_workspace sc)]"
  let ?role = "userRoleQueryKey (Some sc) (Some userId)"
  have p: "plain_key ?users" "plain_key ?role" by (simp_all add: userRoleQueryKey_def)
  define q1 where "q1 = (if take 3 (q_key q) = ?users then refetch_active (invalidate q) else q)"
  define q2 where "q2 = (if take 5 (q_key q1) = ?role then refetch_active (invalidate q1) else q1)"
  have f1: "find_query k (invalidateUsers (Some sc) c) = Some q1"
    using invalidate_prefix [OF p(1) assms(1)] by (simp add: invalidateUsers_def q1_def numeral_3_eq_3)
  have "length ?role = 5" by (simp add: userRoleQueryKey_def)
  with invalidate_prefix [OF p(2) f1] have f2: "find_query k (setUserRole_onSuccess (Some sc) userId c) = Some q2"
    by (simp add: setUserRole_onSuccess_def q2_def)
  have key: "q_key q1 = q_key q" by (simp add: q1_def)
  from assms(2) have "st_invalidated (q_state q2) \<and> (isActive q \<longrightarrow> st_fetching (q_state q2))
      \<and> st_data (q_state q2) = st_data (q_state q)"
  proof
    assume "q_key q = usersQueryKey (Some sc) options"
    then have "q1 = refetch_active (invalidate q)" by (simp add: q1_def usersQueryKey_def)
    then show ?thesis
      using refetch_invalidate_facts [of q] refetch_invalidate_facts [of q1] by (simp add: q2_def)
  next
    assume "q_key q = ?role"
    then have "q2 = refetch_active (invalidate q1)" by (simp add: q2_def key userRoleQueryKey_def)
    then show ?thesis
      using refetch_invalidate_facts [of q] refetch_invalidate_facts [of q1] by (simp add: q1_def)
  qed
  with f2 show ?thesis by blast
qed

text \<open>
  C36. Setting a role for the whole tenant leaves the role the drawer shows as it was: however the
  mutation ends, also after the backend has changed the role, the cached role of the user is
  neither marked nor fetched again, while the same change for the workspace marks it when it
  succeeds.  (A tenant that is itself called \<open>role\<close> is excepted.)
\<close>

theorem tenant_role_keeps_role_stale:
  assumes "getStoredScope b = Some sc" and "scope_tenantId sc \<noteq> ''role''"
    and "find_query k c = Some q" and "q_key q = userRoleQueryKey (Some sc) (Some userId)"
    and "setTenantRole_mutation env b userId payload c w = (r, c', w')"
  shows "find_query k c' = Some q
    \<and> (case setUserRole_mutation env b userId payload c w of
         (Inl e, c'', w'') \<Rightarrow> c'' = c
       | (Inr v, c'', w'') \<Rightarrow>
           (\<exists>q''. find_query k c'' = Some q'' \<and> st_invalidated (q_state q'') \<and> st_data (q_state q'') = st_data (q_state q)))"
proof
  have "find_query k (setTenantRole_onSuccess (getStoredScope b) c) = Some q"
    using assms(1,2,4) invalidate_prefix [OF _ assms(3), of "[JStr ''users'', JStr (scope_tenantId sc), JStr (scope_workspace sc)]"]
    by (simp add: setTenantRole_onSuccess_def invalidateUsers_def userRoleQueryKey_def)
  then show "find_query k c' = Some q"
    using assms(3,5) by (auto simp: setTenantRole_mutation_def mutate_then_def split: prod.splits sum.splits)
next
  obtain r0 w0 where r0: "setUserRole env b userId payload w = (r0, w0)" by (cases "setUserRole env b userId payload w")
  show "case setUserRole_mutation env b userId payload c w of
         (Inl e, c'', w'') \<Rightarrow> c'' = c
       | (Inr v, c'', w'') \<Rightarrow>
           (\<exists>q''. find_query k c'' = Some q'' \<and> st_invalidated (q_state q'') \<and> st_data (q_state q'') = st_data (q_state q))"
    using set_user_role_refreshes [OF assms(3), of sc _ userId] assms(1,4)
    by (cases r0) (auto simp: setUserRole_mutation_def mutate_then_def r0)
qed

text \<open>
  C37. The success of a change to workspaces or role bindings refreshes nothing: the key the hook
  invalidates, \<open>[tenant-admin, tenant, workspace]\<close>, is no prefix of the keys of the workspace
  list, the bindings, the audit trail and the directory, which name their list first, so all
  of them stay as they were (unless the tenant is called like one of the lists).
\<close>

theorem tenant_admin_refreshes_nothing:
  assumes "find_query k c = Some q"
    and "q_key q = workspacesQueryKey (Some sc) \<or> q_key q = bindingsQueryKey (Some sc)
      \<or> q_key q = auditQueryKey (Some sc) a \<or> q_key q = directoryQueryKey (Some sc) d"
    and "scope_tenantId sc \<notin> {''workspaces'', ''role-bindings'', ''audit'', ''users''}"
  shows "find_query k (invalidateAll (Some sc) c) = Some q"
  using assms(2,3) invalidate_prefix [OF _ assms(1), of "[JStr ''tenant-admin'', JStr (scope_tenantId sc), JStr (scope_workspace sc)]"]
  by (auto simp: invalidateAll_def workspacesQueryKey_def bindingsQueryKey_def auditQueryKey_def directoryQueryKey_def)

definition acme :: tenant_scope where
  "acme = \<lparr>scope_tenantId = ''acme'', scope_workspace = ''prod''\<rparr>"

lemma acme_simps [simp]: "scope_tenantId acme = ''acme''" "scope_workspace acme = ''prod''"
  by (simp_all add: acme_def)

lemma find_built: "find_query k (build k []) = Some (new_query k)"
  by (simp add: find_build) (simp add: find_query_def)

theorem set_user_role_refreshes_witness:
  "\<exists>q'. find_query (userRoleQueryKey (Some acme) (Some ''u1''))
      (setUserRole_onSuccess (Some acme) ''u1'' (build (userRoleQueryKey (Some acme) (Some ''u1'')) [])) = Some q'
    \<and> st_invalidated (q_state q')"
  using set_user_role_refreshes [OF find_built, of "userRoleQueryKey (Some acme) (Some ''u1'')" acme _ "''u1''"]
  by (auto simp only: query_key_simps)

text \<open>A backend that accepts everything.\<close>

definition accepting_env :: "unit api_env" where
  "accepting_env = sample_env\<lparr>fetch := (\<lambda>u i w. (Response 200 (Inr (JObj [(''ok'', JBool True)])), w))\<rparr>"

lemma accepted: "api_put accepting_env sample_browser path payload () = (Inr (JObj [(''ok'', JBool True)]), ())"
proof -
  obtain u where "buildUrl accepting_env path (scopedQuery (getStoredScope sample_browser) None) = Inr u"
    by (simp add: buildUrl_def accepting_env_def sample_env_def getApiBaseUrl_def)
  then show ?thesis
    by (simp add: api_put_def request_def no_options_def read_response_def accepting_env_def response_ok_def
        member_read_def nullish_def Let_def)
qed

theorem tenant_role_keeps_role_stale_witness:
  "\<exists>v c'. setTenantRole_mutation accepting_env sample_browser ''u1'' (JObj [])
      (build (userRoleQueryKey (Some acme) (Some ''u1'')) []) () = (Inr v, c', ())
    \<and> find_query (userRoleQueryKey (Some acme) (Some ''u1'')) c' = Some (new_query (userRoleQueryKey (Some acme) (Some ''u1'')))"
proof -
  let ?c = "build (userRoleQueryKey (Some acme) (Some ''u1'')) []"
  have t: "setTenantRole_mutation accepting_env sample_browser ''u1'' (JObj []) ?c () =
      (Inr (JObj [(''ok'', JBool True)]), setTenantRole_onSuccess (getStoredScope sample_browser) ?c, ())"
    by (simp add: setTenantRole_mutation_def setTenantRole_def mutate_then_def accepted)
  have scope: "getStoredScope sample_browser = Some acme" by (simp add: sample_scope acme_def)
  from tenant_role_keeps_role_stale [OF scope _ find_built _ t] t show ?thesis by auto
qed

theorem tenant_admin_refreshes_nothing_witness:
  "find_query (workspacesQueryKey (Some acme)) (invalidateAll (Some acme) (build (workspacesQueryKey (Some acme)) []))
    = Some (new_query (workspacesQueryKey (Some acme)))"
  by (rule tenant_admin_refreshes_nothing [OF find_built]) simp_all

end
