(* ===== verification/UsersPage.thy ===== *)
theory UsersPage
  imports Components AdminHooks Auth
begin

text \<open>
  \<open>app/users/UsersClientPage.tsx\<close>: users of the workspace and their roles.  The state of the page,
  its effects, its three mutations up to and after their \<open>await\<close>, the rendered page, and the
  states that can be reached by rendering, by what the page lets a user do and by answers, while the
  permissions of the user may change.
\<close>

section \<open>State\<close>

record users_page =
  up_browser :: browser
  up_params :: search_params
  up_scope :: tenant_scope
  up_user :: jsval
  up_users :: query_view
  up_rolesCatalog :: query_view
  up_role :: query_view
  up_createPending :: bool
  up_rolePending :: bool

record users_state =
  us_searchInput :: string
  us_showCreate :: bool
  us_createError :: "string option"
  us_createFeedback :: "string option"
  us_selectedUserId :: "string option"
  us_roleIdInput :: string
  us_grantedByInput :: string
  us_applyTenantWide :: bool
  us_roleError :: "string option"
  us_roleFeedback :: "string option"

definition users_initial :: "users_page \<Rightarrow> users_state" where
  "users_initial p =
     \<lparr>us_searchInput = param ''q'' (up_params p), us_showCreate = False, us_createError = None, us_createFeedback = None,
      us_selectedUserId = None, us_roleIdInput = ''viewer'', us_grantedByInput = [], us_applyTenantWide = False,
      us_roleError = None, us_roleFeedback = None\<rparr>"

definition isAdminFull :: "users_page \<Rightarrow> bool" where
  "isAdminFull p = has_permission (up_user p) ''admin:full''"

definition users_limit :: "search_params \<Rightarrow> num" where
  "users_limit sp = parsePositiveInt (usp_get ''limit'' sp) (int_num 25)"

definition users_page_number :: "search_params \<Rightarrow> num" where
  "users_page_number sp = parsePositiveInt (usp_get ''page'' sp) (int_num 1)"

definition includeInactive :: "search_params \<Rightarrow> bool" where
  "includeInactive sp \<longleftrightarrow> usp_get ''include_inactive'' sp = Some ''true''"

text \<open>The three queries of the page.\<close>

definition users_query :: "users_page \<Rightarrow> 'w query_options" where
  "users_query p = useUsers (up_browser p)
     \<lparr>uo_limit = Some (users_limit (up_params p)),
      uo_offset = Some (page_offset (users_page_number (up_params p)) (users_limit (up_params p))),
      uo_q = Some (param ''q'' (up_params p)), uo_includeInactive = Some (includeInactive (up_params p)),
      uo_enabled = Some (allowed (up_user p) ''users:read'')\<rparr>"

definition roles_query :: "users_page \<Rightarrow> 'w query_options" where
  "roles_query p = useRolesCatalog (up_browser p) (allowed (up_user p) ''users:manage_roles'')"

definition role_query :: "users_page \<Rightarrow> users_state \<Rightarrow> 'w query_options" where
  "role_query p s = useUserRole (up_browser p) (us_selectedUserId s) (allowed (up_user p) ''users:manage_roles'')"

definition selectedUser :: "users_page \<Rightarrow> users_state \<Rightarrow> jsval" where
  "selectedUser p s =
     (case find (\<lambda>item. get item ''user_id'' = js_string_or_null (us_selectedUserId s)) (qv_items (up_users p)) of
        None \<Rightarrow> JNull | Some user \<Rightarrow> user)"

definition users_paging :: "users_page \<Rightarrow> paging" where
  "users_paging p =
     \<lparr>pg_page = users_page_number (up_params p), pg_limit = users_limit (up_params p), pg_total = qv_total (up_users p)\<rparr>"

definition count_where :: "(jsval \<Rightarrow> bool) \<Rightarrow> users_page \<Rightarrow> nat" where
  "count_where P p = length (filter P (qv_items (up_users p)))"

section \<open>Effects after a render\<close>

definition sync_users_search :: "users_page \<Rightarrow> users_state \<Rightarrow> users_state" where
  "sync_users_search p s = s\<lparr>us_searchInput := param ''q'' (up_params p)\<rparr>"

definition sync_grantedBy :: "users_page \<Rightarrow> users_state \<Rightarrow> users_state" where
  "sync_grantedBy p s =
     (if orelse (us_selectedUserId s) [] = [] then s
      else s\<lparr>us_grantedByInput := text_of (get (up_user p) ''email'')\<rparr>)"

definition sync_roleId :: "users_page \<Rightarrow> users_state \<Rightarrow> users_state" where
  "sync_roleId p s =
     (let data = qv_data (up_role p);
          currentRoleId = get (get data ''role'') ''role_id'';
          selectedUserRoleId = (if orelse (us_selectedUserId s) [] = [] then JNull else get (selectedUser p s) ''role_id'')
      in if truthy currentRoleId then s\<lparr>us_roleIdInput := text_of currentRoleId\<rparr>
         else if truthy selectedUserRoleId then s\<lparr>us_roleIdInput := text_of selectedUserRoleId\<rparr>
         else if \<not> truthy data \<or> get data ''role'' = JNull then s\<lparr>us_roleIdInput := ''viewer''\<rparr>
         else s)"

definition sync_catalog :: "users_page \<Rightarrow> users_state \<Rightarrow> users_state" where
  "sync_catalog p s =
     (case qv_items (up_rolesCatalog p) of
        [] \<Rightarrow> s
      | first # rest \<Rightarrow>
          if list_ex (\<lambda>item. get item ''role_id'' = JStr (us_roleIdInput s)) (first # rest) then s
          else s\<lparr>us_roleIdInput := text_of (get first ''role_id'')\<rparr>)"

section \<open>Creating a user\<close>

text \<open>The fields of the form as \<open>FormData.get\<close> reads them.\<close>

record create_form =
  cf_user_id :: "string option"
  cf_email :: "string option"
  cf_full_name :: "string option"
  cf_password :: "string option"
  cf_is_superadmin :: "string option"

definition form_text :: "string option \<Rightarrow> string" where
  "form_text v = trim (orelse v [])"

definition create_payload :: "users_page \<Rightarrow> create_form \<Rightarrow> jsval" where
  "create_payload p form =
     JObj [(''tenant_id'', JStr (scope_tenantId (up_scope p))), (''workspace'', JStr (scope_workspace (up_scope p))),
       (''user_id'', JStr (form_text (cf_user_id form))), (''email'', JStr (form_text (cf_email form))),
       (''full_name'', js_or (JStr (form_text (cf_full_name form))) JUndef),
       (''password'', js_or (JStr (form_text (cf_password form))) JUndef),
       (''is_superadmin'', JBool (cf_is_superadmin form = Some ''on''))]"

definition submitCreate_start :: "users_page \<Rightarrow> create_form \<Rightarrow> users_state \<Rightarrow> users_state \<times> jsval option" where
  "submitCreate_start p form s =
     (if \<not> allowed (up_user p) ''users:create'' then (s, None)
      else if form_text (cf_user_id form) = [] \<or> form_text (cf_email form) = []
      then (s\<lparr>us_createError := Some ''User ID and email are required.''\<rparr>, None)
      else (s\<lparr>us_createError := None, us_createFeedback := None\<rparr>, Some (create_payload p form)))"

text \<open>
  What \<open>event.currentTarget.reset()\<close> does after the \<open>await\<close>: \<open>target\<close> says whether the event still has
  its current target then.  It throws when it has not.
\<close>

definition reset_form :: "bool \<Rightarrow> unit outcome" where
  "reset_form target = (if target then Inr () else bind_out (member_read JNull ''reset'') (\<lambda>_. Inr ()))"

definition submitCreate_end :: "bool \<Rightarrow> jsval outcome \<Rightarrow> users_state \<Rightarrow> users_state" where
  "submitCreate_end target r s =
     (let failed = (\<lambda>s e. s\<lparr>us_createError := Some (page_error ''Failed to create user'' e)\<rparr>)
      in case r of
           Inl e \<Rightarrow> failed s e
         | Inr _ \<Rightarrow>
             (let s1 = s\<lparr>us_createFeedback := Some ''User created.''\<rparr>
              in case reset_form target of
                   Inl e \<Rightarrow> failed s1 e
                 | Inr _ \<Rightarrow> s1\<lparr>us_showCreate := False\<rparr>))"

section \<open>Deactivating a user\<close>

definition deactivate_start :: "users_page \<Rightarrow> jsval \<Rightarrow> bool \<Rightarrow> string option" where
  "deactivate_start p user confirmed =
     (if \<not> allowed (up_user p) ''users:delete'' \<or> \<not> truthy (get user ''is_active'') then None
      else if \<not> confirmed then None else Some (text_of (get user ''user_id'')))"

definition deactivate_end :: "jsval outcome \<Rightarrow> users_state \<Rightarrow> users_state" where
  "deactivate_end r s =
     (case r of
        Inl e \<Rightarrow> s\<lparr>us_roleError := Some (page_error ''Failed to deactivate user'' e)\<rparr>
      | Inr _ \<Rightarrow> s)"

section \<open>Saving a role\<close>

datatype role_request =
    TenantRole string jsval
  | WorkspaceRole string jsval

definition role_payload :: "users_page \<Rightarrow> users_state \<Rightarrow> jsval" where
  "role_payload p s =
     JObj [(''tenant_id'', JStr (scope_tenantId (up_scope p))), (''workspace'', JStr (scope_workspace (up_scope p))),
       (''role_id'', JStr (trim (us_roleIdInput s))), (''granted_by'', js_or (JStr (trim (us_grantedByInput s))) JUndef)]"

definition saveRole_start :: "users_page \<Rightarrow> users_state \<Rightarrow> users_state \<times> role_request option" where
  "saveRole_start p s =
     (if \<not> truthy (selectedUser p s) \<or> \<not> allowed (up_user p) ''users:manage_roles'' then (s, None)
      else if trim (us_roleIdInput s) = [] then (s\<lparr>us_roleError := Some ''Role ID is required.''\<rparr>, None)
      else let userId = text_of (get (selectedUser p s) ''user_id''); payload = role_payload p s
           in (s\<lparr>us_roleError := None, us_roleFeedback := None\<rparr>,
               Some (if us_applyTenantWide s then TenantRole userId payload else WorkspaceRole userId payload)))"

text \<open>The request of a save and what its success does to the cache.\<close>

definition run_role_request ::
    "'w api_env \<Rightarrow> browser \<Rightarrow> role_request \<Rightarrow> cache \<Rightarrow> 'w \<Rightarrow> jsval outcome \<times> cache \<times> 'w" where
  "run_role_request env b req c w =
     (case req of
        TenantRole userId payload \<Rightarrow> setTenantRole_mutation env b userId payload c w
      | WorkspaceRole userId payload \<Rightarrow> setUserRole_mutation env b userId payload c w)"

definition tenant_role_feedback :: "jsval \<Rightarrow> string outcome" where
  "tenant_role_feedback result =
     bind_out (member_read result ''summary'') (\<lambda>summary.
       bind_out (member_read summary ''assigned'') (\<lambda>_.
         Inr (''Inherited tenant access updated: '' @ to_str (get summary ''assigned'') @ ''/'' @ to_str (get summary ''targeted'')
           @ '' assigned, '' @ to_str (get summary ''skipped'') @ '' skipped.'')))"

definition saveRole_end :: "role_request \<Rightarrow> jsval outcome \<Rightarrow> users_state \<Rightarrow> users_state" where
  "saveRole_end req r s =
     (case bind_out r (\<lambda>result. case req of TenantRole _ _ \<Rightarrow> tenant_role_feedback result
                                          | WorkspaceRole _ _ \<Rightarrow> Inr ''Workspace role updated.'') of
        Inr message \<Rightarrow> s\<lparr>us_roleFeedback := Some message\<rparr>
      | Inl e \<Rightarrow> s\<lparr>us_roleError := Some (page_error ''Failed to update role'' e)\<rparr>)"


section \<open>The handlers\<close>

text \<open>
  The three handlers from the click to the last statement, when nothing else happens while they
  wait; the reachable states below let anything happen there.  After a workspace role was set the
  code also waits for \<open>role.refetch()\<close>, which never throws and shows in the query of the role.
\<close>

definition submitCreate ::
    "'w api_env \<Rightarrow> browser \<Rightarrow> bool \<Rightarrow> users_page \<Rightarrow> create_form \<Rightarrow> users_state \<Rightarrow> cache \<Rightarrow> 'w \<Rightarrow> users_state \<times> cache \<times> 'w" where
  "submitCreate env b target p form s c w =
     (case submitCreate_start p form s of
        (s1, None) \<Rightarrow> (s1, c, w)
      | (s1, Some payload) \<Rightarrow>
          (case mutate_then (createUser env b payload w) (invalidateUsers (getStoredScope b)) c of
             (r, c', w') \<Rightarrow> (submitCreate_end target r s1, c', w')))"

definition deactivate_user ::
    "'w api_env \<Rightarrow> browser \<Rightarrow> users_page \<Rightarrow> jsval \<Rightarrow> bool \<Rightarrow> users_state \<Rightarrow> cache \<Rightarrow> 'w \<Rightarrow> users_state \<times> cache \<times> 'w" where
  "deactivate_user env b p user confirmed s c w =
     (case deactivate_start p user confirmed of
        None \<Rightarrow> (s, c, w)
      | Some userId \<Rightarrow>
          (case mutate_then (deactivateUser env b userId w) (invalidateUsers (getStoredScope b)) c of
             (r, c', w') \<Rightarrow> (deactivate_end r s, c', w')))"

definition saveRole :: "'w api_env \<Rightarrow> browser \<Rightarrow> users_page \<Rightarrow> users_state \<Rightarrow> cache \<Rightarrow> 'w \<Rightarrow> users_state \<times> cache \<times> 'w" where
  "saveRole env b p s c w =
     (case saveRole_start p s of
        (s1, None) \<Rightarrow> (s1, c, w)
      | (s1, Some req) \<Rightarrow> (case run_role_request env b req c w of (r, c', w') \<Rightarrow> (saveRole_end req r s1, c', w')))"

section \<open>The view\<close>

datatype users_event =
    SetUsersSearch string
  | SubmitUsersSearch
  | ToggleCreate
  | SubmitCreate create_form
  | ManageRole jsval
  | Deactivate jsval
  | CloseRoleDrawer
  | SetRoleId string
  | SetGrantedBy string
  | SetTenantWide bool
  | SaveRole

definition userStatusBadgeClass :: "jsval \<Rightarrow> string" where
  "userStatusBadgeClass user =
     (if truthy (get user ''is_superadmin'') then ''border-fuchsia-300 bg-fuchsia-50 text-fuchsia-800''
      else if truthy (get user ''is_active'') then ''border-emerald-300 bg-emerald-50 text-emerald-800''
      else ''border-zinc-300 bg-zinc-100 text-zinc-700'')"

definition assignmentBadgeClass :: "jsval \<Rightarrow> string" where
  "assignmentBadgeClass source =
     (let normalized = to_lower (trim (text_of source))
      in if normalized = ''inherited'' then ''border-violet-300 bg-violet-50 text-violet-800''
         else if normalized = ''direct'' then ''border-cyan-300 bg-cyan-50 text-cyan-800''
         else ''border-zinc-300 bg-zinc-100 text-zinc-700'')"

definition users_header :: "users_page \<Rightarrow> users_event page_event jsx" where
  "users_header p =
     El ''header'' []
       [El ''p'' [] [Txt ''Access Governance''], El ''h1'' [] [Txt ''Workspace Users and Roles''],
        El ''p'' [] [Txt (''Tenant: '' @ scope_tenantId (up_scope p) @ '' | Workspace: '' @ scope_workspace (up_scope p))],
        El ''p'' [] [Txt ''This page manages access for the current workspace. Tenant-wide inherited access is separated into the tenant administration surface.''],
        nav_button (allowed (up_user p) ''findings:read'') ''/findings'' ''Findings'',
        nav_button (allowed (up_user p) ''findings:read'') ''/recommendations'' ''Recommendations'',
        nav_button (isAdminFull p) ''/tenant-admin'' ''Tenant Admin'',
        button False Logout ''Logout'']"

definition users_cards :: "users_page \<Rightarrow> users_event page_event jsx" where
  "users_cards p =
     El ''section'' []
       [info_card ''Total Users'' (num_to_string (qv_total (up_users p))),
        info_card ''Active (page)'' (nat_to_string (count_where (\<lambda>u. truthy (get u ''is_active'')) p)),
        info_card ''Assigned Role'' (nat_to_string (count_where (\<lambda>u. truthy (get u ''role_id'')) p)),
        info_card ''Superadmins'' (nat_to_string (count_where (\<lambda>u. truthy (get u ''is_superadmin'')) p))]"

definition users_toolbar :: "users_page \<Rightarrow> users_state \<Rightarrow> users_event page_event jsx" where
  "users_toolbar p s =
     El ''section'' []
       [El ''span'' [] [Txt ''Search users''],
        El ''form'' [On ''onSubmit'' (\<lambda>_. Own SubmitUsersSearch)]
          [text_input (us_searchInput s) False (\<lambda>v. Own (SetUsersSearch v)), El ''button'' [Prop ''type'' ''submit''] [Txt ''Apply'']],
        select ''Page size'' (num_to_string (users_limit (up_params p))) (\<lambda>v. Update [(''limit'', Some v), (''page'', Some ''1'')])
          [(''10'', ''10''), (''25'', ''25''), (''50'', ''50''), (''100'', ''100'')],
        checkbox (includeInactive (up_params p)) False
          (\<lambda>b. Update [(''include_inactive'', if b then Some ''true'' else None), (''page'', Some ''1'')]),
        El ''span'' [] [Txt ''Include inactive users'']]"

text \<open>The form of a new user; submitting it hands over what the fields hold.\<close>

definition form_field :: "string \<Rightarrow> 'e attr list \<Rightarrow> 'e jsx" where
  "form_field label attrs = El ''label'' [] [El ''span'' [] [Txt label], El ''input'' attrs []]"

definition create_form_view :: "users_page \<Rightarrow> create_form \<Rightarrow> users_event page_event jsx" where
  "create_form_view p form =
     El ''form'' [On ''onSubmit'' (\<lambda>_. Own (SubmitCreate form))]
       [form_field ''User ID'' [Prop ''name'' ''user_id'', Flag ''required'' True],
        form_field ''Email'' [Prop ''type'' ''email'', Prop ''name'' ''email'', Flag ''required'' True],
        form_field ''Full name'' [Prop ''name'' ''full_name''],
        form_field ''Password (optional)'' [Prop ''type'' ''password'', Prop ''name'' ''password''],
        El ''label'' []
          [El ''input'' [Prop ''type'' ''checkbox'', Prop ''name'' ''is_superadmin''] [], El ''span'' [] [Txt ''Superadmin'']],
        El ''button'' [Prop ''type'' ''submit'', Flag ''disabled'' (up_createPending p)]
          [Txt (if up_createPending p then ''Creating...'' else ''Create'')]]"

definition optional_line :: "string option \<Rightarrow> 'e jsx" where
  "optional_line m = (if orelse m [] = [] then Nothing else El ''p'' [] [Txt (orelse m [])])"

definition users_management :: "users_page \<Rightarrow> users_state \<Rightarrow> create_form \<Rightarrow> users_event page_event jsx" where
  "users_management p s form =
     El ''section'' []
       [El ''h2'' [] [Txt ''User Management''],
        show_if (allowed (up_user p) ''users:create'')
          (button False (Own ToggleCreate) (if us_showCreate s then ''Close'' else ''Create User'')),
        El ''p'' [] [Txt ''Access model''],
        El ''p'' [] [Txt (''Workspace admins can manage users and roles only inside '' @ scope_workspace (up_scope p)
          @ ''. Tenant-wide inherited access remains restricted to admin:full and cannot be elevated from workspace-only administration.'')],
        show_if (us_showCreate s) (create_form_view p form),
        optional_line (us_createError s), optional_line (us_createFeedback s)]"

definition role_cell :: "users_page \<Rightarrow> jsval \<Rightarrow> users_event page_event jsx" where
  "role_cell p user =
     (let role_id = child_text (get user ''role_id'')
      in El ''td'' []
           (if truthy (get user ''role_id'')
            then [El ''span'' [] [Txt (if truthy (get user ''role_name'')
                    then child_text (get user ''role_name'') @ '' ('' @ role_id @ '')'' else role_id)],
                  El ''div'' [] [Txt (''Source: ''
                    @ child_text (coalesce (get user ''source_workspace'') (JStr (scope_workspace (up_scope p)))))]]
            else [El ''span'' [] [Txt ''Unassigned'']]))"

definition user_row :: "ui_host \<Rightarrow> users_page \<Rightarrow> jsval \<Rightarrow> users_event page_event jsx" where
  "user_row host p user =
     El ''tr'' []
       [cell (child_text (get user ''email'')), cell (child_text (get user ''user_id'')),
        cell (text_or_dash (get user ''full_name'')), cell (text_or_dash (get user ''auth_provider'')),
        role_cell p user,
        El ''td'' [] [El ''span'' [Prop ''className'' (assignmentBadgeClass (get user ''assignment_source''))]
          [Txt (child_text (coalesce (get user ''assignment_source'') (JStr ''unknown'')))]],
        cell (date_label host (get user ''last_login_at'')),
        El ''td'' [] [El ''span'' [Prop ''className'' (userStatusBadgeClass user)]
          [Txt ((if truthy (get user ''is_active'') then ''Active'' else ''Inactive'')
            @ (if truthy (get user ''is_superadmin'') then '' / Superadmin'' else []))]],
        El ''td'' []
          [show_if (allowed (up_user p) ''users:manage_roles'') (button False (Own (ManageRole user)) ''Manage Role''),
           show_if (allowed (up_user p) ''users:delete'' \<and> truthy (get user ''is_active''))
             (button False (Own (Deactivate user)) ''Deactivate'')]]"

definition users_pager :: "paging \<Rightarrow> nat \<Rightarrow> users_event page_event jsx" where
  "users_pager g shown = push_pager g shown"

definition users_table :: "ui_host \<Rightarrow> users_page \<Rightarrow> users_event page_event jsx" where
  "users_table host p =
     (let q = up_users p; items = qv_items q
      in show_if (\<not> qv_isLoading q \<and> truthy (qv_data q))
           (El ''div'' []
             [table [''Email'', ''User ID'', ''Full name'', ''Provider'', ''Role'', ''Assignment'', ''Last login'', ''Status'', ''Actions'']
                (map (user_row host p) items),
              show_if (items = []) (El ''p'' [] [Txt ''No users match the current filters.'']),
              users_pager (users_paging p) (length items)]))"


definition role_choice :: "users_page \<Rightarrow> users_state \<Rightarrow> users_event page_event jsx" where
  "role_choice p s =
     (let items = qv_items (up_rolesCatalog p); disabled = (\<not> allowed (up_user p) ''users:manage_roles'');
          label = (\<lambda>item. let role_id = child_text (get item ''role_id'')
                     in if truthy (get item ''name'') then child_text (get item ''name'') @ '' ('' @ role_id @ '')'' else role_id)
      in if items \<noteq> []
         then El ''select'' [Prop ''value'' (us_roleIdInput s), On ''onChange'' (\<lambda>v. Own (SetRoleId v)), Flag ''disabled'' disabled]
                (map (\<lambda>item. option_of (text_of (get item ''role_id''), label item)) items)
         else text_input (us_roleIdInput s) disabled (\<lambda>v. Own (SetRoleId v)))"

definition error_line :: "string \<Rightarrow> query_view \<Rightarrow> 'e jsx" where
  "error_line what q =
     (case qv_error q of None \<Rightarrow> Nothing | Some e \<Rightarrow> El ''p'' [] [Txt (page_error what e)])"

definition current_role :: "ui_host \<Rightarrow> users_page \<Rightarrow> users_event page_event jsx" where
  "current_role host p =
     (let role = get (qv_data (up_role p)) ''role''; permissions = array_items (get role ''permissions'')
      in if truthy role
         then El ''section'' []
           [El ''h3'' [] [Txt ''Current Role''],
            El ''p'' [] [Txt (child_text (get role ''role_id'') @ '' ''
              @ (if truthy (get role ''name'') then ''('' @ child_text (get role ''name'') @ '')'' else []))],
            El ''p'' [] [Txt (''Granted by: '' @ text_or_dash (get role ''granted_by'') @ '' | Granted at: ''
              @ date_label host (get role ''granted_at''))],
            El ''span'' [Prop ''className'' (assignmentBadgeClass (get role ''assignment_source''))]
              [Txt (child_text (coalesce (get role ''assignment_source'') (JStr ''unknown'')))],
            El ''span'' [] [Txt (''Source workspace: ''
              @ child_text (coalesce (get role ''source_workspace'') (JStr (scope_workspace (up_scope p)))))],
            El ''div'' [] (if permissions \<noteq> [] then map (\<lambda>v. El ''span'' [] [Txt (child_text v)]) permissions
              else [El ''span'' [] [Txt ''No permissions returned.'']])]
         else El ''p'' [] [Txt ''No role assignment in this workspace.''])"

definition role_footer :: "users_page \<Rightarrow> users_state \<Rightarrow> users_event page_event jsx" where
  "role_footer p s =
     El ''div'' []
       [optional_line (us_roleError s), optional_line (us_roleFeedback s),
        button (\<not> allowed (up_user p) ''users:manage_roles'' \<or> up_rolePending p) (Own SaveRole)
          (if up_rolePending p then ''Saving...'' else ''Save Role'')]"

definition role_drawer :: "ui_host \<Rightarrow> users_page \<Rightarrow> users_state \<Rightarrow> users_event page_event jsx" where
  "role_drawer host p s =
     (let user = selectedUser p s; canManageRoles = allowed (up_user p) ''users:manage_roles''
      in show_if (truthy user)
           (El ''div'' []
             [button False (Own CloseRoleDrawer) [],
              El ''h2'' [] [Txt ''Manage Role''],
              El ''p'' [] [Txt (child_text (get user ''email'') @ '' ('' @ child_text (get user ''user_id'') @ '')'')],
              button False (Own CloseRoleDrawer) ''Close'',
              show_if (qv_isLoading (up_role p)) (El ''p'' [] [Txt ''Loading role...'']),
              error_line ''Failed to load role'' (up_role p),
              El ''span'' [] [Txt ''Role ID''], role_choice p s,
              error_line ''Failed to load roles catalog'' (up_rolesCatalog p),
              El ''span'' [] [Txt ''Granted by (optional)''],
              text_input (us_grantedByInput s) (\<not> canManageRoles) (\<lambda>v. Own (SetGrantedBy v)),
              (if isAdminFull p
               then El ''label'' [] [checkbox (us_applyTenantWide s) (\<not> canManageRoles) (\<lambda>b. Own (SetTenantWide b)),
                 El ''span'' [] [Txt ''Apply as inherited tenant access across existing workspaces'']]
               else El ''p'' [] [Txt ''Tenant-wide inherited access is intentionally restricted to tenant administrators. This screen only changes the current workspace assignment.'']),
              current_role host p,
              role_footer p s]))"

definition UsersClientPage :: "ui_host \<Rightarrow> users_page \<Rightarrow> users_state \<Rightarrow> create_form \<Rightarrow> users_event page_event jsx" where
  "UsersClientPage host p s form =
     (let canReadUsers = allowed (up_user p) ''users:read''
      in El ''main'' []
           [users_header p, users_cards p,
            show_if (\<not> canReadUsers) (El ''div'' [] [Txt ''Missing permission `users:read` to list users in this workspace.'']),
            show_if canReadUsers
              (El ''div'' []
                [users_toolbar p s, users_management p s form,
                 show_if (qv_isLoading (up_users p)) (El ''p'' [] [Txt ''Loading users...'']),
                 query_error (page_error ''Failed to load users'') (up_users p),
                 users_table host p]),
            role_drawer host p s])"

section \<open>Steps\<close>

definition openRoleDrawer :: "jsval \<Rightarrow> users_state \<Rightarrow> users_state" where
  "openRoleDrawer user s =
     s\<lparr>us_selectedUserId := text_option (get user ''user_id''), us_roleError := None, us_roleFeedback := None,
       us_applyTenantWide := False\<rparr>"

definition closeRoleDrawer :: "users_state \<Rightarrow> users_state" where
  "closeRoleDrawer s = s\<lparr>us_selectedUserId := None, us_roleError := None, us_roleFeedback := None\<rparr>"

text \<open>What an event of the page changes at once.\<close>

definition users_step :: "users_page \<Rightarrow> users_event \<Rightarrow> users_state \<Rightarrow> users_state" where
  "users_step p e s =
     (case e of
        SetUsersSearch v \<Rightarrow> s\<lparr>us_searchInput := v\<rparr>
      | SubmitUsersSearch \<Rightarrow> s
      | ToggleCreate \<Rightarrow> s\<lparr>us_showCreate := \<not> us_showCreate s, us_createError := None, us_createFeedback := None\<rparr>
      | SubmitCreate form \<Rightarrow> fst (submitCreate_start p form s)
      | ManageRole user \<Rightarrow> openRoleDrawer user s
      | Deactivate user \<Rightarrow> s
      | CloseRoleDrawer \<Rightarrow> closeRoleDrawer s
      | SetRoleId v \<Rightarrow> s\<lparr>us_roleIdInput := v\<rparr>
      | SetGrantedBy v \<Rightarrow> s\<lparr>us_grantedByInput := v\<rparr>
      | SetTenantWide b \<Rightarrow> s\<lparr>us_applyTenantWide := b\<rparr>
      | SaveRole \<Rightarrow> fst (saveRole_start p s))"

definition submit_users_search :: "users_page \<Rightarrow> users_state \<Rightarrow> string" where
  "submit_users_search p s =
     pushWithParams ''/users'' (up_params p) [(''q'', some_text (trim (us_searchInput s))), (''page'', Some ''1'')]"

text \<open>Where an event of the page sends the browser.\<close>

definition users_pushes :: "users_page \<Rightarrow> users_state \<Rightarrow> users_event page_event \<Rightarrow> string option" where
  "users_pushes p s e =
     (case e of
        Own SubmitUsersSearch \<Rightarrow> Some (submit_users_search p s)
      | _ \<Rightarrow> event_pushes ''/users'' (up_params p) e)"

text \<open>
  The states the page can come to while the queries, the address and the permissions of the user
  change in any way between two renders: by effects, by events the page lets its user raise, and
  by answers that come in.  The relation carries what the user did, the latest first, each event
  with the render it was raised in.
\<close>

type_synonym users_history = "(users_page \<times> users_event) list"

inductive users_reach :: "ui_host \<Rightarrow> users_history \<Rightarrow> users_state \<Rightarrow> bool" for host where
  start: "users_reach host [] (users_initial p)"
| effect: "users_reach host es s \<Longrightarrow>
     f \<in> {sync_users_search p, sync_grantedBy p, sync_roleId p, sync_catalog p} \<Longrightarrow> users_reach host es (f s)"
| event: "users_reach host es s \<Longrightarrow> raises (UsersClientPage host p s form) (Own e) \<Longrightarrow>
     users_reach host ((p, e) # es) (users_step p e s)"
| created: "users_reach host es s \<Longrightarrow> users_reach host es (submitCreate_end target r s)"
| deactivated: "users_reach host es s \<Longrightarrow> users_reach host es (deactivate_end r s)"
| saved: "users_reach host es s \<Longrightarrow> users_reach host es (saveRole_end req r s)"

text \<open>The latest event that has a say in whether a role is applied tenant-wide.\<close>

definition tenant_wide_choice :: "users_history \<Rightarrow> (users_page \<times> users_event) option" where
  "tenant_wide_choice es =
     find (\<lambda>(p, e). case e of SetTenantWide b \<Rightarrow> True | ManageRole user \<Rightarrow> True | _ \<Rightarrow> False) es"

text \<open>What can happen to the page until the role drawer is opened.\<close>

inductive until_drawer :: "users_state \<Rightarrow> users_state \<Rightarrow> bool" for s where
  stay: "until_drawer s s"
| effect: "until_drawer s t \<Longrightarrow> f \<in> {sync_users_search p, sync_grantedBy p, sync_roleId p, sync_catalog p} \<Longrightarrow>
     until_drawer s (f t)"
| event: "until_drawer s t \<Longrightarrow> (\<And>user. e \<noteq> ManageRole user) \<Longrightarrow> until_drawer s (users_step p e t)"
| created: "until_drawer s t \<Longrightarrow> until_drawer s (submitCreate_end target r t)"
| deactivated: "until_drawer s t \<Longrightarrow> until_drawer s (deactivate_end r t)"
| saved: "until_drawer s t \<Longrightarrow> until_drawer s (saveRole_end req r t)"

section \<open>Facts\<close>

lemma raises_lines [simp, view_simps]: "\<not> raises (optional_line m) e" "\<not> raises (error_line t q) e"
  by (auto simp: optional_line_def error_line_def split: option.split)

lemma raises_role_parts [simp, view_simps]: "\<not> raises (current_role host p) e" "\<not> raises (role_cell p u) e"
  by (auto simp: current_role_def role_cell_def Let_def)

lemma raises_nav [simp, view_simps]:
  "raises (nav_button c t l) e \<longleftrightarrow> c \<and> e = Go t"
  "raises (query_error m q) e \<longleftrightarrow> qv_error q \<noteq> None \<and> e = Refetch"
  by (auto simp: nav_button_def query_error_def split: option.split)

lemma raises_user_row [simp, view_simps]:
  "raises (user_row host p user) e \<longleftrightarrow>
     allowed (up_user p) ''users:manage_roles'' \<and> e = Own (ManageRole user)
     \<or> allowed (up_user p) ''users:delete'' \<and> truthy (get user ''is_active'') \<and> e = Own (Deactivate user)"
  by (auto simp: user_row_def)

text \<open>Only the drawer offers to apply a role tenant-wide or to save one.\<close>

lemma raises_role_events:
  assumes "raises (UsersClientPage host p s form) (Own e)" and "e = SetTenantWide b \<or> e = SaveRole"
  shows "truthy (selectedUser p s) \<and> allowed (up_user p) ''users:manage_roles'' \<and> (e = SetTenantWide b \<longrightarrow> isAdminFull p)"
proof -
  have "\<not> raises v (Own e)" if "v \<in> {users_header p, users_cards p, users_toolbar p s, users_management p s form, users_table host p}" for v
    using that assms(2)
    by (auto simp: users_header_def users_cards_def users_toolbar_def users_management_def users_table_def
        create_form_view_def form_field_def users_pager_def push_pager_def Let_def)
  then have "raises (role_drawer host p s) (Own e)"
    using assms by (auto simp: UsersClientPage_def Let_def)
  then show ?thesis
    using assms(2) by (auto simp: role_drawer_def role_choice_def role_footer_def Let_def split: if_splits)
qed

lemma tenant_wide_choice_simps [simp]:
  "tenant_wide_choice [] = None"
  "tenant_wide_choice ((p, e) # es) =
     (case e of SetTenantWide b \<Rightarrow> Some (p, e) | ManageRole user \<Rightarrow> Some (p, e) | _ \<Rightarrow> tenant_wide_choice es)"
  by (simp_all add: tenant_wide_choice_def split: users_event.split)

lemma tenant_wide_choice_mem: "tenant_wide_choice es = Some x \<Longrightarrow> x \<in> set es"
  by (auto simp: tenant_wide_choice_def find_Some_iff) (metis nth_mem)

text \<open>The box is ticked exactly when the latest choice ticked it.\<close>

lemma tenant_wide_step:
  "us_applyTenantWide (users_step p e s) \<longleftrightarrow>
     (case e of SetTenantWide b \<Rightarrow> b | ManageRole user \<Rightarrow> False | _ \<Rightarrow> us_applyTenantWide s)"
  by (cases e) (auto simp: users_step_def submitCreate_start_def saveRole_start_def openRoleDrawer_def closeRoleDrawer_def Let_def)

lemma tenant_wide_ticked:
  "users_reach host es s \<Longrightarrow> us_applyTenantWide s \<longleftrightarrow> (\<exists>p. tenant_wide_choice es = Some (p, SetTenantWide True))"
proof (induction rule: users_reach.induct)
  case (event es s p form e)
  then show ?case by (cases e) (simp_all add: tenant_wide_step)
next
  case (effect es s f p)
  then have "us_applyTenantWide (f s) \<longleftrightarrow> us_applyTenantWide s"
    by (auto simp: sync_users_search_def sync_grantedBy_def sync_roleId_def sync_catalog_def Let_def
        split: if_splits list.splits)
  then show ?case using effect.IH by simp
qed (simp_all add: users_initial_def submitCreate_end_def deactivate_end_def saveRole_end_def reset_form_def Let_def
    split: sum.splits)

lemma tick_by_admin: "users_reach host es s \<Longrightarrow> (p, SetTenantWide b) \<in> set es \<Longrightarrow> isAdminFull p"
proof (induction rule: users_reach.induct)
  case (event es s p' form e)
  then show ?case using raises_role_events [OF event.hyps(2)] by auto
qed auto

text \<open>
  C8. Tenant-wide roles need an administrator: whatever happens to the permissions of the user and to
  the queries while the page is open, saving a role starts the tenant-wide request exactly when
  the latest choice since the drawer was opened ticked the box, and the page was shown to a user
  with \<open>admin:full\<close> at that moment.  Whatever save is started is for the user shown in the
  drawer, by somebody who may manage roles, with the role id of the form (never blank) and the
  tenant and workspace of the page.  The save itself does not look at \<open>admin:full\<close> again: with
  any other permissions that let a user manage roles the same request is sent.
\<close>

theorem tenant_wide_needs_admin:
  assumes "users_reach host es s" and "saveRole_start p s = (s', Some req)"
  shows "\<exists>userId payload.
      (case tenant_wide_choice es of
         Some (p0, SetTenantWide True) \<Rightarrow> req = TenantRole userId payload \<and> has_permission (up_user p0) ''admin:full''
       | _ \<Rightarrow> req = WorkspaceRole userId payload)
    \<and> allowed (up_user p) ''users:manage_roles''
    \<and> userId = text_of (get (selectedUser p s) ''user_id'') \<and> truthy (selectedUser p s)
    \<and> get payload ''role_id'' = JStr (trim (us_roleIdInput s)) \<and> trim (us_roleIdInput s) \<noteq> []
    \<and> get payload ''tenant_id'' = JStr (scope_tenantId (up_scope p))
    \<and> get payload ''workspace'' = JStr (scope_workspace (up_scope p))
    \<and> (allowed user ''users:manage_roles'' \<longrightarrow> saveRole_start (p\<lparr>up_user := user\<rparr>) s = (s', Some req))"
proof -
  let ?userId = "text_of (get (selectedUser p s) ''user_id'')"
  have same: "selectedUser (p\<lparr>up_user := user\<rparr>) s = selectedUser p s" "role_payload (p\<lparr>up_user := user\<rparr>) s = role_payload p s"
    by (simp_all add: selectedUser_def role_payload_def)
  have "req = (if us_applyTenantWide s then TenantRole ?userId (role_payload p s) else WorkspaceRole ?userId (role_payload p s))"
    and facts: "allowed (up_user p) ''users:manage_roles''" "truthy (selectedUser p s)" "trim (us_roleIdInput s) \<noteq> []"
    using assms(2) by (auto simp: saveRole_start_def Let_def split: if_splits)
  then have "case tenant_wide_choice es of
         Some (p0, SetTenantWide True) \<Rightarrow> req = TenantRole ?userId (role_payload p s) \<and> has_permission (up_user p0) ''admin:full''
       | _ \<Rightarrow> req = WorkspaceRole ?userId (role_payload p s)"
    using tenant_wide_ticked [OF assms(1)] tick_by_admin [OF assms(1)] tenant_wide_choice_mem [of es]
    by (auto simp: isAdminFull_def split: option.split prod.split users_event.split bool.split)
  moreover have "allowed user ''users:manage_roles'' \<Longrightarrow> saveRole_start (p\<lparr>up_user := user\<rparr>) s = (s', Some req)"
    using assms(2) facts by (auto simp: saveRole_start_def same Let_def)
  ultimately show ?thesis
    using facts by (intro exI [of _ ?userId] exI [of _ "role_payload p s"]) (simp add: role_payload_def)
qed

definition sample_user :: jsval where
  "sample_user = JObj [(''user_id'', JStr ''u-1''), (''email'', JStr ''a@b.c''), (''is_active'', JBool True)]"

definition admin_user :: jsval where
  "admin_user = JObj [(''permissions'', JArr [JStr ''admin:full''])]"

definition plain_query :: "jsval \<Rightarrow> query_view" where
  "plain_query data = \<lparr>qv_data = data, qv_isLoading = False, qv_error = None\<rparr>"

definition sample_users_page :: users_page where
  "sample_users_page =
     \<lparr>up_browser = sample_browser, up_params = [], up_scope = \<lparr>scope_tenantId = ''acme'', scope_workspace = ''prod''\<rparr>,
      up_user = admin_user, up_users = plain_query (JObj [(''items'', JArr [sample_user])]),
      up_rolesCatalog = plain_query JUndef, up_role = plain_query JUndef, up_createPending = False, up_rolePending = False\<rparr>"

definition empty_form :: create_form where
  "empty_form = \<lparr>cf_user_id = None, cf_email = None, cf_full_name = None, cf_password = None, cf_is_superadmin = None\<rparr>"

definition drawer_state :: users_state where
  "drawer_state = openRoleDrawer sample_user (users_initial sample_users_page)"

lemma admin_allowed [simp]: "allowed admin_user q" "has_permission admin_user ''admin:full''"
  by (simp_all add: allowed_def has_permission_def permission_list_def admin_user_def coalesce_def nullish_def)

lemma sample_users_page_simps [simp]:
  "up_user sample_users_page = admin_user" "qv_items (up_users sample_users_page) = [sample_user]"
  "qv_isLoading (up_users sample_users_page) = False" "truthy (qv_data (up_users sample_users_page))"
  by (simp_all add: sample_users_page_def plain_query_def qv_items_def coalesce_def nullish_def)

lemma drawer_selected: "us_selectedUserId s = Some ''u-1'' \<Longrightarrow> selectedUser sample_users_page s = sample_user"
  by (simp add: selectedUser_def sample_user_def js_string_or_null_def)

definition tick_history :: users_history where
  "tick_history = [(sample_users_page, SetTenantWide True), (sample_users_page, ManageRole sample_user)]"

lemma reach_tenant_wide: "users_reach sample_host tick_history (drawer_state\<lparr>us_applyTenantWide := True\<rparr>)"
proof -
  let ?p = "sample_users_page"
  have "users_reach sample_host [(?p, ManageRole sample_user)] (users_step ?p (ManageRole sample_user) (users_initial ?p))"
    by (rule users_reach.event [OF users_reach.start, where form = empty_form])
      (simp_all add: UsersClientPage_def users_table_def Let_def)
  then have d: "users_reach sample_host [(?p, ManageRole sample_user)] drawer_state"
    by (simp add: users_step_def drawer_state_def)
  have "selectedUser ?p drawer_state = sample_user"
    by (rule drawer_selected) (simp add: drawer_state_def openRoleDrawer_def sample_user_def text_option_def)
  then have "raises (UsersClientPage sample_host ?p drawer_state empty_form) (Own (SetTenantWide True))"
    by (simp add: UsersClientPage_def role_drawer_def isAdminFull_def sample_user_def Let_def) blast
  from users_reach.event [OF d this] show ?thesis by (simp add: users_step_def tick_history_def)
qed

text \<open>
  An administrator opens the drawer and ticks the box; then the current user is fetched again and
  has only the permission to manage roles left.
\<close>

definition role_manager :: jsval where
  "role_manager = JObj [(''permissions'', JArr [JStr ''users:manage_roles''])]"

theorem tenant_wide_needs_admin_witness:
  "\<exists>s s' s'' payload. users_reach sample_host tick_history s
     \<and> saveRole_start sample_users_page s = (s', Some (TenantRole ''u-1'' payload)) \<and> has_permission admin_user ''admin:full''
     \<and> get payload ''role_id'' = JStr ''viewer''
     \<and> \<not> has_permission role_manager ''admin:full''
     \<and> saveRole_start (sample_users_page\<lparr>up_user := role_manager\<rparr>) s = (s'', Some (TenantRole ''u-1'' payload))"
proof -
  let ?s = "drawer_state\<lparr>us_applyTenantWide := True\<rparr>"
  have sel: "selectedUser sample_users_page ?s = sample_user"
    by (rule drawer_selected) (simp add: drawer_state_def openRoleDrawer_def sample_user_def text_option_def)
  have role: "us_roleIdInput ?s = ''viewer''" "trim ''viewer'' = ''viewer''"
    by (simp_all add: drawer_state_def openRoleDrawer_def users_initial_def trim_def trim_start_def trim_end_def is_ws_def)
  have manager: "allowed role_manager ''users:manage_roles''" "\<not> has_permission role_manager ''admin:full''"
    by (simp_all add: allowed_def has_permission_def permission_list_def role_manager_def coalesce_def nullish_def)
  obtain s' req where run: "saveRole_start sample_users_page ?s = (s', Some req)"
    using sel role by (simp add: saveRole_start_def sample_user_def Let_def)
  show ?thesis
    using tenant_wide_needs_admin [OF reach_tenant_wide run, of role_manager] run reach_tenant_wide manager
    by (auto simp: sel role sample_user_def text_of_def tick_history_def)
qed


lemma page_error_neq_empty [simp]: "page_error what e \<noteq> []" if "what \<noteq> []"
  using that by (cases e) (simp_all add: page_error_def apiErrorMessage_def)

lemma deactivate_failed:
  "deactivate_end (Inl e) s = s\<lparr>us_roleError := Some (page_error ''Failed to deactivate user'' e)\<rparr>"
  by (simp add: deactivate_end_def)

lemma selectedUser_error [simp]: "selectedUser p (s\<lparr>us_roleError := m\<rparr>) = selectedUser p s"
  by (simp add: selectedUser_def)

text \<open>The drawer is the only part of the page that shows an error of the role.\<close>

lemma role_error_in_drawer:
  "UsersClientPage host p (s\<lparr>us_roleError := m\<rparr>) form = UsersClientPage host p s form \<longleftrightarrow>
     (truthy (selectedUser p s) \<longrightarrow> orelse m [] = orelse (us_roleError s) [])"
proof -
  have "role_drawer host p (s\<lparr>us_roleError := m\<rparr>) = role_drawer host p s \<longleftrightarrow>
      (truthy (selectedUser p s) \<longrightarrow> optional_line m = (optional_line (us_roleError s) :: users_event page_event jsx))"
    by (simp add: role_drawer_def role_choice_def role_footer_def show_if_def Let_def)
  moreover have "optional_line m = (optional_line m' :: users_event page_event jsx) \<longleftrightarrow> orelse m [] = orelse m' []" for m'
    by (auto simp: optional_line_def)
  ultimately show ?thesis
    by (simp add: UsersClientPage_def users_toolbar_def users_management_def Let_def)
qed

lemma until_drawer_closed: "until_drawer s t \<Longrightarrow> us_selectedUserId s = None \<Longrightarrow> us_selectedUserId t = None"
proof (induction rule: until_drawer.induct)
  case (event t e p)
  then show ?case
    by (cases e) (auto simp: users_step_def submitCreate_start_def saveRole_start_def closeRoleDrawer_def Let_def)
next
  case (effect t f p)
  then show ?case
    by (auto simp: sync_users_search_def sync_grantedBy_def sync_roleId_def sync_catalog_def Let_def split: list.splits)
qed (simp_all add: submitCreate_end_def deactivate_end_def saveRole_end_def reset_form_def Let_def split: sum.splits)

text \<open>
  C39. The failure of a deactivation is reported in the wrong place or not at all: its message
  changes the page exactly when a role drawer is open at that moment and does not show that
  very text yet.  Then it stands in the drawer, as an error of the role of whichever user is
  selected.  When no user is selected it is lost: whatever happens to the page, no user is
  selected until a drawer is opened, and opening one deletes the message.
\<close>

theorem deactivation_error_misplaced:
  fixes s :: users_state and e :: thrown
  defines "message \<equiv> page_error ''Failed to deactivate user'' e"
    and "failed \<equiv> deactivate_end (Inl e) s"
  assumes "until_drawer failed t"
  shows "(UsersClientPage host p failed form \<noteq> UsersClientPage host p s form \<longleftrightarrow>
        truthy (selectedUser p s) \<and> orelse (us_roleError s) [] \<noteq> message)
    \<and> (if truthy (selectedUser p s) then message \<in> set (view_text (role_drawer host p failed))
       else role_drawer host p failed = Nothing)
    \<and> (us_selectedUserId s = None \<longrightarrow> us_selectedUserId t = None)
    \<and> us_roleError (users_step p (ManageRole user) t) = None"
proof (intro conjI impI)
  show "UsersClientPage host p failed form \<noteq> UsersClientPage host p s form \<longleftrightarrow>
      truthy (selectedUser p s) \<and> orelse (us_roleError s) [] \<noteq> message"
    by (auto simp: failed_def deactivate_failed role_error_in_drawer message_def)
  show "if truthy (selectedUser p s) then message \<in> set (view_text (role_drawer host p failed))
      else role_drawer host p failed = Nothing"
    by (simp add: failed_def deactivate_failed role_drawer_def role_footer_def optional_line_def show_if_def message_def Let_def)
  show "us_roleError (users_step p (ManageRole user) t) = None"
    by (simp add: users_step_def openRoleDrawer_def)
  assume "us_selectedUserId s = None"
  then show "us_selectedUserId t = None"
    using until_drawer_closed [OF assms(3)] by (simp add: failed_def deactivate_failed)
qed

theorem deactivation_error_misplaced_witness:
  "UsersClientPage sample_host sample_users_page
      (deactivate_end (Inl (JsError ''gone'')) (users_initial sample_users_page)) empty_form
    = UsersClientPage sample_host sample_users_page (users_initial sample_users_page) empty_form
  \<and> us_roleError (users_step sample_users_page (ManageRole sample_user)
      (users_step sample_users_page ToggleCreate (deactivate_end (Inl (JsError ''gone'')) (users_initial sample_users_page)))) = None
  \<and> ''Failed to deactivate user: gone''
      \<in> set (view_text (role_drawer sample_host sample_users_page (deactivate_end (Inl (JsError ''gone'')) drawer_state)))"
proof -
  let ?p = "sample_users_page"
  let ?failed = "deactivate_end (Inl (JsError ''gone'')) (users_initial ?p)"
  have "selectedUser ?p (users_initial ?p) = JNull"
    by (simp add: selectedUser_def users_initial_def sample_user_def js_string_or_null_def)
  moreover have "until_drawer ?failed (users_step ?p ToggleCreate ?failed)"
    by (rule until_drawer.event [OF until_drawer.stay]) simp
  ultimately have "UsersClientPage sample_host ?p ?failed empty_form = UsersClientPage sample_host ?p (users_initial ?p) empty_form"
    "us_roleError (users_step ?p (ManageRole sample_user) (users_step ?p ToggleCreate ?failed)) = None"
    using deactivation_error_misplaced [of "JsError ''gone''" "users_initial ?p" "users_step ?p ToggleCreate ?failed"
        sample_host ?p empty_form sample_user] by simp_all
  moreover have "selectedUser ?p drawer_state = sample_user"
    by (rule drawer_selected) (simp add: drawer_state_def openRoleDrawer_def sample_user_def text_option_def)
  ultimately show ?thesis
    using deactivation_error_misplaced [OF until_drawer.stay, where e = "JsError ''gone''" and s = drawer_state
        and host = sample_host and p = ?p]
    by (simp add: page_error_def apiErrorMessage_def sample_user_def)
qed

text \<open>
  A created user is reported as a failure: once the event has lost its current target, which it
  has after the \<open>await\<close>, the success message comes with an error message about the form that could
  not be reset, and the form stays open; with the target the form would be closed and no error
  shown.  A request that fails is reported alike in both cases.
\<close>

lemma create_success_shows_error:
  "us_createFeedback (submitCreate_end target (Inr v) s) = Some ''User created.''
    \<and> (if target then us_showCreate (submitCreate_end target (Inr v) s) = False
          \<and> us_createError (submitCreate_end target (Inr v) s) = us_createError s
       else us_showCreate (submitCreate_end target (Inr v) s) = us_showCreate s
          \<and> us_createError (submitCreate_end target (Inr v) s) =
              Some (''Failed to create user: Cannot read properties of null (reading '' @ [CHR 0x27] @ ''reset'' @ [CHR 0x27] @ '')''))
    \<and> submitCreate_end target (Inl e) s = s\<lparr>us_createError := Some (page_error ''Failed to create user'' e)\<rparr>"
  by (simp add: submitCreate_end_def reset_form_def member_read_def page_error_def apiErrorMessage_def Let_def)

end
