(* ===== verification/TenantAdminPage.thy ===== *)
theory TenantAdminPage
  imports UsersPage
begin

text \<open>
  \<open>app/tenant-admin/TenantAdminClientPage.tsx\<close>: the registry of workspaces, the bindings of roles
  for the whole tenant, the directory of users and the audit history.  Saving a workspace may meet
  a conflict; the page then asks the administrator and repeats the request with an override.  The
  dialogs of the browser are arguments.
\<close>

section \<open>State\<close>

record workspace_form =
  wf_targetWorkspace :: string
  wf_displayName :: string
  wf_provider :: string
  wf_scopeKind :: string
  wf_scopeNativeId :: string
  wf_environment :: string
  wf_status :: string
  wf_updatedBy :: string
  wf_createdBy :: string

record binding_form =
  bf_userId :: string
  bf_roleId :: string
  bf_sourceWorkspace :: string
  bf_grantedBy :: string
  bf_appliesToFutureWorkspaces :: bool

record tenant_page =
  tp_browser :: browser
  tp_scope :: tenant_scope
  tp_user :: jsval
  tp_workspaces :: query_view
  tp_bindings :: query_view
  tp_directory :: query_view
  tp_audit :: query_view
  tp_users :: query_view
  tp_upsertPending :: bool
  tp_bindingPending :: bool

record tenant_state =
  ts_auditEventCategory :: string
  ts_auditEntityType :: string
  ts_auditTargetWorkspace :: string
  ts_auditQuery :: string
  ts_auditOffset :: num
  ts_directoryQuery :: string
  ts_directoryOffset :: num
  ts_directoryIncludeInactive :: bool
  ts_workspaceError :: "string option"
  ts_workspaceFeedback :: "string option"
  ts_bindingError :: "string option"
  ts_bindingFeedback :: "string option"
  ts_editingWorkspace :: "string option"
  ts_workspaceForm :: workspace_form
  ts_bindingForm :: binding_form

definition workspaceDefaults :: "string \<Rightarrow> workspace_form" where
  "workspaceDefaults email =
     \<lparr>wf_targetWorkspace = [], wf_displayName = [], wf_provider = ''aws'', wf_scopeKind = ''account'', wf_scopeNativeId = [],
      wf_environment = [], wf_status = ''active'', wf_updatedBy = email, wf_createdBy = email\<rparr>"

definition bindingDefaults :: "tenant_scope \<Rightarrow> string \<Rightarrow> binding_form" where
  "bindingDefaults scope email =
     \<lparr>bf_userId = [], bf_roleId = ''viewer'', bf_sourceWorkspace = scope_workspace scope, bf_grantedBy = email,
      bf_appliesToFutureWorkspaces = True\<rparr>"

definition user_email :: "tenant_page \<Rightarrow> string" where
  "user_email p = text_of (get (tp_user p) ''email'')"

definition tenant_admin :: "tenant_page \<Rightarrow> bool" where
  "tenant_admin p = has_permission (tp_user p) ''admin:full''"

definition tenant_initial :: "tenant_page \<Rightarrow> tenant_state" where
  "tenant_initial p =
     \<lparr>ts_auditEventCategory = [], ts_auditEntityType = [], ts_auditTargetWorkspace = [], ts_auditQuery = [],
      ts_auditOffset = int_num 0, ts_directoryQuery = [], ts_directoryOffset = int_num 0, ts_directoryIncludeInactive = False,
      ts_workspaceError = None, ts_workspaceFeedback = None, ts_bindingError = None, ts_bindingFeedback = None,
      ts_editingWorkspace = None, ts_workspaceForm = workspaceDefaults (user_email p),
      ts_bindingForm = bindingDefaults (tp_scope p) (user_email p)\<rparr>"

text \<open>The five queries of the page; none is enabled for a user who is not an administrator.\<close>

definition directory_query :: "tenant_page \<Rightarrow> tenant_state \<Rightarrow> 'w query_options" where
  "directory_query p s = useTenantDirectory (tp_browser p)
     \<lparr>do_limit = Some (int_num 20), do_offset = Some (ts_directoryOffset s), do_q = Some (ts_directoryQuery s),
      do_includeInactive = Some (ts_directoryIncludeInactive s)\<rparr> (tenant_admin p)"

definition audit_query :: "tenant_page \<Rightarrow> tenant_state \<Rightarrow> 'w query_options" where
  "audit_query p s = useTenantAdminAudit (tp_browser p)
     \<lparr>ao_limit = Some (int_num 20), ao_offset = Some (ts_auditOffset s), ao_eventCategory = Some (ts_auditEventCategory s),
      ao_entityType = Some (ts_auditEntityType s), ao_targetWorkspace = Some (ts_auditTargetWorkspace s),
      ao_q = Some (ts_auditQuery s)\<rparr> (tenant_admin p)"

definition tenant_queries :: "tenant_page \<Rightarrow> tenant_state \<Rightarrow> 'w query_options list" where
  "tenant_queries p s =
     [useTenantWorkspaces (tp_browser p) (tenant_admin p), useTenantRoleBindings (tp_browser p) (tenant_admin p),
      directory_query p s, audit_query p s,
      useUsers (tp_browser p) \<lparr>uo_limit = Some (int_num 50), uo_offset = Some (int_num 0), uo_q = None,
        uo_includeInactive = Some True, uo_enabled = Some (tenant_admin p)\<rparr>]"

text \<open>A list read by offset: the numbers of its pages.\<close>

record offset_paging =
  op_offset :: num
  op_limit :: num
  op_total :: num

definition offset_paging_of :: "num \<Rightarrow> query_view \<Rightarrow> offset_paging" where
  "offset_paging_of offset q =
     \<lparr>op_offset = offset, op_limit = number_of (coalesce (get (qv_data q) ''limit'') (num_lit 20)), op_total = qv_total q\<rparr>"

definition offset_page :: "offset_paging \<Rightarrow> num" where
  "offset_page o' = num_add (num_floor (num_div (op_offset o') (op_limit o'))) (int_num 1)"

definition offset_pages :: "offset_paging \<Rightarrow> num" where
  "offset_pages o' = num_max (int_num 1) (num_ceil (num_div (op_total o') (op_limit o')))"

definition offset_canPrev :: "offset_paging \<Rightarrow> bool" where
  "offset_canPrev o' = num_lt (int_num 0) (op_offset o')"

definition offset_canNext :: "offset_paging \<Rightarrow> bool" where
  "offset_canNext o' = num_lt (num_add (op_offset o') (op_limit o')) (op_total o')"

text \<open>What the two buttons make of the current offset; the limit is the one of the rendered page.\<close>

definition prev_offset :: "num \<Rightarrow> num \<Rightarrow> num" where
  "prev_offset limit current = num_max (int_num 0) (num_sub current limit)"

definition next_offset :: "num \<Rightarrow> num \<Rightarrow> num" where
  "next_offset limit current = num_add current limit"

definition with_status :: "string \<Rightarrow> tenant_page \<Rightarrow> nat" where
  "with_status status p = length (filter (\<lambda>item. get item ''status'' = JStr status) (qv_items (tp_workspaces p)))"

section \<open>Effects\<close>

definition sync_workspace_form :: "tenant_page \<Rightarrow> tenant_state \<Rightarrow> tenant_state" where
  "sync_workspace_form p s =
     (if orelse (ts_editingWorkspace s) [] \<noteq> [] then s
      else s\<lparr>ts_workspaceForm := workspaceDefaults (user_email p)\<rparr>)"

definition first_text :: "string \<Rightarrow> string \<Rightarrow> string" where
  "first_text a b = (if a = [] then b else a)"

definition sync_binding_form :: "tenant_page \<Rightarrow> tenant_state \<Rightarrow> tenant_state" where
  "sync_binding_form p s =
     (let f = ts_bindingForm s
      in s\<lparr>ts_bindingForm := f\<lparr>bf_sourceWorkspace := first_text (bf_sourceWorkspace f) (scope_workspace (tp_scope p)),
           bf_grantedBy := first_text (bf_grantedBy f) (user_email p)\<rparr>\<rparr>)"

definition sync_forms :: "tenant_page \<Rightarrow> tenant_state \<Rightarrow> tenant_state" where
  "sync_forms p s =
     (if scope_workspace (tp_scope p) = [] then s else sync_binding_form p (sync_workspace_form p s))"

definition reset_audit_offset :: "tenant_state \<Rightarrow> tenant_state" where
  "reset_audit_offset s = s\<lparr>ts_auditOffset := int_num 0\<rparr>"

definition reset_directory_offset :: "tenant_state \<Rightarrow> tenant_state" where
  "reset_directory_offset s = s\<lparr>ts_directoryOffset := int_num 0\<rparr>"

section \<open>Saving a workspace\<close>

text \<open>\<open>window.prompt\<close> and \<open>window.confirm\<close>: what the user answers to a text.\<close>

record dialogs =
  dl_prompt :: "string \<Rightarrow> string option"
  dl_confirm :: "string \<Rightarrow> bool"

record override_options =
  oo_conflictPrompt :: string
  oo_archiveMigrationPrompt :: "string option"

definition forced :: "jsval \<Rightarrow> jsval" where
  "forced payload = copy_with [(''force_lifecycle_change'', \<lambda>_. JBool True)] payload"

definition forced_to :: "string \<Rightarrow> jsval \<Rightarrow> jsval" where
  "forced_to target payload =
     copy_with [(''force_lifecycle_change'', \<lambda>_. JBool True), (''migrate_inherited_access_to_workspace'', \<lambda>_. JStr target)] payload"

definition needs_archive_migration :: "jsval \<Rightarrow> string \<Rightarrow> bool" where
  "needs_archive_migration code message \<longleftrightarrow>
     coalesce code (JStr []) = JStr ''conflict'' \<and> contains_str message ''requires migrating inherited tenant access''"

text \<open>The payload to repeat a conflicting request with, if the user wants that.\<close>

definition override_payload :: "dialogs \<Rightarrow> override_options \<Rightarrow> jsval \<Rightarrow> jsval \<Rightarrow> string \<Rightarrow> jsval option" where
  "override_payload d options payload code message =
     (if needs_archive_migration code message \<and> orelse (oo_archiveMigrationPrompt options) [] \<noteq> []
      then let answer = orelse (dl_prompt d (orelse (oo_archiveMigrationPrompt options) [])) []
           in if trim answer = [] then None else Some (forced_to (trim answer) payload)
      else if dl_confirm d (message @ [CHR 0x0A, CHR 0x0A] @ oo_conflictPrompt options) then Some (forced payload) else None)"

text \<open>\<open>mutations.upsertWorkspace.mutateAsync\<close>: the request, and on success the invalidation of the hook.\<close>

definition upsert_mutation :: "'w api_env \<Rightarrow> browser \<Rightarrow> jsval \<Rightarrow> cache \<Rightarrow> 'w \<Rightarrow> jsval outcome \<times> cache \<times> 'w" where
  "upsert_mutation env b payload c w = mutate_then (upsertWorkspace env b payload w) (invalidateAll (getStoredScope b)) c"

definition saveWorkspaceWithLifecycleOverride ::
    "'w api_env \<Rightarrow> browser \<Rightarrow> dialogs \<Rightarrow> jsval \<Rightarrow> override_options \<Rightarrow> cache \<Rightarrow> 'w \<Rightarrow> jsval outcome \<times> cache \<times> 'w" where
  "saveWorkspaceWithLifecycleOverride env b d payload options c w =
     (case upsert_mutation env b payload c w of
        (Inr v, c', w') \<Rightarrow> (Inr v, c', w')
      | (Inl e, c', w') \<Rightarrow>
          (case e of
             ApiError status code message \<Rightarrow>
               if status = 409
               then (case override_payload d options payload code message of
                       None \<Rightarrow> (Inl e, c', w')
                     | Some payload' \<Rightarrow> upsert_mutation env b payload' c' w')
               else (Inl e, c', w')
           | _ \<Rightarrow> (Inl e, c', w')))"

definition archive_prompt :: string where
  "archive_prompt = ''Enter the active workspace that should become the new inherited-access source before archiving this workspace.''"

definition submit_options :: override_options where
  "submit_options =
     \<lparr>oo_conflictPrompt = ''Confirm that you want to force this lifecycle change even though inherited tenant access still depends on this workspace.'',
      oo_archiveMigrationPrompt = Some archive_prompt\<rparr>"

definition quick_options :: override_options where
  "quick_options =
     \<lparr>oo_conflictPrompt = ''Confirm that you want to force this lifecycle change and keep moving this workspace even with inherited access dependencies still attached to it.'',
      oo_archiveMigrationPrompt = Some archive_prompt\<rparr>"

definition or_undef :: "string \<Rightarrow> jsval" where
  "or_undef s = js_or (JStr (trim s)) JUndef"

definition or_unknown :: "string \<Rightarrow> jsval" where
  "or_unknown s = js_or (JStr (trim s)) (JStr ''unknown'')"

definition workspace_payload :: "tenant_page \<Rightarrow> workspace_form \<Rightarrow> jsval" where
  "workspace_payload p f =
     JObj [(''tenant_id'', JStr (scope_tenantId (tp_scope p))), (''workspace'', JStr (scope_workspace (tp_scope p))),
       (''target_workspace'', JStr (trim (wf_targetWorkspace f))), (''display_name'', or_undef (wf_displayName f)),
       (''provider'', or_unknown (wf_provider f)), (''scope_kind'', or_unknown (wf_scopeKind f)),
       (''scope_native_id'', or_undef (wf_scopeNativeId f)), (''environment'', or_undef (wf_environment f)),
       (''status'', JStr (wf_status f)), (''created_by'', or_undef (wf_createdBy f)), (''updated_by'', or_undef (wf_updatedBy f))]"

definition submitWorkspace_start :: "tenant_page \<Rightarrow> tenant_state \<Rightarrow> tenant_state \<times> jsval option" where
  "submitWorkspace_start p s =
     (if \<not> tenant_admin p then (s, None)
      else if trim (wf_targetWorkspace (ts_workspaceForm s)) = []
      then (s\<lparr>ts_workspaceError := Some ''Workspace identifier is required.''\<rparr>, None)
      else (s\<lparr>ts_workspaceError := None, ts_workspaceFeedback := None\<rparr>, Some (workspace_payload p (ts_workspaceForm s))))"

text \<open>\<open>editing\<close> is what the handler saw when it was created.\<close>

definition submitWorkspace_end :: "tenant_page \<Rightarrow> string option \<Rightarrow> jsval outcome \<Rightarrow> tenant_state \<Rightarrow> tenant_state" where
  "submitWorkspace_end p editing r s =
     (case r of
        Inl e \<Rightarrow> s\<lparr>ts_workspaceError := Some (page_error ''Failed to save workspace'' e)\<rparr>
      | Inr _ \<Rightarrow> s\<lparr>ts_editingWorkspace := None, ts_workspaceForm := workspaceDefaults (user_email p),
          ts_workspaceFeedback := Some (if orelse editing [] \<noteq> [] then ''Workspace updated.'' else ''Workspace registered.'')\<rparr>)"


section \<open>Editing, bindings, quick changes\<close>

definition text_or :: "jsval \<Rightarrow> string \<Rightarrow> string" where
  "text_or v alternative = text_of (js_or v (JStr alternative))"

definition beginEditWorkspace :: "tenant_page \<Rightarrow> jsval \<Rightarrow> tenant_state \<Rightarrow> tenant_state" where
  "beginEditWorkspace p item s =
     s\<lparr>ts_editingWorkspace := text_option (get item ''workspace''),
       ts_workspaceForm :=
         \<lparr>wf_targetWorkspace = text_of (get item ''workspace''), wf_displayName = text_of (get item ''display_name''),
          wf_provider = text_or (get item ''provider'') ''aws'', wf_scopeKind = text_or (get item ''scope_kind'') ''account'',
          wf_scopeNativeId = text_of (get item ''scope_native_id''), wf_environment = text_of (get item ''environment''),
          wf_status = text_or (get item ''status'') ''active'', wf_updatedBy = user_email p,
          wf_createdBy = text_of (coalesce (get item ''created_by'') (JStr (user_email p)))\<rparr>,
       ts_workspaceError := None, ts_workspaceFeedback := None\<rparr>"

definition resetWorkspaceForm :: "tenant_page \<Rightarrow> tenant_state \<Rightarrow> tenant_state" where
  "resetWorkspaceForm p s =
     s\<lparr>ts_editingWorkspace := None, ts_workspaceForm := workspaceDefaults (user_email p),
       ts_workspaceError := None, ts_workspaceFeedback := None\<rparr>"

definition binding_payload :: "tenant_page \<Rightarrow> binding_form \<Rightarrow> jsval" where
  "binding_payload p f =
     JObj [(''tenant_id'', JStr (scope_tenantId (tp_scope p))), (''workspace'', JStr (scope_workspace (tp_scope p))),
       (''role_id'', JStr (trim (bf_roleId f))),
       (''source_workspace'', JStr (first_text (trim (bf_sourceWorkspace f)) (scope_workspace (tp_scope p)))),
       (''granted_by'', or_undef (bf_grantedBy f)),
       (''applies_to_future_workspaces'', JBool (bf_appliesToFutureWorkspaces f))]"

definition submitBinding_start :: "tenant_page \<Rightarrow> tenant_state \<Rightarrow> tenant_state \<times> (string \<times> jsval) option" where
  "submitBinding_start p s =
     (let f = ts_bindingForm s
      in if \<not> tenant_admin p then (s, None)
         else if trim (bf_userId f) = [] then (s\<lparr>ts_bindingError := Some ''User ID is required.''\<rparr>, None)
         else if trim (bf_roleId f) = [] then (s\<lparr>ts_bindingError := Some ''Role ID is required.''\<rparr>, None)
         else (s\<lparr>ts_bindingError := None, ts_bindingFeedback := None\<rparr>, Some (trim (bf_userId f), binding_payload p f)))"

definition submitBinding_end :: "tenant_page \<Rightarrow> jsval outcome \<Rightarrow> tenant_state \<Rightarrow> tenant_state" where
  "submitBinding_end p r s =
     (case r of
        Inl e \<Rightarrow> s\<lparr>ts_bindingError := Some (page_error ''Failed to save binding'' e)\<rparr>
      | Inr _ \<Rightarrow> s\<lparr>ts_bindingFeedback := Some ''Future-workspace binding saved.'',
          ts_bindingForm := bindingDefaults (tp_scope p) (user_email p)\<rparr>)"

definition deleteBinding_start :: "dialogs \<Rightarrow> jsval \<Rightarrow> tenant_state \<Rightarrow> tenant_state \<times> string option" where
  "deleteBinding_start d item s =
     (if dl_confirm d (''Delete inherited tenant binding for '' @ to_str (get item ''user_id'') @ '' (''
          @ to_str (get item ''role_id'') @ '')?'')
      then (s\<lparr>ts_bindingError := None, ts_bindingFeedback := None\<rparr>, Some (text_of (get item ''user_id'')))
      else (s, None))"

definition deleteBinding_end :: "jsval \<Rightarrow> jsval outcome \<Rightarrow> tenant_state \<Rightarrow> tenant_state" where
  "deleteBinding_end item r s =
     (case r of
        Inl e \<Rightarrow> s\<lparr>ts_bindingError := Some (page_error ''Failed to delete binding'' e)\<rparr>
      | Inr _ \<Rightarrow> s\<lparr>ts_bindingFeedback := Some (''Binding removed for '' @ to_str (get item ''user_id'') @ ''.'')\<rparr>)"

definition quick_question :: "tenant_page \<Rightarrow> jsval \<Rightarrow> string \<Rightarrow> string" where
  "quick_question p item status =
     (let workspace = to_str (get item ''workspace'');
          sourced = length (filter (\<lambda>binding. get binding ''source_workspace'' = get item ''workspace'') (qv_items (tp_bindings p)));
          anchor = (if get item ''workspace'' = JStr (scope_workspace (tp_scope p))
                    then '' This is also the current anchor workspace for your tenant admin session.'' else []);
          dependents = (if 0 < sourced
                     then '' '' @ nat_to_string sourced @ '' inherited access binding(s) currently use this workspace as their source.'' else [])
      in if status = ''archived'' then ''Archive workspace '' @ workspace @ ''?'' @ dependents @ anchor
         else if status = ''suspended'' then ''Suspend workspace '' @ workspace @ ''?'' @ dependents @ anchor
         else ''Activate workspace '' @ workspace @ ''?'')"

text \<open>\<open>v ?? undefined\<close>\<close>

definition present :: "jsval \<Rightarrow> jsval" where
  "present v = coalesce v JUndef"

definition quick_payload :: "tenant_page \<Rightarrow> jsval \<Rightarrow> string \<Rightarrow> jsval" where
  "quick_payload p item status =
     JObj [(''tenant_id'', JStr (scope_tenantId (tp_scope p))), (''workspace'', JStr (scope_workspace (tp_scope p))),
       (''target_workspace'', get item ''workspace''), (''display_name'', present (get item ''display_name'')),
       (''provider'', get item ''provider''), (''scope_kind'', get item ''scope_kind''),
       (''scope_native_id'', present (get item ''scope_native_id'')), (''environment'', present (get item ''environment'')),
       (''status'', JStr status), (''created_by'', present (get item ''created_by'')),
       (''updated_by'', present (get (tp_user p) ''email''))]"

definition quickSetWorkspaceStatus_start ::
    "tenant_page \<Rightarrow> dialogs \<Rightarrow> jsval \<Rightarrow> string \<Rightarrow> tenant_state \<Rightarrow> tenant_state \<times> jsval option" where
  "quickSetWorkspaceStatus_start p d item status s =
     (if \<not> tenant_admin p \<or> get item ''status'' = JStr status then (s, None)
      else if \<not> dl_confirm d (quick_question p item status) then (s, None)
      else (s\<lparr>ts_workspaceError := None, ts_workspaceFeedback := None\<rparr>, Some (quick_payload p item status)))"

definition quickSetWorkspaceStatus_end :: "jsval \<Rightarrow> string \<Rightarrow> jsval outcome \<Rightarrow> tenant_state \<Rightarrow> tenant_state" where
  "quickSetWorkspaceStatus_end item status r s =
     (case r of
        Inl e \<Rightarrow> s\<lparr>ts_workspaceError := Some (page_error (''Failed to mark workspace '' @ status) e)\<rparr>
      | Inr _ \<Rightarrow> s\<lparr>ts_workspaceFeedback := Some (''Workspace '' @ to_str (get item ''workspace'') @ '' marked '' @ status @ ''.'')\<rparr>)"

section \<open>The handlers\<close>

text \<open>
  The handlers from the click to the last statement, when nothing else happens while they wait.
\<close>

definition submitWorkspace ::
    "'w api_env \<Rightarrow> browser \<Rightarrow> dialogs \<Rightarrow> tenant_page \<Rightarrow> tenant_state \<Rightarrow> cache \<Rightarrow> 'w \<Rightarrow> tenant_state \<times> cache \<times> 'w" where
  "submitWorkspace env b d p s c w =
     (case submitWorkspace_start p s of
        (s1, None) \<Rightarrow> (s1, c, w)
      | (s1, Some payload) \<Rightarrow>
          (case saveWorkspaceWithLifecycleOverride env b d payload submit_options c w of
             (r, c', w') \<Rightarrow> (submitWorkspace_end p (ts_editingWorkspace s) r s1, c', w')))"

definition quickSetWorkspaceStatus ::
    "'w api_env \<Rightarrow> browser \<Rightarrow> dialogs \<Rightarrow> tenant_page \<Rightarrow> jsval \<Rightarrow> string \<Rightarrow> tenant_state \<Rightarrow> cache \<Rightarrow> 'w
       \<Rightarrow> tenant_state \<times> cache \<times> 'w" where
  "quickSetWorkspaceStatus env b d p item status s c w =
     (case quickSetWorkspaceStatus_start p d item status s of
        (s1, None) \<Rightarrow> (s1, c, w)
      | (s1, Some payload) \<Rightarrow>
          (case saveWorkspaceWithLifecycleOverride env b d payload quick_options c w of
             (r, c', w') \<Rightarrow> (quickSetWorkspaceStatus_end item status r s1, c', w')))"

definition submitBinding ::
    "'w api_env \<Rightarrow> browser \<Rightarrow> tenant_page \<Rightarrow> tenant_state \<Rightarrow> cache \<Rightarrow> 'w \<Rightarrow> tenant_state \<times> cache \<times> 'w" where
  "submitBinding env b p s c w =
     (case submitBinding_start p s of
        (s1, None) \<Rightarrow> (s1, c, w)
      | (s1, Some (userId, payload)) \<Rightarrow>
          (case mutate_then (upsertRoleBinding env b userId payload w) (invalidateAll (getStoredScope b)) c of
             (r, c', w') \<Rightarrow> (submitBinding_end p r s1, c', w')))"

definition deleteBinding ::
    "'w api_env \<Rightarrow> browser \<Rightarrow> dialogs \<Rightarrow> jsval \<Rightarrow> tenant_state \<Rightarrow> cache \<Rightarrow> 'w \<Rightarrow> tenant_state \<times> cache \<times> 'w" where
  "deleteBinding env b d item s c w =
     (case deleteBinding_start d item s of
        (s1, None) \<Rightarrow> (s1, c, w)
      | (s1, Some userId) \<Rightarrow>
          (case mutate_then (deleteRoleBinding env b userId w) (invalidateAll (getStoredScope b)) c of
             (r, c', w') \<Rightarrow> (deleteBinding_end item r s1, c', w')))"

section \<open>The view\<close>

datatype workspace_field = TargetWorkspace | DisplayName | Provider | ScopeKind | ScopeNativeId | Environment | Status

datatype binding_field = BindingUser | BindingRole | SourceWorkspace | GrantedBy

datatype audit_field = AuditQuery | AuditWorkspace | AuditCategory | AuditEntity

datatype tenant_event =
    EditWorkspace jsval
  | ResetWorkspace
  | SetWorkspaceField workspace_field string
  | SubmitWorkspace
  | QuickStatus jsval string
  | SetBindingField binding_field string
  | SetBindingFuture bool
  | SubmitBinding
  | DeleteBinding jsval
  | SetDirectoryQuery string
  | SetDirectoryInactive bool
  | PrevDirectory num
  | NextDirectory num
  | SetAuditField audit_field string
  | PrevAudit num
  | NextAudit num

definition workspaceStatusBadgeClass :: "string \<Rightarrow> string" where
  "workspaceStatusBadgeClass status =
     (let normalized = to_lower (trim status)
      in if normalized = ''active'' then ''border-emerald-300 bg-emerald-50 text-emerald-800''
         else if normalized = ''suspended'' then ''border-amber-300 bg-amber-50 text-amber-800''
         else ''border-rose-300 bg-rose-50 text-rose-700'')"

definition tenant_header :: "tenant_page \<Rightarrow> tenant_event page_event jsx" where
  "tenant_header p =
     El ''header'' []
       [El ''p'' [] [Txt ''Tenant Administration''], El ''h1'' [] [Txt ''Workspace Registry and Inherited Access''],
        El ''p'' [] [Txt (''Tenant: '' @ scope_tenantId (tp_scope p) @ '' | Anchor workspace: '' @ scope_workspace (tp_scope p))],
        El ''p'' [] [Txt ''Direct workspace assignments still win. Tenant bindings are the inherited fallback and the future-workspace policy source.''],
        button False (Go ''/dashboard'') ''Dashboard'', button False (Go ''/users'') ''Users'', button False Logout ''Logout'']"

definition tenant_cards :: "tenant_page \<Rightarrow> tenant_event page_event jsx" where
  "tenant_cards p =
     El ''section'' []
       [info_card ''Workspaces'' (nat_to_string (length (qv_items (tp_workspaces p)))),
        info_card ''Active'' (nat_to_string (with_status ''active'' p)),
        info_card ''Suspended / Archived'' (nat_to_string (with_status ''suspended'' p) @ '' / '' @ nat_to_string (with_status ''archived'' p)),
        info_card ''Future Bindings'' (nat_to_string (length (qv_items (tp_bindings p))))]"

definition workspace_row :: "ui_host \<Rightarrow> jsval \<Rightarrow> tenant_event page_event jsx" where
  "workspace_row host item =
     (let active = (get item ''status'' = JStr ''active'')
      in El ''tr'' []
           [El ''td'' [] [El ''div'' [] [Txt (child_text (get item ''workspace''))], El ''div'' [] [Txt (text_or_dash (get item ''display_name''))]],
            El ''td'' [] [Txt (child_text (get item ''provider'') @ '':'' @ child_text (get item ''scope_kind'')),
              El ''div'' [] [Txt (text_or_dash (get item ''scope_native_id''))]],
            cell (text_or_dash (get item ''environment'')),
            El ''td'' [] [El ''span'' [Prop ''className'' (workspaceStatusBadgeClass (text_of (get item ''status'')))]
              [Txt (child_text (get item ''status''))]],
            cell (date_label host (get item ''updated_at'')),
            El ''td'' []
              [button False (Own (EditWorkspace item)) ''Edit'',
               button False (Own (QuickStatus item (if active then ''suspended'' else ''active''))) (if active then ''Suspend'' else ''Activate''),
               show_if (get item ''status'' \<noteq> JStr ''archived'') (button False (Own (QuickStatus item ''archived'')) ''Archive'')]])"

definition loading_and_error :: "string \<Rightarrow> string \<Rightarrow> query_view \<Rightarrow> 'e jsx list" where
  "loading_and_error loading failed q =
     [show_if (qv_isLoading q) (El ''p'' [] [Txt loading]), error_line failed q]"

definition workspace_registry :: "ui_host \<Rightarrow> tenant_page \<Rightarrow> tenant_state \<Rightarrow> tenant_event page_event jsx" where
  "workspace_registry host p s =
     El ''div'' []
       ([El ''h2'' [] [Txt ''Workspace Registry''],
         button False (Own ResetWorkspace) (if orelse (ts_editingWorkspace s) [] \<noteq> [] then ''New Workspace'' else ''Reset'')]
        @ loading_and_error ''Loading workspaces...'' ''Failed to load workspaces'' (tp_workspaces p)
        @ [table [''Workspace'', ''Scope'', ''Environment'', ''Status'', ''Updated'', ''Actions'']
             (map (workspace_row host) (qv_items (tp_workspaces p)))])"

definition field_input :: "string \<Rightarrow> string \<Rightarrow> bool \<Rightarrow> (string \<Rightarrow> 'e) \<Rightarrow> 'e jsx" where
  "field_input label value disabled onChange =
     El ''label'' [] [El ''span'' [] [Txt label], text_input value disabled onChange]"

definition workspace_form_view :: "tenant_page \<Rightarrow> tenant_state \<Rightarrow> tenant_event page_event jsx" where
  "workspace_form_view p s =
     (let f = ts_workspaceForm s; editing = (orelse (ts_editingWorkspace s) [] \<noteq> []);
          set = (\<lambda>field v. Own (SetWorkspaceField field v))
      in El ''form'' [On ''onSubmit'' (\<lambda>_. Own SubmitWorkspace)]
           [El ''h2'' [] [Txt (if editing then ''Edit Workspace'' else ''Register Workspace'')],
            field_input ''Workspace ID'' (wf_targetWorkspace f) editing (set TargetWorkspace),
            field_input ''Display Name'' (wf_displayName f) False (set DisplayName),
            field_input ''Provider'' (wf_provider f) False (set Provider),
            field_input ''Scope Kind'' (wf_scopeKind f) False (set ScopeKind),
            field_input ''Native Scope ID'' (wf_scopeNativeId f) False (set ScopeNativeId),
            field_input ''Environment'' (wf_environment f) False (set Environment),
            select ''Status'' (wf_status f) (set Status)
              [(''active'', ''active''), (''suspended'', ''suspended''), (''archived'', ''archived'')],
            optional_line (ts_workspaceError s), optional_line (ts_workspaceFeedback s),
            show_if editing (button False (Own ResetWorkspace) ''Cancel''),
            El ''button'' [Prop ''type'' ''submit'', Flag ''disabled'' (tp_upsertPending p)]
              [Txt (if tp_upsertPending p then ''Saving...'' else if editing then ''Save Workspace'' else ''Register Workspace'')]])"


text \<open>The bindings of roles that hold in every workspace.\<close>

definition binding_row :: "ui_host \<Rightarrow> jsval \<Rightarrow> tenant_event page_event jsx" where
  "binding_row host item =
     El ''tr'' []
       [cell (child_text (get item ''user_id'')), cell (child_text (get item ''role_id'')),
        cell (child_text (get item ''source_workspace'')),
        cell (if truthy (get item ''applies_to_future_workspaces'') then ''Yes'' else ''No''),
        cell (date_label host (get item ''updated_at'')),
        El ''td'' [] [button False (Own (DeleteBinding item)) ''Delete'']]"

definition binding_policies :: "ui_host \<Rightarrow> tenant_page \<Rightarrow> tenant_event page_event jsx" where
  "binding_policies host p =
     El ''div'' []
       ([El ''h2'' [] [Txt ''Future-Workspace Access Policies''],
         El ''p'' [] [Txt ''These bindings are used as inherited fallback at runtime and are auto-applied when new workspaces are bootstrapped.'']]
        @ loading_and_error ''Loading bindings...'' ''Failed to load bindings'' (tp_bindings p)
        @ [table [''User'', ''Role'', ''Source Workspace'', ''Future'', ''Updated'', ''Actions'']
             (map (binding_row host) (qv_items (tp_bindings p)))])"

definition binding_form_view :: "tenant_page \<Rightarrow> tenant_state \<Rightarrow> tenant_event page_event jsx" where
  "binding_form_view p s =
     (let f = ts_bindingForm s; set = (\<lambda>field v. Own (SetBindingField field v))
      in El ''form'' [On ''onSubmit'' (\<lambda>_. Own SubmitBinding)]
           [El ''h2'' [] [Txt ''Add or Update Binding''],
            field_input ''User ID'' (bf_userId f) False (set BindingUser),
            field_input ''Role ID'' (bf_roleId f) False (set BindingRole),
            field_input ''Source Workspace'' (bf_sourceWorkspace f) False (set SourceWorkspace),
            field_input ''Granted By'' (bf_grantedBy f) False (set GrantedBy),
            checkbox (bf_appliesToFutureWorkspaces f) False (\<lambda>b. Own (SetBindingFuture b)),
            El ''span'' [] [Txt ''Applies to future workspaces''],
            optional_line (ts_bindingError s), optional_line (ts_bindingFeedback s),
            El ''button'' [Prop ''type'' ''submit'', Flag ''disabled'' (tp_bindingPending p)]
              [Txt (if tp_bindingPending p then ''Saving...'' else ''Save Binding'')]])"

text \<open>The line under a list that is read by offset.\<close>

definition offset_range :: "offset_paging \<Rightarrow> nat \<Rightarrow> string" where
  "offset_range o' shown =
     num_to_string (if num_eq (op_total o') (int_num 0) then int_num 0 else num_add (op_offset o') (int_num 1)) @ ''-''
     @ num_to_string (num_min (num_add (op_offset o') (int_num (int shown))) (op_total o'))"

definition offset_pager :: "offset_paging \<Rightarrow> nat \<Rightarrow> (num \<Rightarrow> 'x) \<Rightarrow> (num \<Rightarrow> 'x) \<Rightarrow> 'x page_event jsx" where
  "offset_pager o' shown onPrev onNext =
     El ''div'' []
       [El ''p'' [] [Txt (''Showing '' @ offset_range o' shown @ '' of '' @ num_to_string (op_total o'))],
        button (\<not> offset_canPrev o') (Own (onPrev (op_limit o'))) ''Previous'',
        El ''span'' [] [Txt (''Page '' @ num_to_string (offset_page o') @ '' / '' @ num_to_string (offset_pages o'))],
        button (\<not> offset_canNext o') (Own (onNext (op_limit o'))) ''Next'']"

definition empty_row :: "string \<Rightarrow> 'e jsx" where
  "empty_row message = El ''tr'' [] [El ''td'' [Prop ''colSpan'' ''5''] [Txt message]]"

definition rows_or :: "string \<Rightarrow> (jsval \<Rightarrow> 'e jsx) \<Rightarrow> jsval list \<Rightarrow> 'e jsx list" where
  "rows_or message row items = (if items \<noteq> [] then map row items else [empty_row message])"

definition activity_badge :: "jsval \<Rightarrow> 'e jsx" where
  "activity_badge item =
     (let active = truthy (get item ''is_active'')
      in El ''span'' [Prop ''className'' (if active then ''border-emerald-300 bg-emerald-50 text-emerald-800''
             else ''border-zinc-300 bg-zinc-100 text-zinc-700'')]
           [Txt (if active then ''active'' else ''inactive'')])"

definition user_cell :: "string \<Rightarrow> jsval \<Rightarrow> 'e jsx" where
  "user_cell between item =
     El ''td'' []
       [El ''div'' [] [Txt (child_text (get item ''email''))],
        El ''div'' [] [Txt (child_text (get item ''user_id'')
          @ (if truthy (get item ''full_name'') then between @ to_str (get item ''full_name'') else []))]]"

definition workspaces_summary :: "jsval \<Rightarrow> string" where
  "workspaces_summary item =
     (let workspaces = array_items (get item ''workspaces'')
      in join '', '' (map text_of (take 4 workspaces)) @ (if 4 < length workspaces then '' ...'' else []))"

definition directory_row :: "ui_host \<Rightarrow> jsval \<Rightarrow> tenant_event page_event jsx" where
  "directory_row host item =
     El ''tr'' []
       [user_cell '' - '' item,
        El ''td'' []
          [El ''div'' [] [Txt (child_text (get item ''active_workspace_count'') @ '' / ''
             @ child_text (get item ''workspace_count'') @ '' active'')],
           El ''div'' [] [Txt (workspaces_summary item)]],
        El ''td'' []
          (if truthy (get item ''inherited_role_id'')
           then [El ''div'' [] [Txt (child_text (get item ''inherited_role_id''))],
                 El ''div'' [] [Txt (''Source: '' @ text_or_dash (get item ''inherited_source_workspace''))]]
           else [El ''span'' [] [Txt ''No inherited access'']]),
        cell (date_label host (get item ''last_login_at'')),
        El ''td'' []
          [activity_badge item,
           show_if (truthy (get item ''is_superadmin'')) (El ''span'' [] [Txt ''superadmin''])]]"

definition directory_section :: "ui_host \<Rightarrow> tenant_page \<Rightarrow> tenant_state \<Rightarrow> tenant_event page_event jsx" where
  "directory_section host p s =
     (let items = qv_items (tp_directory p)
      in El ''div'' []
           ([El ''h2'' [] [Txt ''Tenant User Directory''],
             El ''p'' [] [Txt ''Users aggregated across tenant workspaces, including inherited-access context.''],
             El ''span'' [] [Txt (num_to_string (qv_total (tp_directory p)) @ '' total'')],
             field_input ''Search'' (ts_directoryQuery s) False (\<lambda>v. Own (SetDirectoryQuery v)),
             checkbox (ts_directoryIncludeInactive s) False (\<lambda>b. Own (SetDirectoryInactive b)),
             El ''span'' [] [Txt ''Include inactive'']]
            @ loading_and_error ''Loading tenant user directory...'' ''Failed to load tenant user directory'' (tp_directory p)
            @ [table [''User'', ''Workspace Coverage'', ''Inherited Access'', ''Last Login'', ''State'']
                 (rows_or ''No tenant users match the current filters.'' (directory_row host) items),
               offset_pager (offset_paging_of (ts_directoryOffset s) (tp_directory p)) (length items) PrevDirectory NextDirectory]))"

text \<open>Between the id and the name of a user of the snapshot stands a middle dot.\<close>

definition snapshot_row :: "tenant_page \<Rightarrow> jsval \<Rightarrow> tenant_event page_event jsx" where
  "snapshot_row p item =
     El ''tr'' []
       [user_cell ('' '' @ [CHR 0xB7] @ '' '') item,
        El ''td'' []
          [El ''div'' [] [Txt (text_or_dash (coalesce (get item ''role_name'') (get item ''role_id'')))],
           El ''div'' [] [Txt (child_text (coalesce (get item ''role_id'') (JStr ''no role'')))]],
        El ''td'' [] [El ''span'' [Prop ''className'' (assignmentBadgeClass (get item ''assignment_source''))]
          [Txt (child_text (coalesce (get item ''assignment_source'') (JStr ''unknown'')))]],
        cell (child_text (coalesce (get item ''source_workspace'') (JStr (scope_workspace (tp_scope p))))),
        El ''td'' [] [activity_badge item]]"

definition snapshot_section :: "tenant_page \<Rightarrow> tenant_event page_event jsx" where
  "snapshot_section p =
     (let items = qv_items (tp_users p)
      in El ''div'' []
           ([El ''h2'' [] [Txt ''Current Workspace Access Snapshot''],
             El ''p'' [] [Txt (''Effective access in '' @ scope_workspace (tp_scope p) @ '', including inherited tenant bindings.'')],
             El ''span'' [] [Txt (nat_to_string (length items) @ '' users'')]]
            @ loading_and_error ''Loading effective access...'' ''Failed to load effective access'' (tp_users p)
            @ [table [''User'', ''Effective Role'', ''Assignment'', ''Source Workspace'', ''State'']
                 (rows_or ''No users found for this workspace snapshot.'' (snapshot_row p) items)]))"

definition audit_filters :: "tenant_state \<Rightarrow> tenant_event page_event jsx" where
  "audit_filters s =
     (let set = (\<lambda>field v. Own (SetAuditField field v))
      in El ''div'' []
           [field_input ''Search'' (ts_auditQuery s) False (set AuditQuery),
            field_input ''Workspace'' (ts_auditTargetWorkspace s) False (set AuditWorkspace),
            select ''Event Category'' (ts_auditEventCategory s) (set AuditCategory)
              [([], ''all''), (''tenant_admin'', ''tenant_admin''), (''rbac'', ''rbac'')],
            select ''Entity Type'' (ts_auditEntityType s) (set AuditEntity)
              [([], ''all''), (''tenant_workspace'', ''tenant_workspace''), (''tenant_role_binding'', ''tenant_role_binding''),
               (''user_role_assignment'', ''user_role_assignment'')]])"

definition audit_entry :: "ui_host \<Rightarrow> jsval \<Rightarrow> tenant_event page_event jsx" where
  "audit_entry host item =
     El ''article'' []
       [El ''p'' [] [Txt (child_text (get item ''event_type''))],
        El ''p'' [] [Txt (date_label host (get item ''created_at''))],
        El ''p'' [] [Txt (child_text (get item ''entity_type'') @ '':'' @ child_text (get item ''entity_id''))],
        El ''p'' [] [Txt (''Actor: ''
          @ child_text (coalesce (get item ''actor_email'') (coalesce (get item ''actor_id'') (JStr ''unknown''))))],
        El ''p'' [] [Txt (''Workspace: '' @ child_text (get item ''workspace''))]]"

definition audit_section :: "ui_host \<Rightarrow> tenant_page \<Rightarrow> tenant_state \<Rightarrow> tenant_event page_event jsx" where
  "audit_section host p s =
     (let items = qv_items (tp_audit p)
      in El ''div'' []
           ([El ''h2'' [] [Txt ''Tenant Admin Audit History''],
             El ''p'' [] [Txt ''Recent workspace and inherited-access administration changes for this tenant.''],
             El ''span'' [] [Txt (num_to_string (qv_total (tp_audit p)) @ '' total'')],
             audit_filters s]
            @ loading_and_error ''Loading audit history...'' ''Failed to load audit history'' (tp_audit p)
            @ [offset_pager (offset_paging_of (ts_auditOffset s) (tp_audit p)) (length items) PrevAudit NextAudit,
               El ''div'' []
                 (if items \<noteq> [] then map (audit_entry host) items
                  else [El ''div'' [] [Txt ''No tenant administration audit events yet.'']])]))"

definition TenantAdminClientPage :: "ui_host \<Rightarrow> tenant_page \<Rightarrow> tenant_state \<Rightarrow> tenant_event page_event jsx" where
  "TenantAdminClientPage host p s =
     El ''main'' []
       (tenant_header p
        # (if \<not> tenant_admin p then [El ''section'' [] [Txt ''This console requires admin:full.'']]
           else [tenant_cards p,
             El ''section'' [] [workspace_registry host p s, workspace_form_view p s],
             El ''section'' [] [binding_policies host p, binding_form_view p s],
             El ''section'' [] [directory_section host p s, snapshot_section p, audit_section host p s]]))"


section \<open>Steps\<close>

definition set_workspace_field :: "workspace_field \<Rightarrow> string \<Rightarrow> workspace_form \<Rightarrow> workspace_form" where
  "set_workspace_field which v f =
     (case which of
        TargetWorkspace \<Rightarrow> f\<lparr>wf_targetWorkspace := v\<rparr>
      | DisplayName \<Rightarrow> f\<lparr>wf_displayName := v\<rparr>
      | Provider \<Rightarrow> f\<lparr>wf_provider := v\<rparr>
      | ScopeKind \<Rightarrow> f\<lparr>wf_scopeKind := v\<rparr>
      | ScopeNativeId \<Rightarrow> f\<lparr>wf_scopeNativeId := v\<rparr>
      | Environment \<Rightarrow> f\<lparr>wf_environment := v\<rparr>
      | Status \<Rightarrow> f\<lparr>wf_status := v\<rparr>)"

definition set_binding_field :: "binding_field \<Rightarrow> string \<Rightarrow> binding_form \<Rightarrow> binding_form" where
  "set_binding_field which v f =
     (case which of
        BindingUser \<Rightarrow> f\<lparr>bf_userId := v\<rparr>
      | BindingRole \<Rightarrow> f\<lparr>bf_roleId := v\<rparr>
      | SourceWorkspace \<Rightarrow> f\<lparr>bf_sourceWorkspace := v\<rparr>
      | GrantedBy \<Rightarrow> f\<lparr>bf_grantedBy := v\<rparr>)"

definition set_audit_field :: "audit_field \<Rightarrow> string \<Rightarrow> tenant_state \<Rightarrow> tenant_state" where
  "set_audit_field which v s =
     (case which of
        AuditQuery \<Rightarrow> s\<lparr>ts_auditQuery := v\<rparr>
      | AuditWorkspace \<Rightarrow> s\<lparr>ts_auditTargetWorkspace := v\<rparr>
      | AuditCategory \<Rightarrow> s\<lparr>ts_auditEventCategory := v\<rparr>
      | AuditEntity \<Rightarrow> s\<lparr>ts_auditEntityType := v\<rparr>)"

text \<open>What an event of the page changes at once.\<close>

definition tenant_step :: "tenant_page \<Rightarrow> dialogs \<Rightarrow> tenant_event \<Rightarrow> tenant_state \<Rightarrow> tenant_state" where
  "tenant_step p d e s =
     (case e of
        EditWorkspace item \<Rightarrow> beginEditWorkspace p item s
      | ResetWorkspace \<Rightarrow> resetWorkspaceForm p s
      | SetWorkspaceField which v \<Rightarrow> s\<lparr>ts_workspaceForm := set_workspace_field which v (ts_workspaceForm s)\<rparr>
      | SubmitWorkspace \<Rightarrow> fst (submitWorkspace_start p s)
      | QuickStatus item status \<Rightarrow> fst (quickSetWorkspaceStatus_start p d item status s)
      | SetBindingField which v \<Rightarrow> s\<lparr>ts_bindingForm := set_binding_field which v (ts_bindingForm s)\<rparr>
      | SetBindingFuture b \<Rightarrow> s\<lparr>ts_bindingForm := (ts_bindingForm s)\<lparr>bf_appliesToFutureWorkspaces := b\<rparr>\<rparr>
      | SubmitBinding \<Rightarrow> fst (submitBinding_start p s)
      | DeleteBinding item \<Rightarrow> fst (deleteBinding_start d item s)
      | SetDirectoryQuery v \<Rightarrow> s\<lparr>ts_directoryQuery := v\<rparr>
      | SetDirectoryInactive b \<Rightarrow> s\<lparr>ts_directoryIncludeInactive := b\<rparr>
      | PrevDirectory limit \<Rightarrow> s\<lparr>ts_directoryOffset := prev_offset limit (ts_directoryOffset s)\<rparr>
      | NextDirectory limit \<Rightarrow> s\<lparr>ts_directoryOffset := next_offset limit (ts_directoryOffset s)\<rparr>
      | SetAuditField which v \<Rightarrow> set_audit_field which v s
      | PrevAudit limit \<Rightarrow> s\<lparr>ts_auditOffset := prev_offset limit (ts_auditOffset s)\<rparr>
      | NextAudit limit \<Rightarrow> s\<lparr>ts_auditOffset := next_offset limit (ts_auditOffset s)\<rparr>)"

text \<open>
  The states the page can come to, whatever its queries hold in between: by effects, by events the
  page offers, and by answers to its requests, which may come at any time after they were sent.
\<close>

inductive tenant_reach :: "ui_host \<Rightarrow> tenant_state \<Rightarrow> bool" for host where
  start: "tenant_reach host (tenant_initial p)"
| effect: "tenant_reach host s \<Longrightarrow> f \<in> {sync_forms p, reset_audit_offset, reset_directory_offset} \<Longrightarrow> tenant_reach host (f s)"
| event: "tenant_reach host s \<Longrightarrow> raises (TenantAdminClientPage host p s) (Own e) \<Longrightarrow> tenant_reach host (tenant_step p d e s)"
| saved: "tenant_reach host s \<Longrightarrow> tenant_reach host (submitWorkspace_end p editing r s)"
| quick: "tenant_reach host s \<Longrightarrow> tenant_reach host (quickSetWorkspaceStatus_end item status r s)"
| bound: "tenant_reach host s \<Longrightarrow> tenant_reach host (submitBinding_end p r s)"
| deleted: "tenant_reach host s \<Longrightarrow> tenant_reach host (deleteBinding_end item r s)"

section \<open>Facts\<close>

lemma raises_field_input [simp, view_simps]: "raises (field_input l v d f) e \<longleftrightarrow> \<not> d \<and> (\<exists>x. e = f x)"
  by (auto simp: field_input_def)

lemma raises_tenant_lines [simp, view_simps]:
  "v \<in> set (loading_and_error a b q) \<Longrightarrow> \<not> raises v e" "\<not> raises (user_cell t item) e" "\<not> raises (activity_badge item) e"
  "\<not> raises (empty_row m) e"
  by (auto simp: loading_and_error_def user_cell_def activity_badge_def empty_row_def Let_def)

lemma raises_tenant_rows [simp, view_simps]:
  "\<not> raises (directory_row host item) e" "\<not> raises (snapshot_row p item) e" "\<not> raises (audit_entry host item) e"
  "raises (binding_row host item) e \<longleftrightarrow> e = Own (DeleteBinding item)"
  by (auto simp: directory_row_def snapshot_row_def binding_row_def audit_entry_def)

lemma raises_rows_or [simp, view_simps]:
  "(\<exists>v \<in> set (rows_or m row items). raises v e) \<longleftrightarrow> (\<exists>item \<in> set items. raises (row item) e)"
  by (auto simp: rows_or_def)

lemma raises_workspace_row [simp, view_simps]:
  "raises (workspace_row host item) e \<longleftrightarrow>
     e = Own (EditWorkspace item)
     \<or> e = Own (QuickStatus item (if get item ''status'' = JStr ''active'' then ''suspended'' else ''active''))
     \<or> get item ''status'' \<noteq> JStr ''archived'' \<and> e = Own (QuickStatus item ''archived'')"
  by (auto simp: workspace_row_def Let_def)


text \<open>The identifier of a workspace can be typed only while none is edited.\<close>

lemma raises_target_field:
  assumes "raises (TenantAdminClientPage host p s) (Own (SetWorkspaceField TargetWorkspace v))"
  shows "orelse (ts_editingWorkspace s) [] = []"
proof -
  have "\<not> raises v' (Own (SetWorkspaceField TargetWorkspace v))"
    if "v' \<in> {tenant_header p, tenant_cards p, workspace_registry host p s, binding_policies host p, binding_form_view p s,
        directory_section host p s, snapshot_section p, audit_section host p s}" for v'
    using that by (auto simp: tenant_header_def tenant_cards_def workspace_registry_def binding_policies_def
        binding_form_view_def directory_section_def snapshot_section_def audit_section_def offset_pager_def
        audit_filters_def Let_def split: if_splits)
  then have "raises (workspace_form_view p s) (Own (SetWorkspaceField TargetWorkspace v))"
    using assms by (auto simp: TenantAdminClientPage_def split: if_splits)
  then show ?thesis by (auto simp: workspace_form_view_def Let_def)
qed


lemma text_option_text: "text_option v = Some w \<Longrightarrow> text_of v = w"
  by (cases v) (auto simp: text_option_def text_of_def)

lemma editing_inv:
  "tenant_reach host s \<Longrightarrow> ts_editingWorkspace s = Some w \<Longrightarrow> w \<noteq> [] \<Longrightarrow> wf_targetWorkspace (ts_workspaceForm s) = w"
proof (induction rule: tenant_reach.induct)
  case (event s p e d)
  show ?case
  proof (cases "(\<exists>item. e = EditWorkspace item) \<or> (\<exists>v. e = SetWorkspaceField TargetWorkspace v)")
    case True
    then show ?thesis using event raises_target_field
      by (fastforce simp: tenant_step_def beginEditWorkspace_def dest: text_option_text)
  next
    case False
    with event.prems have "ts_editingWorkspace s = Some w"
      "wf_targetWorkspace (ts_workspaceForm (tenant_step p d e s)) = wf_targetWorkspace (ts_workspaceForm s)"
      by (auto simp: tenant_step_def resetWorkspaceForm_def submitWorkspace_start_def quickSetWorkspaceStatus_start_def
          submitBinding_start_def deleteBinding_start_def set_audit_field_def set_workspace_field_def Let_def
          split: tenant_event.splits if_splits audit_field.splits workspace_field.splits)
    then show ?thesis using event by simp
  qed
next
  case (effect s f p)
  then show ?case
    by (auto simp: sync_forms_def sync_workspace_form_def sync_binding_form_def reset_audit_offset_def
        reset_directory_offset_def Let_def split: if_splits)
next
  case (saved s p editing r)
  then show ?case by (auto simp: submitWorkspace_end_def split: sum.splits)
next
  case (quick s item status r)
  then show ?case by (auto simp: quickSetWorkspaceStatus_end_def split: sum.splits)
next
  case (bound s p r)
  then show ?case by (auto simp: submitBinding_end_def split: sum.splits)
next
  case (deleted s item r)
  then show ?case by (auto simp: deleteBinding_end_def split: sum.splits)
qed (simp add: tenant_initial_def)

text \<open>
  C9. Editing changes the edited workspace and no other: in every state the page can come to, with
  answers arriving at any time, saving while a workspace is edited sends a payload that names that
  workspace, by a \<open>PUT\<close> to its own path, and leaves it the edited one until the answer.
\<close>

theorem edit_saves_edited_workspace:
  assumes "tenant_reach host s" and "ts_editingWorkspace s = Some name" and "name \<noteq> []"
    and "submitWorkspace_start p s = (s', Some payload)"
  shows "get payload ''target_workspace'' = JStr (trim name)
    \<and> upsertWorkspace env b payload w = api_put env b (''/tenant-admin/workspaces/'' @ encodeURIComponent (trim name)) payload w
    \<and> ts_editingWorkspace s' = Some name \<and> tenant_admin p"
proof -
  have t: "wf_targetWorkspace (ts_workspaceForm s) = name" using editing_inv assms(1-3) by blast
  have p: "payload = workspace_payload p (ts_workspaceForm s)" "trim name \<noteq> []" "tenant_admin p"
    "ts_editingWorkspace s' = Some name"
    using assms(2,4) t by (auto simp: submitWorkspace_start_def split: if_splits)
  then have "get payload ''target_workspace'' = JStr (trim name)" by (simp add: workspace_payload_def t)
  moreover have "upsert_target payload = JStr (trim name)" "truthy (get payload ''target_workspace'')"
    using p(2) by (simp_all add: upsert_target_def calculation js_or_def)
  ultimately show ?thesis using p by (simp add: upsertWorkspace_def Let_def)
qed

definition sample_workspace :: jsval where
  "sample_workspace = JObj [(''workspace'', JStr ''dev''), (''status'', JStr ''active'')]"

definition sample_tenant_page :: tenant_page where
  "sample_tenant_page =
     \<lparr>tp_browser = sample_browser, tp_scope = acme, tp_user = admin_user,
      tp_workspaces = plain_query (JObj [(''items'', JArr [sample_workspace])]), tp_bindings = plain_query JUndef,
      tp_directory = plain_query JUndef, tp_audit = plain_query JUndef, tp_users = plain_query JUndef,
      tp_upsertPending = False, tp_bindingPending = False\<rparr>"

definition no_dialogs :: dialogs where
  "no_dialogs = \<lparr>dl_prompt = (\<lambda>_. None), dl_confirm = (\<lambda>_. False)\<rparr>"

definition editing_state :: tenant_state where
  "editing_state = beginEditWorkspace sample_tenant_page sample_workspace (tenant_initial sample_tenant_page)"

lemma reach_editing: "tenant_reach host editing_state"
proof -
  have "tenant_reach host (tenant_step sample_tenant_page no_dialogs (EditWorkspace sample_workspace) (tenant_initial sample_tenant_page))"
    by (rule tenant_reach.event [OF tenant_reach.start])
      (simp add: TenantAdminClientPage_def workspace_registry_def tenant_admin_def sample_tenant_page_def plain_query_def
        qv_items_def coalesce_def nullish_def)
  then show ?thesis by (simp add: tenant_step_def editing_state_def)
qed

lemma editing_state_simps:
  "ts_editingWorkspace editing_state = Some ''dev''" "wf_targetWorkspace (ts_workspaceForm editing_state) = ''dev''"
  "tenant_admin sample_tenant_page"
  by (simp_all add: editing_state_def beginEditWorkspace_def sample_workspace_def text_option_def text_of_def
      tenant_admin_def sample_tenant_page_def)

theorem edit_saves_edited_workspace_witness:
  "\<exists>s' payload. submitWorkspace_start sample_tenant_page editing_state = (s', Some payload)
     \<and> get payload ''target_workspace'' = JStr ''dev'' \<and> ts_editingWorkspace s' = Some ''dev''"
proof -
  have dev: "trim ''dev'' = ''dev''" by (simp add: trim_def trim_start_def trim_end_def is_ws_def)
  obtain s' payload where run: "submitWorkspace_start sample_tenant_page editing_state = (s', Some payload)"
    by (simp add: submitWorkspace_start_def editing_state_simps dev)
  show ?thesis
    using edit_saves_edited_workspace [OF reach_editing editing_state_simps(1) _ run, of sample_env sample_browser "()"] run
    by (auto simp: dev)
qed

lemma get_forced:
  "get (forced (JObj fs)) = (get (JObj fs))(''force_lifecycle_change'' := JBool True)"
  "get (forced_to target (JObj fs)) =
     (get (JObj fs))(''force_lifecycle_change'' := JBool True, ''migrate_inherited_access_to_workspace'' := JStr target)"
  by (auto simp: forced_def forced_to_def get_copy_with get_spread_obj fun_eq_iff simp del: get_JObj)

text \<open>
  C10. Nothing is forced without consent: saving a workspace is one request, unless that is
  answered with status 409 and the user agrees; then it is one more, equal to the first but for the
  flag that forces the change and, where inherited access has to move, the workspace the user named
  (never a blank one).  The user is asked about the message of the server.
\<close>

theorem override_needs_consent:
  "(let first = upsert_mutation env b (JObj fs) c w;
        save = saveWorkspaceWithLifecycleOverride env b d (JObj fs) options c w
    in save = first
       \<or> (\<exists>code message payload.
            fst first = Inl (ApiError 409 code message)
          \<and> save = upsert_mutation env b payload (fst (snd first)) (snd (snd first))
          \<and> (dl_confirm d (message @ [CHR 0x0A, CHR 0x0A] @ oo_conflictPrompt options)
               \<and> get payload = (get (JObj fs))(''force_lifecycle_change'' := JBool True)
             \<or> (\<exists>question answer.
                 needs_archive_migration code message \<and> oo_archiveMigrationPrompt options = Some question
               \<and> dl_prompt d question = Some answer \<and> 0 < length (trim answer)
               \<and> get payload = (get (JObj fs))(''force_lifecycle_change'' := JBool True,
                    ''migrate_inherited_access_to_workspace'' := JStr (trim answer))))))"

proof -
  obtain r c1 w1 where first: "upsert_mutation env b (JObj fs) c w = (r, c1, w1)" by (metis surj_pair)
  show ?thesis
  proof (cases "\<exists>code message payload. r = Inl (ApiError 409 code message)
      \<and> override_payload d options (JObj fs) code message = Some payload")
    case True
    then obtain code message payload where e: "r = Inl (ApiError 409 code message)"
      and o': "override_payload d options (JObj fs) code message = Some payload" by blast
    have "saveWorkspaceWithLifecycleOverride env b d (JObj fs) options c w = upsert_mutation env b payload c1 w1"
      by (simp add: saveWorkspaceWithLifecycleOverride_def first e o')
    moreover have "dl_confirm d (message @ [CHR 0x0A, CHR 0x0A] @ oo_conflictPrompt options) \<and> payload = forced (JObj fs)
      \<or> (\<exists>question answer. needs_archive_migration code message \<and> oo_archiveMigrationPrompt options = Some question
          \<and> dl_prompt d question = Some answer \<and> 0 < length (trim answer) \<and> payload = forced_to (trim answer) (JObj fs))"
      using o' by (auto simp: override_payload_def Let_def orelse_def split: if_splits option.splits)
    ultimately show ?thesis by (simp add: Let_def first e) (metis get_forced)
  next
    case False
    then have "saveWorkspaceWithLifecycleOverride env b d (JObj fs) options c w = (r, c1, w1)"
      by (auto simp: saveWorkspaceWithLifecycleOverride_def first split: sum.split thrown.split option.split)
    then show ?thesis by (simp add: Let_def first)
  qed
qed

end
