(* ===== verification/KpiHooks.thy ===== *)
theory KpiHooks
  imports QueryHooks
begin

text \<open>
  \<open>hooks/useInitialValueKpis.ts\<close>: the key figures of the dashboard.  The response has five
  families of figures and an optional trend; the normaliser makes every figure a finite number
  and throws when a family is missing.
\<close>

section \<open>Types\<close>

definition InitialValueLatestRun :: tstype where
  "InitialValueLatestRun = TInterface (typed_fields (nullable TString) [''run_id'', ''run_ts''])"

definition findings_figures :: "string list" where
  "findings_figures = [''open_findings_count'', ''needs_attention_count'', ''estimated_monthly_savings'']"

definition FindingsKpiFamily :: tstype where
  "FindingsKpiFamily = TInterface (typed_fields TString [''source'', ''definition''] @ typed_fields TNumber findings_figures)"

definition recommendations_figures :: "string list" where
  "recommendations_figures = [''eligible_recommendations_count'', ''priority_p1_count'', ''estimated_monthly_savings'']"

definition RecommendationsKpiFamily :: tstype where
  "RecommendationsKpiFamily = TInterface (typed_fields TString [''source'', ''definition''] @ typed_fields TNumber recommendations_figures)"

definition potential_figures :: "string list" where
  "potential_figures = [''actionable_opportunity_count'', ''package_count'', ''suppressed_leaf_count'',
     ''estimated_monthly_savings'', ''estimated_annual_savings'']"

definition PotentialSavingsKpiFamily :: tstype where
  "PotentialSavingsKpiFamily = TInterface (typed_fields TString [''source'', ''definition''] @ typed_fields TNumber potential_figures)"

definition realized_figures :: "string list" where
  "realized_figures = [''actions_count'', ''resolved_count'', ''persistent_count'', ''pending_count'', ''failed_count'',
     ''fully_realized_count'', ''partial_realization_count'', ''no_realization_count'', ''baseline_total_monthly_savings'',
     ''realized_total_monthly_savings'', ''estimated_not_realized_monthly_savings'']"

definition RealizedKpiFamily :: tstype where
  "RealizedKpiFamily = TInterface (typed_fields TString [''source'', ''definition''] @ typed_fields TNumber realized_figures
     @ field ''realization_rate_pct'' (nullable TNumber))"

definition coverage_figures :: "string list" where
  "coverage_figures = [''coverage_pct'', ''permission_gap_count'', ''assessment_failed'', ''targets_total'', ''assessed_total'']"

definition CoverageKpiFamily :: tstype where
  "CoverageKpiFamily = TInterface (typed_fields TString [''source'', ''definition''] @ typed_fields TNumber coverage_figures
     @ typed_fields (nullable TString) [''coverage_status'', ''confidence'', ''latest_run_id'', ''latest_run_ts''])"

definition InitialValueKpisResponse :: tstype where
  "InitialValueKpisResponse = TInterface
     (field ''ok'' (TLit (JBool True)) @ typed_fields TString [''tenant_id'', ''workspace'']
      @ field ''latest_run'' (nullable InitialValueLatestRun)
      @ field ''kpis'' (TInterface (field ''findings'' FindingsKpiFamily @ field ''recommendations'' RecommendationsKpiFamily
          @ field ''potential_savings'' PotentialSavingsKpiFamily @ field ''realized'' RealizedKpiFamily
          @ field ''coverage'' CoverageKpiFamily))
      @ field ''trend'' (nullable (TInterface
          (typed_fields InitialValueLatestRun [''latest_run'', ''previous_run'']
           @ field ''findings'' (TInterface (field ''definition'' TString @ typed_fields TNumber [''new_count'', ''disappeared_count'', ''net_change'']))
           @ field ''recommendations'' (TInterface (field ''definition'' TString
               @ typed_fields TNumber [''eligible_count_delta'', ''estimated_monthly_savings_delta'']))
           @ field ''coverage'' (nullable (TInterface (field ''definition'' TString
               @ typed_fields TNumber [''coverage_pct_delta'', ''assessment_failed_delta'', ''permission_gap_delta'']
               @ typed_fields (nullable TString) [''latest_coverage_status'', ''previous_coverage_status'']))))))
      @ field ''notes'' (TArray TString))"

section \<open>The normaliser\<close>

definition numbers :: "string list \<Rightarrow> (string \<times> (jsval \<Rightarrow> jsval)) list" where
  "numbers ks = map (\<lambda>k. (k, asNumber_zero)) ks"

definition run_ref :: "jsval \<Rightarrow> jsval" where
  "run_ref run = JObj [(''run_id'', coalesce (get run ''run_id'') JNull), (''run_ts'', coalesce (get run ''run_ts'') JNull)]"

definition kpi_families :: "(string \<times> (string \<times> (jsval \<Rightarrow> jsval)) list) list" where
  "kpi_families =
     [(''findings'', numbers findings_figures), (''recommendations'', numbers recommendations_figures),
      (''potential_savings'', numbers potential_figures),
      (''realized'', numbers realized_figures @ [(''realization_rate_pct'', asNumber_or_null)]),
      (''coverage'', numbers coverage_figures)]"

definition normalize_family :: "jsval \<Rightarrow> string \<times> (string \<times> (jsval \<Rightarrow> jsval)) list \<Rightarrow> (string \<times> jsval) outcome" where
  "normalize_family kpis = (\<lambda>(name, fs).
     bind_out (member_read kpis name) (\<lambda>family.
     bind_out (normalize_fields fs family) (\<lambda>r. Inr (name, r))))"

definition normalize_run_ref :: "jsval \<Rightarrow> jsval outcome" where
  "normalize_run_ref run = bind_out (member_read run ''run_id'') (\<lambda>_. Inr (run_ref run))"

definition normalize_trend :: "jsval \<Rightarrow> jsval outcome" where
  "normalize_trend trend =
     (if \<not> truthy trend then Inr JNull
      else bind_out (normalize_run_ref (get trend ''latest_run'')) (\<lambda>latest.
           bind_out (normalize_run_ref (get trend ''previous_run'')) (\<lambda>previous.
           bind_out (normalize_fields (numbers [''new_count'', ''disappeared_count'', ''net_change'']) (get trend ''findings'')) (\<lambda>findings.
           bind_out (normalize_fields (numbers [''eligible_count_delta'', ''estimated_monthly_savings_delta''])
               (get trend ''recommendations'')) (\<lambda>recommendations.
           Inr (JObj [(''latest_run'', latest), (''previous_run'', previous), (''findings'', findings),
              (''recommendations'', recommendations),
              (''coverage'', if truthy (get trend ''coverage'')
                 then copy_with (numbers [''coverage_pct_delta'', ''assessment_failed_delta'', ''permission_gap_delta''])
                        (get trend ''coverage'')
                 else JNull)]))))))"

definition normalizeResponse :: "jsval \<Rightarrow> jsval outcome" where
  "normalizeResponse response =
     (let latest_run = (if truthy (get response ''latest_run'') then run_ref (get response ''latest_run'') else JNull)
      in bind_out (map_out (normalize_family (get response ''kpis'')) kpi_families) (\<lambda>families.
         bind_out (normalize_trend (get response ''trend'')) (\<lambda>trend.
         Inr (copy_with [(''latest_run'', \<lambda>_. latest_run), (''kpis'', \<lambda>_. JObj families), (''trend'', \<lambda>_. trend)] response))))"

definition useInitialValueKpis :: "browser \<Rightarrow> bool \<Rightarrow> 'w query_options" where
  "useInitialValueKpis b enabled =
     (let scope = getStoredScope b
      in \<lparr>qo_key = [JStr ''kpis'', JStr ''initial-value'', key_tenant scope, key_workspace scope],
          qo_enabled = (scope_ready scope \<and> enabled),
          qo_retry = None,
          qo_fn = (\<lambda>env b w. then_out (api_get env b ''/kpis/initial-value'' None w) normalizeResponse)\<rparr>)"

section \<open>What the dashboard gets\<close>

lemma normalize_family_Inr:
  "normalize_family kpis (n, gs) = Inr x \<longleftrightarrow>
     \<not> nullish kpis \<and> (\<exists>r. normalize_fields gs (get kpis n) = Inr r \<and> x = (n, r))"
  by (cases "nullish kpis") (auto simp: normalize_family_def bind_out_Inr member_read_def)

lemma map_out_family:
  assumes "map_out (normalize_family kpis) fams = Inr rs" and "distinct (map fst fams)" and "(name, fs) \<in> set fams"
  shows "\<exists>r. map_of rs name = Some r \<and> normalize_fields fs (get kpis name) = Inr r"
  using assms
proof (induction fams arbitrary: rs)
  case (Cons fam fams)
  obtain n gs where fam: "fam = (n, gs)" by (cases fam)
  from Cons.prems(1) obtain r rs' where r: "normalize_fields gs (get kpis n) = Inr r"
    and rs': "map_out (normalize_family kpis) fams = Inr rs'" and rs: "rs = (n, r) # rs'"
    by (auto simp: fam bind_out_Inr normalize_family_Inr)
  show ?case
  proof (cases "name = n")
    case True
    with Cons.prems(2,3) r show ?thesis by (force simp: fam rs)
  next
    case False
    with Cons show ?thesis by (simp add: fam rs rs')
  qed
qed simp

text \<open>The fields of every family the normaliser turns into numbers, and those that may be null.\<close>

definition kpi_numbers :: "(string \<times> string list) list" where
  "kpi_numbers =
     [(''findings'', findings_figures), (''recommendations'', recommendations_figures),
      (''potential_savings'', potential_figures), (''realized'', realized_figures), (''coverage'', coverage_figures)]"

lemma kpi_number_field:
  assumes "(name, ks) \<in> set kpi_numbers" and "k \<in> set ks"
  shows "\<exists>fs. (name, fs) \<in> set kpi_families \<and> map_of fs k = Some asNumber_zero \<and> distinct (map fst fs)"
proof -
  have "list_all (\<lambda>(name, ks). case map_of kpi_families name of
      Some fs \<Rightarrow> set ks \<subseteq> fst ` set (filter (\<lambda>f. fst f \<noteq> ''realization_rate_pct'') fs) \<and> distinct (map fst fs)
    | None \<Rightarrow> False) kpi_numbers"
    by (simp add: kpi_numbers_def kpi_families_def numbers_def findings_figures_def recommendations_figures_def
        potential_figures_def realized_figures_def coverage_figures_def)
  then obtain fs where fs: "map_of kpi_families name = Some fs" "distinct (map fst fs)"
    and k: "k \<in> fst ` set (filter (\<lambda>f. fst f \<noteq> ''realization_rate_pct'') fs)"
    using assms by (cases "map_of kpi_families name") (fastforce simp: list_all_iff)+
  then obtain f where f: "(k, f) \<in> set fs" "k \<noteq> ''realization_rate_pct''" by auto
  have "(name, fs) \<in> set kpi_families" using fs(1) by (rule map_of_SomeD)
  moreover have "f = asNumber_zero"
    using f map_of_SomeD [OF fs(1)] by (auto simp: kpi_families_def numbers_def)
  ultimately show ?thesis using f fs(2) by (metis map_of_is_SomeI)
qed

lemma kpi_families_distinct: "distinct (map fst kpi_families)"
  by (simp add: kpi_families_def)

lemma normalizeResponse_family:
  assumes "normalizeResponse response = Inr d" and "(name, fs) \<in> set kpi_families"
  shows "normalize_fields fs (get (get response ''kpis'') name) = Inr (get (get d ''kpis'') name)"
proof -
  obtain families trend where fam: "map_out (normalize_family (get response ''kpis'')) kpi_families = Inr families"
    and d: "get d ''kpis'' = JObj families"
    using assms(1) by (auto simp: normalizeResponse_def Let_def bind_out_Inr get_copy_with simp del: get_JObj)
  from map_out_family [OF fam kpi_families_distinct assms(2)] show ?thesis by (auto simp: d)
qed

text \<open>
  The dashboard never computes with anything but finite numbers: whatever figures the backend
  sends, in every family of the normalised response each declared number is a finite number,
  and the realisation rate is a finite number or \<open>null\<close>.
\<close>

theorem kpi_figures_finite:
  assumes "normalizeResponse response = Inr d"
  shows "list_all (\<lambda>(name, ks). list_all (\<lambda>k. finite_value (get (get (get d ''kpis'') name) k)) ks) kpi_numbers
    \<and> (finite_value (get (get (get d ''kpis'') ''realized'') ''realization_rate_pct'')
        \<or> get (get (get d ''kpis'') ''realized'') ''realization_rate_pct'' = JNull)"
proof -
  have "finite_value (get (get (get d ''kpis'') name) k)" if nk: "(name, ks) \<in> set kpi_numbers" "k \<in> set ks" for name ks k
  proof -
    obtain fs where fs: "(name, fs) \<in> set kpi_families" "map_of fs k = Some asNumber_zero" "distinct (map fst fs)"
      using kpi_number_field [OF nk] by blast
    from normalize_fields_Inr [OF normalizeResponse_family [OF assms fs(1)]] show ?thesis
      using fs(2,3) by (simp add: get_copy_with)
  qed
  moreover have "get (get (get d ''kpis'') ''realized'') ''realization_rate_pct'' =
      asNumber_or_null (get (get (get response ''kpis'') ''realized'') ''realization_rate_pct'')"
  proof -
    let ?fs = "numbers realized_figures @ [(''realization_rate_pct'', asNumber_or_null)]"
    have "(''realized'', ?fs) \<in> set kpi_families" by (simp add: kpi_families_def)
    from normalize_fields_Inr [OF normalizeResponse_family [OF assms this]] show ?thesis
      by (simp add: get_copy_with numbers_def realized_figures_def)
  qed
  ultimately show ?thesis
    using finite_conversions(3) by (auto simp: list_all_iff)
qed

text \<open>A response of five empty families.\<close>

definition sample_kpis :: jsval where
  "sample_kpis = JObj [(''kpis'', JObj (map (\<lambda>(name, fs). (name, JObj [(''priority_p1_count'', JStr ''7'')])) kpi_families))]"

theorem kpi_figures_finite_witness:
  "\<exists>d. normalizeResponse sample_kpis = Inr d
     \<and> finite_value (get (get (get d ''kpis'') ''recommendations'') ''priority_p1_count'')"
proof -
  have "\<exists>d. normalizeResponse sample_kpis = Inr d"
    by (simp add: normalizeResponse_def sample_kpis_def kpi_families_def normalize_family_def normalize_trend_def
        normalize_fields_total member_read_ok)
  then obtain d where d: "normalizeResponse sample_kpis = Inr d" ..
  from kpi_figures_finite [OF d] have "finite_value (get (get (get d ''kpis'') ''recommendations'') ''priority_p1_count'')"
    by (simp add: kpi_numbers_def recommendations_figures_def)
  with d show ?thesis by blast
qed

end
