(* ===== verification/DashboardPage.thy ===== *)
theory DashboardPage
  imports Components KpiHooks
begin

text \<open>
  \<open>app/dashboard/DashboardClientPage.tsx\<close>: the five families of key figures, how they are
  defined, and notes.  The page has no state; what it shows depends on the permissions of the user and
  on the normalised answer of \<open>useInitialValueKpis\<close>.
\<close>

section \<open>The page\<close>

record dashboard_page =
  dp_browser :: browser
  dp_scope :: tenant_scope
  dp_user :: jsval
  dp_dashboard :: query_view

definition dashboard_query :: "dashboard_page \<Rightarrow> 'w query_options" where
  "dashboard_query p = useInitialValueKpis (dp_browser p) (allowed (dp_user p) ''findings:read'')"

definition kpisErrorMessage :: "thrown \<Rightarrow> string" where
  "kpisErrorMessage = apiErrorMessage ''Failed to load KPI dashboard'' ''Failed to load KPI dashboard.''"

definition coverage_card_tone :: "jsval \<Rightarrow> string" where
  "coverage_card_tone status =
     (let normalized = to_lower (trim (text_of (coalesce status (JStr []))))
      in if normalized = ''healthy'' then ''border-emerald-200 bg-emerald-50/80''
         else if normalized = ''degraded'' then ''border-amber-200 bg-amber-50/80''
         else ''border-rose-200 bg-rose-50/80'')"

datatype panel_tone = Cyan | Emerald | Amber | Violet

definition panelTone :: "panel_tone \<Rightarrow> string" where
  "panelTone value =
     (if value = Emerald then ''border-emerald-200 bg-emerald-50/80''
      else if value = Amber then ''border-amber-200 bg-amber-50/80''
      else if value = Violet then ''border-violet-200 bg-violet-50/80''
      else ''border-cyan-200 bg-cyan-50/80'')"

definition kpis_of :: "dashboard_page \<Rightarrow> jsval" where
  "kpis_of p = get (qv_data (dp_dashboard p)) ''kpis''"

definition trend_of :: "dashboard_page \<Rightarrow> jsval" where
  "trend_of p = get (qv_data (dp_dashboard p)) ''trend''"

definition figure :: "jsval \<Rightarrow> string \<Rightarrow> string \<Rightarrow> jsval" where
  "figure kpis family name = get (get kpis family) name"

definition count_text :: "jsval \<Rightarrow> string \<Rightarrow> string \<Rightarrow> string" where
  "count_text kpis family name = child_text (figure kpis family name)"

text \<open>\<open>x >= 0 ? "+" : ""\<close> before a difference.\<close>

definition plus_sign :: "num \<Rightarrow> string" where
  "plus_sign x = (if num_le (int_num 0) x then ''+'' else [])"

definition tone_card :: "string \<Rightarrow> string \<Rightarrow> string \<Rightarrow> string list \<Rightarrow> 'e jsx" where
  "tone_card tone title value lines =
     El ''article'' [Prop ''className'' tone]
       ([El ''p'' [] [Txt title], El ''p'' [] [Txt value]] @ map (\<lambda>l. El ''p'' [] [Txt l]) lines)"

definition dashboard_header :: "ui_host \<Rightarrow> dashboard_page \<Rightarrow> unit page_event jsx" where
  "dashboard_header host p =
     (let latestRun = get (qv_data (dp_dashboard p)) ''latest_run''
      in El ''section'' []
           [El ''p'' [] [Txt ''Initial Value Reporting''], El ''h1'' [] [Txt ''Platform KPI Dashboard''],
            El ''p'' [] [Txt ''This page keeps findings, recommendation candidates, potential savings, realized savings, and coverage as separate KPI families so we can prove value without mixing incompatible signals.''],
            El ''span'' [] [Txt (''Scope: '' @ scope_tenantId (dp_scope p) @ '' / '' @ scope_workspace (dp_scope p))],
            El ''span'' [] [Txt (''Latest run: '' @ text_or_dash (get latestRun ''run_id''))],
            El ''span'' [] [Txt (''As of: ''
              @ (if truthy (get latestRun ''run_ts'') then date_label host (get latestRun ''run_ts'') else ''-''))],
            link True ''/findings'' ''Findings'', link True ''/recommendations'' ''Recommendations'',
            link True ''/remediations'' ''Realized Savings'', link True ''/coverage'' ''Coverage'',
            link (allowed (dp_user p) ''users:read'') ''/users'' ''Users'',
            link (has_permission (dp_user p) ''admin:full'') ''/tenant-admin'' ''Tenant Admin''])"

definition waste_card :: "ui_host \<Rightarrow> jsval \<Rightarrow> jsval \<Rightarrow> 'e jsx" where
  "waste_card host kpis trend =
     tone_card (panelTone Cyan) ''Detected Waste'' (count_text kpis ''findings'' ''open_findings_count'')
       [''Open finding-estimated savings: '' @ money host (figure kpis ''findings'' ''estimated_monthly_savings''),
        ''Needs attention: '' @ count_text kpis ''findings'' ''needs_attention_count''
        @ (if truthy trend then '' | New vs previous run: +'' @ to_str (figure trend ''findings'' ''new_count'')
             @ '' / -'' @ to_str (figure trend ''findings'' ''disappeared_count'') else [])]"

definition candidates_card :: "ui_host \<Rightarrow> jsval \<Rightarrow> jsval \<Rightarrow> 'e jsx" where
  "candidates_card host kpis trend =
     (let delta = figure trend ''recommendations'' ''eligible_count_delta''
      in tone_card (panelTone Violet) ''Recommendation Candidates''
           (count_text kpis ''recommendations'' ''eligible_recommendations_count'')
           [''Candidate-estimated savings: '' @ money host (figure kpis ''recommendations'' ''estimated_monthly_savings''),
            ''Priority P1: '' @ count_text kpis ''recommendations'' ''priority_p1_count''
            @ (if truthy trend then '' | Delta vs previous run: '' @ plus_sign (number_of delta) @ to_str delta else [])])"

definition potential_card :: "ui_host \<Rightarrow> jsval \<Rightarrow> 'e jsx" where
  "potential_card host kpis =
     tone_card (panelTone Amber) ''Potential Savings'' (money host (figure kpis ''potential_savings'' ''estimated_monthly_savings''))
       [''Annualized: '' @ money host (figure kpis ''potential_savings'' ''estimated_annual_savings''),
        ''Primary opportunities: '' @ count_text kpis ''potential_savings'' ''actionable_opportunity_count''
        @ '' | Suppressed overlaps: '' @ count_text kpis ''potential_savings'' ''suppressed_leaf_count'']"

definition realized_card :: "ui_host \<Rightarrow> jsval \<Rightarrow> 'e jsx" where
  "realized_card host kpis =
     tone_card (panelTone Emerald) ''Realized Savings'' (money host (figure kpis ''realized'' ''realized_total_monthly_savings''))
       [''Realization rate: '' @ formatPercent (figure kpis ''realized'' ''realization_rate_pct''),
        ''Tracked actions: '' @ count_text kpis ''realized'' ''actions_count'' @ '' | Not yet realized: ''
        @ money host (figure kpis ''realized'' ''estimated_not_realized_monthly_savings'')]"

definition coverage_card :: "bool \<Rightarrow> jsval \<Rightarrow> jsval \<Rightarrow> 'e jsx" where
  "coverage_card canReadRuns kpis trend =
     (let delta = number_of (figure trend ''coverage'' ''coverage_pct_delta'')
      in tone_card (coverage_card_tone (figure kpis ''coverage'' ''coverage_status'')) ''Coverage Health''
           (if canReadRuns then formatPercent (figure kpis ''coverage'' ''coverage_pct'') else ''-'')
           [''Status: '' @ child_text (coalesce (figure kpis ''coverage'' ''coverage_status'') (JStr ''unknown''))
            @ '' | Confidence: '' @ text_or_dash (figure kpis ''coverage'' ''confidence''),
            ''Permission gaps: '' @ count_text kpis ''coverage'' ''permission_gap_count''
            @ '' | Failed assessments: '' @ count_text kpis ''coverage'' ''assessment_failed''
            @ (if truthy (get trend ''coverage'') then '' | Delta: '' @ plus_sign delta @ to_fixed 2 delta @ '' pts'' else [])])"

definition kpi_cards :: "ui_host \<Rightarrow> dashboard_page \<Rightarrow> unit page_event jsx" where
  "kpi_cards host p =
     El ''section'' []
       [waste_card host (kpis_of p) (trend_of p), candidates_card host (kpis_of p) (trend_of p), potential_card host (kpis_of p),
        realized_card host (kpis_of p), coverage_card (allowed (dp_user p) ''runs:read'') (kpis_of p) (trend_of p)]"

definition family_text :: "jsval \<Rightarrow> string \<times> string \<Rightarrow> 'e jsx" where
  "family_text kpis = (\<lambda>(title, family).
     El ''div'' [] [El ''p'' [] [Txt title], El ''p'' [] [Txt (count_text kpis family ''definition'')],
       El ''p'' [] [Txt (''Source: '' @ count_text kpis family ''source'')]])"

definition kpi_definitions :: "dashboard_page \<Rightarrow> unit page_event jsx" where
  "kpi_definitions p =
     El ''article'' []
       (El ''h2'' [] [Txt ''How To Read These KPIs'']
        # map (family_text (kpis_of p))
            [(''Findings'', ''findings''), (''Recommendation Candidates'', ''recommendations''),
             (''Potential Savings'', ''potential_savings''), (''Realized'', ''realized''), (''Coverage'', ''coverage'')])"

definition kpi_notes :: "dashboard_page \<Rightarrow> unit page_event jsx" where
  "kpi_notes p =
     El ''article'' []
       ([El ''h2'' [] [Txt ''Important Notes'']]
        @ map (\<lambda>note. El ''p'' [] [Txt (child_text note)]) (array_items (get (qv_data (dp_dashboard p)) ''notes''))
        @ [show_if (truthy (trend_of p))
             (El ''p'' [] [Txt ''Trend deltas compare the latest two ready runs. They reflect run-to-run detection and coverage movement, while the KPI cards themselves reflect current state.''])])"

definition DashboardClientPage :: "ui_host \<Rightarrow> dashboard_page \<Rightarrow> unit page_event jsx" where
  "DashboardClientPage host p =
     El ''main'' []
       ([dashboard_header host p,
         show_if (qv_isLoading (dp_dashboard p)) (El ''section'' [] [Txt ''Loading KPI dashboard...'']),
         (case qv_error (dp_dashboard p) of None \<Rightarrow> Nothing | Some e \<Rightarrow> El ''section'' [] [Txt (kpisErrorMessage e)])]
        @ (if truthy (kpis_of p) then [kpi_cards host p, El ''section'' [] [kpi_definitions p, kpi_notes p]] else []))"

section \<open>What a user without \<open>runs:read\<close> learns about coverage\<close>

text \<open>Two pages of the same user that differ at most in the coverage percentage they were sent.\<close>

definition same_but_coverage_pct :: "dashboard_page \<Rightarrow> dashboard_page \<Rightarrow> bool" where
  "same_but_coverage_pct p q \<longleftrightarrow>
     dp_scope p = dp_scope q \<and> dp_user p = dp_user q
     \<and> qv_isLoading (dp_dashboard p) = qv_isLoading (dp_dashboard q) \<and> qv_error (dp_dashboard p) = qv_error (dp_dashboard q)
     \<and> (\<forall>k. k \<noteq> ''kpis'' \<longrightarrow> get (qv_data (dp_dashboard p)) k = get (qv_data (dp_dashboard q)) k)
     \<and> truthy (kpis_of p) = truthy (kpis_of q)
     \<and> (\<forall>family name. (family, name) \<noteq> (''coverage'', ''coverage_pct'') \<longrightarrow>
          figure (kpis_of p) family name = figure (kpis_of q) family name)"

lemma same_figure:
  assumes "same_but_coverage_pct p q" and "(family, name) \<noteq> (''coverage'', ''coverage_pct'')"
  shows "figure (kpis_of p) family name = figure (kpis_of q) family name"
  using assms by (simp add: same_but_coverage_pct_def)

lemma same_parts:
  assumes "same_but_coverage_pct p q"
  shows "trend_of p = trend_of q" "dashboard_header host p = dashboard_header host q" "kpi_definitions p = kpi_definitions q"
    "kpi_notes p = kpi_notes q"
proof -
  have d: "get (qv_data (dp_dashboard p)) k = get (qv_data (dp_dashboard q)) k" if "k \<noteq> ''kpis''" for k
    using assms that by (simp add: same_but_coverage_pct_def)
  show t: "trend_of p = trend_of q" by (simp add: trend_of_def d)
  show "dashboard_header host p = dashboard_header host q"
    using assms by (simp add: dashboard_header_def d same_but_coverage_pct_def)
  show "kpi_definitions p = kpi_definitions q"
    by (simp add: kpi_definitions_def family_text_def count_text_def same_figure [OF assms])
  show "kpi_notes p = kpi_notes q" by (simp add: kpi_notes_def d t)
qed

lemma same_cards:
  assumes "same_but_coverage_pct p q"
  shows "kpi_cards host p = kpi_cards host q \<longleftrightarrow>
    (allowed (dp_user q) ''runs:read'' \<longrightarrow>
      formatPercent (figure (kpis_of p) ''coverage'' ''coverage_pct'') = formatPercent (figure (kpis_of q) ''coverage'' ''coverage_pct''))"
proof -
  have "dp_user p = dp_user q" using assms by (simp add: same_but_coverage_pct_def)
  then show ?thesis
    by (simp add: kpi_cards_def waste_card_def candidates_card_def potential_card_def realized_card_def coverage_card_def
        count_text_def tone_card_def same_figure [OF assms] same_parts(1) [OF assms] Let_def)
qed

text \<open>
  The coverage percentage is for users who may read runs: of two answers that differ in nothing
  but this percentage, a user without \<open>runs:read\<close> sees the same page, down to the last word; the page
  differs exactly when figures are shown, the user may read runs, and the percentages differ in
  the first decimal they are shown with.
\<close>

theorem coverage_pct_needs_runs_read:
  assumes "same_but_coverage_pct p q"
  shows "DashboardClientPage host p = DashboardClientPage host q \<longleftrightarrow>
      \<not> (truthy (kpis_of p) \<and> allowed (dp_user p) ''runs:read''
        \<and> formatPercent (figure (kpis_of p) ''coverage'' ''coverage_pct'') \<noteq> formatPercent (figure (kpis_of q) ''coverage'' ''coverage_pct''))"
proof -
  have s: "dp_user p = dp_user q" "qv_isLoading (dp_dashboard p) = qv_isLoading (dp_dashboard q)"
    "qv_error (dp_dashboard p) = qv_error (dp_dashboard q)" "truthy (kpis_of p) = truthy (kpis_of q)"
    using assms by (auto simp: same_but_coverage_pct_def)
  show ?thesis
    by (auto simp: DashboardClientPage_def s same_parts [OF assms] same_cards [OF assms])
qed

definition sample_dashboard :: "string \<Rightarrow> rat \<Rightarrow> dashboard_page" where
  "sample_dashboard permission pct =
     \<lparr>dp_browser = sample_browser, dp_scope = \<lparr>scope_tenantId = ''acme'', scope_workspace = ''prod''\<rparr>,
      dp_user = JObj [(''permissions'', JArr [JStr permission])],
      dp_dashboard = \<lparr>qv_data = JObj [(''kpis'', JObj [(''coverage'', JObj [(''coverage_pct'', JNum (Fin pct))])])],
        qv_isLoading = False, qv_error = None\<rparr>\<rparr>"

lemma sample_dashboard_same: "same_but_coverage_pct (sample_dashboard perm x) (sample_dashboard perm y)"
  by (simp add: same_but_coverage_pct_def sample_dashboard_def kpis_of_def figure_def)

theorem coverage_pct_needs_runs_read_witness:
  "DashboardClientPage sample_host (sample_dashboard ''findings:read'' 40) = DashboardClientPage sample_host (sample_dashboard ''findings:read'' 90)
    \<and> DashboardClientPage sample_host (sample_dashboard ''runs:read'' 40) \<noteq> DashboardClientPage sample_host (sample_dashboard ''runs:read'' 90)"
proof -
  have "formatPercent (JNum (Fin 40)) = ''40.0%''" "formatPercent (JNum (Fin 90)) = ''90.0%''"
    by (simp_all add: formatPercent_def number_of_def) code_simp+
  then show ?thesis
    using coverage_pct_needs_runs_read [OF sample_dashboard_same, of sample_host]
    by (simp add: sample_dashboard_def kpis_of_def figure_def allowed_def has_permission_def permission_list_def
        coalesce_def nullish_def)
qed

end
