(* ===== verification/CoveragePage.thy ===== *)
theory CoveragePage
  imports Components Auth
begin

text \<open>
  \<open>app/coverage/CoverageClientPage.tsx\<close>: what the latest run covered.  Seven queries with the filters
  of the address, four inputs that follow it, and tables of what the queries hold.
\<close>

section \<open>State\<close>

record coverage_page =
  vp_browser :: browser
  vp_params :: search_params
  vp_scope :: tenant_scope
  vp_user :: jsval
  vp_latest :: query_view
  vp_checkers :: query_view
  vp_issues :: query_view
  vp_services :: query_view
  vp_accounts :: query_view
  vp_history :: query_view
  vp_regression :: query_view

record coverage_inputs =
  ci_service :: string
  ci_region :: string
  ci_account :: string
  ci_checker :: string

definition inputs_of_address :: "search_params \<Rightarrow> coverage_inputs" where
  "inputs_of_address sp =
     \<lparr>ci_service = param ''service'' sp, ci_region = param ''region'' sp, ci_account = param ''account_id'' sp,
      ci_checker = param ''checker_id'' sp\<rparr>"

text \<open>One effect for each input; it runs when its parameter has changed.\<close>

definition sync_coverage_inputs :: "search_params \<Rightarrow> search_params \<Rightarrow> coverage_inputs \<Rightarrow> coverage_inputs" where
  "sync_coverage_inputs old new i =
     \<lparr>ci_service = follow ''service'' old new (ci_service i), ci_region = follow ''region'' old new (ci_region i),
      ci_account = follow ''account_id'' old new (ci_account i), ci_checker = follow ''checker_id'' old new (ci_checker i)\<rparr>"

definition coverage_limit :: "search_params \<Rightarrow> num" where
  "coverage_limit sp = parsePositiveInt (usp_get ''limit'' sp) (int_num 200)"

definition history_limit :: "search_params \<Rightarrow> num" where
  "history_limit sp = parsePositiveInt (usp_get ''history_limit'' sp) (int_num 12)"

section \<open>The queries\<close>

definition address_filters :: "search_params \<Rightarrow> coverage_filters" where
  "address_filters sp =
     \<lparr>cf_status = Some (param ''status'' sp), cf_service = Some (param ''service'' sp), cf_region = Some (param ''region'' sp),
      cf_accountId = Some (param ''account_id'' sp), cf_checkerId = Some (param ''checker_id'' sp),
      cf_issueType = Some (param ''issue_type'' sp), cf_limit = Some (coverage_limit sp), cf_offset = Some (int_num 0),
      cf_dateFrom = None, cf_dateTo = None\<rparr>"

definition checker_filters :: "search_params \<Rightarrow> coverage_filters" where
  "checker_filters sp = (address_filters sp)\<lparr>cf_issueType := None\<rparr>"

definition issue_filters :: "search_params \<Rightarrow> coverage_filters" where
  "issue_filters sp = (address_filters sp)\<lparr>cf_status := None\<rparr>"

definition service_filters :: "search_params \<Rightarrow> coverage_filters" where
  "service_filters sp =
     (address_filters sp)\<lparr>cf_service := None, cf_checkerId := None, cf_issueType := None, cf_limit := None, cf_offset := None\<rparr>"

definition account_filters :: "search_params \<Rightarrow> coverage_filters" where
  "account_filters sp =
     (address_filters sp)\<lparr>cf_checkerId := None, cf_issueType := None, cf_limit := None, cf_offset := None\<rparr>"

definition history_filters :: "search_params \<Rightarrow> coverage_filters" where
  "history_filters sp =
     (service_filters sp)\<lparr>cf_region := None, cf_accountId := None, cf_limit := Some (history_limit sp)\<rparr>"

definition coverage_queries :: "coverage_page \<Rightarrow> 'w query_options list" where
  "coverage_queries p =
     (let b = vp_browser p; sp = vp_params p; canReadRuns = allowed (vp_user p) ''runs:read''
      in [useRunCoverageLatest b canReadRuns, useRunCoverageCheckers b (checker_filters sp) canReadRuns,
          useRunCoverageIssues b (issue_filters sp) canReadRuns, useRunCoverageServices b (service_filters sp) canReadRuns,
          useRunCoverageAccounts b (account_filters sp) canReadRuns, useRunCoverageHistory b (history_filters sp) canReadRuns,
          useRunCoverageRegressionLatest b canReadRuns])"

section \<open>Checkers that are not covered\<close>

definition has_status :: "string list \<Rightarrow> jsval \<Rightarrow> bool" where
  "has_status statuses item \<longleftrightarrow> list_ex (\<lambda>s. get item ''status'' = JStr s) statuses"

definition has_gaps :: "jsval \<Rightarrow> bool" where
  "has_gaps item \<longleftrightarrow> num_lt (int_num 0) (number_of (get item ''permission_gap_count''))"

definition isDegradedChecker :: "jsval \<Rightarrow> bool" where
  "isDegradedChecker item \<longleftrightarrow>
     has_status [''assessment_failed''] item \<or> has_status [''skipped''] item \<or> has_status [''not_assessed''] item \<or> has_gaps item"

definition degradedCheckers :: "coverage_page \<Rightarrow> jsval list" where
  "degradedCheckers p = filter isDegradedChecker (qv_items (vp_checkers p))"

definition permissionGapCheckers :: "coverage_page \<Rightarrow> jsval list" where
  "permissionGapCheckers p = filter has_gaps (qv_items (vp_checkers p))"

definition failedCheckers :: "coverage_page \<Rightarrow> jsval list" where
  "failedCheckers p = filter (has_status [''assessment_failed'']) (qv_items (vp_checkers p))"

definition skippedCheckers :: "coverage_page \<Rightarrow> jsval list" where
  "skippedCheckers p = filter (has_status [''skipped'', ''not_assessed'']) (qv_items (vp_checkers p))"

definition regressionSummary :: "coverage_page \<Rightarrow> jsval" where
  "regressionSummary p = coalesce (get (qv_data (vp_regression p)) ''summary'') JNull"

section \<open>Texts\<close>

definition formatDurationMs :: "jsval \<Rightarrow> string" where
  "formatDurationMs value =
     (if value = JNull \<or> value = JNum NaN then ''-''
      else if num_lt (number_of value) (int_num 1000) then to_str value @ '' ms''
      else to_fixed 2 (num_div (number_of value) (int_num 1000)) @ '' s'')"

definition coverage_badge :: "string \<Rightarrow> string" where
  "coverage_badge value =
     (let normalized = to_lower (trim value)
      in if normalized = ''failed'' \<or> normalized = ''assessment_failed'' then ''border-rose-300 bg-rose-50 text-rose-800''
         else if normalized = ''degraded'' then ''border-orange-300 bg-orange-50 text-orange-800''
         else if normalized = ''partial'' \<or> normalized = ''skipped'' \<or> normalized = ''not_assessed''
         then ''border-amber-300 bg-amber-50 text-amber-800''
         else if normalized = ''assessed_with_findings'' then ''border-cyan-300 bg-cyan-50 text-cyan-800''
         else if normalized = ''healthy'' \<or> normalized = ''assessed_no_issue'' then ''border-emerald-300 bg-emerald-50 text-emerald-800''
         else ''border-zinc-300 bg-zinc-100 text-zinc-700'')"

definition issue_badge :: "string \<Rightarrow> string" where
  "issue_badge value =
     (let normalized = to_lower (trim value)
      in if normalized = ''error'' then ''border-rose-300 bg-rose-50 text-rose-800''
         else if normalized = ''warning'' then ''border-amber-300 bg-amber-50 text-amber-800''
         else ''border-zinc-300 bg-zinc-100 text-zinc-700'')"

definition formatLabel :: "jsval \<Rightarrow> string" where
  "formatLabel value = format_words ''-'' value"

definition pct_text :: "jsval \<Rightarrow> string" where
  "pct_text v = to_fixed 2 (to_num (coalesce v (num_lit 0))) @ ''%''"

definition or_dash :: "jsval \<Rightarrow> string" where
  "or_dash v = child_text (js_or v (JStr ''-''))"

section \<open>The view\<close>

datatype coverage_event =
    SetService string
  | SetRegion string
  | SetAccount string
  | SetChecker string
  | ApplyCoverageFilters
  | ClearCoverageFilters

definition run_field :: "coverage_page \<Rightarrow> string \<Rightarrow> jsval" where
  "run_field p name =
     coalesce (get (get (qv_data (vp_latest p)) ''run'') name) (get (get (qv_data (vp_checkers p)) ''run'') name)"

definition coverage_header :: "ui_host \<Rightarrow> coverage_page \<Rightarrow> coverage_event page_event jsx" where
  "coverage_header host p =
     (let findings = allowed (vp_user p) ''findings:read''
      in El ''header'' []
           [El ''p'' [] [Txt ''Coverage Visibility''], El ''h1'' [] [Txt ''Scan Coverage Control Room''],
            El ''p'' [] [Txt (''Tenant: '' @ scope_tenantId (vp_scope p) @ '' | Workspace: '' @ scope_workspace (vp_scope p))],
            El ''p'' [] [Txt (''Latest run: '' @ text_or_dash (run_field p ''run_id'') @ '' | Run date: ''
              @ date_label host (coalesce (run_field p ''run_ts'') JNull))],
            nav_button findings ''/dashboard'' ''Dashboard'', nav_button findings ''/findings'' ''Findings'',
            nav_button findings ''/recommendations'' ''Recommendations'',
            nav_button findings ''/remediations'' ''Realized Savings'',
            nav_button (allowed (vp_user p) ''users:read'') ''/users'' ''Users'',
            button False Logout ''Logout''])"

definition filter_text :: "string \<Rightarrow> string \<Rightarrow> (string \<Rightarrow> coverage_event) \<Rightarrow> coverage_event page_event jsx" where
  "filter_text label value change = El ''label'' [] [El ''span'' [] [Txt label], text_input value False (\<lambda>v. Own (change v))]"

definition coverage_toolbar :: "coverage_page \<Rightarrow> coverage_inputs \<Rightarrow> coverage_event page_event jsx" where
  "coverage_toolbar p i =
     (let sp = vp_params p
      in El ''section'' []
           [select ''Status'' (param ''status'' sp) (\<lambda>v. Update [(''status'', some_text v)])
              [([], ''All''), (''assessment_failed'', ''Assessment Failed''), (''skipped'', ''Skipped''),
               (''not_assessed'', ''Not Assessed''), (''assessed_with_findings'', ''Assessed With Findings''),
               (''assessed_no_issue'', ''Assessed No Issue'')],
            select ''Issue Type'' (param ''issue_type'' sp) (\<lambda>v. Update [(''issue_type'', some_text v)])
              [([], ''All''), (''missing_permission'', ''Missing Permission''), (''throttled'', ''Throttled''),
               (''api_error'', ''API Error''), (''malformed_source_data'', ''Malformed Source Data''),
               (''unsupported_scope'', ''Unsupported Scope''), (''internal_checker_error'', ''Internal Checker Error'')],
            select ''Page Size'' (num_to_string (coverage_limit sp)) (\<lambda>v. Update [(''limit'', Some v)])
              [(''50'', ''50''), (''100'', ''100''), (''200'', ''200'')],
            select ''History Size'' (num_to_string (history_limit sp)) (\<lambda>v. Update [(''history_limit'', Some v)])
              [(''6'', ''6''), (''12'', ''12''), (''20'', ''20'')],
            El ''form'' [On ''onSubmit'' (\<lambda>_. Own ApplyCoverageFilters)]
              [filter_text ''Service'' (ci_service i) SetService, filter_text ''Region'' (ci_region i) SetRegion,
               filter_text ''Account'' (ci_account i) SetAccount, filter_text ''Checker'' (ci_checker i) SetChecker,
               El ''button'' [Prop ''type'' ''submit''] [Txt ''Apply''],
               button False (Own ClearCoverageFilters) ''Clear'']])"

definition count_card :: "string \<Rightarrow> nat \<Rightarrow> string list \<Rightarrow> 'e jsx" where
  "count_card label n lines =
     El ''article'' [] ([El ''p'' [] [Txt label], El ''p'' [] [Txt (nat_to_string n)]] @ map (\<lambda>l. El ''p'' [] [Txt l]) lines)"

definition coverage_cards :: "coverage_page \<Rightarrow> coverage_event page_event jsx list" where
  "coverage_cards p =
     [El ''section'' []
        [count_card ''Checker Targets'' (length (qv_items (vp_checkers p))) [],
         count_card ''Degraded Targets'' (length (degradedCheckers p)) [],
         count_card ''Permission Gap Targets'' (length (permissionGapCheckers p)) [],
         count_card ''Structured Issues'' (length (qv_items (vp_issues p))) []],
      El ''section'' []
        [count_card ''Assessment Failures'' (length (failedCheckers p))
           [''Targets that failed and should not be read as '' @ [CHR 0x22] @ ''no findings'' @ [CHR 0x22] @ ''.''],
         count_card ''Skipped Or Not Assessed'' (length (skippedCheckers p))
           [''Intentional skips and incomplete coverage targets that reduce completeness.''],
         count_card ''Permission Gaps'' (length (permissionGapCheckers p))
           [''Targets where missing IAM permissions reduced visibility or confidence.'']]]"

definition badge_cell :: "string \<Rightarrow> jsval \<Rightarrow> 'e jsx" where
  "badge_cell tone v = El ''td'' [] [El ''span'' [Prop ''className'' tone] [Txt (formatLabel v)]]"

definition titled_cell :: "string \<Rightarrow> string \<Rightarrow> 'e jsx" where
  "titled_cell title value = El ''td'' [] [El ''span'' [Prop ''title'' title] [Txt value]]"

definition value_cell :: "jsval \<Rightarrow> string \<Rightarrow> 'e jsx" where
  "value_cell item name = cell (child_text (get item name))"

definition rollup :: "string \<Rightarrow> string \<Rightarrow> string list \<Rightarrow> (jsval \<Rightarrow> 'e jsx) \<Rightarrow> jsval list \<Rightarrow> 'e jsx" where
  "rollup title about headings row items =
     El ''article'' [] [El ''h2'' [] [Txt title], El ''p'' [] [Txt about], table headings (map row items)]"

definition service_row :: "jsval \<Rightarrow> 'e jsx" where
  "service_row item =
     El ''tr'' []
       [value_cell item ''service'', badge_cell (coverage_badge (text_of (get item ''coverage_status''))) (get item ''coverage_status''),
        cell (pct_text (get item ''coverage_pct'')), value_cell item ''assessment_failed'', value_cell item ''permission_gap_count'']"

definition service_rollup :: "coverage_page \<Rightarrow> coverage_event page_event jsx" where
  "service_rollup p =
     rollup ''Service Rollup'' ''Coverage grouped by service for the latest run and current filters.''
       [''Service'', ''Status'', ''Coverage'', ''Failed'', ''Permission Gaps''] service_row (qv_items (vp_services p))"

definition account_row :: "jsval \<Rightarrow> 'e jsx" where
  "account_row item =
     El ''tr'' []
       [cell (or_dash (get item ''account_id'')), cell (or_dash (get item ''region'')),
        badge_cell (coverage_badge (text_of (get item ''coverage_status''))) (get item ''coverage_status''),
        cell (pct_text (get item ''coverage_pct'')), value_cell item ''assessment_failed'']"

definition account_rollup :: "coverage_page \<Rightarrow> coverage_event page_event jsx" where
  "account_rollup p =
     rollup ''Account Rollup'' ''Coverage grouped by account and region for the latest run and current filters.''
       [''Account'', ''Region'', ''Status'', ''Coverage'', ''Failed''] account_row (qv_items (vp_accounts p))"

definition history_row :: "ui_host \<Rightarrow> jsval \<Rightarrow> 'e jsx" where
  "history_row host item =
     El ''tr'' []
       [titled_cell (text_of (get item ''run_id'')) (child_text (get item ''run_id'')), cell (date_label host (get item ''run_ts'')),
        badge_cell (coverage_badge (text_of (coalesce (get item ''coverage_status'') (JStr [])))) (get item ''coverage_status''),
        cell (pct_text (get item ''coverage_pct'')), value_cell item ''assessment_failed'', value_cell item ''permission_gap_count'']"

definition coverage_history :: "ui_host \<Rightarrow> coverage_page \<Rightarrow> coverage_event page_event jsx" where
  "coverage_history host p =
     rollup ''Coverage History'' ''Recent run-level coverage snapshots for the current tenant and workspace.''
       [''Run'', ''Date'', ''Status'', ''Coverage'', ''Failed'', ''Permission Gaps''] (history_row host) (qv_items (vp_history p))"

definition points_text :: "jsval \<Rightarrow> string" where
  "points_text v = to_fixed 2 (number_of v) @ '' pts''"

definition regressed_service_row :: "jsval \<Rightarrow> 'e jsx" where
  "regressed_service_row item =
     El ''tr'' []
       [value_cell item ''service'', cell (points_text (get item ''coverage_pct_delta'')), value_cell item ''assessment_failed_delta'',
        value_cell item ''permission_gap_delta'']"

definition regression_snapshot :: "coverage_page \<Rightarrow> coverage_event page_event jsx" where
  "regression_snapshot p =
     (let summary = regressionSummary p; data = qv_data (vp_regression p);
          services = array_items (coalesce (get data ''service_regressions'') (JArr []))
      in El ''article'' []
           ([El ''h2'' [] [Txt ''Regression Snapshot''], El ''p'' [] [Txt ''Latest ready run compared with the previous ready run.'']]
            @ (if truthy summary
               then [info_card ''Severity'' (formatLabel (get summary ''severity'')),
                     info_card ''Checker Regressions'' (child_text (coalesce (get (get data ''checker_regressions'') ''count'') (num_lit 0))),
                     info_card ''Coverage Delta'' (points_text (get summary ''coverage_pct_delta'')),
                     info_card ''Failure Delta'' (child_text (get summary ''assessment_failed_delta'')),
                     info_card ''Permission Gap Delta'' (child_text (get summary ''permission_gap_delta'')),
                     info_card ''Status Worsened'' (if truthy (get summary ''status_worsened'') then ''Yes'' else ''No''),
                     El ''h3'' [] [Txt ''Regressed Services''],
                     table [''Service'', ''Coverage Delta'', ''Failure Delta'', ''Permission Gap Delta'']
                       (map regressed_service_row services),
                     show_if (services = [])
                       (El ''p'' [] [Txt ''No service-level regressions were detected between the latest two ready runs.''])]
               else [El ''p'' [] [Txt (child_text (coalesce (get data ''message'')
                       (JStr ''Need at least two ready runs to calculate regressions.'')))]])))"

text \<open>\<open>item.error_class ?? item.skip_reason ?? item.error_code ?? "-"\<close> and its like.\<close>

definition first_present :: "jsval \<Rightarrow> string list \<Rightarrow> string" where
  "first_present item names = child_text (foldr (\<lambda>k rest. coalesce (get item k) rest) names (JStr ''-''))"

definition checker_row :: "jsval \<Rightarrow> 'e jsx" where
  "checker_row item =
     El ''tr'' []
       [badge_cell (coverage_badge (text_of (get item ''status''))) (get item ''status''), value_cell item ''service'',
        titled_cell (text_of (get item ''checker_id'')) (child_text (get item ''checker_id'')),
        cell (or_dash (get item ''region'')), cell (or_dash (get item ''account_id'')), value_cell item ''findings_count'',
        cell (formatLabel (get item ''confidence'')), value_cell item ''permission_gap_count'',
        titled_cell (first_present item [''error_message'', ''skip_reason'', ''error_code''])
          (first_present item [''error_class'', ''skip_reason'', ''error_code'']),
        cell (formatDurationMs (get item ''duration_ms''))]"

definition listing :: "string \<Rightarrow> string \<Rightarrow> string list \<Rightarrow> (jsval \<Rightarrow> 'e jsx) \<Rightarrow> string \<Rightarrow> jsval list \<Rightarrow> 'e jsx" where
  "listing title about headings row nothing items =
     El ''section'' []
       [El ''h2'' [] [Txt title], El ''p'' [] [Txt about], table headings (map row items),
        show_if (items = []) (El ''p'' [] [Txt nothing])]"

definition checker_coverage :: "coverage_page \<Rightarrow> coverage_event page_event jsx" where
  "checker_coverage p =
     listing ''Checker Coverage'' ''One row per account, region, service, and checker target in the latest run.''
       [''Status'', ''Service'', ''Checker'', ''Region'', ''Account'', ''Findings'', ''Confidence'', ''Permission Gaps'',
        ''Error / Skip'', ''Duration''] checker_row
       ''No checker coverage rows are available for the latest run.'' (qv_items (vp_checkers p))"

definition issue_row :: "jsval \<Rightarrow> 'e jsx" where
  "issue_row item =
     El ''tr'' []
       [badge_cell (issue_badge (text_of (get item ''severity''))) (get item ''severity''),
        cell (formatLabel (get item ''issue_type'')), value_cell item ''service'',
        titled_cell (text_of (get item ''checker_id'')) (child_text (get item ''checker_id'')),
        cell (or_dash (get item ''region'')), cell (or_dash (get item ''operation'')), cell (or_dash (get item ''error_code'')),
        cell (if truthy (get item ''is_retryable'') then ''Yes'' else ''No''),
        titled_cell (first_present item [''message'']) (first_present item [''message''])]"

definition coverage_issues :: "coverage_page \<Rightarrow> coverage_event page_event jsx" where
  "coverage_issues p =
     listing ''Coverage Issues'' ''Structured execution issues such as permission gaps, throttling, or upstream API failures.''
       [''Severity'', ''Issue Type'', ''Service'', ''Checker'', ''Region'', ''Operation'', ''Code'', ''Retryable'', ''Message'']
       issue_row ''No structured coverage issues were recorded for the latest run.'' (qv_items (vp_issues p))"

definition failure_line :: "string \<Rightarrow> query_view \<Rightarrow> 'e jsx" where
  "failure_line what q =
     (case qv_error q of None \<Rightarrow> Nothing
      | Some e \<Rightarrow> El ''div'' [] [El ''p'' [] [Txt (apiErrorMessage what what e)]])"

definition coverage_failures :: "coverage_page \<Rightarrow> coverage_event page_event jsx list" where
  "coverage_failures p =
     [failure_line ''Failed to load checker coverage'' (vp_checkers p), failure_line ''Failed to load coverage issues'' (vp_issues p),
      failure_line ''Failed to load coverage history'' (vp_history p),
      failure_line ''Failed to load coverage regressions'' (vp_regression p)]"

definition coverage_loading :: "coverage_page \<Rightarrow> bool" where
  "coverage_loading p \<longleftrightarrow>
     qv_isLoading (vp_checkers p) \<or> qv_isLoading (vp_issues p) \<or> qv_isLoading (vp_history p) \<or> qv_isLoading (vp_regression p)"

definition coverage_banner :: "coverage_page \<Rightarrow> coverage_event page_event jsx" where
  "coverage_banner p =
     (let data = qv_data (vp_latest p)
      in RunCoverageBanner (coalesce (get data ''run'') JNull) (coalesce (get data ''coverage'') JNull))"

definition CoverageClientPage :: "ui_host \<Rightarrow> coverage_page \<Rightarrow> coverage_inputs \<Rightarrow> coverage_event page_event jsx" where
  "CoverageClientPage host p i =
     El ''main'' []
       ([coverage_header host p, coverage_banner p, coverage_toolbar p i]
        @ coverage_cards p
        @ [El ''section'' [] [service_rollup p, account_rollup p],
           El ''section'' [] [coverage_history host p, regression_snapshot p],
           show_if (coverage_loading p) (El ''p'' [] [Txt ''Loading coverage details...''])]
        @ coverage_failures p
        @ [checker_coverage p, coverage_issues p])"

section \<open>Steps\<close>

definition coverage_step :: "coverage_event \<Rightarrow> coverage_inputs \<Rightarrow> coverage_inputs" where
  "coverage_step e i =
     (case e of
        SetService v \<Rightarrow> i\<lparr>ci_service := v\<rparr>
      | SetRegion v \<Rightarrow> i\<lparr>ci_region := v\<rparr>
      | SetAccount v \<Rightarrow> i\<lparr>ci_account := v\<rparr>
      | SetChecker v \<Rightarrow> i\<lparr>ci_checker := v\<rparr>
      | ApplyCoverageFilters \<Rightarrow> i
      | ClearCoverageFilters \<Rightarrow> \<lparr>ci_service = [], ci_region = [], ci_account = [], ci_checker = []\<rparr>)"

definition applyFilters_updates :: "coverage_inputs \<Rightarrow> (string \<times> string option) list" where
  "applyFilters_updates i =
     [(''service'', some_text (trim (ci_service i))), (''region'', some_text (trim (ci_region i))),
      (''account_id'', some_text (trim (ci_account i))), (''checker_id'', some_text (trim (ci_checker i)))]"

definition clearFilters_updates :: "search_params \<Rightarrow> (string \<times> string option) list" where
  "clearFilters_updates sp =
     [(''status'', None), (''service'', None), (''region'', None), (''account_id'', None), (''checker_id'', None),
      (''issue_type'', None), (''limit'', Some ''200''), (''history_limit'', Some (num_to_string (history_limit sp)))]"

text \<open>Where an event sends the browser.\<close>

definition coverage_pushes :: "coverage_page \<Rightarrow> coverage_inputs \<Rightarrow> coverage_event page_event \<Rightarrow> string option" where
  "coverage_pushes p i e =
     (case e of
        Own ApplyCoverageFilters \<Rightarrow> Some (pushWithParams ''/coverage'' (vp_params p) (applyFilters_updates i))
      | Own ClearCoverageFilters \<Rightarrow> Some (pushWithParams ''/coverage'' (vp_params p) (clearFilters_updates (vp_params p)))
      | _ \<Rightarrow> event_pushes ''/coverage'' (vp_params p) e)"

section \<open>Facts\<close>

definition failed_query :: "thrown \<Rightarrow> query_view" where
  "failed_query e = \<lparr>qv_data = JUndef, qv_isLoading = False, qv_error = Some e\<rparr>"

definition empty_query :: query_view where
  "empty_query = \<lparr>qv_data = JObj [(''items'', JArr [])], qv_isLoading = False, qv_error = None\<rparr>"

lemma qv_items_failed [simp]: "qv_items (failed_query e) = []" "qv_items empty_query = []"
  by (simp_all add: qv_items_def failed_query_def empty_query_def coalesce_def nullish_def)

lemma query_flags [simp]:
  "qv_isLoading (failed_query e) = False" "qv_isLoading empty_query = False" "qv_error (failed_query e) = Some e" "qv_error empty_query = None"
  by (simp_all add: failed_query_def empty_query_def)

lemmas coverage_view_defs =
  CoverageClientPage_def coverage_header_def coverage_banner_def coverage_toolbar_def coverage_cards_def service_rollup_def
  account_rollup_def coverage_history_def regression_snapshot_def coverage_loading_def coverage_failures_def checker_coverage_def
  coverage_issues_def run_field_def degradedCheckers_def permissionGapCheckers_def failedCheckers_def skippedCheckers_def
  regressionSummary_def

text \<open>
  C38. Two failures go unnoticed on the coverage page: when the query of the services or that of the
  accounts has failed, the page looks exactly as if it had answered with an empty list.  A failed
  query of the checkers is reported, but the page says beside it that the latest run has no
  rows.
\<close>

theorem failed_rollups_look_empty:
  "CoverageClientPage host (p\<lparr>vp_services := failed_query e\<rparr>) i = CoverageClientPage host (p\<lparr>vp_services := empty_query\<rparr>) i
    \<and> CoverageClientPage host (p\<lparr>vp_accounts := failed_query e\<rparr>) i = CoverageClientPage host (p\<lparr>vp_accounts := empty_query\<rparr>) i
    \<and> page_error ''Failed to load checker coverage'' e \<in> set (view_text (CoverageClientPage host (p\<lparr>vp_checkers := failed_query e\<rparr>) i))
    \<and> ''No checker coverage rows are available for the latest run.''
        \<in> set (view_text (CoverageClientPage host (p\<lparr>vp_checkers := failed_query e\<rparr>) i))"
proof (intro conjI)
  show "CoverageClientPage host (p\<lparr>vp_services := failed_query e\<rparr>) i = CoverageClientPage host (p\<lparr>vp_services := empty_query\<rparr>) i"
    by (simp add: coverage_view_defs)
  show "CoverageClientPage host (p\<lparr>vp_accounts := failed_query e\<rparr>) i = CoverageClientPage host (p\<lparr>vp_accounts := empty_query\<rparr>) i"
    by (simp add: coverage_view_defs)
  show "page_error ''Failed to load checker coverage'' e \<in> set (view_text (CoverageClientPage host (p\<lparr>vp_checkers := failed_query e\<rparr>) i))"
    by (simp add: CoverageClientPage_def coverage_failures_def failure_line_def page_error_def)
  show "''No checker coverage rows are available for the latest run.''
        \<in> set (view_text (CoverageClientPage host (p\<lparr>vp_checkers := failed_query e\<rparr>) i))"
    by (simp add: CoverageClientPage_def checker_coverage_def listing_def show_if_def)
qed

end
