(* ===== verification/RemediationsPage.thy ===== *)
theory RemediationsPage
  imports Components ListHooks Auth
begin

text \<open>
  \<open>app/remediations/RemediationsImpactClientPage.tsx\<close>: what remediation actions were expected to save
  and what they did save.  The page keeps two inputs that follow the address; everything else it
  shows is the answer of one query, a page of actions and two tables of rates.
\<close>

section \<open>State\<close>

record impact_page =
  ip_browser :: browser
  ip_params :: search_params
  ip_scope :: tenant_scope
  ip_user :: jsval
  ip_impact :: query_view

record impact_inputs =
  ii_actionType :: string
  ii_checkId :: string

definition impact_initial :: "search_params \<Rightarrow> impact_inputs" where
  "impact_initial sp = \<lparr>ii_actionType = param ''action_type'' sp, ii_checkId = param ''check_id'' sp\<rparr>"

text \<open>The two effects; each runs when its parameter has changed.\<close>

definition sync_impact_inputs :: "search_params \<Rightarrow> search_params \<Rightarrow> impact_inputs \<Rightarrow> impact_inputs" where
  "sync_impact_inputs old new i =
     \<lparr>ii_actionType = follow ''action_type'' old new (ii_actionType i), ii_checkId = follow ''check_id'' old new (ii_checkId i)\<rparr>"

definition impact_limit :: "search_params \<Rightarrow> num" where
  "impact_limit sp = parsePositiveInt (usp_get ''limit'' sp) (int_num 50)"

definition impact_page_number :: "search_params \<Rightarrow> num" where
  "impact_page_number sp = parsePositiveInt (usp_get ''page'' sp) (int_num 1)"

text \<open>The query does not wait for a permission, unlike those of the other pages.\<close>

definition impact_query :: "impact_page \<Rightarrow> 'w query_options" where
  "impact_query p =
     (let sp = ip_params p
      in useRemediationImpact (ip_browser p)
           \<lparr>mo_limit = Some (impact_limit sp), mo_offset = Some (page_offset (impact_page_number sp) (impact_limit sp)),
            mo_actionStatus = Some (param ''action_status'' sp), mo_verificationStatus = Some (param ''verification_status'' sp),
            mo_actionType = Some (param ''action_type'' sp), mo_checkId = Some (param ''check_id'' sp), mo_refresh = None\<rparr>)"

definition impact_paging :: "impact_page \<Rightarrow> paging" where
  "impact_paging p =
     \<lparr>pg_page = impact_page_number (ip_params p), pg_limit = impact_limit (ip_params p), pg_total = qv_total (ip_impact p)\<rparr>"

definition impact_total_pages :: "impact_page \<Rightarrow> num" where
  "impact_total_pages p = totalPages (pg_total (impact_paging p)) (pg_limit (impact_paging p))"

section \<open>Texts\<close>

definition remediationsErrorMessage :: "thrown \<Rightarrow> string" where
  "remediationsErrorMessage = apiErrorMessage ''Failed to load remediation impact'' ''Failed to load remediation impact.''"

definition actionStatusBadgeClass :: "string \<Rightarrow> string" where
  "actionStatusBadgeClass value =
     (let key = to_lower (trim value)
      in if key = ''completed'' then ''border-emerald-300 bg-emerald-50 text-emerald-800''
         else if key = ''failed'' \<or> key = ''cancelled'' \<or> key = ''rejected'' then ''border-rose-300 bg-rose-50 text-rose-800''
         else if key = ''approved'' \<or> key = ''queued'' \<or> key = ''running'' then ''border-cyan-300 bg-cyan-50 text-cyan-800''
         else ''border-amber-300 bg-amber-50 text-amber-800'')"

definition outcomeBadgeClass :: "string \<Rightarrow> string" where
  "outcomeBadgeClass value =
     (let key = to_lower (trim value)
      in if key = ''realized_full'' then ''border-emerald-300 bg-emerald-50 text-emerald-800''
         else if key = ''realized_partial'' then ''border-sky-300 bg-sky-50 text-sky-800''
         else if key = ''pending_verification'' then ''border-amber-300 bg-amber-50 text-amber-800''
         else ''border-rose-300 bg-rose-50 text-rose-800'')"

datatype card_tone = CyanCard | EmeraldCard | AmberCard | RoseCard

definition summaryCardTone :: "card_tone \<Rightarrow> string" where
  "summaryCardTone value =
     (if value = EmeraldCard then ''border-emerald-200 bg-emerald-50/80''
      else if value = AmberCard then ''border-amber-200 bg-amber-50/80''
      else if value = RoseCard then ''border-rose-200 bg-rose-50/80''
      else ''border-cyan-200 bg-cyan-50/80'')"

definition qualityBandClass :: "jsval \<Rightarrow> string" where
  "qualityBandClass value =
     (if value = JNull \<or> value = JNum NaN then ''border-zinc-300 bg-zinc-100 text-zinc-700''
      else if num_le (int_num 80) (number_of value) then ''border-emerald-300 bg-emerald-50 text-emerald-800''
      else if num_le (int_num 50) (number_of value) then ''border-amber-300 bg-amber-50 text-amber-800''
      else ''border-rose-300 bg-rose-50 text-rose-800'')"

definition pageSummaryText :: "jsval \<Rightarrow> string" where
  "pageSummaryText item =
     text_of (js_or (JStr (trim (text_of (get item ''action_type'')))) (JStr ''action'')) @ '' | ''
     @ text_of (js_or (JStr (trim (text_of (get item ''check_id'')))) (JStr ''unknown''))"

section \<open>The view\<close>

datatype impact_event =
    SetActionType string
  | SetCheckId string
  | ApplyImpactFilters

definition impact_header :: "impact_page \<Rightarrow> impact_event page_event jsx" where
  "impact_header p =
     (let findings = allowed (ip_user p) ''findings:read''
      in El ''header'' []
           [El ''p'' [] [Txt ''Realized Savings''], El ''h1'' [] [Txt ''Remediation Impact Loop''],
            El ''p'' [] [Txt (''Tenant: '' @ scope_tenantId (ip_scope p) @ '' | Workspace: '' @ scope_workspace (ip_scope p))],
            El ''p'' [] [Txt ''Closed-loop view of predicted vs realized savings after remediation execution and post-run verification.''],
            nav_button findings ''/recommendations'' ''Recommendations'', nav_button findings ''/dashboard'' ''Dashboard'',
            nav_button findings ''/findings'' ''Findings'', nav_button (allowed (ip_user p) ''users:read'') ''/users'' ''Users'',
            button False Logout ''Logout''])"

definition summary_card :: "card_tone \<Rightarrow> string \<Rightarrow> string \<Rightarrow> string list \<Rightarrow> 'e jsx" where
  "summary_card tone label value lines =
     El ''article'' [Prop ''className'' (summaryCardTone tone)]
       ([El ''p'' [] [Txt label], El ''p'' [] [Txt value]] @ map (\<lambda>l. El ''p'' [] [Txt l]) lines)"

definition impact_cards :: "ui_host \<Rightarrow> impact_page \<Rightarrow> impact_event page_event jsx list" where
  "impact_cards host p =
     (let summary = get (qv_data (ip_impact p)) ''summary'';
          number = (\<lambda>k. coalesce (get summary k) (num_lit 0)); shown = (\<lambda>k. child_text (number k));
          amount = (\<lambda>k. money host (coalesce (get summary k) JNull))
      in [El ''section'' []
            [summary_card CyanCard ''Tracked actions'' (shown ''actions_count'') [''Actions with remediation impact snapshots.''],
             summary_card EmeraldCard ''Realized monthly'' (amount ''realized_total_monthly_savings'')
               [''Realization rate: '' @ formatPercent (coalesce (get summary ''realization_rate_pct'') JNull)],
             summary_card AmberCard ''Not yet realized (tracked actions)'' (amount ''estimated_not_realized_monthly_savings'')
               [''Partial: '' @ shown ''partial_realization_count'' @ '' | Pending: '' @ shown ''pending_count''],
             summary_card RoseCard ''Needs attention (tracked actions)''
               (num_to_string (num_add (number_of (number ''no_realization_count'')) (number_of (number ''failed_count''))))
               [''Not realized: '' @ shown ''no_realization_count'' @ '' | Failed: '' @ shown ''failed_count'']],
          show_if (num_eq (number_of (number ''actions_count'')) (int_num 0))
            (El ''section'' [] [Txt ''Realized savings starts after remediation actions are requested and tracked. Findings and recommendations can exist while this page remains empty because no action execution/outcome has been recorded yet.''])])"

definition impact_toolbar :: "impact_page \<Rightarrow> impact_inputs \<Rightarrow> impact_event page_event jsx" where
  "impact_toolbar p i =
     El ''section'' []
       [select ''Action status'' (param ''action_status'' (ip_params p)) (set_filter ''action_status'')
          [([], ''All''), (''pending_approval'', ''Pending approval''), (''approved'', ''Approved''), (''queued'', ''Queued''),
           (''running'', ''Running''), (''completed'', ''Completed''), (''failed'', ''Failed''), (''cancelled'', ''Cancelled''),
           (''rejected'', ''Rejected'')],
        select ''Outcome'' (param ''verification_status'' (ip_params p)) (set_filter ''verification_status'')
          [([], ''All''), (''verified_resolved'', ''Verified resolved''), (''verified_persistent'', ''Verified persistent''),
           (''pending_post_run'', ''Pending verification''), (''execution_failed'', ''Execution failed'')],
        El ''form'' [On ''onSubmit'' (\<lambda>_. Own ApplyImpactFilters)]
          [El ''label'' [] [El ''span'' [] [Txt ''Action type''], text_input (ii_actionType i) False (\<lambda>v. Own (SetActionType v))],
           El ''label'' [] [El ''span'' [] [Txt ''Check ID''], text_input (ii_checkId i) False (\<lambda>v. Own (SetCheckId v))],
           El ''button'' [Prop ''type'' ''submit''] [Txt ''Apply'']]]"

definition badge_span :: "string \<Rightarrow> string \<Rightarrow> 'e jsx" where
  "badge_span tone label = El ''span'' [Prop ''className'' tone] [Txt label]"

definition impact_row :: "ui_host \<Rightarrow> jsval \<Rightarrow> 'e jsx" where
  "impact_row host item =
     El ''tr'' []
       [El ''td'' [] [El ''div'' [] [Txt (pageSummaryText item)], El ''div'' [] [Txt (''Action ID: '' @ child_text (get item ''action_id''))],
          El ''div'' [] [Txt (''Fingerprint: '' @ child_text (get item ''fingerprint''))]],
        El ''td'' [] [badge_span (actionStatusBadgeClass (text_of (get item ''action_status''))) (child_text (get item ''action_status''))],
        El ''td'' [] [badge_span (outcomeBadgeClass (text_of (get item ''outcome_status''))) (child_text (get item ''outcome_label'')),
          El ''div'' [] [Txt (child_text (get item ''verification_status''))]],
        cell (money host (get item ''baseline_estimated_monthly_savings'')), cell (money host (get item ''realized_monthly_savings'')),
        cell (money host (get item ''estimated_not_realized_monthly_savings'')),
        El ''td'' [] [El ''div'' [] [Txt (formatPercent (get item ''realization_rate_pct''))],
          El ''div'' [] [Txt (''Band: '' @ child_text (get item ''realization_band''))]],
        El ''td'' [] [El ''div'' [] [Txt (text_or_dash (get item ''latest_run_id''))],
          El ''div'' [] [Txt (date_label host (get item ''latest_run_ts''))]]]"

definition span_row :: "string \<Rightarrow> string \<Rightarrow> 'e jsx" where
  "span_row columns message = El ''tr'' [] [El ''td'' [Prop ''colSpan'' columns] [Txt message]]"

text \<open>The buttons push the number they show; \<open>Previous\<close> has no lower bound but its being disabled.\<close>

definition push_page :: "num \<Rightarrow> 'x page_event" where
  "push_page n = Update [(''page'', Some (num_to_string n))]"

definition impact_buttons :: "impact_page \<Rightarrow> impact_event page_event jsx" where
  "impact_buttons p =
     (let page = pg_page (impact_paging p)
      in El ''div'' []
           [button (num_le page (int_num 1)) (push_page (num_sub page (int_num 1))) ''Previous'',
            button (num_le (impact_total_pages p) page) (push_page (num_add page (int_num 1))) ''Next''])"

definition impact_queue :: "ui_host \<Rightarrow> impact_page \<Rightarrow> impact_event page_event jsx" where
  "impact_queue host p =
     (let q = ip_impact p; items = qv_items q; g = impact_paging p
      in El ''section'' []
           [El ''h2'' [] [Txt ''Impact review queue''],
            El ''p'' [] [Txt (if qv_isLoading q then ''Loading remediation outcomes...''
              else ''Showing '' @ nat_to_string (length items) @ '' action(s) out of '' @ num_to_string (pg_total g)
                @ '' tracked impact row(s).'')],
            El ''div'' [] [Txt (''Page '' @ num_to_string (pg_page g) @ '' of '' @ num_to_string (impact_total_pages p))],
            table [''Action'', ''Status'', ''Outcome'', ''Baseline'', ''Realized'', ''Not Realized'', ''Rate'', ''Verified Run'']
              (map (impact_row host) items
               @ [show_if (\<not> qv_isLoading q \<and> items = []) (span_row ''8'' ''No remediation impact rows matched the current filters.'')]),
            impact_buttons p])"

definition quality_row :: "ui_host \<Rightarrow> jsval \<Rightarrow> 'e jsx" where
  "quality_row host row =
     (let rate = (\<lambda>k. El ''td'' [] [badge_span (qualityBandClass (get row k)) (formatPercent (get row k))])
      in El ''tr'' []
           [cell (child_text (get row ''group_key'')),
            El ''td'' [] [El ''div'' [] [Txt (child_text (get row ''actions_count''))],
              El ''div'' [] [Txt (''Full '' @ child_text (get row ''fully_realized_count'') @ '' | Partial ''
                @ child_text (get row ''partial_realization_count''))]],
            cell (money host (get row ''realized_total_monthly_savings'')),
            cell (money host (get row ''estimated_not_realized_monthly_savings'')),
            rate ''realization_rate_pct'', rate ''effective_success_rate_pct''])"

definition renderQualityTable :: "ui_host \<Rightarrow> string \<Rightarrow> jsval list \<Rightarrow> 'e jsx" where
  "renderQualityTable host title rows =
     El ''section'' []
       [El ''h2'' [] [Txt title],
        El ''p'' [] [Txt ''Ranked by realized savings within the current remediation impact filter scope.''],
        table [''Group'', ''Actions'', ''Realized'', ''Not Realized'', ''Savings Rate'', ''Success Rate'']
          (map (quality_row host) rows @ [show_if (rows = []) (span_row ''6'' ''No quality rollups matched the current filters.'')])]"

definition quality_rows :: "impact_page \<Rightarrow> string \<Rightarrow> jsval list" where
  "quality_rows p name = array_items (coalesce (get (get (qv_data (ip_impact p)) ''quality'') name) (JArr []))"

definition impact_error :: "impact_page \<Rightarrow> 'e jsx" where
  "impact_error p =
     (case qv_error (ip_impact p) of None \<Rightarrow> Nothing | Some e \<Rightarrow> El ''section'' [] [Txt (remediationsErrorMessage e)])"

definition RemediationsImpactClientPage :: "ui_host \<Rightarrow> impact_page \<Rightarrow> impact_inputs \<Rightarrow> impact_event page_event jsx" where
  "RemediationsImpactClientPage host p i =
     El ''main'' []
       ([impact_header p] @ impact_cards host p
        @ [impact_toolbar p i,
           impact_error p, impact_queue host p,
           El ''div'' []
             [renderQualityTable host ''Recommendation Type Quality'' (quality_rows p ''by_recommendation_type''),
              renderQualityTable host ''Checker Quality'' (quality_rows p ''by_check_id'')]])"

section \<open>Steps\<close>

definition impact_step :: "impact_event \<Rightarrow> impact_inputs \<Rightarrow> impact_inputs" where
  "impact_step e i =
     (case e of
        SetActionType v \<Rightarrow> i\<lparr>ii_actionType := v\<rparr>
      | SetCheckId v \<Rightarrow> i\<lparr>ii_checkId := v\<rparr>
      | ApplyImpactFilters \<Rightarrow> i)"

definition applyFilters :: "impact_inputs \<Rightarrow> (string \<times> string option) list" where
  "applyFilters i =
     [(''action_type'', some_text (trim (ii_actionType i))), (''check_id'', some_text (trim (ii_checkId i))), (''page'', Some ''1'')]"

definition impact_pushes :: "impact_page \<Rightarrow> impact_inputs \<Rightarrow> impact_event page_event \<Rightarrow> string option" where
  "impact_pushes p i e =
     (case e of
        Own ApplyImpactFilters \<Rightarrow> Some (pushWithParams ''/remediations'' (ip_params p) (applyFilters i))
      | _ \<Rightarrow> event_pushes ''/remediations'' (ip_params p) e)"

section \<open>Walking through the pages\<close>

text \<open>
  The addresses a user comes to by pressing \<open>Next\<close> while the list keeps its length: one press sends
  the browser to a path whose query string is the address of the next page.
\<close>

inductive pressed_next :: "ui_host \<Rightarrow> impact_page \<Rightarrow> impact_inputs \<Rightarrow> nat \<Rightarrow> search_params \<Rightarrow> bool" for host p i where
  none: "pressed_next host p i 0 (ip_params p)"
| press: "pressed_next host p i n sp \<Longrightarrow>
     push_page (num_add (impact_page_number sp) (int_num 1)) \<in> set (clickable (RemediationsImpactClientPage host (p\<lparr>ip_params := sp\<rparr>) i)) \<Longrightarrow>
     impact_pushes (p\<lparr>ip_params := sp\<rparr>) i (push_page (num_add (impact_page_number sp) (int_num 1))) = Some (''/remediations'' @ ''?'' @ query) \<Longrightarrow>
     pressed_next host p i (Suc n) (usp_parse query)"


lemma clickable_impact_parts [simp]:
  "clickable (summary_card t l v ls) = []" "clickable (impact_row host item) = []" "clickable (quality_row host item) = []"
  "clickable (span_row c m) = []" "clickable (badge_span c m) = []"
  by (simp_all add: summary_card_def impact_row_def quality_row_def span_row_def badge_span_def comp_def Let_def)

lemma clickable_quality_table [simp]: "clickable (renderQualityTable host t rows) = []"
  by (simp add: renderQualityTable_def comp_def)

lemma clickable_impact_toolbar [simp]: "clickable (impact_toolbar p i) = []"
  by (simp add: impact_toolbar_def click_events_def)

lemma clickable_impact_cards [simp]: "concat (map clickable (impact_cards host p)) = []"
  by (simp add: impact_cards_def Let_def)

lemma clickable_impact_queue [simp]: "clickable (impact_queue host p) = clickable (impact_buttons p)"
  by (simp add: impact_queue_def Let_def comp_def)

lemma header_pushes_nothing [simp]: "push_page n \<notin> set (clickable (impact_header p))"
  by (simp add: impact_header_def push_page_def Let_def)

lemma clickable_impact_error [simp]: "clickable (impact_error p) = []"
  by (simp add: impact_error_def split: option.split)

lemma clickable_impact_page:
  "clickable (RemediationsImpactClientPage host p i) = clickable (impact_header p) @ clickable (impact_buttons p)"
  by (simp add: RemediationsImpactClientPage_def)

lemma pushed_on_page:
  "push_page n \<in> set (clickable (RemediationsImpactClientPage host p i)) \<longleftrightarrow> push_page n \<in> set (clickable (impact_buttons p))"
  by (simp only: clickable_impact_page set_append Un_iff header_pushes_nothing simp_thms)

lemma page_text_inj:
  assumes "1 \<le> m" "m \<le> 2 ^ 53" "1 \<le> n" "n \<le> 2 ^ 53" and "num_to_string (int_num m) = num_to_string (int_num n)"
  shows "m = n"
proof -
  have "int_num m = int_num n"
    using parsePositiveInt_text [OF assms(1,2), of NaN] parsePositiveInt_text [OF assms(3,4), of NaN] unfolding assms(5)
    by (metis (no_types))
  then show ?thesis by (simp only: num.inject of_int_eq_iff)
qed

text \<open>The addresses on which the walk stays: page \<open>m\<close>, and everything else as at the start.\<close>

definition walk_at :: "impact_page \<Rightarrow> int \<Rightarrow> search_params \<Rightarrow> bool" where
  "walk_at p m sp \<longleftrightarrow> impact_page_number sp = int_num m \<and> (\<forall>k. k \<noteq> ''page'' \<longrightarrow> usp_get k sp = usp_get k (ip_params p))"

lemma next_offered:
  assumes "walk_at p m sp" and "1 \<le> m" and "m < 2 ^ 53" and "impact_limit (ip_params p) = int_num l" and "1 \<le> l" and "l < 2 ^ 52"
    and "qv_total (ip_impact p) = int_num t" and "0 \<le> t" and "t < 2 ^ 52"
  shows "push_page (num_add (impact_page_number sp) (int_num 1)) \<in> set (clickable (RemediationsImpactClientPage host (p\<lparr>ip_params := sp\<rparr>) i))
    \<longleftrightarrow> m < max 1 \<lceil>(of_int t :: rat) / of_int l\<rceil>"
proof -
  let ?p = "p\<lparr>ip_params := sp\<rparr>"
  have "impact_limit sp = int_num l" using assms(1,4) by (simp add: walk_at_def impact_limit_def)
  then have pages: "impact_total_pages ?p = int_num (max 1 \<lceil>(of_int t :: rat) / of_int l\<rceil>)"
    using totalPages_int [of t l] assms(5-9) by (simp add: impact_total_pages_def impact_paging_def)
  have pg: "pg_page (impact_paging ?p) = int_num m" "impact_page_number sp = int_num m"
    using assms(1) by (simp_all add: impact_paging_def walk_at_def)
  have a: "num_add (int_num m) (int_num 1) = int_num (m + 1)" "num_sub (int_num m) (int_num 1) = int_num (m - 1)"
    using assms(2,3) num_add_int [of m 1] num_sub_int [of m 1] by simp_all
  have "num_to_string (int_num (m + 1)) \<noteq> num_to_string (int_num (m - 1))" if "1 < m"
    using page_text_inj [of "m + 1" "m - 1"] that assms(2,3) by auto
  then show ?thesis
    unfolding pushed_on_page impact_buttons_def pages pg
    by (cases "max 1 \<lceil>(of_int t :: rat) / of_int l\<rceil> \<le> m") (auto simp: a push_page_def simp del: of_int_1 num_add.simps)
qed


lemma next_pushes:
  assumes "1 \<le> m" and "m + 1 \<le> 2 ^ 53" and "walk_at p m sp"
  defines "us \<equiv> [(''page'', Some (num_to_string (int_num (m + 1))))]"
  shows "impact_pushes (p\<lparr>ip_params := sp\<rparr>) i (push_page (num_add (impact_page_number sp) (int_num 1))) =
      Some (''/remediations'' @ ''?'' @ usp_serialize (fold apply_update us sp))"
    and "walk_at p (m + 1) (usp_parse (usp_serialize (fold apply_update us sp)))"
proof -
  have n: "num_add (impact_page_number sp) (int_num 1) = int_num (m + 1)"
    using assms(1-3) num_add_int [of m 1] by (simp add: walk_at_def)
  have ne: "num_to_string (int_num (m + 1)) \<noteq> []"
    using num_to_string_int [of "m + 1"] assms(1,2) by simp
  have got: "usp_get k (fold apply_update us sp) = (if k = ''page'' then Some (num_to_string (int_num (m + 1))) else usp_get k sp)" for k
    using pushed_param [of us k sp] ne by (simp add: us_def)
  have "usp_serialize (fold apply_update us sp) \<noteq> []"
  proof
    assume "usp_serialize (fold apply_update us sp) = []"
    then have "fold apply_update us sp = usp_parse []" by (metis usp_roundtrip)
    with got [of "''page''"] show False by (simp add: usp_parse_def usp_get_def)
  qed
  then show "impact_pushes (p\<lparr>ip_params := sp\<rparr>) i (push_page (num_add (impact_page_number sp) (int_num 1))) =
      Some (''/remediations'' @ ''?'' @ usp_serialize (fold apply_update us sp))"
    unfolding n by (simp add: impact_pushes_def push_page_def event_pushes_def pushWithParams_eq us_def Let_def)
  show "walk_at p (m + 1) (usp_parse (usp_serialize (fold apply_update us sp)))"
    using assms(1-3) parsePositiveInt_text [of "m + 1" "int_num 1"]
    by (simp add: walk_at_def usp_roundtrip got impact_page_number_def del: of_int_add)
qed


text \<open>A page on its first page, with \<open>l\<close> rows to a page and \<open>t\<close> rows in all.\<close>

definition first_page :: "impact_page \<Rightarrow> int \<Rightarrow> int \<Rightarrow> bool" where
  "first_page p l t \<longleftrightarrow>
     impact_page_number (ip_params p) = int_num 1 \<and> impact_limit (ip_params p) = int_num l \<and> qv_total (ip_impact p) = int_num t"

definition page_count :: "int \<Rightarrow> int \<Rightarrow> int" where
  "page_count l t = max 1 \<lceil>(of_int t :: rat) / of_int l\<rceil>"

lemma page_count_small:
  assumes "1 \<le> l" and "0 \<le> t" and "t < 2 ^ 52"
  shows "page_count l t < 2 ^ 53"
proof -
  have "(of_int t :: rat) / of_int l \<le> of_int t" using assms(1,2) by (simp add: divide_le_eq mult_le_cancel_left1)
  then have "\<lceil>(of_int t :: rat) / of_int l\<rceil> \<le> t" by (simp add: ceiling_le_iff)
  then have "page_count l t \<le> max 1 t" by (simp add: page_count_def del: ceiling_le_iff)
  then show ?thesis using assms(3) by (simp add: max_def split: if_splits)
qed

lemma next_offered_iff:
  assumes "first_page p l t" and "1 \<le> l" and "l < 2 ^ 52" and "0 \<le> t" and "t < 2 ^ 52" and "walk_at p m sp" and "1 \<le> m" and "m < 2 ^ 53"
  shows "push_page (num_add (impact_page_number sp) (int_num 1)) \<in> set (clickable (RemediationsImpactClientPage host (p\<lparr>ip_params := sp\<rparr>) i))
    \<longleftrightarrow> m < page_count l t"
  unfolding page_count_def
proof (rule next_offered [OF assms(6-8) _ assms(2,3) _ assms(4,5)])
  show "impact_limit (ip_params p) = int_num l" "qv_total (ip_impact p) = int_num t"
    using assms(1) by (simp_all add: first_page_def)
qed

lemma walk_forward:
  assumes "pressed_next host p i n sp" and "first_page p l t" and "1 \<le> l" and "l < 2 ^ 52" and "0 \<le> t" and "t < 2 ^ 52"
  shows "walk_at p (int n + 1) sp \<and> int n < page_count l t"
  using assms(1)
proof (induction rule: pressed_next.induct)
  case none
  then show ?case using assms(2) by (simp add: walk_at_def first_page_def page_count_def)
next
  case (press n sp query)
  note small = page_count_small [OF assms(3,5,6)]
  have at: "walk_at p (int n + 1) sp" "int n < page_count l t" using press.IH by blast+
  then have "int n + 1 < 2 ^ 53" using small by simp
  then have "int n + 1 < page_count l t"
    using next_offered_iff [OF assms(2-6) at(1)] press.hyps(2) by simp
  moreover have "walk_at p (int n + 1 + 1) (usp_parse query)"
    using next_pushes(1) [OF _ _ at(1), where i = i] next_pushes(2) [OF _ _ at(1)] press.hyps(3) calculation small by (auto simp del: of_int_add)
  ultimately show ?case by (simp add: add.commute)
qed

lemma walk_back:
  assumes "int n < page_count l t" and "first_page p l t" and "1 \<le> l" and "l < 2 ^ 52" and "0 \<le> t" and "t < 2 ^ 52"
  shows "\<exists>sp. pressed_next host p i n sp"
  using assms(1)
proof (induction n)
  case 0
  show ?case using pressed_next.none by blast
next
  case (Suc n)
  note small = page_count_small [OF assms(3,5,6)]
  from Suc obtain sp where sp: "pressed_next host p i n sp" by auto
  have at: "walk_at p (int n + 1) sp" using walk_forward [OF sp assms(2-6)] by blast
  have "push_page (num_add (impact_page_number sp) (int_num 1))
      \<in> set (clickable (RemediationsImpactClientPage host (p\<lparr>ip_params := sp\<rparr>) i))"
    using next_offered_iff [OF assms(2-6) at] Suc.prems small by simp
  from pressed_next.press [OF sp this next_pushes(1) [OF _ _ at]] show ?case using Suc.prems small by force
qed

text \<open>
  C22. Pressing \<open>Next\<close> ends, on the last page: from the first page of a list of \<open>t\<close> rows shown \<open>l\<close> at a
  time, \<open>n\<close> presses are possible exactly when there are more than \<open>n\<close> pages; they lead to the address
  of page \<open>n + 1\<close>, with every filter of the first page.
\<close>

theorem next_walks_to_last_page:
  assumes "impact_page_number (ip_params p) = int_num 1" and "impact_limit (ip_params p) = int_num l" and "1 \<le> l" and "l < 2 ^ 52"
    and "qv_total (ip_impact p) = int_num t" and "0 \<le> t" and "t < 2 ^ 52"
  shows "((\<exists>sp. pressed_next host p i n sp) \<longleftrightarrow> int n < max 1 \<lceil>(of_int t :: rat) / of_int l\<rceil>)
    \<and> (pressed_next host p i n sp \<longrightarrow>
         impact_page_number sp = int_num (int n + 1) \<and> (\<forall>k. k \<noteq> ''page'' \<longrightarrow> usp_get k sp = usp_get k (ip_params p)))"
proof -
  have first: "first_page p l t" using assms(1,2,5) by (simp add: first_page_def)
  show ?thesis
    using walk_forward [OF _ first assms(3,4,6,7)] walk_back [OF _ first assms(3,4,6,7)]
    unfolding walk_at_def page_count_def by blast
qed

definition sample_impact :: impact_page where
  "sample_impact =
     \<lparr>ip_browser = sample_browser, ip_params = [(''limit'', ''50'')],
      ip_scope = \<lparr>scope_tenantId = ''acme'', scope_workspace = ''prod''\<rparr>, ip_user = JUndef,
      ip_impact = \<lparr>qv_data = JObj [(''total'', JNum (int_num 120))], qv_isLoading = False, qv_error = None\<rparr>\<rparr>"

theorem next_walks_to_last_page_witness:
  "(\<exists>sp. pressed_next sample_host sample_impact (impact_initial []) 2 sp) \<and> \<not> (\<exists>sp. pressed_next sample_host sample_impact (impact_initial []) 3 sp)"
proof -
  have s: "impact_page_number (ip_params sample_impact) = int_num 1" "impact_limit (ip_params sample_impact) = int_num 50"
    "qv_total (ip_impact sample_impact) = int_num 120"
    by code_simp+
  show ?thesis
    using next_walks_to_last_page [OF s(1,2) _ _ s(3), of sample_host "impact_initial []" 2] next_walks_to_last_page [OF s(1,2) _ _ s(3), of sample_host "impact_initial []" 3]
    by simp
qed

end
