(* ===== verification/Routes.thy ===== *)
theory Routes
  imports LoginPage FindingsPage RecommendationsPage UsersPage TenantAdminPage DashboardPage CoveragePage RemediationsPage
begin

text \<open>
  \<open>app/page.tsx\<close> and the \<open>page.tsx\<close> of every directory: the routes of the application, what they show
  while a page is being prepared, and where every call of the router leads.
\<close>

datatype route = Home | Login | Dashboard | Findings | Recommendations | Remediations | Coverage | Users | TenantAdmin

definition all_routes :: "route list" where
  "all_routes = [Home, Login, Dashboard, Findings, Recommendations, Remediations, Coverage, Users, TenantAdmin]"

text \<open>The directory of a page is its path.\<close>

fun path_of :: "route \<Rightarrow> string" where
  "path_of Home = ''/''"
| "path_of Login = ''/login''"
| "path_of Dashboard = ''/dashboard''"
| "path_of Findings = ''/findings''"
| "path_of Recommendations = ''/recommendations''"
| "path_of Remediations = ''/remediations''"
| "path_of Coverage = ''/coverage''"
| "path_of Users = ''/users''"
| "path_of TenantAdmin = ''/tenant-admin''"

definition app_paths :: "string list" where
  "app_paths = map path_of all_routes"

definition home_redirect :: string where
  "home_redirect = ''/login''"

text \<open>The fallback of the \<open>Suspense\<close> around a page; the login form and the coverage page have none.\<close>

definition loadingFallback :: "string \<Rightarrow> 'e jsx" where
  "loadingFallback message = El ''main'' [] [El ''section'' [] [Txt message]]"

fun fallback_message :: "route \<Rightarrow> string option" where
  "fallback_message Dashboard = Some ''Loading KPI dashboard...''"
| "fallback_message Findings = Some ''Loading findings...''"
| "fallback_message Recommendations = Some ''Loading recommendations...''"
| "fallback_message Remediations = Some ''Loading realized savings...''"
| "fallback_message Users = Some ''Loading users...''"
| "fallback_message TenantAdmin = Some ''Loading tenant administration...''"
| "fallback_message _ = None"

definition page_shell :: "route \<Rightarrow> bool \<Rightarrow> 'e jsx \<Rightarrow> 'e jsx" where
  "page_shell r suspended page =
     (case fallback_message r of
        None \<Rightarrow> page
      | Some message \<Rightarrow> if suspended then loadingFallback message else page)"

section \<open>Where a view leads\<close>

text \<open>Every page the user can be sent to from a view satisfies a condition.\<close>

definition leads :: "(string \<Rightarrow> bool) \<Rightarrow> 'x page_event jsx \<Rightarrow> bool" where
  "leads ok v \<longleftrightarrow> (\<forall>t. raises v (Go t) \<longrightarrow> ok t)"

named_theorems leads_simps

fun attr_leads :: "(string \<Rightarrow> bool) \<Rightarrow> 'x page_event attr \<Rightarrow> bool" where
  "attr_leads ok (On n h) \<longleftrightarrow> (\<forall>x t. h x = Go t \<longrightarrow> ok t)"
| "attr_leads ok (Prop a b) \<longleftrightarrow> True"
| "attr_leads ok (Flag a b) \<longleftrightarrow> True"

lemma attr_leads_iff: "attr_leads ok p \<longleftrightarrow> (\<forall>t. attr_raises p (Go t) \<longrightarrow> ok t)"
  by (cases p) (simp_all, metis)

lemma leads_tree [leads_simps]:
  "leads ok (Txt s)" "leads ok Nothing"
  "leads ok (El tag ps vs) \<longleftrightarrow> (is_disabled ps \<or> list_all (attr_leads ok) ps) \<and> list_all (leads ok) vs"
  by (auto simp: leads_def attr_leads_iff list_all_iff)

lemma leads_controls [leads_simps]:
  "leads ok (show_if c v) \<longleftrightarrow> (c \<longrightarrow> leads ok v)" "leads ok (labelled a b)" "leads ok (cell a)" "leads ok (info_card a b)"
  "leads ok (option_of x)" "leads ok (button d e l) \<longleftrightarrow> d \<or> (\<forall>t. e = Go t \<longrightarrow> ok t)"
  "leads ok (text_input a d f) \<longleftrightarrow> d \<or> (\<forall>x t. f x = Go t \<longrightarrow> ok t)"
  "leads ok (select a b f os) \<longleftrightarrow> (\<forall>x t. f x = Go t \<longrightarrow> ok t)"
  "leads ok (table hs rs) \<longleftrightarrow> list_all (leads ok) rs" "leads ok (checkbox c d g) \<longleftrightarrow> d \<or> (\<forall>b t. g b = Go t \<longrightarrow> ok t)"
  by (auto simp: leads_def list_all_iff) metis+

lemma leads_page_controls [leads_simps]:
  "leads ok (nav_button c p l) \<longleftrightarrow> (c \<longrightarrow> ok p)" "leads ok (link c p l) \<longleftrightarrow> (c \<longrightarrow> ok p)"
  "leads ok (query_error m q)" "leads ok (optional_line o')" "leads ok (error_line w q)"
  "leads ok (pager g n)" "leads ok (push_pager g n)" "leads ok (page_size_select x)"
  by (auto simp: leads_tree leads_controls nav_button_def link_def query_error_def optional_line_def error_line_def
      pager_def push_pager_def page_size_select_def split: option.split)

lemma leads_parts [leads_simps]: "leads ok (RunCoverageBanner r s)" "leads ok (message_line m)" "leads ok (badge a b)"
  by (auto simp: RunCoverageBanner_def message_line_def badge_def leads_simps Let_def split: option.split)

lemma leads_neighbor [leads_simps]: "leads ok (neighbor_row x)"
  by (simp add: neighbor_row_def leads_simps Let_def)

lemma leads_panel [leads_simps]: "leads ok (ResourceGraphContextPanel pp q r)"
  by (simp add: ResourceGraphContextPanel_def leads_simps list_all_iff Let_def split: option.split)

lemma list_all_leads [leads_simps]:
  "list_all P (map f ys') \<longleftrightarrow> list_all (\<lambda>x. P (f x)) ys'" "list_all (\<lambda>x. True) zs"
  "list_all P (if c then xs else ys) \<longleftrightarrow> (if c then list_all P xs else list_all P ys)"
  "list_all P (concat xss) \<longleftrightarrow> list_all (list_all P) xss"
  by (auto simp: list_all_iff)


section \<open>Where the pages lead\<close>

text \<open>A path of the application, and the administration of the tenant only for its administrators.\<close>

definition ok_path :: "jsval \<Rightarrow> string \<Rightarrow> bool" where
  "ok_path user t \<longleftrightarrow> t \<in> set app_paths \<and> (t = ''/tenant-admin'' \<longrightarrow> has_permission user ''admin:full'')"

lemma ok_paths [leads_simps]:
  "ok_path u ''/dashboard''" "ok_path u ''/findings''" "ok_path u ''/recommendations''" "ok_path u ''/remediations''"
  "ok_path u ''/coverage''" "ok_path u ''/users''" "ok_path u ''/tenant-admin'' \<longleftrightarrow> has_permission u ''admin:full''"
  by (simp_all add: ok_path_def app_paths_def all_routes_def)

lemma leads_dashboard: "leads (ok_path (dp_user p)) (DashboardClientPage host p)"
  by (simp add: DashboardClientPage_def dashboard_header_def kpi_cards_def waste_card_def candidates_card_def potential_card_def
      realized_card_def coverage_card_def tone_card_def kpi_definitions_def family_text_def kpi_notes_def leads_simps Let_def split: option.split)

lemma leads_users: "leads (ok_path (up_user p)) (UsersClientPage host p s form)"
  by (simp add: UsersClientPage_def users_header_def users_cards_def users_toolbar_def users_management_def create_form_view_def form_field_def
      users_table_def users_pager_def user_row_def role_cell_def role_drawer_def role_choice_def role_footer_def current_role_def isAdminFull_def
      leads_simps Let_def)

lemma leads_impact: "leads (ok_path (ip_user p)) (RemediationsImpactClientPage host p i)"
  by (simp add: RemediationsImpactClientPage_def impact_header_def impact_cards_def summary_card_def impact_toolbar_def
      set_filter_def impact_error_def impact_queue_def impact_row_def span_row_def badge_span_def impact_buttons_def push_page_def
      renderQualityTable_def quality_row_def leads_simps Let_def split: option.split)

lemma leads_coverage: "leads (ok_path (vp_user p)) (CoverageClientPage host p i)"
  by (simp add: CoverageClientPage_def coverage_header_def coverage_banner_def coverage_toolbar_def filter_text_def
      coverage_cards_def count_card_def service_rollup_def account_rollup_def coverage_history_def rollup_def service_row_def
      account_row_def history_row_def badge_cell_def titled_cell_def value_cell_def regression_snapshot_def
      regressed_service_row_def coverage_failures_def failure_line_def checker_coverage_def checker_row_def coverage_issues_def
      issue_row_def listing_def leads_simps Let_def split: option.split)


lemma leads_findings_parts [leads_simps]:
  "leads ok (renderFindingRow host item)" "leads ok (drawer_facts host item)" "list_all (leads ok) (action_buttons p)"
  "leads ok (findings_cards host p)" "leads ok (findings_toolbar p s)"
  by (simp_all add: renderFindingRow_def drawer_facts_def action_buttons_def findings_cards_def findings_toolbar_def set_filter_def
      leads_simps Let_def)

lemma leads_findings_rows [leads_simps]: "list_all (leads ok) (finding_rows host p)"
  by (simp add: finding_rows_def group_rows_def leads_simps)

lemma leads_findings: "leads (ok_path (fp_user p)) (FindingsClientPage host p s q r)"
  by (simp add: FindingsClientPage_def findings_header_def findings_table_def findings_drawer_def leads_simps Let_def)

lemma leads_recs_parts [leads_simps]:
  "leads ok (recommendation_row host item)" "leads ok (group_header host s g)" "leads ok (recs_cards host p s)"
  "leads ok (recs_toolbar p s)" "leads ok (recommendation_facts host item)" "leads ok (package_context item)"
  "leads ok (action_plan item)"
  by (simp_all add: recommendation_row_def group_header_def recs_cards_def recs_toolbar_def recommendation_facts_def
      package_context_def action_plan_def set_filter_def leads_simps Let_def)

lemma leads_recs_rows [leads_simps]: "list_all (leads ok) (recommendation_rows host p s)"
  by (simp add: recommendation_rows_def group_block_def flat_rows_def leads_simps)

lemma leads_recommendations: "leads (ok_path (cp_user p)) (RecommendationsClientPage host p s q r)"
  by (simp add: RecommendationsClientPage_def recs_header_def recommendations_table_def recs_pager_def recommendation_drawer_def
      leads_simps Let_def)

lemma leads_tenant_parts [leads_simps]:
  "leads ok (workspace_row host item)" "leads ok (binding_row host item)" "leads ok (directory_row host item)"
  "leads ok (snapshot_row tp item)" "leads ok (audit_entry host item)" "list_all (leads ok) (loading_and_error a b qv)"
  "leads ok (field_input l v d f) \<longleftrightarrow> d \<or> (\<forall>x t. f x = Go t \<longrightarrow> ok t)"
  by (simp_all add: workspace_row_def binding_row_def directory_row_def snapshot_row_def audit_entry_def loading_and_error_def
      field_input_def user_cell_def activity_badge_def leads_simps Let_def)

lemma leads_tenant: "leads (ok_path (tp_user p)) (TenantAdminClientPage host p s)"
  by (simp add: TenantAdminClientPage_def tenant_header_def tenant_cards_def workspace_registry_def workspace_form_view_def
      binding_policies_def binding_form_view_def directory_section_def snapshot_section_def audit_section_def audit_filters_def
      offset_pager_def rows_or_def empty_row_def leads_simps Let_def)

section \<open>Navigation\<close>

text \<open>
  Every call of the router, by who makes it: \<open>redirect\<close> of the start page, the guard of a page, the
  form after a successful sign-in, the end of signing out, and what the event of a control the page
  shows pushes: the path of a button or link, or the path of the page with new parameters.
  \<open>navigates env host user target\<close>: the browser is sent to \<open>target\<close> by a page that is shown to \<open>user\<close>.
\<close>

inductive navigates :: "'w api_env \<Rightarrow> ui_host \<Rightarrow> jsval \<Rightarrow> string \<Rightarrow> bool" for env host where
  home: "navigates env host user home_redirect"
| guard: "login_redirect scope loading authenticated = Some t \<Longrightarrow> navigates env host user t"
| signed_in: "handleSubmit env form s w = (form', Some t, s', w') \<Longrightarrow> navigates env host user t"
| signed_out: "logout_click env s w = (Some t, s', w') \<Longrightarrow> navigates env host user t"
| dashboard: "raises (DashboardClientPage host d) e \<Longrightarrow> plain_pushes e = Some t \<Longrightarrow> navigates env host (dp_user d) t"
| findings: "raises (FindingsClientPage host f fs q r) e \<Longrightarrow> findings_pushes f fs e = Some t \<Longrightarrow> navigates env host (fp_user f) t"
| recommendations: "raises (RecommendationsClientPage host c cs q r) e \<Longrightarrow> recs_pushes c cs e = Some t \<Longrightarrow>
     navigates env host (cp_user c) t"
| remediations: "raises (RemediationsImpactClientPage host i ii) e \<Longrightarrow> impact_pushes i ii e = Some t \<Longrightarrow>
     navigates env host (ip_user i) t"
| coverage: "raises (CoverageClientPage host v vi) e \<Longrightarrow> coverage_pushes v vi e = Some t \<Longrightarrow> navigates env host (vp_user v) t"
| users: "raises (UsersClientPage host p ps form) e \<Longrightarrow> users_pushes p ps e = Some t \<Longrightarrow> navigates env host (up_user p) t"
| tenant_admin: "raises (TenantAdminClientPage host a as) e \<Longrightarrow> plain_pushes e = Some t \<Longrightarrow> navigates env host (tp_user a) t"

text \<open>The path of an address, up to its query string.\<close>

definition path_part :: "string \<Rightarrow> string" where
  "path_part t = takeWhile (\<lambda>c. c \<noteq> CHR ''?'') t"

lemma path_part_path: "CHR ''?'' \<notin> set path \<Longrightarrow> path_part path = path"
  by (auto simp: path_part_def takeWhile_eq_all_conv)

lemma path_part_push: "path_part (pushWithParams path sp us) = path" if "CHR ''?'' \<notin> set path"
proof -
  have "takeWhile (\<lambda>c. c \<noteq> CHR ''?'') (path @ CHR ''?'' # query) = path" for query
    using that by (subst takeWhile_append2) auto
  then show ?thesis using path_part_path [OF that] by (simp add: pushWithParams_def path_part_def Let_def)
qed

lemma ok_path_part: "ok_path u t \<Longrightarrow> ok_path u (path_part t)"
proof -
  assume ok: "ok_path u t"
  then have "CHR ''?'' \<notin> set t" by (auto simp: ok_path_def app_paths_def all_routes_def)
  then show ?thesis using ok by (simp add: path_part_path)
qed

lemma event_pushes_path:
  assumes "event_pushes path sp e = Some t" and "CHR ''?'' \<notin> set path"
  shows "e = Go t \<or> path_part t = path"
  using assms by (cases e) (auto simp: event_pushes_def path_part_push)

text \<open>What a page pushes is a path it leads to or its own.\<close>

lemma page_pushes_path:
  "findings_pushes f fs e1 = Some t \<Longrightarrow> e1 = Go t \<or> path_part t = ''/findings''"
  "recs_pushes c cs e2 = Some t \<Longrightarrow> e2 = Go t \<or> path_part t = ''/recommendations''"
  "impact_pushes i ii e3 = Some t \<Longrightarrow> e3 = Go t \<or> path_part t = ''/remediations''"
  "coverage_pushes v vi e4 = Some t \<Longrightarrow> e4 = Go t \<or> path_part t = ''/coverage''"
  "users_pushes p ps e5 = Some t \<Longrightarrow> e5 = Go t \<or> path_part t = ''/users''"
  "plain_pushes e6 = Some t \<Longrightarrow> e6 = Go t"
  by (auto simp: findings_pushes_def findings_step_def recs_pushes_def impact_pushes_def coverage_pushes_def users_pushes_def
      submit_users_search_def plain_pushes_def path_part_push dest!: event_pushes_path
      split: page_event.splits findings_event.splits impact_event.splits coverage_event.splits users_event.splits)

lemma router_paths:
  "path_part home_redirect = ''/login''"
  "login_redirect scope loading authenticated = Some t \<Longrightarrow> path_part t = ''/login''"
  "handleSubmit env form s w = (form', Some t, s', w') \<Longrightarrow> path_part t = ''/findings''"
  "logout_click env s w = (Some t, s', w') \<Longrightarrow> path_part t = ''/login''"
  by (auto simp: home_redirect_def login_redirect_def handleSubmit_def logout_click_def Let_def path_part_def
      split: if_splits prod.splits sum.splits)

text \<open>
  C24. No navigation ends outside the application, and none leads a user into the administration of the
  tenant who may not administer it: whatever the pages show and whoever calls the router, be it
  the start page, a guard, signing in or out, a button, a link, a filter, a search or a pager, the
  browser is sent to the path of a page of the application, and that is \<open>/tenant-admin\<close> only from a
  page shown to a user with \<open>admin:full\<close>.
\<close>

theorem no_dead_links:
  assumes "navigates env host user t"
  shows "path_part t \<in> set app_paths \<and> (path_part t = ''/tenant-admin'' \<longrightarrow> has_permission user ''admin:full'')"
proof -
  have own: "ok_path u ''/login''" "ok_path u ''/findings''" "ok_path u ''/recommendations''" "ok_path u ''/remediations''"
    "ok_path u ''/coverage''" "ok_path u ''/users''" for u
    by (simp_all add: ok_path_def app_paths_def all_routes_def)
  have to: "ok_path u (path_part t)" if "leads (ok_path u) v" "raises v e" "e = Go t \<or> path_part t = path" "ok_path u path"
    for u v e path
    using that ok_path_part by (auto simp: leads_def)
  from assms have "ok_path user (path_part t)"
  proof cases
    case home then show ?thesis using own by (simp add: router_paths)
  next
    case guard then show ?thesis using own by (simp add: router_paths)
  next
    case signed_in then show ?thesis using own by (simp add: router_paths)
  next
    case signed_out then show ?thesis using own by (simp add: router_paths)
  next
    case dashboard
    show ?thesis unfolding dashboard(1) by (rule to [OF leads_dashboard dashboard(2) disjI1 [OF page_pushes_path(6) [OF dashboard(3)]] own(1)])
  next
    case findings
    show ?thesis unfolding findings(1) by (rule to [OF leads_findings findings(2) page_pushes_path(1) [OF findings(3)] own(2)])
  next
    case recommendations
    show ?thesis unfolding recommendations(1) by (rule to [OF leads_recommendations recommendations(2) page_pushes_path(2) [OF recommendations(3)] own(3)])
  next
    case remediations
    show ?thesis unfolding remediations(1) by (rule to [OF leads_impact remediations(2) page_pushes_path(3) [OF remediations(3)] own(4)])
  next
    case coverage
    show ?thesis unfolding coverage(1) by (rule to [OF leads_coverage coverage(2) page_pushes_path(4) [OF coverage(3)] own(5)])
  next
    case users
    show ?thesis unfolding users(1) by (rule to [OF leads_users users(2) page_pushes_path(5) [OF users(3)] own(6)])
  next
    case tenant_admin
    show ?thesis unfolding tenant_admin(1) by (rule to [OF leads_tenant tenant_admin(2) disjI1 [OF page_pushes_path(6) [OF tenant_admin(3)]] own(1)])
  qed
  then show ?thesis by (simp add: ok_path_def)
qed

text \<open>A button of the tenant administration and a search of users.\<close>

theorem no_dead_links_witness:
  "navigates sample_env sample_host (tp_user sample_tenant_page) ''/users'' \<and> path_part ''/users'' \<in> set app_paths
    \<and> navigates sample_env sample_host admin_user (submit_users_search sample_users_page (users_initial sample_users_page))
    \<and> path_part (submit_users_search sample_users_page (users_initial sample_users_page)) \<in> set app_paths"
proof -
  have "raises (TenantAdminClientPage sample_host sample_tenant_page editing_state) (Go ''/users'')"
    by (simp add: TenantAdminClientPage_def tenant_header_def)
  from navigates.tenant_admin [OF this, of "''/users''" sample_env]
  have a: "navigates sample_env sample_host (tp_user sample_tenant_page) ''/users''" by (simp add: plain_pushes_def)
  have "raises (UsersClientPage sample_host sample_users_page (users_initial sample_users_page) empty_form) (Own SubmitUsersSearch)"
    by (simp add: UsersClientPage_def users_toolbar_def Let_def)
  from navigates.users [OF this, of _ sample_env]
  have b: "navigates sample_env sample_host admin_user (submit_users_search sample_users_page (users_initial sample_users_page))"
    by (simp add: users_pushes_def)
  show ?thesis using a b no_dead_links [OF a] no_dead_links [OF b] by blast
qed

end
