(* ===== verification/QueryKeys.thy ===== *)
theory QueryKeys
  imports Auth FindingsHooks CoverageHooks KpiHooks ListHooks AdminHooks
begin

text \<open>
  All queries of the frontend share one cache.  This theory puts the hooks side by side: two
  queries end up in one entry of the cache only when they are the same query, that is when they
  have the same scope and would send the same request and treat the answer in the same way.
\<close>

datatype app_query =
    QAuth
  | QFindings findings_options
  | QGrouped findings_options
  | QFindingGraph "string option" num
  | QRunGraph "string option" num
  | QRunsLatest
  | QCoverageLatest
  | QCheckers coverage_filters
  | QIssues coverage_filters
  | QServices coverage_filters
  | QAccounts coverage_filters
  | QHistory coverage_filters
  | QRegressions
  | QKpis
  | QRecommendations recommendations_options
  | QRemediation remediation_options
  | QUsers users_options
  | QUserRole "string option"
  | QRoles
  | QWorkspaces
  | QBindings
  | QAudit audit_options
  | QDirectory directory_options

fun app_hook :: "browser \<Rightarrow> app_query \<Rightarrow> 'w query_options" where
  "app_hook b QAuth = useAuth_query b"
| "app_hook b (QFindings opts) = useFindings b opts"
| "app_hook b (QGrouped opts) = useFindingsGroupedCategory b opts"
| "app_hook b (QFindingGraph fp n) = useFindingGraphContext b fp True n"
| "app_hook b (QRunGraph key n) = useRunGraphContextLatest b key True n"
| "app_hook b QRunsLatest = useRunsLatest b True"
| "app_hook b QCoverageLatest = useRunCoverageLatest b True"
| "app_hook b (QCheckers fs) = useRunCoverageCheckers b fs True"
| "app_hook b (QIssues fs) = useRunCoverageIssues b fs True"
| "app_hook b (QServices fs) = useRunCoverageServices b fs True"
| "app_hook b (QAccounts fs) = useRunCoverageAccounts b fs True"
| "app_hook b (QHistory fs) = useRunCoverageHistory b fs True"
| "app_hook b QRegressions = useRunCoverageRegressionLatest b True"
| "app_hook b QKpis = useInitialValueKpis b True"
| "app_hook b (QRecommendations opts) = useRecommendations b opts"
| "app_hook b (QRemediation opts) = useRemediationImpact b opts"
| "app_hook b (QUsers opts) = useUsers b opts"
| "app_hook b (QUserRole uid) = useUserRole b uid True"
| "app_hook b QRoles = useRolesCatalog b True"
| "app_hook b QWorkspaces = useTenantWorkspaces b True"
| "app_hook b QBindings = useTenantRoleBindings b True"
| "app_hook b (QAudit opts) = useTenantAdminAudit b opts True"
| "app_hook b (QDirectory opts) = useTenantDirectory b opts True"

section \<open>What a request says\<close>

text \<open>The query string of a request depends on the texts of the values that are not left out.\<close>

definition sent_text :: "jsval \<Rightarrow> string option" where
  "sent_text v = (if skipped_value v then None else Some (to_str v))"

definition sent :: "jsval props \<Rightarrow> (string \<times> string option) list" where
  "sent q = map (\<lambda>(k, v). (k, sent_text v)) q"

lemma add_query_sent: "sent q = sent q' \<Longrightarrow> add_query q u = add_query q' u"
proof (induction q u arbitrary: q' rule: add_query.induct)
  case (2 k v rest u)
  then obtain v' rest' where q': "q' = (k, v') # rest'" "sent_text v = sent_text v'" "sent rest = sent rest'"
    by (cases q') (auto simp: sent_def)
  with 2 show ?case by (auto simp: sent_text_def split: if_splits)
qed (simp add: sent_def)

lemma sent_keys: "sent q = sent q' \<Longrightarrow> map fst q = map fst q'"
proof -
  assume "sent q = sent q'"
  then have "map fst (sent q) = map fst (sent q')" by simp
  then show ?thesis by (simp add: sent_def comp_def case_prod_unfold)
qed

definition unscoped :: "jsval props \<Rightarrow> bool" where
  "unscoped q \<longleftrightarrow> list_all (\<lambda>k. k \<noteq> ''tenant_id'' \<and> k \<noteq> ''workspace'') (map fst q)"

lemma scopedQuery_append:
  assumes "unscoped q"
  shows "scopedQuery scope (Some q) =
    q @ [(''tenant_id'', js_string_or_undef (map_option scope_tenantId scope)),
         (''workspace'', js_string_or_undef (map_option scope_workspace scope))]"
proof -
  have n: "''tenant_id'' \<notin> fst ` set q" "''workspace'' \<notin> fst ` set q"
    using assms by (auto simp: unscoped_def list_all_iff)
  then have "get (JObj q) ''tenant_id'' = JUndef" "get (JObj q) ''workspace'' = JUndef"
    by (simp_all add: map_of_eq_None_iff [symmetric])
  with n show ?thesis
    by (simp add: scopedQuery_def put_fresh del: get_JObj)
qed

lemma sent_append [simp]: "sent (q @ r) = sent q @ sent r"
  by (simp add: sent_def)

lemma api_get_sent:
  assumes "sent q = sent q'" and "unscoped q"
  shows "api_get env b path (Some q) w = api_get env b path (Some q') w"
proof -
  have u: "unscoped q'" using assms sent_keys [OF assms(1)] by (simp add: unscoped_def)
  have "sent (scopedQuery (getStoredScope b) (Some q)) = sent (scopedQuery (getStoredScope b) (Some q'))"
    using assms by (simp add: scopedQuery_append [OF assms(2)] scopedQuery_append [OF u])
  then have "add_query (scopedQuery (getStoredScope b) (Some q)) = add_query (scopedQuery (getStoredScope b) (Some q'))"
    by (intro ext add_query_sent)
  then have "buildUrl env path (scopedQuery (getStoredScope b) (Some q)) =
      buildUrl env path (scopedQuery (getStoredScope b) (Some q'))"
    by (simp only: buildUrl_def)
  moreover have "request_init (no_options\<lparr>opt_query := Some q, opt_method := Some ''GET''\<rparr>) =
      request_init (no_options\<lparr>opt_query := Some q', opt_method := Some ''GET''\<rparr>)"
    by (simp add: request_init_def no_options_def)
  ultimately show ?thesis
    by (simp add: api_get_def request_def Let_def split: sum.split)
qed

text \<open>A missing parameter and an empty text are sent alike.\<close>

lemma sent_text_simps [simp]:
  "sent_text (js_string_or_undef s) = sent_text (JStr (orelse s []))"
  "sent_text (text_or_undef s) = sent_text (JStr (orelse s []))"
  by (auto simp: sent_text_def skipped_value_def js_string_or_undef_def text_or_undef_def js_or_def
      split: option.splits)

lemma layout_digits_not_Nil: "ds \<noteq> [] \<Longrightarrow> layout_digits ds n \<noteq> []"
  by (cases ds) (auto simp: layout_digits_def Let_def)

lemma num_to_string_not_Nil: "num_to_string x \<noteq> []"
  by (cases x) (auto simp: num_to_string_def rat_to_string_def Let_def layout_digits_not_Nil split: prod.splits)

lemma sent_min_savings [simp]:
  "sent_text (case m of None \<Rightarrow> JNull | Some x \<Rightarrow> JNum x) = sent_text (JStr (min_savings_text m))"
  by (auto simp: sent_text_def skipped_value_def min_savings_text_def num_to_string_not_Nil split: option.splits)

section \<open>The keys\<close>

lemmas hook_defs = useAuth_query_def useFindings_def useFindingsGroupedCategory_def useFindingGraphContext_def
  useRunGraphContextLatest_def useRunsLatest_def useRunCoverageLatest_def useRunCoverageCheckers_def
  useRunCoverageIssues_def useRunCoverageServices_def useRunCoverageAccounts_def useRunCoverageHistory_def
  useRunCoverageRegressionLatest_def useInitialValueKpis_def useRecommendations_def useRemediationImpact_def
  useUsers_def useUserRole_def useRolesCatalog_def useTenantWorkspaces_def useTenantRoleBindings_def
  useTenantAdminAudit_def useTenantDirectory_def

lemmas key_defs = authQueryKey_def findingsQueryKey_def groupedFindingsCategoryQueryKey_def findingGraphQueryKey_def
  graphContextQueryKey_def recommendationsQueryKey_def remediationImpactQueryKey_def usersQueryKey_def
  userRoleQueryKey_def rolesCatalogQueryKey_def workspacesQueryKey_def bindingsQueryKey_def auditQueryKey_def
  directoryQueryKey_def

text \<open>A number that distinguishes the hooks by the shape of their keys alone.\<close>

definition shape :: "query_key \<Rightarrow> nat \<times> jsval \<times> jsval \<times> jsval" where
  "shape key =
     (length key, key ! 0,
      if key ! 0 \<in> {JStr ''runs'', JStr ''tenant-admin''} then key ! 1 else JNull,
      if length key = 13 then key ! 3 else JNull)"

fun hook_shape :: "app_query \<Rightarrow> nat \<times> jsval \<times> jsval \<times> jsval" where
  "hook_shape QAuth = (4, JStr ''auth'', JNull, JNull)"
| "hook_shape (QFindings _) = (9, JStr ''findings'', JNull, JNull)"
| "hook_shape (QGrouped _) = (11, JStr ''findings'', JNull, JNull)"
| "hook_shape (QFindingGraph _ _) = (6, JStr ''findings'', JNull, JNull)"
| "hook_shape (QRunGraph _ _) = (8, JStr ''runs'', JStr ''latest'', JNull)"
| "hook_shape QRunsLatest = (4, JStr ''runs'', JStr ''latest'', JNull)"
| "hook_shape QCoverageLatest = (5, JStr ''runs'', JStr ''latest'', JNull)"
| "hook_shape (QCheckers _) = (13, JStr ''runs'', JStr ''latest'', JStr ''checkers'')"
| "hook_shape (QIssues _) = (13, JStr ''runs'', JStr ''latest'', JStr ''issues'')"
| "hook_shape (QServices _) = (9, JStr ''runs'', JStr ''latest'', JNull)"
| "hook_shape (QAccounts _) = (10, JStr ''runs'', JStr ''latest'', JNull)"
| "hook_shape (QHistory _) = (9, JStr ''runs'', JStr ''coverage'', JNull)"
| "hook_shape QRegressions = (6, JStr ''runs'', JStr ''coverage'', JNull)"
| "hook_shape QKpis = (4, JStr ''kpis'', JNull, JNull)"
| "hook_shape (QRecommendations _) = (12, JStr ''recommendations'', JNull, JNull)"
| "hook_shape (QRemediation _) = (10, JStr ''remediation-impact'', JNull, JNull)"
| "hook_shape (QUsers _) = (7, JStr ''users'', JNull, JNull)"
| "hook_shape (QUserRole _) = (5, JStr ''users'', JNull, JNull)"
| "hook_shape QRoles = (4, JStr ''users'', JNull, JNull)"
| "hook_shape QWorkspaces = (4, JStr ''tenant-admin'', JStr ''workspaces'', JNull)"
| "hook_shape QBindings = (4, JStr ''tenant-admin'', JStr ''role-bindings'', JNull)"
| "hook_shape (QAudit _) = (10, JStr ''tenant-admin'', JStr ''audit'', JNull)"
| "hook_shape (QDirectory _) = (8, JStr ''tenant-admin'', JStr ''users'', JNull)"

lemma shape_app_hook: "shape (qo_key (app_hook b q)) = hook_shape q"
  by (cases q) (simp_all add: hook_defs key_defs shape_def Let_def nth_Cons' numeral_eq_Suc)

lemma scope_of_keys [simp]:
  "key_tenant (Some sc) = key_tenant (Some sc') \<longleftrightarrow> scope_tenantId sc = scope_tenantId sc'"
  "key_workspace (Some sc) = key_workspace (Some sc') \<longleftrightarrow> scope_workspace sc = scope_workspace sc'"
  by simp_all

lemma unscoped_simps [simp]:
  "unscoped []" "unscoped ((k, v) # q) \<longleftrightarrow> k \<noteq> ''tenant_id'' \<and> k \<noteq> ''workspace'' \<and> unscoped q"
  by (simp_all add: unscoped_def)

lemma sent_Cons [simp]: "sent [] = []" "sent ((k, v) # q) = (k, sent_text v) # sent q"
  by (simp_all add: sent_def)

inductive same_hook :: "app_query \<Rightarrow> app_query \<Rightarrow> bool" where
  "same_hook QAuth QAuth"
| "same_hook (QFindings x0) (QFindings y0)"
| "same_hook (QGrouped x0) (QGrouped y0)"
| "same_hook (QFindingGraph x0 x1) (QFindingGraph y0 y1)"
| "same_hook (QRunGraph x0 x1) (QRunGraph y0 y1)"
| "same_hook QRunsLatest QRunsLatest"
| "same_hook QCoverageLatest QCoverageLatest"
| "same_hook (QCheckers x0) (QCheckers y0)"
| "same_hook (QIssues x0) (QIssues y0)"
| "same_hook (QServices x0) (QServices y0)"
| "same_hook (QAccounts x0) (QAccounts y0)"
| "same_hook (QHistory x0) (QHistory y0)"
| "same_hook QRegressions QRegressions"
| "same_hook QKpis QKpis"
| "same_hook (QRecommendations x0) (QRecommendations y0)"
| "same_hook (QRemediation x0) (QRemediation y0)"
| "same_hook (QUsers x0) (QUsers y0)"
| "same_hook (QUserRole x0) (QUserRole y0)"
| "same_hook QRoles QRoles"
| "same_hook QWorkspaces QWorkspaces"
| "same_hook QBindings QBindings"
| "same_hook (QAudit x0) (QAudit y0)"
| "same_hook (QDirectory x0) (QDirectory y0)"

lemma hook_shape_same: "hook_shape q = hook_shape q' \<Longrightarrow> same_hook q q'"
  by (cases q; cases q'; simp add: same_hook.intros)

text \<open>Requests that say the same are the same, also inside the hooks.\<close>

lemma query_fn_congs:
  assumes "sent q = sent q'" and "unscoped q"
  shows "(\<lambda>env b. api_get env b p (Some q)) = (\<lambda>env b. api_get env b p (Some q'))"
    and "(\<lambda>env b w. forbidden_null (api_get env b p (Some q) w)) = (\<lambda>env b w. forbidden_null (api_get env b p (Some q') w))"
    and "(\<lambda>env b w. forbidden_null (then_out (api_get env b p (Some q) w) f)) =
         (\<lambda>env b w. forbidden_null (then_out (api_get env b p (Some q') w) f))"
  by (simp_all add: fun_eq_iff api_get_sent [OF assms])

lemma js_string_or_null_inject [simp]: "js_string_or_null s = js_string_or_null t \<longleftrightarrow> s = t"
  by (cases s; cases t) (auto simp: js_string_or_null_def)

lemma enabled_text_eq:
  "truthy (js_string_or_null s) \<Longrightarrow> truthy (js_string_or_null t) \<Longrightarrow> orelse s [] = orelse t [] \<Longrightarrow> s = t"
  by (cases s; cases t) (auto simp: js_string_or_null_def)

lemma same_query:
  assumes "qo_key (app_hook b q) = qo_key (app_hook b' q')"
    and "getStoredScope b = Some sc" and "getStoredScope b' = Some sc'"
    and "qo_enabled (app_hook b q)" and "qo_enabled (app_hook b' q')"
  shows "sc = sc' \<and> qo_fn (app_hook b q) = qo_fn (app_hook b' q')"
proof -
  have "hook_shape q = hook_shape q'" using assms(1) shape_app_hook by metis
  then have "same_hook q q'" by (rule hook_shape_same)
  then show ?thesis
    using assms
    by cases (auto simp: hook_defs key_defs Let_def findings_query_def intro!: query_fn_congs
        dest: enabled_text_eq)
qed

text \<open>
  C2. The shared cache never mixes up queries or tenants: two enabled queries of the frontend, in
  whatever sessions they are made, are stored under the same hash only when they have the same
  tenant and workspace and, in any environment, would send the same request and do the same with
  the answer.  (The numbers in their keys are whole numbers up to 2 to the 53.)
\<close>

theorem cache_never_mixes_queries:
  fixes h h' :: "'w query_options"
  assumes "h = app_hook b q" and "h' = app_hook b' q'"
    and "getStoredScope b = Some sc" and "getStoredScope b' = Some sc'"
    and "qo_enabled h" and "qo_enabled h'"
    and "plain_key (qo_key h)" and "plain_key (qo_key h')"
    and "hashKey (qo_key h) = hashKey (qo_key h')"
  shows "sc = sc' \<and> qo_fn h = qo_fn h'"
  using assms same_query [OF _ assms(3,4), of q q'] hashKey_inject [OF assms(7,8)] by simp

text \<open>The same first page of findings, asked for with and without the default limit.\<close>

definition first_page :: "num option \<Rightarrow> findings_options" where
  "first_page limit = \<lparr>fo_limit = limit, fo_offset = None, fo_state = None, fo_severity = None, fo_q = None,
     fo_order = None, fo_enabled = None\<rparr>"

theorem cache_never_mixes_queries_witness:
  "qo_fn (app_hook sample_browser (QFindings (first_page None)) :: unit query_options) =
   qo_fn (app_hook sample_browser (QFindings (first_page (Some (Fin 50)))))"
proof -
  let ?h = "app_hook sample_browser (QFindings (first_page None)) :: unit query_options"
  let ?h' = "app_hook sample_browser (QFindings (first_page (Some (Fin 50)))) :: unit query_options"
  have k: "qo_key ?h = qo_key ?h'" "qo_enabled ?h" "qo_enabled ?h'" "plain_key (qo_key ?h)" "plain_key (qo_key ?h')"
    by (simp_all add: useFindings_def findingsQueryKey_def first_page_def Let_def sample_scope scope_ready_def)
  from cache_never_mixes_queries [OF refl refl sample_scope sample_scope k(2-5)] k(1) show ?thesis by simp
qed

end
