(* ===== verification/Retryer.thy ===== *)
theory Retryer
  imports QueryHooks
begin

text \<open>
  How often a read is tried: the query client of \<open>components/providers/query-provider.tsx\<close> with its
  defaults, and the retryer of \<open>@tanstack/query-core\<close> that runs the function of a query, waits
  after a failure and runs it again.  A retryer is asleep between two attempts; the length of the
  pause (one second after the first failure) and the pause while the page is offline or in the
  background are parts of the same sleep.
\<close>

section \<open>The query client\<close>

text \<open>The defaults of the client: one retry, and no refetch when the window gets the focus.\<close>

datatype retry_option =
    RetryBool bool
  | RetryCount nat

record client_defaults =
  cd_retry :: retry_option
  cd_refetchOnWindowFocus :: bool

definition QueryProvider_defaults :: client_defaults where
  "QueryProvider_defaults = \<lparr>cd_retry = RetryCount 1, cd_refetchOnWindowFocus = False\<rparr>"

text \<open>\<open>{...defaults, ...options}\<close>: what the hook says about retrying goes before the default.\<close>

definition defaulted_retry :: "'w query_options \<Rightarrow> retry_option" where
  "defaulted_retry q =
     (case qo_retry q of None \<Rightarrow> cd_retry QueryProvider_defaults | Some b \<Rightarrow> RetryBool b)"

section \<open>The retryer\<close>

text \<open>\<open>failureCount\<close> counts the attempts that failed before the one that is judged now.\<close>

fun shouldRetry :: "retry_option \<Rightarrow> nat \<Rightarrow> bool" where
  "shouldRetry (RetryBool b) failureCount = b"
| "shouldRetry (RetryCount n) failureCount = (failureCount < n)"

record 'c retryer =
  rt_retry :: retry_option
  rt_failureCount :: nat
  rt_isRetryCancelled :: bool
  rt_call :: 'c
  rt_asleep :: "thrown option"

definition createRetryer :: "retry_option \<Rightarrow> 'c \<Rightarrow> 'c retryer" where
  "createRetryer retry call =
     \<lparr>rt_retry = retry, rt_failureCount = 0, rt_isRetryCancelled = False, rt_call = call, rt_asleep = None\<rparr>"

definition cancelRetry :: "'c retryer \<Rightarrow> 'c retryer" where
  "cancelRetry rt = rt\<lparr>rt_isRetryCancelled := True\<rparr>"

definition continueRetry :: "'c retryer \<Rightarrow> 'c retryer" where
  "continueRetry rt = rt\<lparr>rt_isRetryCancelled := False\<rparr>"

text \<open>
  The answer of an attempt, and the end of a sleep: either the retryer settles with an outcome, or
  it goes on.  The call of the next attempt is made when the sleep ends.
\<close>

definition rt_answered :: "jsval outcome \<Rightarrow> 'c retryer \<Rightarrow> jsval outcome + 'c retryer" where
  "rt_answered r rt =
     (case r of
        Inr d \<Rightarrow> Inl (Inr d)
      | Inl e \<Rightarrow>
          if rt_isRetryCancelled rt \<or> \<not> shouldRetry (rt_retry rt) (rt_failureCount rt) then Inl (Inl e)
          else Inr (rt\<lparr>rt_failureCount := rt_failureCount rt + 1, rt_asleep := Some e\<rparr>))"

definition rt_awake :: "'c \<Rightarrow> 'c retryer \<Rightarrow> jsval outcome + 'c retryer" where
  "rt_awake call rt =
     (case rt_asleep rt of
        None \<Rightarrow> Inr rt
      | Some e \<Rightarrow> if rt_isRetryCancelled rt then Inl (Inl e) else Inr (rt\<lparr>rt_call := call, rt_asleep := None\<rparr>))"

text \<open>A retryer nobody interferes with, on the answers its attempts get one after the other.\<close>

fun attempts :: "jsval outcome list \<Rightarrow> 'c retryer \<Rightarrow> jsval outcome option" where
  "attempts [] rt = None"
| "attempts (r # rs) rt =
     (case rt_answered r rt of
        Inl out \<Rightarrow> Some out
      | Inr rt1 \<Rightarrow> (case rt_awake (rt_call rt1) rt1 of Inl out \<Rightarrow> Some out | Inr rt2 \<Rightarrow> attempts rs rt2))"

section \<open>What a retryer does\<close>

lemma rt_answered_simps [simp]:
  "rt_answered (Inr d) rt = Inl (Inr d)"
  "rt_answered (Inl e) rt =
     (if rt_isRetryCancelled rt \<or> \<not> shouldRetry (rt_retry rt) (rt_failureCount rt) then Inl (Inl e)
      else Inr (rt\<lparr>rt_failureCount := rt_failureCount rt + 1, rt_asleep := Some e\<rparr>))"
  by (simp_all add: rt_answered_def)

lemma createRetryer_sel [simp]:
  "rt_retry (createRetryer retry call) = retry" "rt_failureCount (createRetryer retry call) = 0"
  "\<not> rt_isRetryCancelled (createRetryer retry call)" "rt_call (createRetryer retry call) = call"
  "rt_asleep (createRetryer retry call) = None"
  by (simp_all add: createRetryer_def)

lemma cancelRetry_sel [simp]:
  "rt_retry (cancelRetry rt) = rt_retry rt" "rt_failureCount (cancelRetry rt) = rt_failureCount rt"
  "rt_isRetryCancelled (cancelRetry rt)" "rt_call (cancelRetry rt) = rt_call rt" "rt_asleep (cancelRetry rt) = rt_asleep rt"
  by (simp_all add: cancelRetry_def)

lemma continueRetry_sel [simp]:
  "rt_retry (continueRetry rt) = rt_retry rt" "rt_failureCount (continueRetry rt) = rt_failureCount rt"
  "\<not> rt_isRetryCancelled (continueRetry rt)" "rt_call (continueRetry rt) = rt_call rt"
  "rt_asleep (continueRetry rt) = rt_asleep rt"
  by (simp_all add: continueRetry_def)

text \<open>Going on is going to sleep after an answer, and making the next call after a sleep.\<close>

lemma rt_answered_on:
  "rt_answered r rt = Inr rt' \<longleftrightarrow>
     (\<exists>e. r = Inl e \<and> \<not> rt_isRetryCancelled rt \<and> shouldRetry (rt_retry rt) (rt_failureCount rt)
        \<and> rt' = rt\<lparr>rt_failureCount := rt_failureCount rt + 1, rt_asleep := Some e\<rparr>)"
  by (cases r) auto

lemma rt_awake_on:
  "rt_asleep rt = Some e \<Longrightarrow>
     rt_awake call rt = Inr rt' \<longleftrightarrow> \<not> rt_isRetryCancelled rt \<and> rt' = rt\<lparr>rt_call := call, rt_asleep := None\<rparr>"
  by (auto simp: rt_awake_def)

lemma rt_settles:
  "rt_answered r rt = Inl out \<Longrightarrow> out = r"
  "rt_awake call rt = Inl out \<Longrightarrow> \<exists>e. out = Inl e \<and> rt_asleep rt = Some e \<and> rt_isRetryCancelled rt"
  by (auto simp: rt_answered_def rt_awake_def split: sum.splits if_splits option.splits)

text \<open>
  A lone retryer with \<open>n\<close> retries takes the first success of its first \<open>n + 1\<close> answers, and the
  last error when there is none.
\<close>

fun first_success :: "nat \<Rightarrow> jsval outcome list \<Rightarrow> jsval outcome option" where
  "first_success n [] = None"
| "first_success n (r # rs) =
     (case r of Inr d \<Rightarrow> Some r | Inl e \<Rightarrow> if n = 0 then Some r else first_success (n - 1) rs)"

lemma attempts_count:
  "\<not> rt_isRetryCancelled rt \<Longrightarrow> rt_retry rt = RetryCount n \<Longrightarrow> rt_failureCount rt \<le> n \<Longrightarrow>
     attempts rs rt = first_success (n - rt_failureCount rt) rs"
proof (induction rs arbitrary: rt)
  case (Cons r rs)
  then show ?case
    by (cases r) (auto simp: rt_awake_def Cons.IH)
qed simp

lemma attempts_never:
  "\<not> rt_isRetryCancelled rt \<Longrightarrow> rt_retry rt = RetryBool False \<Longrightarrow> attempts rs rt = first_success 0 rs"
  by (cases rs; cases "hd rs") auto

end
