(* ===== verification/App.thy ===== *)
theory App
  imports QueryKeys Retryer FindingsPage
begin

text \<open>
  The running application: one browser tab with its session storage, the shared query cache, the
  hooks of the components on the screen, the reads in flight with their retryers, and the lifecycle
  actions in flight.  The steps are what may happen next, in any order: the screen is rendered, a
  read starts, is answered, fails or is tried again, the code invalidates, cancels or writes
  queries, somebody signs in or out.

  The keys of the queries are made when the screen is rendered; the requests read the stored scope
  when they are made, which may be later.  The log remembers every answer and the call it answers; it
  is not part of the program.
\<close>

section \<open>The hooks on the screen\<close>

definition hook_key :: "browser \<Rightarrow> app_query \<Rightarrow> query_key" where
  "hook_key b a = qo_key (app_hook b a :: unit query_options)"

definition hook_hash :: "browser \<Rightarrow> app_query \<Rightarrow> string" where
  "hook_hash b a = hashKey (hook_key b a)"

text \<open>A component that mounts a hook may also disable it.\<close>

type_synonym mounted_hook = "app_query \<times> bool"

definition hook_enabled :: "browser \<Rightarrow> mounted_hook \<Rightarrow> bool" where
  "hook_enabled b m \<longleftrightarrow> snd m \<and> qo_enabled (app_hook b (fst m) :: unit query_options)"

definition hook_retry :: "browser \<Rightarrow> app_query \<Rightarrow> retry_option" where
  "hook_retry b a = defaulted_retry (app_hook b a :: unit query_options)"

text \<open>
  The screens: the login page, a page with the hooks it mounts, and the findings page, whose two
  list queries follow the parameters of the address.
\<close>

datatype screen =
    SignIn
  | Page "mounted_hook list"
  | FindingsScreen search_params "mounted_hook list"

definition list_hooks :: "search_params \<Rightarrow> mounted_hook list" where
  "list_hooks sp =
     [(QFindings (list_options sp (groupByFilter sp \<noteq> ''category'')), True),
      (QGrouped (list_options sp (groupByFilter sp = ''category'')), True)]"

fun mounted :: "screen \<Rightarrow> mounted_hook list" where
  "mounted SignIn = [(QAuth, True)]"
| "mounted (Page ms) = ms"
| "mounted (FindingsScreen sp ms) = list_hooks sp @ ms"

text \<open>The hook whose list the lifecycle actions of the findings page work on.\<close>

definition list_hook :: "search_params \<Rightarrow> app_query" where
  "list_hook sp = fst (list_hooks sp ! (if groupByFilter sp = ''category'' then 1 else 0))"

section \<open>The state\<close>

text \<open>A call of a query function: its hook, the render that made it, and the browser when it is called.\<close>

record call =
  call_query :: app_query
  call_rendered :: browser
  call_browser :: browser

definition call_hash :: "call \<Rightarrow> string" where
  "call_hash c = hook_hash (call_rendered c) (call_query c)"

definition run_call :: "'w api_env \<Rightarrow> call \<Rightarrow> 'w \<Rightarrow> jsval outcome \<times> 'w" where
  "run_call env c w = qo_fn (app_hook (call_rendered c) (call_query c)) env (call_browser c) w"

text \<open>
  A lifecycle action: the render and the key of the list it was started on, the key of the last
  render of its page, whether the page is still on the screen, and the snapshot once it is taken.
\<close>

record pending_action =
  pa_input :: lifecycle_input
  pa_rendered :: browser
  pa_key :: query_key
  pa_latest :: query_key
  pa_attached :: bool
  pa_previous :: "jsval option"

record app = session +
  app_rendered :: browser
  app_screen :: screen
  app_fetches :: "string \<Rightarrow> call retryer option"
  app_actions :: "pending_action list"
  app_log :: "(call \<times> jsval outcome) list"

definition app_start :: "browser \<Rightarrow> app" where
  "app_start b =
     \<lparr>ses_browser = b, ses_cache = [], app_rendered = b, app_screen = Page [], app_fetches = Map.empty,
      app_actions = [], app_log = []\<rparr>"

section \<open>Rendering\<close>

text \<open>The observers of a query: one for each hook on the screen that has its key.\<close>

definition observers_of :: "browser \<Rightarrow> mounted_hook list \<Rightarrow> string \<Rightarrow> bool list" where
  "observers_of b ms h = map (hook_enabled b) (filter (\<lambda>m. hook_hash b (fst m) = h) ms)"

definition observe_screen :: "browser \<Rightarrow> mounted_hook list \<Rightarrow> cache \<Rightarrow> cache" where
  "observe_screen b ms c =
     map (\<lambda>(h, q). (h, q\<lparr>q_observers := observers_of b ms h\<rparr>)) (fold (\<lambda>m. build (hook_key b (fst m))) ms c)"

text \<open>\<open>removeObserver\<close>: a fetch that lost its last observer is not retried.\<close>

definition leave_fetches ::
    "browser \<Rightarrow> mounted_hook list \<Rightarrow> (string \<Rightarrow> 'c retryer option) \<Rightarrow> string \<Rightarrow> 'c retryer option" where
  "leave_fetches b ms fs h = (if observers_of b ms h = [] then map_option cancelRetry (fs h) else fs h)"

text \<open>\<open>setOptions\<close> of a pending mutation, as long as its page is rendered.\<close>

definition rerender_action :: "browser \<Rightarrow> screen \<Rightarrow> pending_action \<Rightarrow> pending_action" where
  "rerender_action b scr pa =
     (case scr of
        FindingsScreen sp _ \<Rightarrow> if pa_attached pa then pa\<lparr>pa_latest := lifecycleQueryKey b sp\<rparr> else pa
      | _ \<Rightarrow> pa\<lparr>pa_attached := False\<rparr>)"

definition render_with :: "browser \<Rightarrow> screen \<Rightarrow> app \<Rightarrow> app" where
  "render_with b scr s =
     s\<lparr>ses_cache := observe_screen b (mounted scr) (ses_cache s),
       app_rendered := b,
       app_screen := scr,
       app_fetches := leave_fetches b (mounted scr) (app_fetches s),
       app_actions := map (rerender_action b scr) (app_actions s)\<rparr>"

definition render :: "screen \<Rightarrow> app \<Rightarrow> app" where
  "render scr s = render_with (ses_browser s) scr s"

section \<open>Reading\<close>

definition new_call :: "app_query \<Rightarrow> app \<Rightarrow> call" where
  "new_call a s = \<lparr>call_query = a, call_rendered = app_rendered s, call_browser = ses_browser s\<rparr>"

definition new_fetch :: "app_query \<Rightarrow> app \<Rightarrow> call retryer" where
  "new_fetch a s = createRetryer (hook_retry (app_rendered s) a) (new_call a s)"

text \<open>
  \<open>fetch\<close> of an observer: at a mount or a change of its key, or by \<open>refetch()\<close>, which replaces a fetch
  in flight when there is data (\<open>cancelRefetch\<close>).  A query that was removed is built again.
\<close>

definition observed_build :: "app_query \<Rightarrow> app \<Rightarrow> cache" where
  "observed_build a s =
     (let k = hook_key (app_rendered s) a
      in if find_query k (ses_cache s) \<noteq> None then ses_cache s
         else on_query k (\<lambda>q. q\<lparr>q_observers := observers_of (app_rendered s) (mounted (app_screen s)) (hashKey k)\<rparr>)
                (build k (ses_cache s)))"

definition in_flight :: "bool \<Rightarrow> query \<Rightarrow> bool" where
  "in_flight cancelRefetch q \<longleftrightarrow> st_fetching (q_state q) \<and> (st_data (q_state q) = None \<or> \<not> cancelRefetch)"

definition start_fetch :: "bool \<Rightarrow> app_query \<Rightarrow> app \<Rightarrow> app" where
  "start_fetch cancelRefetch a s =
     (let k = hook_key (app_rendered s) a; c = observed_build a s; h = hashKey k
      in case find_query k c of
           None \<Rightarrow> s
         | Some q \<Rightarrow>
             if in_flight cancelRefetch q
             then s\<lparr>ses_cache := c, app_fetches := (app_fetches s)(h := map_option continueRetry (app_fetches s h))\<rparr>
             else s\<lparr>ses_cache := on_query k fetch_query c, app_fetches := (app_fetches s)(h \<mapsto> new_fetch a s)\<rparr>)"

text \<open>The answer \<open>r\<close> to the call of a fetch, and the end of a pause; a settled fetch tells its query.\<close>

definition settle_fetch :: "string \<Rightarrow> call \<Rightarrow> jsval outcome + call retryer \<Rightarrow> app \<Rightarrow> app" where
  "settle_fetch h c out s =
     (case out of
        Inl r \<Rightarrow> s\<lparr>ses_cache := settle_query (hook_key (call_rendered c) (call_query c)) r (ses_cache s),
                   app_fetches := (app_fetches s)(h := None)\<rparr>
      | Inr rt \<Rightarrow> s\<lparr>app_fetches := (app_fetches s)(h \<mapsto> rt)\<rparr>)"

definition answer_fetch :: "string \<Rightarrow> call retryer \<Rightarrow> jsval outcome \<Rightarrow> app \<Rightarrow> app" where
  "answer_fetch h rt r s =
     settle_fetch h (rt_call rt) (rt_answered r rt) (s\<lparr>app_log := (rt_call rt, r) # app_log s\<rparr>)"

definition wake_fetch :: "string \<Rightarrow> call retryer \<Rightarrow> app \<Rightarrow> app" where
  "wake_fetch h rt s =
     settle_fetch h (rt_call rt) (rt_awake ((rt_call rt)\<lparr>call_browser := ses_browser s\<rparr>) rt) s"

section \<open>Invalidating and cancelling\<close>

text \<open>The hook on the screen that a query on the screen is fetched with.\<close>

definition hook_at :: "app \<Rightarrow> string \<Rightarrow> app_query option" where
  "hook_at s h =
     map_option fst (find (\<lambda>m. hook_hash (app_rendered s) (fst m) = h \<and> hook_enabled (app_rendered s) m)
                       (mounted (app_screen s)))"

definition refetched :: "app \<Rightarrow> string \<Rightarrow> query \<Rightarrow> call retryer option" where
  "refetched s h q =
     (if \<not> isActive q then app_fetches s h
      else if in_flight True q then map_option continueRetry (app_fetches s h)
      else case hook_at s h of None \<Rightarrow> app_fetches s h | Some a \<Rightarrow> Some (new_fetch a s))"

definition invalidate_app :: "query_key \<Rightarrow> app \<Rightarrow> app" where
  "invalidate_app filters s =
     s\<lparr>ses_cache := invalidateQueries filters (ses_cache s),
       app_fetches := (\<lambda>h. case map_of (ses_cache s) h of
                             None \<Rightarrow> app_fetches s h
                           | Some q \<Rightarrow> if matches filters q then refetched s h q else app_fetches s h)\<rparr>"

definition cancel_app :: "query_key \<Rightarrow> app \<Rightarrow> app" where
  "cancel_app filters s =
     s\<lparr>ses_cache := cancelQueries filters (ses_cache s),
       app_fetches := (\<lambda>h. case map_of (ses_cache s) h of
                             None \<Rightarrow> app_fetches s h
                           | Some q \<Rightarrow> if matches filters q then None else app_fetches s h)\<rparr>"

section \<open>Lifecycle actions\<close>

definition begin_action :: "lifecycle_input \<Rightarrow> search_params \<Rightarrow> app \<Rightarrow> app" where
  "begin_action input sp s =
     (let k = lifecycleQueryKey (app_rendered s) sp
      in (cancel_app k s)\<lparr>app_actions :=
            app_actions s @ [\<lparr>pa_input = input, pa_rendered = app_rendered s, pa_key = k, pa_latest = k, pa_attached = True,
               pa_previous = None\<rparr>]\<rparr>)"

definition drop_action :: "nat \<Rightarrow> app \<Rightarrow> app" where
  "drop_action i s = s\<lparr>app_actions := take i (app_actions s) @ drop (Suc i) (app_actions s)\<rparr>"

definition end_action :: "nat \<Rightarrow> jsval \<Rightarrow> unit outcome \<Rightarrow> app \<Rightarrow> app" where
  "end_action i previous r s =
     (let k = pa_latest (app_actions s ! i)
      in drop_action i (invalidate_app k
           (s\<lparr>ses_cache := (case r of Inl _ \<Rightarrow> onError_rollback previous k (ses_cache s) | Inr _ \<Rightarrow> ses_cache s)\<rparr>)))"

definition write_action :: "nat \<Rightarrow> int \<Rightarrow> app \<Rightarrow> app" where
  "write_action i now s =
     (let pa = app_actions s ! i
      in case onMutate_write now (pa_input pa) (pa_key pa) (ses_cache s) of
           (Inl e, c) \<Rightarrow> end_action i JUndef (Inl e) (s\<lparr>ses_cache := c\<rparr>)
         | (Inr previous, c) \<Rightarrow>
             s\<lparr>ses_cache := c, app_actions := (app_actions s)[i := pa\<lparr>pa_previous := Some previous\<rparr>]\<rparr>)"

section \<open>Signing in and out\<close>

text \<open>
  \<open>login\<close> up to its request: the form is marked as submitting in the same event, so the login page is
  rendered again with the scope just stored.  A failure clears the scope and shows its message.
\<close>

definition sign_in :: "login_payload \<Rightarrow> app \<Rightarrow> app" where
  "sign_in payload s =
     render SignIn (s\<lparr>ses_browser := setStoredScope (tenant_scope.truncate payload) (ses_browser s)\<rparr>)"

definition sign_in_ok :: "app \<Rightarrow> app" where
  "sign_in_ok s = invalidate_app [JStr ''auth''] s"

definition sign_in_failed :: "app \<Rightarrow> app" where
  "sign_in_failed s =
     (let s' = s\<lparr>ses_browser := clearStoredScope (ses_browser s)\<rparr>
      in if app_screen s = SignIn then render SignIn s' else s')"

text \<open>The end of \<open>logout\<close>, however its request was answered; nothing is rendered by it.\<close>

definition signed_out :: "app \<Rightarrow> app" where
  "signed_out s =
     s\<lparr>ses_browser := clearStoredScope (ses_browser s), ses_cache := clear_cache (ses_cache s),
       app_fetches := Map.empty\<rparr>"

section \<open>Steps\<close>

text \<open>
  The keys of the hooks on the screen hold strings, booleans, null and whole numbers up to 2 to the
  53; without a scope the tenant and the workspace are missing.
\<close>

fun undef_null :: "jsval \<Rightarrow> jsval" where
  "undef_null JUndef = JNull"
| "undef_null v = v"

definition keyed :: "browser \<Rightarrow> app_query \<Rightarrow> bool" where
  "keyed b a \<longleftrightarrow>
     plain_key (if getStoredScope b = None then map undef_null (hook_key b a) else hook_key b a)"

text \<open>
  A render reads the stored scope.  A component that the React compiler has compiled may instead keep
  the scope of its earlier renders (\<open>kept\<close>): that differs from a new reading after a sign-out, until
  the page is left.
\<close>

inductive app_step :: "'w api_env \<Rightarrow> app \<Rightarrow> app \<Rightarrow> bool" for env s where
  rendered: "list_all (keyed (ses_browser s) \<circ> fst) (mounted scr) \<Longrightarrow> app_step env s (render scr s)"
| kept: "scr \<noteq> SignIn \<Longrightarrow> list_all (keyed (app_rendered s) \<circ> fst) (mounted scr) \<Longrightarrow>
    app_step env s (render_with (app_rendered s) scr s)"
| started: "m \<in> set (mounted (app_screen s)) \<Longrightarrow> hook_enabled (app_rendered s) m \<Longrightarrow>
    app_step env s (start_fetch cancelRefetch (fst m) s)"
| answered: "app_fetches s h = Some rt \<Longrightarrow> rt_asleep rt = None \<Longrightarrow> run_call env (rt_call rt) w = (r, w') \<Longrightarrow>
    app_step env s (answer_fetch h rt r s)"
| woken: "app_fetches s h = Some rt \<Longrightarrow> rt_asleep rt \<noteq> None \<Longrightarrow> app_step env s (wake_fetch h rt s)"
| invalidated: "app_step env s (invalidate_app filters s)"
| cancelled: "app_step env s (cancel_app filters s)"
| action_started: "app_screen s = FindingsScreen sp ms \<Longrightarrow> app_step env s (begin_action input sp s)"
| action_written: "i < length (app_actions s) \<Longrightarrow> pa_previous (app_actions s ! i) = None \<Longrightarrow>
    app_step env s (write_action i now s)"
| action_ended: "i < length (app_actions s) \<Longrightarrow> pa_previous (app_actions s ! i) = Some previous \<Longrightarrow>
    lifecycle_mutationFn env b now (pa_input (app_actions s ! i)) w = (r, w') \<Longrightarrow>
    app_step env s (end_action i previous r s)"
| signing_in: "app_screen s = SignIn \<Longrightarrow>
    list_all (keyed (setStoredScope (tenant_scope.truncate payload) (ses_browser s)) \<circ> fst) (mounted SignIn) \<Longrightarrow>
    app_step env s (sign_in payload s)"
| signed_in: "app_step env s (sign_in_ok s)"
| sign_in_fails: "app_step env s (sign_in_failed s)"
| signed_out: "app_step env s (signed_out s)"
| collected: "app_step env s (s\<lparr>ses_cache := optionalRemove h (ses_cache s)\<rparr>)"

inductive app_reachable :: "'w api_env \<Rightarrow> app \<Rightarrow> bool" for env where
  start: "app_reachable env (app_start b)"
| step: "app_reachable env s \<Longrightarrow> app_step env s s' \<Longrightarrow> app_reachable env s'"

section \<open>Keys and scopes\<close>

lemma hook_types:
  "qo_key (app_hook b a :: 'w query_options) = hook_key b a"
  "qo_enabled (app_hook b a :: 'w query_options) \<longleftrightarrow> qo_enabled (app_hook b a :: unit query_options)"
  "defaulted_retry (app_hook b a :: 'w query_options) = hook_retry b a"
  by (cases a; simp add: hook_defs hook_key_def hook_retry_def defaulted_retry_def Let_def)+

lemma list_hook_key: "hook_key b (list_hook sp) = lifecycleQueryKey b sp"
  by (simp add: list_hook_def list_hooks_def hook_key_def key_of_shown_list [where 'w = unit] findings_list_def
      grouped_list_def)

lemma list_hook_cases:
  "list_hook sp = QFindings (list_options sp True) \<or> list_hook sp = QGrouped (list_options sp True)"
  by (auto simp: list_hook_def list_hooks_def)

lemma list_hook_mounted: "(list_hook sp, True) \<in> set (mounted (FindingsScreen sp ms))"
  by (auto simp: list_hook_def list_hooks_def)

text \<open>\<open>undefined\<close> is written as \<open>null\<close> in a hash.\<close>

lemma undef_null_plain:
  "plain_value (undef_null v) \<Longrightarrow> sort_props v = v \<and> sort_props (undef_null v) = undef_null v
     \<and> stringify (undef_null v) = stringify v"
  by (cases v) auto

lemma hashKey_undef_null: "plain_key (map undef_null key) \<Longrightarrow> hashKey (map undef_null key) = hashKey key"
  using undef_null_plain by (auto simp: hashKey_def plain_key_def list_all_iff intro!: arg_cong [where f = "join '','' "])

lemma plain_undef_null: "plain_key key \<Longrightarrow> map undef_null key = key"
  by (induction key) (auto simp: undef_null_plain elim: plain_value.elims)

lemma keyed_null: "keyed b a \<Longrightarrow> plain_key (map undef_null (hook_key b a))"
  by (auto simp: keyed_def plain_undef_null split: if_splits)

lemma keyed_plain: "keyed b a \<Longrightarrow> getStoredScope b = Some sc \<Longrightarrow> plain_key (hook_key b a)"
  by (simp add: keyed_def)

lemma hash_null_keys:
  assumes "hook_hash b a = hook_hash b' a'" and "keyed b a" and "keyed b' a'"
  shows "map undef_null (hook_key b a) = map undef_null (hook_key b' a')"
  using assms(1) keyed_null [OF assms(2)] keyed_null [OF assms(3)] hashKey_inject hashKey_undef_null
  by (metis hook_hash_def)

text \<open>The shape of a key does not depend on what \<open>undef_null\<close> changes.\<close>

lemma shape_null: "shape (map undef_null (hook_key b a)) = hook_shape a"
  by (cases a) (simp_all add: hook_key_def hook_defs key_defs shape_def Let_def nth_Cons' numeral_eq_Suc)

lemma undef_null_scope [simp]:
  "undef_null (key_tenant None) = JNull" "undef_null (key_tenant (Some sc)) = JStr (scope_tenantId sc)"
  "undef_null (key_workspace None) = JNull" "undef_null (key_workspace (Some sc)) = JStr (scope_workspace sc)"
  by (simp_all add: key_tenant_def key_workspace_def js_string_or_undef_def)

lemma undef_null_scope_eq:
  "undef_null (key_tenant s) = undef_null (key_tenant s') \<and> undef_null (key_workspace s) = undef_null (key_workspace s')
     \<longleftrightarrow> s = s'"
  by (cases s; cases s') auto

text \<open>Queries with the same hash belong to the same hook and to the same scope.\<close>

lemma hash_same_hook:
  assumes "hook_hash b a = hook_hash b' a'" and "keyed b a" and "keyed b' a'"
  shows "same_hook a a'"
  using hash_null_keys [OF assms] shape_null hook_shape_same by metis

lemma hash_same_scope:
  assumes "hook_hash b a = hook_hash b' a'" and "keyed b a" and "keyed b' a'"
  shows "getStoredScope b = getStoredScope b'"
proof -
  have "undef_null (key_tenant (getStoredScope b)) = undef_null (key_tenant (getStoredScope b'))
      \<and> undef_null (key_workspace (getStoredScope b)) = undef_null (key_workspace (getStoredScope b'))"
    using hash_same_hook [OF assms] hash_null_keys [OF assms]
    by cases (simp_all add: hook_key_def hook_defs key_defs Let_def)
  then show ?thesis by (simp only: undef_null_scope_eq)
qed

section \<open>What the steps do to the data\<close>

definition data_at :: "cache \<Rightarrow> string \<Rightarrow> jsval option" where
  "data_at c h = Option.bind (map_of c h) (\<lambda>q. st_data (q_state q))"

lemma data_at_key: "getQueryData key c = data_at c (hashKey key)"
  by (simp add: getQueryData_def find_query_def data_at_def)

lemma map_of_map_query: "map_of (map (\<lambda>(h, q). (h, f h q)) c) h = map_option (f h) (map_of c h)"
  by (induction c) auto

lemma data_at_map:
  "(\<And>q. map_of c h = Some q \<Longrightarrow> st_data (q_state (f h q)) = st_data (q_state q)) \<Longrightarrow>
     data_at (map (\<lambda>(h, q). (h, f h q)) c) h = data_at c h"
  by (cases "map_of c h") (simp_all add: data_at_def map_of_map_query)

lemma data_at_on_query:
  "(\<And>q. st_data (q_state (f q)) = st_data (q_state q)) \<Longrightarrow> data_at (on_query key f c) h = data_at c h"
  unfolding on_query_def by (rule data_at_map) simp

lemma data_at_build [simp]: "data_at (build key c) h = data_at c h"
  by (auto simp: data_at_def build_def find_query_def map_add_def split: option.splits)

lemma data_at_builds [simp]: "data_at (fold (\<lambda>m. build (k m)) ms c) h = data_at c h"
  by (induction ms arbitrary: c) simp_all

lemma data_at_simps [simp]:
  "data_at (observe_screen b ms c) h = data_at c h"
  "data_at (on_query key fetch_query c) h = data_at c h"
  "data_at (invalidateQueries filters c) h = data_at c h"
  "data_at (observed_build a s) h = data_at (ses_cache s) h"
  "data_at [] h = None"
proof -
  show "data_at (observe_screen b ms c) h = data_at c h"
    unfolding observe_screen_def by (subst data_at_map) simp_all
  show "data_at (on_query key fetch_query c) h = data_at c h"
    by (rule data_at_on_query) simp
  show "data_at (invalidateQueries filters c) h = data_at c h"
    unfolding invalidateQueries_def on_matching_def by (rule data_at_map) simp
  show "data_at (observed_build a s) h = data_at (ses_cache s) h"
    by (simp add: observed_build_def Let_def data_at_on_query)
qed (simp add: data_at_def)

lemma map_of_ok: "cache_ok c \<Longrightarrow> map_of c h = Some q \<Longrightarrow> query_ok (h, q)"
  by (auto simp: cache_ok_def dest: map_of_SomeD)

lemma data_at_cancel [simp]: "cache_ok c \<Longrightarrow> data_at (cancelQueries filters c) h = data_at c h"
  unfolding cancelQueries_def on_matching_def
  by (rule data_at_map) (auto simp: cancel_def query_ok_def dest!: map_of_ok split: option.splits)

lemma data_at_set: "d \<noteq> JUndef \<Longrightarrow> data_at (setQueryData key d c) h = (if h = hashKey key then Some d else data_at c h)"
  unfolding setQueryData_def on_query_def [abs_def]
  by (auto simp: data_at_def build_def find_query_def map_of_on_query [unfolded on_query_def] map_add_def split: option.splits)

lemma data_at_settle:
  "data_at (settle_query key r c) h = Some d \<Longrightarrow> data_at c h = Some d \<or> h = hashKey key \<and> r = Inr d"
  unfolding settle_query_def
  by (auto simp: data_at_def map_of_on_query fetch_failed_def fetch_succeeded_def bind_eq_Some_conv
      split: if_splits sum.splits)

lemma map_of_removed:
  "map_of (optionalRemove h' c) h = Some q \<Longrightarrow> cache_ok c \<Longrightarrow> map_of c h = Some q \<and> \<not> (h = h' \<and> q_observers q = [] \<and> \<not> st_fetching (q_state q))"
  by (auto simp: optionalRemove_def cache_ok_def dest!: map_of_SomeD intro: map_of_is_SomeI)

lemma data_at_remove: "data_at (optionalRemove h' c) h = Some d \<Longrightarrow> cache_ok c \<Longrightarrow> data_at c h = Some d"
  by (auto simp: data_at_def bind_eq_Some_conv dest: map_of_removed)

lemma cache_ok_observe: "cache_ok c \<Longrightarrow> cache_ok (observe_screen b ms c)"
proof -
  have "cache_ok (fold (\<lambda>m. build (hook_key b (fst m))) ms c)" if "cache_ok c" for c
    using that by (induction ms arbitrary: c) (simp_all add: cache_ok_build)
  then show "cache_ok c \<Longrightarrow> cache_ok (observe_screen b ms c)"
    unfolding observe_screen_def by (intro cache_ok_map query_ok_ops(1))
qed

lemma cache_ok_observed_build: "cache_ok (ses_cache s) \<Longrightarrow> cache_ok (observed_build a s)"
  by (auto simp: observed_build_def Let_def intro!: cache_ok_on_query cache_ok_build query_ok_ops(1))

lemmas cache_ok_steps = cache_step.intros [THEN cache_ok_step]

section \<open>Where the data comes from\<close>

text \<open>
  The data of a query is an answer to a call made for this very hash, or, for a list of findings,
  what the lifecycle actions made of such an answer: the optimistic change of a list, and the
  snapshot of a list written over the list of a later render of the page.
\<close>

definition scope_agrees :: "browser \<Rightarrow> browser \<Rightarrow> bool" where
  "scope_agrees b b' \<longleftrightarrow> getStoredScope b = getStoredScope b' \<or> getStoredScope b = None"

inductive origin :: "(call \<times> jsval outcome) list \<Rightarrow> string \<Rightarrow> jsval \<Rightarrow> bool" for calls where
  answer: "(c, Inr d) \<in> set calls \<Longrightarrow> origin calls (call_hash c) d"
| optimistic: "origin calls (hook_hash b (list_hook sp)) d \<Longrightarrow> keyed b (list_hook sp) \<Longrightarrow>
    optimistic_response nxt input d = Inr d' \<Longrightarrow> origin calls (hook_hash b (list_hook sp)) d'"
| written_back: "origin calls (hook_hash b (list_hook sp)) d \<Longrightarrow> keyed b (list_hook sp) \<Longrightarrow>
    keyed b' (list_hook sp') \<Longrightarrow> scope_agrees b' b \<Longrightarrow> origin calls (hook_hash b' (list_hook sp')) d"

definition call_ok :: "call \<Rightarrow> bool" where
  "call_ok c \<longleftrightarrow>
     qo_enabled (app_hook (call_rendered c) (call_query c) :: unit query_options)
     \<and> keyed (call_rendered c) (call_query c) \<and> scope_agrees (call_browser c) (call_rendered c)"

definition action_ok :: "(call \<times> jsval outcome) list \<Rightarrow> pending_action \<Rightarrow> bool" where
  "action_ok calls pa \<longleftrightarrow>
     (\<exists>sp lb lsp. pa_key pa = lifecycleQueryKey (pa_rendered pa) sp \<and> keyed (pa_rendered pa) (list_hook sp)
        \<and> pa_latest pa = lifecycleQueryKey lb lsp \<and> keyed lb (list_hook lsp) \<and> scope_agrees lb (pa_rendered pa)
        \<and> (\<forall>p. pa_previous pa = Some p \<longrightarrow> truthy p \<longrightarrow> origin calls (hook_hash (pa_rendered pa) (list_hook sp)) p))"

definition fetching_at :: "cache \<Rightarrow> string \<Rightarrow> bool" where
  "fetching_at c h \<longleftrightarrow> (\<exists>q. map_of c h = Some q \<and> st_fetching (q_state q))"

definition observers_at :: "cache \<Rightarrow> string \<Rightarrow> bool list" where
  "observers_at c h = (case map_of c h of None \<Rightarrow> [] | Some q \<Rightarrow> q_observers q)"

text \<open>A fetch has failed at most as often as its hook is tried again.\<close>

fun max_failures :: "retry_option \<Rightarrow> nat" where
  "max_failures (RetryBool b) = 0"
| "max_failures (RetryCount n) = n"

definition retry_ok :: "call retryer \<Rightarrow> bool" where
  "retry_ok rt \<longleftrightarrow>
     rt_retry rt = hook_retry (call_rendered (rt_call rt)) (call_query (rt_call rt))
     \<and> rt_failureCount rt \<le> max_failures (rt_retry rt)"

text \<open>What holds between any two instants, and what only holds between two steps.\<close>

definition base_ok :: "'w api_env \<Rightarrow> app \<Rightarrow> bool" where
  "base_ok env s \<longleftrightarrow>
     cache_ok (ses_cache s)
     \<and> (\<forall>h d. data_at (ses_cache s) h = Some d \<longrightarrow> origin (app_log s) h d)
     \<and> (\<forall>(c, r) \<in> set (app_log s). call_ok c \<and> (\<exists>w w'. run_call env c w = (r, w')))
     \<and> (\<forall>h rt. app_fetches s h = Some rt \<longrightarrow> call_ok (rt_call rt) \<and> call_hash (rt_call rt) = h \<and> retry_ok rt)
     \<and> (\<forall>h. fetching_at (ses_cache s) h \<longleftrightarrow> app_fetches s h \<noteq> None)
     \<and> list_all (action_ok (app_log s)) (app_actions s)"

definition screen_ok :: "app \<Rightarrow> bool" where
  "screen_ok s \<longleftrightarrow>
     scope_agrees (ses_browser s) (app_rendered s)
     \<and> list_all (keyed (app_rendered s) \<circ> fst) (mounted (app_screen s))
     \<and> (\<forall>h rt. app_fetches s h = Some rt \<longrightarrow> \<not> rt_isRetryCancelled rt \<longrightarrow>
          observers_of (app_rendered s) (mounted (app_screen s)) h \<noteq> [])
     \<and> (\<forall>h. observers_at (ses_cache s) h = [] \<or>
          observers_at (ses_cache s) h = observers_of (app_rendered s) (mounted (app_screen s)) h)
     \<and> list_all (\<lambda>pa. pa_attached pa \<longrightarrow> scope_agrees (ses_browser s) (pa_rendered pa)
           \<and> scope_agrees (app_rendered s) (pa_rendered pa) \<and> app_screen s \<noteq> SignIn)
         (app_actions s)"

lemma hash_lifecycle [simp]: "hashKey (lifecycleQueryKey b sp) = hook_hash b (list_hook sp)"
  by (simp add: hook_hash_def list_hook_key)

lemma hash_hook [simp]: "hashKey (hook_key b a) = hook_hash b a"
  by (simp add: hook_hash_def)

lemma origin_mono: "origin calls h d \<Longrightarrow> set calls \<subseteq> set calls' \<Longrightarrow> origin calls' h d"
  by (induction rule: origin.induct) (auto intro: origin.intros)

lemma action_ok_mono: "action_ok calls pa \<Longrightarrow> set calls \<subseteq> set calls' \<Longrightarrow> action_ok calls' pa"
  unfolding action_ok_def using origin_mono by metis

lemma scope_agrees_refl [simp]: "scope_agrees b b"
  by (simp add: scope_agrees_def)

lemma scope_agrees_trans: "scope_agrees b b' \<Longrightarrow> scope_agrees b' b'' \<Longrightarrow> scope_agrees b b''"
  by (auto simp: scope_agrees_def)

lemma scope_agrees_clear [simp]: "scope_agrees (clearStoredScope b) b'"
  by (simp add: scope_agrees_def)

text \<open>The queries in flight and their observers after the operations.\<close>

lemma map_of_build:
  "map_of (build key c) h = (if h = hashKey key \<and> map_of c h = None then Some (new_query key) else map_of c h)"
  by (auto simp: build_def find_query_def map_add_def split: option.splits)

lemma fetching_at_simps [simp]:
  "fetching_at (build key c) h = fetching_at c h"
  "fetching_at (fold (\<lambda>m. build (k m)) ms c) h = fetching_at c h"
  "fetching_at (observe_screen b ms c) h = fetching_at c h"
  "fetching_at (observed_build a s) h = fetching_at (ses_cache s) h"
  "fetching_at (settle_query key r c) h \<longleftrightarrow> fetching_at c h \<and> h \<noteq> hashKey key"
  "fetching_at (setQueryData key d c) h = fetching_at c h"
  "fetching_at [] h \<longleftrightarrow> False"
proof -
  show b: "fetching_at (build key c) h = fetching_at c h" for key c
    by (auto simp: fetching_at_def map_of_build new_query_def default_state_def)
  show f: "fetching_at (fold (\<lambda>m. build (k m)) ms c) h = fetching_at c h" for k :: "'m \<Rightarrow> query_key" and ms c
    by (induction ms arbitrary: c) (simp_all add: b)
  show "fetching_at (observe_screen b ms c) h = fetching_at c h"
    using f [of "\<lambda>m. hook_key b (fst m)" ms c]
    by (auto simp: fetching_at_def observe_screen_def map_of_map_query)
  have o: "fetching_at (on_query k (\<lambda>q. q\<lparr>q_observers := es\<rparr>) c) h = fetching_at c h" for k es c
    by (auto simp: fetching_at_def map_of_on_query)
  show "fetching_at (observed_build a s) h = fetching_at (ses_cache s) h"
    by (auto simp: observed_build_def Let_def o b)
  show "fetching_at (settle_query key r c) h \<longleftrightarrow> fetching_at c h \<and> h \<noteq> hashKey key"
    by (auto simp: fetching_at_def settle_query_def map_of_on_query query_ops split: sum.splits)
  have "fetching_at (on_query k (manual_data d) c) h = fetching_at c h" for k c
    by (auto simp: fetching_at_def map_of_on_query query_ops)
  then show "fetching_at (setQueryData key d c) h = fetching_at c h" by (simp add: setQueryData_def b)
qed (simp add: fetching_at_def)

lemma fetching_at_case:
  "fetching_at c h \<longleftrightarrow> (case map_of c h of None \<Rightarrow> False | Some q \<Rightarrow> st_fetching (q_state q))"
  by (simp add: fetching_at_def split: option.split)

lemma st_fetching_ops [simp]:
  "st_fetching (q_state (fetch_query q))" "\<not> st_fetching (q_state (cancel q))"
  "st_fetching (q_state (refetch_active (invalidate q))) \<longleftrightarrow> st_fetching (q_state q) \<or> isActive q"
  by (auto simp: query_ops isActive_def)

lemma fetching_at_fetch [simp]:
  "fetching_at (on_query key fetch_query c) h \<longleftrightarrow> fetching_at c h \<or> h = hashKey key \<and> map_of c h \<noteq> None"
  by (cases "map_of c h") (simp_all add: fetching_at_case map_of_on_query)

lemma fetching_at_invalidate:
  "fetching_at (invalidateQueries filters c) h \<longleftrightarrow>
     (case map_of c h of None \<Rightarrow> False | Some q \<Rightarrow> st_fetching (q_state q) \<or> matches filters q \<and> isActive q)"
  by (cases "map_of c h") (auto simp: fetching_at_case invalidateQueries_def map_of_on_matching)

lemma fetching_at_cancel:
  "fetching_at (cancelQueries filters c) h \<longleftrightarrow>
     (case map_of c h of None \<Rightarrow> False | Some q \<Rightarrow> st_fetching (q_state q) \<and> \<not> matches filters q)"
  by (cases "map_of c h") (auto simp: fetching_at_case cancelQueries_def map_of_on_matching)

lemma removed_keeps:
  "cache_ok c \<Longrightarrow> map_of c h = Some q \<Longrightarrow> st_fetching (q_state q) \<Longrightarrow> map_of (optionalRemove h' c) h = Some q"
  by (auto simp: optionalRemove_def cache_ok_def distinct_map_filter dest!: map_of_SomeD intro!: map_of_is_SomeI)

lemma fetching_at_remove: "cache_ok c \<Longrightarrow> fetching_at (optionalRemove h' c) h = fetching_at c h"
  by (auto simp: fetching_at_def dest: map_of_removed intro: removed_keeps)

lemma observers_at_simps:
  "observers_at (build key c) h = observers_at c h"
  "(\<And>q. q_observers (f q) = q_observers q) \<Longrightarrow> observers_at (on_query key f c) h = observers_at c h"
  "(\<And>q. q_observers (f q) = q_observers q) \<Longrightarrow> observers_at (on_matching filters f c) h = observers_at c h"
  by (auto simp: observers_at_def map_of_build map_of_on_query map_of_on_matching new_query_def split: option.splits)

lemma q_observers_simps [simp]:
  "q_observers (fetch_query q) = q_observers q" "q_observers (manual_data d q) = q_observers q"
  "q_observers (invalidate q) = q_observers q" "q_observers (cancel q) = q_observers q"
  "q_observers (refetch_active q) = q_observers q" "q_observers (fetch_succeeded d q) = q_observers q"
  "q_observers (fetch_failed e q) = q_observers q"
  by (simp_all add: query_ops)

lemma observers_at_ops [simp]:
  "observers_at (on_query key fetch_query c) h = observers_at c h"
  "observers_at (settle_query key r c) h = observers_at c h"
  "observers_at (setQueryData key d c) h = observers_at c h"
  "observers_at (invalidateQueries filters c) h = observers_at c h"
  "observers_at (cancelQueries filters c) h = observers_at c h"
  "observers_at [] h = []"
  by (simp_all add: observers_at_simps settle_query_def setQueryData_def invalidateQueries_def cancelQueries_def
      split: sum.split) (simp add: observers_at_def)

lemma observers_at_observe: "observers_at (observe_screen b ms c) h \<in> {[], observers_of b ms h}"
  by (auto simp: observers_at_def observe_screen_def map_of_map_query split: option.splits)

lemma observers_at_observed_build:
  "observers_at (observed_build a s) h \<in>
     {observers_at (ses_cache s) h, observers_of (app_rendered s) (mounted (app_screen s)) h}"
  by (auto simp: observers_at_def observed_build_def Let_def map_of_on_query map_of_build find_query_def new_query_def
      split: option.splits)

lemma observers_at_remove: "cache_ok c \<Longrightarrow> observers_at (optionalRemove h' c) h \<in> {[], observers_at c h}"
  by (auto simp: observers_at_def dest: map_of_removed split: option.splits)

lemma observed_build_found: "find_query (hook_key (app_rendered s) a) (observed_build a s) \<noteq> None"
  by (auto simp: observed_build_def Let_def find_build)

section \<open>Every step keeps the invariants\<close>

lemma base_okD:
  assumes "base_ok env s"
  shows "cache_ok (ses_cache s)" and "data_at (ses_cache s) h = Some d \<Longrightarrow> origin (app_log s) h d"
    and "(c, r) \<in> set (app_log s) \<Longrightarrow> call_ok c \<and> (\<exists>w w'. run_call env c w = (r, w'))"
    and "app_fetches s h = Some rt \<Longrightarrow> call_ok (rt_call rt)" and "app_fetches s h = Some rt \<Longrightarrow> call_hash (rt_call rt) = h"
    and "app_fetches s h = Some rt \<Longrightarrow> retry_ok rt"
    and "fetching_at (ses_cache s) h \<longleftrightarrow> app_fetches s h \<noteq> None"
    and "pa \<in> set (app_actions s) \<Longrightarrow> action_ok (app_log s) pa"
  using assms by (auto simp: base_ok_def list_all_iff)

lemma base_okI:
  assumes "cache_ok (ses_cache s)" and "\<And>h d. data_at (ses_cache s) h = Some d \<Longrightarrow> origin (app_log s) h d"
    and "\<And>c r. (c, r) \<in> set (app_log s) \<Longrightarrow> call_ok c \<and> (\<exists>w w'. run_call env c w = (r, w'))"
    and "\<And>h rt. app_fetches s h = Some rt \<Longrightarrow> call_ok (rt_call rt) \<and> call_hash (rt_call rt) = h \<and> retry_ok rt"
    and "\<And>h. fetching_at (ses_cache s) h \<longleftrightarrow> app_fetches s h \<noteq> None"
    and "\<And>pa. pa \<in> set (app_actions s) \<Longrightarrow> action_ok (app_log s) pa"
  shows "base_ok env s"
  using assms unfolding base_ok_def list_all_iff by blast

lemma screen_okD:
  assumes "screen_ok s"
  shows "scope_agrees (ses_browser s) (app_rendered s)"
    and "m \<in> set (mounted (app_screen s)) \<Longrightarrow> keyed (app_rendered s) (fst m)"
    and "app_fetches s h = Some rt \<Longrightarrow> \<not> rt_isRetryCancelled rt \<Longrightarrow>
          observers_of (app_rendered s) (mounted (app_screen s)) h \<noteq> []"
    and "observers_at (ses_cache s) h \<in> {[], observers_of (app_rendered s) (mounted (app_screen s)) h}"
    and "pa \<in> set (app_actions s) \<Longrightarrow> pa_attached pa \<Longrightarrow> scope_agrees (ses_browser s) (pa_rendered pa)
          \<and> scope_agrees (app_rendered s) (pa_rendered pa) \<and> app_screen s \<noteq> SignIn"
  using assms by (auto simp: screen_ok_def list_all_iff)

lemma screen_okI:
  assumes "scope_agrees (ses_browser s) (app_rendered s)"
    and "\<And>m. m \<in> set (mounted (app_screen s)) \<Longrightarrow> keyed (app_rendered s) (fst m)"
    and "\<And>h rt. app_fetches s h = Some rt \<Longrightarrow> \<not> rt_isRetryCancelled rt \<Longrightarrow>
          observers_of (app_rendered s) (mounted (app_screen s)) h \<noteq> []"
    and "\<And>h. observers_at (ses_cache s) h \<in> {[], observers_of (app_rendered s) (mounted (app_screen s)) h}"
    and "\<And>pa. pa \<in> set (app_actions s) \<Longrightarrow> pa_attached pa \<Longrightarrow> scope_agrees (ses_browser s) (pa_rendered pa)
          \<and> scope_agrees (app_rendered s) (pa_rendered pa) \<and> app_screen s \<noteq> SignIn"
  shows "screen_ok s"
  using assms unfolding screen_ok_def list_all_iff by auto

text \<open>A new call of a hook on the screen, and of a hook that is fetched by an invalidation.\<close>

lemma new_fetch_sel [simp]:
  "rt_call (new_fetch a s) = new_call a s" "\<not> rt_isRetryCancelled (new_fetch a s)"
  "rt_retry (new_fetch a s) = hook_retry (app_rendered s) a"
  "call_query (new_call a s) = a" "call_rendered (new_call a s) = app_rendered s"
  "call_browser (new_call a s) = ses_browser s" "call_hash (new_call a s) = hook_hash (app_rendered s) a"
  by (simp_all add: new_fetch_def new_call_def call_hash_def)

lemma new_call_ok:
  "screen_ok s \<Longrightarrow> m \<in> set (mounted (app_screen s)) \<Longrightarrow> hook_enabled (app_rendered s) m \<Longrightarrow> call_ok (new_call (fst m) s)"
  using screen_okD(1,2) by (auto simp: call_ok_def hook_enabled_def)

lemma observers_mounted:
  "observers_of b ms h \<noteq> [] \<longleftrightarrow> (\<exists>m \<in> set ms. hook_hash b (fst m) = h)"
  by (auto simp: observers_of_def filter_empty_conv)

lemma found_in_list: "find P xs = Some x \<Longrightarrow> x \<in> set xs \<and> P x"
  by (induction xs) (auto split: if_splits)

lemma hook_at_Some:
  "hook_at s h = Some a \<Longrightarrow> \<exists>m \<in> set (mounted (app_screen s)). fst m = a \<and> hook_hash (app_rendered s) a = h
     \<and> hook_enabled (app_rendered s) m"
  unfolding hook_at_def using found_in_list by fastforce

lemma active_hook_at:
  assumes "screen_ok s" and "map_of (ses_cache s) h = Some q" and "isActive q"
  obtains a where "hook_at s h = Some a"
proof -
  have "observers_at (ses_cache s) h = q_observers q" using assms(2) by (simp add: observers_at_def)
  moreover have "q_observers q \<noteq> []" using assms(3) by (auto simp: isActive_def)
  ultimately have "True \<in> set (observers_of (app_rendered s) (mounted (app_screen s)) h)"
    using screen_okD(4) [OF assms(1), of h] assms(3) by (auto simp: isActive_def)
  then have "\<exists>m \<in> set (mounted (app_screen s)). hook_hash (app_rendered s) (fst m) = h \<and> hook_enabled (app_rendered s) m"
    by (force simp: observers_of_def)
  then have "hook_at s h \<noteq> None" unfolding hook_at_def option.map_disc_iff find_None_iff by blast
  then show thesis using that by blast
qed

text \<open>Every hook of the application is tried once or twice.\<close>

lemma hook_retry_cases: "hook_retry b a = RetryCount 1 \<or> hook_retry b a = RetryBool False"
  by (cases a) (simp_all add: hook_retry_def defaulted_retry_def hook_defs QueryProvider_defaults_def Let_def)

lemma retry_ok_ops [simp]:
  "retry_ok (new_fetch a s)" "retry_ok (continueRetry rt) \<longleftrightarrow> retry_ok rt" "retry_ok (cancelRetry rt) \<longleftrightarrow> retry_ok rt"
  "retry_ok (rt\<lparr>rt_call := (rt_call rt)\<lparr>call_browser := b\<rparr>, rt_asleep := None\<rparr>) \<longleftrightarrow> retry_ok rt"
  by (simp_all add: retry_ok_def) (simp add: new_fetch_def)

lemma retry_ok_failed:
  assumes "retry_ok rt" and "shouldRetry (rt_retry rt) (rt_failureCount rt)"
  shows "retry_ok (rt\<lparr>rt_failureCount := Suc (rt_failureCount rt), rt_asleep := Some e\<rparr>)"
  using assms hook_retry_cases [of "call_rendered (rt_call rt)" "call_query (rt_call rt)"]
  by (auto simp: retry_ok_def)

text \<open>Settling a fetch, waking it up, and answering it.\<close>

lemma base_ok_settle:
  assumes "base_ok env s" and "call_hash c = h" and "app_fetches s h \<noteq> None"
    and "case out of
           Inl r \<Rightarrow> \<forall>d. r = Inr d \<longrightarrow> origin (app_log s) h d
         | Inr rt \<Rightarrow> call_ok (rt_call rt) \<and> call_hash (rt_call rt) = h \<and> retry_ok rt"
  shows "base_ok env (settle_fetch h c out s)"
proof (cases out)
  case (Inl r)
  have k: "hashKey (hook_key (call_rendered c) (call_query c)) = h" using assms(2) by (simp add: call_hash_def)
  show ?thesis
    unfolding settle_fetch_def Inl
    using base_okD [OF assms(1)] assms(4) Inl cache_ok_steps(3) k
    by (intro base_okI) (auto dest!: data_at_settle split: if_splits)
next
  case (Inr rt)
  then show ?thesis
    using base_okD [OF assms(1)] assms(3,4) by (intro base_okI) (auto simp: settle_fetch_def split: if_splits)
qed

lemma base_ok_answer:
  assumes "base_ok env s" and "app_fetches s h = Some rt" and "run_call env (rt_call rt) w = (r, w')"
  shows "base_ok env (answer_fetch h rt r s)"
proof -
  let ?s = "s\<lparr>app_log := (rt_call rt, r) # app_log s\<rparr>"
  note rt = base_okD(4-6) [OF assms(1,2)]
  have mono: "set (app_log s) \<subseteq> set (app_log ?s)" by auto
  have "base_ok env ?s"
    using base_okD [OF assms(1)] rt(1) assms(3) origin_mono [OF _ mono] action_ok_mono [OF _ mono]
    by (intro base_okI) (auto split: if_splits)
  moreover have "origin (app_log ?s) h d" if "r = Inr d" for d
    using origin.answer [of "rt_call rt" d "app_log ?s"] that rt(2) by simp
  ultimately show ?thesis
    using rt assms(2) unfolding answer_fetch_def
    by (intro base_ok_settle) (auto split: sum.split simp: rt_answered_on retry_ok_failed dest: rt_settles)
qed

lemma base_ok_wake:
  assumes "base_ok env s" and "screen_ok s" and "app_fetches s h = Some rt" and "rt_asleep rt = Some e"
  shows "base_ok env (wake_fetch h rt s)"
proof -
  note rt = base_okD(4-6) [OF assms(1,3)]
  have agrees: "scope_agrees (ses_browser s) (call_rendered (rt_call rt))" if nc: "\<not> rt_isRetryCancelled rt"
  proof -
    obtain m where m: "m \<in> set (mounted (app_screen s))" "hook_hash (app_rendered s) (fst m) = h"
      using screen_okD(3) [OF assms(2,3) nc] observers_mounted by metis
    then have "getStoredScope (app_rendered s) = getStoredScope (call_rendered (rt_call rt))"
      using hash_same_scope screen_okD(2) [OF assms(2)] rt(1,2) by (metis call_hash_def call_ok_def)
    then show ?thesis using screen_okD(1) [OF assms(2)] by (simp add: scope_agrees_def)
  qed
  have "call_hash ((rt_call rt)\<lparr>call_browser := b\<rparr>) = h" for b
    using rt(2) by (simp add: call_hash_def)
  then show ?thesis
    using rt assms(1,3,4) agrees unfolding wake_fetch_def
    by (intro base_ok_settle) (auto split: sum.split simp: rt_awake_on call_ok_def dest: rt_settles)
qed

lemma screen_ok_settle:
  assumes "screen_ok s" and "app_fetches s h = Some rt"
    and "\<And>rt'. out = Inr rt' \<Longrightarrow> \<not> rt_isRetryCancelled rt' \<Longrightarrow> \<not> rt_isRetryCancelled rt"
  shows "screen_ok (settle_fetch h c out s)"
  using screen_okD [OF assms(1)] screen_okD(3) [OF assms(1,2)] assms(3)
  by (intro screen_okI) (auto simp: settle_fetch_def split: sum.splits if_splits)

lemma screen_ok_log: "screen_ok (s\<lparr>app_log := l\<rparr>) \<longleftrightarrow> screen_ok s"
  by (simp add: screen_ok_def)

lemma screen_ok_answer: "screen_ok s \<Longrightarrow> app_fetches s h = Some rt \<Longrightarrow> screen_ok (answer_fetch h rt r s)"
  unfolding answer_fetch_def
  by (rule screen_ok_settle [where rt = rt]) (auto simp: screen_ok_log rt_answered_on)

lemma screen_ok_wake:
  "screen_ok s \<Longrightarrow> app_fetches s h = Some rt \<Longrightarrow> rt_asleep rt = Some e \<Longrightarrow> screen_ok (wake_fetch h rt s)"
  unfolding wake_fetch_def by (rule screen_ok_settle [where rt = rt]) (auto simp: rt_awake_on)

text \<open>Starting a fetch.\<close>

lemma cache_ok_fetch: "cache_ok c \<Longrightarrow> cache_ok (on_query k fetch_query c)"
  by (rule cache_ok_on_query) (auto intro: query_ok_ops(2))

lemma start_fetch_cases:
  obtains (joined) q where "find_query (hook_key (app_rendered s) a) (observed_build a s) = Some q" and "in_flight cr q"
      and "start_fetch cr a s = s\<lparr>ses_cache := observed_build a s,
             app_fetches := (app_fetches s)(hook_hash (app_rendered s) a :=
               map_option continueRetry (app_fetches s (hook_hash (app_rendered s) a)))\<rparr>"
  | (fetched) q where "find_query (hook_key (app_rendered s) a) (observed_build a s) = Some q" and "\<not> in_flight cr q"
      and "start_fetch cr a s = s\<lparr>ses_cache := on_query (hook_key (app_rendered s) a) fetch_query (observed_build a s),
             app_fetches := (app_fetches s)(hook_hash (app_rendered s) a \<mapsto> new_fetch a s)\<rparr>"
proof -
  obtain q where "find_query (hook_key (app_rendered s) a) (observed_build a s) = Some q"
    using observed_build_found [of s a] by blast
  then show thesis
    using that by (cases "in_flight cr q") (simp_all add: start_fetch_def Let_def)
qed

lemma base_ok_start:
  assumes "base_ok env s" and "screen_ok s" and "m \<in> set (mounted (app_screen s))" and "hook_enabled (app_rendered s) m"
  shows "base_ok env (start_fetch cr (fst m) s)"
proof -
  note s = base_okD [OF assms(1)]
  show ?thesis
  proof (cases rule: start_fetch_cases [of s "fst m" cr])
    case (joined q)
    then show ?thesis
      using s cache_ok_observed_build [OF s(1)] by (intro base_okI) (auto split: if_splits)
  next
    case (fetched q)
    have "map_of (observed_build (fst m) s) (hook_hash (app_rendered s) (fst m)) \<noteq> None"
      using fetched(1) by (simp add: find_query_def)
    then show ?thesis
      using s cache_ok_fetch [OF cache_ok_observed_build [OF s(1)]] new_call_ok [OF assms(2-4)] fetched(3)
      by (intro base_okI) (auto split: if_splits)
  qed
qed

lemma screen_ok_start:
  assumes "screen_ok s" and "m \<in> set (mounted (app_screen s))"
  shows "screen_ok (start_fetch cr (fst m) s)"
proof -
  have o: "observers_of (app_rendered s) (mounted (app_screen s)) (hook_hash (app_rendered s) (fst m)) \<noteq> []"
    using assms(2) observers_mounted by blast
  have b: "observers_at (observed_build (fst m) s) h \<in> {[], observers_of (app_rendered s) (mounted (app_screen s)) h}" for h
    using observers_at_observed_build [of "fst m" s h] screen_okD(4) [OF assms(1), of h] by auto
  show ?thesis
    using screen_okD [OF assms(1)] o b
    by (cases rule: start_fetch_cases [of s "fst m" cr]; intro screen_okI) (auto split: if_splits)
qed

lemma keyed_list_hook: "list_all (keyed b \<circ> fst) (mounted (FindingsScreen sp ms)) \<Longrightarrow> keyed b (list_hook sp)"
  using list_hook_mounted [of sp ms] unfolding list_all_iff by fastforce

text \<open>Rendering makes a screen that is in order of any state, when the actions in flight fit.\<close>

lemma base_ok_render:
  assumes "base_ok env s" and "list_all (keyed b \<circ> fst) (mounted scr)"
    and "\<And>pa. pa \<in> set (app_actions s) \<Longrightarrow> pa_attached pa \<Longrightarrow> scr \<noteq> SignIn \<Longrightarrow> scope_agrees b (pa_rendered pa)"
  shows "base_ok env (render_with b scr s)"
proof -
  note s = base_okD [OF assms(1)]
  have act: "action_ok (app_log s) (rerender_action b scr pa)" if pa: "pa \<in> set (app_actions s)" for pa
  proof (cases "\<exists>sp ms. scr = FindingsScreen sp ms \<and> pa_attached pa")
    case True
    then obtain sp ms where scr: "scr = FindingsScreen sp ms" "pa_attached pa" by blast
    moreover have "keyed b (list_hook sp)"
      using assms(2) keyed_list_hook by (simp only: scr)
    ultimately show ?thesis
      using s(8) [OF pa] assms(3) [OF pa] by (auto simp: action_ok_def rerender_action_def)
  next
    case False
    then show ?thesis
      using s(8) [OF pa] by (cases scr) (auto simp: action_ok_def rerender_action_def)
  qed
  show ?thesis
    using s act cache_ok_observe [OF s(1)]
    by (intro base_okI) (auto simp: render_with_def leave_fetches_def split: if_splits)
qed

lemma screen_ok_render:
  assumes "list_all (keyed b \<circ> fst) (mounted scr)" and "scope_agrees (ses_browser s) b"
    and "\<And>pa. pa \<in> set (app_actions s) \<Longrightarrow> pa_attached pa \<Longrightarrow> scr \<noteq> SignIn \<Longrightarrow> scope_agrees b (pa_rendered pa)"
  shows "screen_ok (render_with b scr s)"
  using assms observers_at_observe scope_agrees_trans [OF assms(2)]
  by (intro screen_okI)
    (auto simp: render_with_def list_all_iff leave_fetches_def rerender_action_def split: if_splits screen.splits)

text \<open>Invalidating and cancelling.\<close>

lemma invalidate_app_sel [simp]:
  "ses_browser (invalidate_app filters s) = ses_browser s"
  "ses_cache (invalidate_app filters s) = invalidateQueries filters (ses_cache s)"
  "app_rendered (invalidate_app filters s) = app_rendered s" "app_screen (invalidate_app filters s) = app_screen s"
  "app_actions (invalidate_app filters s) = app_actions s" "app_log (invalidate_app filters s) = app_log s"
  by (simp_all add: invalidate_app_def)

lemma cancel_app_sel [simp]:
  "ses_browser (cancel_app filters s) = ses_browser s"
  "ses_cache (cancel_app filters s) = cancelQueries filters (ses_cache s)"
  "app_rendered (cancel_app filters s) = app_rendered s" "app_screen (cancel_app filters s) = app_screen s"
  "app_actions (cancel_app filters s) = app_actions s" "app_log (cancel_app filters s) = app_log s"
  by (simp_all add: cancel_app_def)

lemma invalidate_app_fetch:
  assumes "base_ok env s" and "screen_ok s" and "app_fetches (invalidate_app filters s) h = Some rt"
  shows "(\<exists>rt0. app_fetches s h = Some rt0
           \<and> (rt = rt0 \<or> rt = continueRetry rt0 \<and> observers_of (app_rendered s) (mounted (app_screen s)) h \<noteq> []))
    \<or> (\<exists>m \<in> set (mounted (app_screen s)). hook_enabled (app_rendered s) m \<and> hook_hash (app_rendered s) (fst m) = h
          \<and> rt = new_fetch (fst m) s)"
proof -
  have active: "observers_of (app_rendered s) (mounted (app_screen s)) h \<noteq> []"
    if q: "map_of (ses_cache s) h = Some q" "isActive q" for q
    using active_hook_at [OF assms(2) q] hook_at_Some observers_mounted by metis
  show ?thesis
    using assms(3) active hook_at_Some [of s h]
    by (auto simp: invalidate_app_def refetched_def split: option.splits if_splits)
qed

lemma fetching_invalidate_app:
  assumes "base_ok env s" and "screen_ok s"
  shows "fetching_at (invalidateQueries filters (ses_cache s)) h \<longleftrightarrow> app_fetches (invalidate_app filters s) h \<noteq> None"
proof (cases "map_of (ses_cache s) h")
  case None
  then show ?thesis
    using base_okD(7) [OF assms(1), of h]
    by (simp add: fetching_at_invalidate invalidate_app_def fetching_at_case [of "ses_cache s"])
next
  case (Some q)
  have "app_fetches s h \<noteq> None \<longleftrightarrow> st_fetching (q_state q)"
    using base_okD(7) [OF assms(1), of h] Some by (simp add: fetching_at_case [of "ses_cache s"])
  moreover have "hook_at s h \<noteq> None" if "isActive q"
    using active_hook_at [OF assms(2) Some that] by blast
  ultimately show ?thesis
    using Some by (auto simp: fetching_at_invalidate invalidate_app_def refetched_def in_flight_def split: option.splits)
qed

lemma base_ok_invalidate:
  assumes "base_ok env s" and "screen_ok s"
  shows "base_ok env (invalidate_app filters s)"
proof (rule base_okI)
  note s = base_okD [OF assms(1)]
  show "call_ok (rt_call rt) \<and> call_hash (rt_call rt) = h \<and> retry_ok rt"
    if "app_fetches (invalidate_app filters s) h = Some rt" for h rt
    using invalidate_app_fetch [OF assms that] s(4-6) new_call_ok [OF assms(2)] by auto
  show "cache_ok (ses_cache (invalidate_app filters s))" using cache_ok_steps(6) [OF s(1)] by simp
qed (use base_okD [OF assms(1)] fetching_invalidate_app [OF assms] in simp_all)

lemma screen_ok_invalidate:
  assumes "base_ok env s" and "screen_ok s"
  shows "screen_ok (invalidate_app filters s)"
proof (rule screen_okI)
  note s = screen_okD [OF assms(2)]
  show "observers_of (app_rendered (invalidate_app filters s)) (mounted (app_screen (invalidate_app filters s))) h \<noteq> []"
    if f: "app_fetches (invalidate_app filters s) h = Some rt" "\<not> rt_isRetryCancelled rt" for h rt
    using invalidate_app_fetch [OF assms f(1)] f(2) s(3) observers_mounted by auto
qed (use screen_okD [OF assms(2)] in simp_all)

lemma cancel_app_fetch: "app_fetches (cancel_app filters s) h = Some rt \<Longrightarrow> app_fetches s h = Some rt"
  by (auto simp: cancel_app_def split: option.splits if_splits)

lemma base_ok_cancel:
  assumes "base_ok env s"
  shows "base_ok env (cancel_app filters s)"
proof (rule base_okI)
  note s = base_okD [OF assms]
  show "fetching_at (ses_cache (cancel_app filters s)) h \<longleftrightarrow> app_fetches (cancel_app filters s) h \<noteq> None" for h
    using s(7) [of h]
    by (auto simp: fetching_at_cancel cancel_app_def fetching_at_case [of "ses_cache s"] split: option.splits)
  show "cache_ok (ses_cache (cancel_app filters s))" using cache_ok_steps(5) [OF s(1)] by simp
qed (use base_okD [OF assms] in \<open>auto dest: cancel_app_fetch\<close>)

lemma screen_ok_cancel: "screen_ok s \<Longrightarrow> screen_ok (cancel_app filters s)"
  using screen_okD by (intro screen_okI) (auto dest: cancel_app_fetch)

text \<open>Writing to the cache, and the lifecycle actions.\<close>

lemma app_ok_set_data:
  assumes "base_ok env s" and "d \<noteq> JUndef \<Longrightarrow> origin (app_log s) (hashKey k) d"
  shows "base_ok env (s\<lparr>ses_cache := setQueryData k d (ses_cache s)\<rparr>)"
proof (cases "d = JUndef")
  case True
  then show ?thesis using assms(1) by (simp add: setQueryData_def)
next
  case False
  note s = base_okD [OF assms(1)]
  have "cache_ok (setQueryData k d (ses_cache s))" using s(1) by (rule cache_ok_steps(4))
  then show ?thesis
    using s assms(2) [OF False] by (intro base_okI) (auto simp: data_at_set [OF False] split: if_splits)
qed

lemma screen_ok_set_data: "screen_ok (s\<lparr>ses_cache := setQueryData k d c\<rparr>) \<longleftrightarrow> screen_ok (s\<lparr>ses_cache := c\<rparr>)"
  by (simp add: screen_ok_def)

lemma app_ok_actions:
  assumes "base_ok env s" and "\<And>pa. pa \<in> set as \<Longrightarrow> action_ok (app_log s) pa"
  shows "base_ok env (s\<lparr>app_actions := as\<rparr>)"
  using base_okD [OF assms(1)] assms(2) by (intro base_okI) simp_all

lemma screen_ok_actions:
  assumes "screen_ok s"
    and "\<And>pa. pa \<in> set as \<Longrightarrow> pa_attached pa \<Longrightarrow> scope_agrees (ses_browser s) (pa_rendered pa)
      \<and> scope_agrees (app_rendered s) (pa_rendered pa) \<and> app_screen s \<noteq> SignIn"
  shows "screen_ok (s\<lparr>app_actions := as\<rparr>)"
  using screen_okD [OF assms(1)] assms(2) by (intro screen_okI) simp_all

lemma set_dropped: "set (take i xs @ drop (Suc i) xs) \<subseteq> set xs"
  using set_take_subset set_drop_subset by fastforce

lemma action_ok_new:
  "keyed b (list_hook sp) \<Longrightarrow>
     action_ok calls \<lparr>pa_input = input, pa_rendered = b, pa_key = lifecycleQueryKey b sp, pa_latest = lifecycleQueryKey b sp,
       pa_attached = True, pa_previous = None\<rparr>"
  unfolding action_ok_def by (intro exI [of _ sp] exI [of _ b]) simp

lemma app_ok_begin:
  assumes "base_ok env s" and "screen_ok s" and "app_screen s = FindingsScreen sp ms"
  shows "base_ok env (begin_action input sp s) \<and> screen_ok (begin_action input sp s)"
proof -
  note b = base_ok_cancel [OF assms(1)] and c = screen_ok_cancel [OF assms(2)]
  have "keyed (app_rendered s) (list_hook sp)"
    using screen_okD(2) [OF assms(2)] list_hook_mounted [of sp ms] unfolding assms(3) by (metis fst_conv)
  then show ?thesis
    using base_okD(8) [OF b] screen_okD(1,5) [OF c] assms(3)
    unfolding begin_action_def Let_def
    by (intro conjI app_ok_actions [OF b] screen_ok_actions [OF c]) (auto simp: action_ok_new)
qed

lemma app_ok_drop:
  assumes "base_ok env s" and "screen_ok s"
  shows "base_ok env (drop_action i s) \<and> screen_ok (drop_action i s)"
proof -
  have d: "pa \<in> set (app_actions s)" if "pa \<in> set (take i (app_actions s) @ drop (Suc i) (app_actions s))" for pa
    by (rule subsetD [OF set_dropped that])
  note base_okD(8) [OF assms(1) d] and screen_okD(5) [OF assms(2) d]
  then show ?thesis
    unfolding drop_action_def
    using app_ok_actions [OF assms(1)] screen_ok_actions [OF assms(2)] by metis
qed

lemma app_ok_end:
  assumes "base_ok env s" and "screen_ok s" and "i < length (app_actions s)"
    and "r = Inr () \<or> \<not> truthy previous \<or> pa_previous (app_actions s ! i) = Some previous"
  shows "base_ok env (end_action i previous r s) \<and> screen_ok (end_action i previous r s)"
proof -
  let ?pa = "app_actions s ! i"
  let ?s = "s\<lparr>ses_cache := (case r of Inl _ \<Rightarrow> onError_rollback previous (pa_latest ?pa) (ses_cache s) | Inr _ \<Rightarrow> ses_cache s)\<rparr>"
  have "?pa \<in> set (app_actions s)" using assms(3) by simp
  then have "action_ok (app_log s) ?pa" using base_okD(8) [OF assms(1)] by blast
  then have o: "origin (app_log s) (hashKey (pa_latest ?pa)) previous" if "truthy previous" "r \<noteq> Inr ()"
    using assms(4) that origin.written_back by (auto simp: action_ok_def)
  have b: "base_ok env ?s"
    using assms(1) app_ok_set_data [OF assms(1) o] by (cases r) (auto simp: onError_rollback_def)
  have c: "screen_ok ?s"
    using assms(2) by (cases r) (auto simp: onError_rollback_def screen_ok_set_data)
  then show ?thesis
    using app_ok_drop [OF base_ok_invalidate [OF b c] screen_ok_invalidate [OF b c]]
    by (simp only: end_action_def Let_def)
qed

lemma app_ok_write:
  assumes "base_ok env s" and "screen_ok s" and "i < length (app_actions s)"
  shows "base_ok env (write_action i now s) \<and> screen_ok (write_action i now s)"
proof -
  let ?pa = "app_actions s ! i"
  have pa: "?pa \<in> set (app_actions s)" using assms(3) by simp
  obtain r c where w: "onMutate_write now (pa_input ?pa) (pa_key ?pa) (ses_cache s) = (r, c)" by fastforce
  show ?thesis
  proof (cases "\<exists>e. r = Inl e")
    case True
    then obtain e where r: "r = Inl e" by blast
    have "c = ses_cache s"
      using w r by (auto simp: onMutate_write_def Let_def split: option.splits if_splits sum.splits)
    then show ?thesis using app_ok_end [OF assms, of "Inl e" JUndef] by (simp add: write_action_def w r)
  next
    case False
    then obtain previous where r: "r = Inr previous" by (cases r) auto
    let ?as = "(app_actions s)[i := ?pa\<lparr>pa_previous := Some previous\<rparr>]"
    have as: "pa \<in> set ?as \<Longrightarrow> pa = ?pa\<lparr>pa_previous := Some previous\<rparr> \<or> pa \<in> set (app_actions s)" for pa
      using set_update_subset_insert by fastforce
    obtain sp lb lsp where k: "pa_key ?pa = lifecycleQueryKey (pa_rendered ?pa) sp" "keyed (pa_rendered ?pa) (list_hook sp)"
      and l: "pa_latest ?pa = lifecycleQueryKey lb lsp" "keyed lb (list_hook lsp)" "scope_agrees lb (pa_rendered ?pa)"
      using base_okD(8) [OF assms(1) pa] unfolding action_ok_def by blast
    let ?h = "hook_hash (pa_rendered ?pa) (list_hook sp)"
    have s': "base_ok env (s\<lparr>ses_cache := c\<rparr>) \<and> screen_ok (s\<lparr>ses_cache := c\<rparr>)
        \<and> (truthy previous \<longrightarrow> origin (app_log s) ?h previous)"
    proof (cases "truthy previous")
      case True
      with w r obtain nxt d where d: "getQueryData (pa_key ?pa) (ses_cache s) = Some previous"
        "optimistic_response nxt (pa_input ?pa) previous = Inr d" "c = setQueryData (pa_key ?pa) d (ses_cache s)"
        using onMutate_write_cases by metis
      have o: "origin (app_log s) ?h previous" using base_okD(2) [OF assms(1)] d(1) by (simp add: data_at_key k(1))
      moreover have "origin (app_log s) (hashKey (pa_key ?pa)) d"
        using origin.optimistic [OF o k(2) d(2)] by (simp add: k(1))
      ultimately show ?thesis
        using app_ok_set_data [OF assms(1)] assms(2) by (simp add: d(3) screen_ok_set_data)
    next
      case False
      then have "c = ses_cache s"
        using w r by (auto simp: onMutate_write_def Let_def split: option.splits if_splits sum.splits)
      then show ?thesis using assms(1,2) False by simp
    qed
    have "action_ok (app_log s) (?pa\<lparr>pa_previous := Some previous\<rparr>)"
      unfolding action_ok_def
      by (intro exI [of _ sp] exI [of _ lb] exI [of _ lsp]) (use s' k l in simp)
    then have "base_ok env (s\<lparr>ses_cache := c, app_actions := ?as\<rparr>)"
      using s' as base_okD(8) [OF assms(1)] app_ok_actions [of env "s\<lparr>ses_cache := c\<rparr>" ?as] by auto
    moreover have "screen_ok (s\<lparr>ses_cache := c, app_actions := ?as\<rparr>)"
    proof -
      have "pa' \<in> set ?as \<Longrightarrow> pa_attached pa' \<Longrightarrow> scope_agrees (ses_browser s) (pa_rendered pa')
          \<and> scope_agrees (app_rendered s) (pa_rendered pa') \<and> app_screen s \<noteq> SignIn" for pa'
        using as screen_okD(5) [OF assms(2)] pa by fastforce
      then show ?thesis using s' screen_ok_actions [of "s\<lparr>ses_cache := c\<rparr>" ?as] by simp
    qed
    ultimately show ?thesis by (simp add: write_action_def w r)
  qed
qed

text \<open>Signing in and out, and removing what nobody observes.\<close>

lemma base_ok_browser: "base_ok env (s\<lparr>ses_browser := b\<rparr>) \<longleftrightarrow> base_ok env s"
  by (simp add: base_ok_def)

lemma screen_ok_no_scope: "screen_ok s \<Longrightarrow> screen_ok (s\<lparr>ses_browser := clearStoredScope b\<rparr>)"
  by (auto simp: screen_ok_def list_all_iff)

lemma keyed_sign_in: "getStoredScope b = None \<Longrightarrow> list_all (keyed b \<circ> fst) (mounted SignIn)"
  by (simp add: keyed_def hook_key_def hook_defs key_defs)

lemma app_ok_render:
  assumes "base_ok env s" and "screen_ok s" and "b \<in> {ses_browser s, app_rendered s}"
    and "list_all (keyed b \<circ> fst) (mounted scr)"
  shows "base_ok env (render_with b scr s) \<and> screen_ok (render_with b scr s)"
proof -
  have "scope_agrees b (pa_rendered pa)" if "pa \<in> set (app_actions s)" "pa_attached pa" for pa
    using screen_okD(5) [OF assms(2) that] assms(3) by blast
  moreover have "scope_agrees (ses_browser s) b" using screen_okD(1) [OF assms(2)] assms(3) by auto
  ultimately show ?thesis
    using base_ok_render [OF assms(1,4)] screen_ok_render [OF assms(4)] by blast
qed

lemma app_ok_sign_in:
  assumes "base_ok env s"
    and "list_all (keyed (setStoredScope (tenant_scope.truncate payload) (ses_browser s)) \<circ> fst) (mounted SignIn)"
  shows "base_ok env (sign_in payload s) \<and> screen_ok (sign_in payload s)"
  unfolding sign_in_def render_def using assms
  by (intro conjI base_ok_render screen_ok_render) (simp_all add: base_ok_browser)

lemma app_ok_sign_in_failed:
  assumes "base_ok env s" and "screen_ok s"
  shows "base_ok env (sign_in_failed s) \<and> screen_ok (sign_in_failed s)"
proof -
  let ?s = "s\<lparr>ses_browser := clearStoredScope (ses_browser s)\<rparr>"
  have "base_ok env ?s" "screen_ok ?s"
    using assms by (simp_all add: base_ok_browser screen_ok_no_scope)
  moreover from this have "base_ok env (render SignIn ?s) \<and> screen_ok (render SignIn ?s)"
    unfolding render_def by (intro app_ok_render keyed_sign_in) simp_all
  ultimately show ?thesis by (simp add: sign_in_failed_def Let_def)
qed

lemma app_ok_signed_out:
  assumes "base_ok env s" and "screen_ok s"
  shows "base_ok env (signed_out s) \<and> screen_ok (signed_out s)"
proof
  show "base_ok env (signed_out s)"
    using base_okD [OF assms(1)] unfolding signed_out_def clear_cache_def
    by (intro base_okI) (simp_all add: cache_ok_def)
  show "screen_ok (signed_out s)"
    using screen_okD [OF assms(2)] unfolding signed_out_def clear_cache_def
    by (intro screen_okI) simp_all
qed

lemma app_ok_remove:
  assumes "base_ok env s" and "screen_ok s"
  shows "base_ok env (s\<lparr>ses_cache := optionalRemove h (ses_cache s)\<rparr>) \<and>
    screen_ok (s\<lparr>ses_cache := optionalRemove h (ses_cache s)\<rparr>)"
proof
  note s = base_okD [OF assms(1)]
  show "base_ok env (s\<lparr>ses_cache := optionalRemove h (ses_cache s)\<rparr>)"
    using s cache_ok_steps(8) [OF s(1)] fetching_at_remove [OF s(1)] data_at_remove [OF _ s(1)]
    by (intro base_okI) simp_all
  show "screen_ok (s\<lparr>ses_cache := optionalRemove h (ses_cache s)\<rparr>)"
    using screen_okD [OF assms(2)] observers_at_remove [OF s(1)]
    by (intro screen_okI) (simp_all, metis insertE singletonD)
qed

lemma app_invariant:
  assumes "app_step env s s'" and "base_ok env s" and "screen_ok s"
  shows "base_ok env s' \<and> screen_ok s'"
  using assms(1)
proof cases
  case (rendered scr)
  then show ?thesis using app_ok_render [OF assms(2,3), of "ses_browser s" scr] by (simp add: render_def)
next
  case (kept scr)
  then show ?thesis using app_ok_render [OF assms(2,3), of "app_rendered s" scr] by simp
next
  case (started m cr)
  then show ?thesis using base_ok_start screen_ok_start assms(2,3) by metis
next
  case (answered h rt w r w')
  then show ?thesis using base_ok_answer screen_ok_answer assms(2,3) by metis
next
  case (woken h rt)
  then show ?thesis using base_ok_wake screen_ok_wake assms(2,3) by (metis option.exhaust)
next
  case (invalidated filters)
  then show ?thesis using base_ok_invalidate screen_ok_invalidate assms(2,3) by metis
next
  case (cancelled filters)
  then show ?thesis using base_ok_cancel screen_ok_cancel assms(2,3) by metis
next
  case (action_started sp ms input)
  then show ?thesis using app_ok_begin assms(2,3) by metis
next
  case (action_written i now)
  then show ?thesis using app_ok_write assms(2,3) by metis
next
  case (action_ended i previous b now w r w')
  then show ?thesis using app_ok_end assms(2,3) by metis
next
  case (signing_in payload)
  then show ?thesis using app_ok_sign_in assms(2) by metis
next
  case signed_in
  then show ?thesis using base_ok_invalidate screen_ok_invalidate assms(2,3) by (metis sign_in_ok_def)
next
  case sign_in_fails
  then show ?thesis using app_ok_sign_in_failed assms(2,3) by metis
next
  case signed_out
  then show ?thesis using app_ok_signed_out assms(2,3) by metis
next
  case (collected h)
  then show ?thesis using app_ok_remove assms(2,3) by metis
qed

lemma app_reachable_ok: "app_reachable env s \<Longrightarrow> base_ok env s \<and> screen_ok s"
proof (induction rule: app_reachable.induct)
  case (start b)
  show ?case by (simp add: base_ok_def screen_ok_def app_start_def cache_ok_def)
next
  case (step s s')
  then show ?case using app_invariant by blast
qed

section \<open>Tenants do not mix\<close>

fun is_findings_list :: "app_query \<Rightarrow> bool" where
  "is_findings_list (QFindings _) = True"
| "is_findings_list (QGrouped _) = True"
| "is_findings_list _ = False"

definition improved :: "jsval \<Rightarrow> jsval \<Rightarrow> bool" where
  "improved d d' \<longleftrightarrow> (\<exists>nxt input. optimistic_response nxt input d = Inr d')"

inductive_cases same_hook_findingsE: "same_hook (QFindings x) a"
inductive_cases same_hook_groupedE: "same_hook (QGrouped x) a"

lemma list_hook_findings: "same_hook (list_hook sp) a \<Longrightarrow> is_findings_list a"
  using list_hook_cases [of sp] by (elim disjE) (auto elim!: same_hook_findingsE same_hook_groupedE)

lemma origin_answered:
  assumes "origin calls h d" and "\<And>c r. (c, r) \<in> set calls \<Longrightarrow> call_ok c"
    and "hook_hash b a = h" and "keyed b a" and "getStoredScope b = Some sc"
  shows "\<exists>c d0. (c, Inr d0) \<in> set calls \<and> getStoredScope (call_rendered c) = Some sc \<and> improved\<^sup>*\<^sup>* d0 d
    \<and> (\<not> is_findings_list a \<longrightarrow> call_hash c = h \<and> d0 = d)"
  using assms(1,3-5)
proof (induction arbitrary: b a rule: origin.induct)
  case (answer c d)
  then have "getStoredScope (call_rendered c) = Some sc"
    using hash_same_scope [of b a "call_rendered c" "call_query c"] assms(2) by (auto simp: call_hash_def call_ok_def)
  then show ?case using answer by blast
next
  case (optimistic b' sp d nxt input d')
  obtain c d0 where c: "(c, Inr d0) \<in> set calls" "getStoredScope (call_rendered c) = Some sc" "improved\<^sup>*\<^sup>* d0 d"
    using optimistic.IH [OF optimistic.prems] by blast
  have "is_findings_list a"
    using hash_same_hook [OF optimistic.prems(1) [symmetric] optimistic.hyps(2) optimistic.prems(2)] list_hook_findings
    by blast
  moreover have "improved d d'" using optimistic.hyps(3) unfolding improved_def by blast
  then have "improved\<^sup>*\<^sup>* d0 d'" by (rule rtranclp.rtrancl_into_rtrancl [OF c(3)])
  ultimately show ?case using c(1,2) by blast
next
  case (written_back b1 sp d b2 sp')
  note h = written_back.prems(1) [symmetric]
  have "is_findings_list a"
    using hash_same_hook [OF h written_back.hyps(3) written_back.prems(2)] list_hook_findings by blast
  moreover have "getStoredScope b1 = Some sc"
    using hash_same_scope [OF h written_back.hyps(3) written_back.prems(2)] written_back.prems(3) written_back.hyps(4)
    by (auto simp: scope_agrees_def)
  ultimately show ?case using written_back.IH [OF refl written_back.hyps(2)] by blast
qed

text \<open>
  C1. Whatever is read, retried, invalidated, cancelled and changed in whatever order, and whoever
  signs in and out meanwhile: what the cache shows to a tenant and workspace was answered to a
  request of a screen of that tenant and workspace, and the request was sent with them (or, after a
  sign-out, with none at all), never with those of somebody else.  For everything but the lists of
  findings it is exactly the answer to the request of this very hook; the lists may differ from it by
  the optimistic changes of lifecycle actions.
\<close>

theorem tenant_isolation:
  fixes env :: "'w api_env"
  assumes "app_reachable env s" and "getStoredScope b = Some sc" and "keyed b a"
    and "qo_enabled (app_hook b a :: 'w query_options)"
    and "getQueryData (qo_key (app_hook b a :: 'w query_options)) (ses_cache s) = Some d"
  shows "\<exists>c d0 w w'. (c, Inr d0) \<in> set (app_log s) \<and> run_call env c w = (Inr d0, w')
    \<and> getStoredScope (call_rendered c) = Some sc
    \<and> (getStoredScope (call_browser c) = Some sc \<or> getStoredScope (call_browser c) = None)
    \<and> improved\<^sup>*\<^sup>* d0 d
    \<and> (\<not> is_findings_list a \<longrightarrow>
         d0 = d \<and> qo_fn (app_hook (call_rendered c) (call_query c) :: 'w query_options) = qo_fn (app_hook b a))"
proof -
  note ok = base_okD [OF conjunct1 [OF app_reachable_ok [OF assms(1)]]]
  have "origin (app_log s) (hook_hash b a) d"
    using assms(5) ok(2) by (simp add: hook_types data_at_key)
  from origin_answered [OF this _ refl assms(3,2)] ok(3)
  obtain c d0 where c: "(c, Inr d0) \<in> set (app_log s)" "getStoredScope (call_rendered c) = Some sc" "improved\<^sup>*\<^sup>* d0 d"
    and l: "\<not> is_findings_list a \<Longrightarrow> call_hash c = hook_hash b a \<and> d0 = d" by metis
  have call: "call_ok c" and run: "\<exists>w w'. run_call env c w = (Inr d0, w')" using ok(3) [OF c(1)] by auto
  have "qo_fn (app_hook (call_rendered c) (call_query c) :: 'w query_options) = qo_fn (app_hook b a)"
    if "\<not> is_findings_list a"
  proof -
    have k: "hook_key (call_rendered c) (call_query c) = hook_key b a"
      using l [OF that] hashKey_inject keyed_plain [OF assms(3,2)] keyed_plain c(2) call
      by (metis call_hash_def call_ok_def hook_hash_def)
    have "qo_key (app_hook (call_rendered c) (call_query c) :: 'w query_options) = qo_key (app_hook b a :: 'w query_options)"
      using k by (simp only: hook_types(1))
    moreover have "qo_enabled (app_hook (call_rendered c) (call_query c) :: 'w query_options)"
      using call unfolding call_ok_def hook_types(2) [where 'w = 'w] by blast
    ultimately show ?thesis using same_query [OF _ c(2) assms(2) _ assms(4)] by blast
  qed
  then show ?thesis
    using c l run call by (auto simp: call_ok_def scope_agrees_def)
qed

lemma started_fetch:
  assumes "base_ok env s" and "app_fetches s (hook_hash (app_rendered s) a) = None"
  shows "app_fetches (start_fetch cr a s) (hook_hash (app_rendered s) a) = Some (new_fetch a s)"
proof (cases rule: start_fetch_cases [of s a cr])
  case (joined q)
  then have "fetching_at (observed_build a s) (hook_hash (app_rendered s) a)"
    by (auto simp: fetching_at_def find_query_def in_flight_def)
  then show ?thesis using assms(2) base_okD(7) [OF assms(1)] by simp
qed simp

text \<open>A successful answer is what the cache shows.\<close>

lemma answered_data:
  assumes "base_ok env s" and "app_fetches s h = Some rt" and "d \<noteq> JUndef"
  shows "data_at (ses_cache (answer_fetch h rt (Inr d) s)) h = Some d"
proof -
  have "fetching_at (ses_cache s) h" using base_okD(7) [OF assms(1), of h] assms(2) by simp
  moreover have "hook_hash (call_rendered (rt_call rt)) (call_query (rt_call rt)) = h"
    using base_okD(5) [OF assms(1,2)] by (simp add: call_hash_def)
  ultimately show ?thesis
    using assms(3)
    by (auto simp: answer_fetch_def settle_fetch_def settle_query_def data_at_def map_of_on_query fetching_at_def
        fetch_succeeded_def)
qed

section \<open>A run\<close>

text \<open>
  The findings page is opened, its list is answered with two findings, and one of them is resolved;
  every post fails.
\<close>

definition list_env :: "unit api_env" where
  "list_env = sample_env\<lparr>fetch := (\<lambda>u i w.
     (if init_method i = Some ''GET'' then Response 200 (Inr sample_previous) else NetworkError ''offline'', w))\<rparr>"

definition sample_list_hook :: app_query where
  "sample_list_hook = list_hook []"

definition sample_hash :: string where
  "sample_hash = hook_hash sample_browser sample_list_hook"

definition app1 :: app where
  "app1 = render (FindingsScreen [] []) (app_start sample_browser)"

definition app2 :: app where
  "app2 = start_fetch False sample_list_hook app1"

definition app3 :: app where
  "app3 = answer_fetch sample_hash (new_fetch sample_list_hook app1) (Inr sample_previous) app2"

definition app4 :: app where
  "app4 = begin_action sample_resolve [] app3"

definition app5 :: app where
  "app5 = write_action 0 0 app4"

lemma sample_list_hook: "sample_list_hook = QFindings (list_options [] True)"
  by (simp add: sample_list_hook_def list_hook_def list_hooks_def groupByFilter_def usp_get_def)

lemma sample_list_keyed: "list_all (keyed sample_browser \<circ> fst) (mounted (FindingsScreen [] []))"
  using rnd_int [of 0] by (simp add: list_hooks_def keyed_def sample_scope hook_key_def hook_defs key_defs list_options_def
      limitFilter_def page_number_def parsePositiveInt_def usp_get_def page_offset_def num_sub_def Let_def)

lemma sample_list_enabled: "hook_enabled sample_browser (sample_list_hook, True)"
  by (simp add: hook_enabled_def sample_list_hook hook_defs sample_scope scope_ready_def list_options_def Let_def)

lemma app1_sel [simp]:
  "ses_browser app1 = sample_browser" "app_rendered app1 = sample_browser" "app_screen app1 = FindingsScreen [] []"
  "app_fetches app1 h = None" "app_actions app1 = []"
  by (simp_all add: app1_def app_start_def render_def render_with_def leave_fetches_def Let_def)

lemma app1_reachable: "app_reachable list_env app1"
proof -
  have "app_step list_env (app_start sample_browser) app1"
    unfolding app1_def by (rule app_step.rendered) (use sample_list_keyed in \<open>simp add: app_start_def\<close>)
  then show ?thesis using app_reachable.step [OF app_reachable.start] by blast
qed

lemma app2_fetch: "app_fetches app2 sample_hash = Some (new_fetch sample_list_hook app1)"
  using started_fetch [OF conjunct1 [OF app_reachable_ok [OF app1_reachable]], of sample_list_hook]
  by (simp add: app2_def sample_hash_def)

lemma app2_sel [simp]:
  "ses_browser app2 = sample_browser" "app_rendered app2 = sample_browser" "app_screen app2 = FindingsScreen [] []"
  "app_actions app2 = []"
  by (cases rule: start_fetch_cases [of app1 sample_list_hook False]; simp add: app2_def)+

lemma app2_reachable: "app_reachable list_env app2"
proof -
  have "app_step list_env app1 (start_fetch False (fst (sample_list_hook, True)) app1)"
    using list_hook_mounted [of "[]" "[]"] sample_list_enabled
    by (intro app_step.started) (simp_all add: sample_list_hook_def del: mounted.simps)
  then show ?thesis using app_reachable.step [OF app1_reachable] by (simp add: app2_def)
qed

lemma app3_call: "run_call list_env (new_call sample_list_hook app1) () = (Inr sample_previous, ())"
proof -
  obtain u where u: "buildUrl list_env ''/findings'' (scopedQuery (getStoredScope sample_browser)
      (Some (findings_query (list_options [] True)))) = Inr u"
    by (simp add: buildUrl_def list_env_def sample_env_def getApiBaseUrl_def)
  show ?thesis
    using u by (simp add: run_call_def sample_list_hook useFindings_def api_get_def request_def no_options_def
        read_response_def list_env_def response_ok_def request_init_def member_read_def sample_previous_def Let_def)
qed

lemma app3_sel [simp]:
  "ses_browser app3 = sample_browser" "app_rendered app3 = sample_browser" "app_screen app3 = FindingsScreen [] []"
  "app_actions app3 = []"
  by (simp_all add: app3_def answer_fetch_def settle_fetch_def)

lemma app3_reachable: "app_reachable list_env app3"
  using app_reachable.step [OF app2_reachable app_step.answered [OF app2_fetch _ _]] app3_call
  by (simp add: app3_def new_fetch_def)

lemma app3_data: "data_at (ses_cache app3) sample_hash = Some sample_previous"
  unfolding app3_def
  by (rule answered_data [OF conjunct1 [OF app_reachable_ok [OF app2_reachable]] app2_fetch]) (simp add: sample_previous_def)

lemma app4_reachable: "app_reachable list_env app4"
  using app_reachable.step [OF app3_reachable app_step.action_started] by (simp add: app4_def)

lemma app4_data: "data_at (ses_cache app4) sample_hash = Some sample_previous"
  using app3_data base_okD(1) [OF conjunct1 [OF app_reachable_ok [OF app3_reachable]]]
  by (simp add: app4_def begin_action_def Let_def)

lemma app4_actions:
  "app_actions app4 = [\<lparr>pa_input = sample_resolve, pa_rendered = sample_browser, pa_key = lifecycleQueryKey sample_browser [],
     pa_latest = lifecycleQueryKey sample_browser [], pa_attached = True, pa_previous = None\<rparr>]"
  by (simp add: app4_def begin_action_def Let_def)

lemma app5_reachable: "app_reachable list_env app5"
  using app_reachable.step [OF app4_reachable app_step.action_written [of 0]] by (simp add: app5_def app4_actions)

lemma sample_hash: "sample_hash = hashKey (lifecycleQueryKey sample_browser [])"
  by (simp add: sample_hash_def sample_list_hook_def)

lemma app5_is: "app5 = app4\<lparr>ses_cache := setQueryData (lifecycleQueryKey sample_browser []) sample_next (ses_cache app4),
    app_actions := [(hd (app_actions app4))\<lparr>pa_previous := Some sample_previous\<rparr>]\<rparr>"
proof -
  have "bind_out (optimisticState 0 sample_resolve) (\<lambda>nxt. optimistic_response nxt sample_resolve sample_previous) = Inr sample_next"
    by code_simp
  moreover have "truthy sample_previous" by (simp add: sample_previous_def)
  moreover have "getQueryData (lifecycleQueryKey sample_browser []) (ses_cache app4) = Some sample_previous"
    using app4_data by (simp add: data_at_key sample_hash_def sample_list_hook_def)
  ultimately show ?thesis by (simp add: app5_def write_action_def app4_actions onMutate_write_def)
qed

lemma app5_data: "data_at (ses_cache app5) sample_hash = Some sample_next"
  by (simp add: app5_is data_at_set sample_next_def sample_hash_def sample_list_hook_def)

theorem tenant_isolation_witness:
  "app_reachable list_env app5
   \<and> getQueryData (qo_key (app_hook sample_browser sample_list_hook :: unit query_options)) (ses_cache app5) = Some sample_next
   \<and> (\<exists>c d0. (c, Inr d0) \<in> set (app_log app5) \<and> improved\<^sup>*\<^sup>* d0 sample_next
        \<and> getStoredScope (call_rendered c) = Some \<lparr>scope_tenantId = ''acme'', scope_workspace = ''prod''\<rparr>)"
proof -
  have k: "keyed sample_browser sample_list_hook"
    using sample_list_keyed keyed_list_hook by (simp only: sample_list_hook_def)
  have e: "qo_enabled (app_hook sample_browser sample_list_hook :: unit query_options)"
    using sample_list_enabled by (simp add: hook_enabled_def)
  have d: "getQueryData (qo_key (app_hook sample_browser sample_list_hook :: unit query_options)) (ses_cache app5) = Some sample_next"
    using app5_data by (simp add: hook_types data_at_key sample_hash_def)
  from tenant_isolation [OF app5_reachable sample_scope k e d] show ?thesis
    using app5_reachable d by blast
qed

section \<open>Reads come to an end\<close>

text \<open>The hooks that leave retrying to the client; the others are tried once.\<close>

fun tried_again :: "app_query \<Rightarrow> bool" where
  "tried_again (QFindings _) = True"
| "tried_again (QGrouped _) = True"
| "tried_again QKpis = True"
| "tried_again (QRecommendations _) = True"
| "tried_again (QRemediation _) = True"
| "tried_again (QUsers _) = True"
| "tried_again (QUserRole _) = True"
| "tried_again QRoles = True"
| "tried_again QWorkspaces = True"
| "tried_again QBindings = True"
| "tried_again (QAudit _) = True"
| "tried_again (QDirectory _) = True"
| "tried_again _ = False"

lemma hook_retry_tried: "hook_retry b a = (if tried_again a then RetryCount 1 else RetryBool False)"
  by (cases a) (simp_all add: hook_retry_def defaulted_retry_def hook_defs QueryProvider_defaults_def Let_def)

text \<open>
  A read is tried at most twice: its first answer counts when it is a success, or when the hook
  has turned retries off (the current user, the runs with their coverage, and the graphs); otherwise
  the second answer does, success or error.
\<close>

theorem read_attempts:
  "attempts (r1 # r2 # rs) (createRetryer (hook_retry b a) c) =
     Some (case r1 of Inr d \<Rightarrow> Inr d | Inl e \<Rightarrow> if tried_again a then r2 else Inl e)"
  by (cases r1; cases r2)
    (simp_all add: hook_retry_tried attempts_count [where n = "Suc 0"] attempts_never del: attempts.simps)

text \<open>What a fetch still has before it: the attempts that are left, and the pause it is in.\<close>

definition fetch_measure :: "call retryer \<Rightarrow> nat" where
  "fetch_measure rt =
     2 * (max_failures (rt_retry rt) - rt_failureCount rt) + (if rt_asleep rt = None then 1 else 2)"

definition measure_at :: "string \<Rightarrow> app \<Rightarrow> nat" where
  "measure_at h s = (case app_fetches s h of None \<Rightarrow> 0 | Some rt \<Rightarrow> fetch_measure rt)"

text \<open>The steps of one fetch: an answer, and the end of a pause.\<close>

inductive fetch_step :: "'w api_env \<Rightarrow> string \<Rightarrow> app \<Rightarrow> app \<Rightarrow> bool" for env h s where
  answer: "app_fetches s h = Some rt \<Longrightarrow> rt_asleep rt = None \<Longrightarrow> run_call env (rt_call rt) w = (r, w') \<Longrightarrow>
    fetch_step env h s (answer_fetch h rt r s)"
| wake: "app_fetches s h = Some rt \<Longrightarrow> rt_asleep rt = Some e \<Longrightarrow> fetch_step env h s (wake_fetch h rt s)"

lemma fetch_step_app: "fetch_step env h s s' \<Longrightarrow> app_step env s s'"
  by (induction rule: fetch_step.induct) (simp_all add: app_step.intros)

lemma settle_fetch_at:
  "app_fetches (settle_fetch h c out s) h = (case out of Inl r \<Rightarrow> None | Inr rt \<Rightarrow> Some rt)"
  by (simp add: settle_fetch_def split: sum.split)

lemma fetch_measure_pos: "0 < fetch_measure rt"
  by (simp add: fetch_measure_def)

lemma fetch_step_measure:
  assumes "fetch_step env h s s'" and "app_reachable env s"
  shows "measure_at h s' < measure_at h s"
  using assms(1)
proof cases
  case (answer rt w r w')
  have ok: "retry_ok rt" using base_okD(6) [OF conjunct1 [OF app_reachable_ok [OF assms(2)]] answer(2)] .
  show ?thesis
    using answer ok retry_ok_failed [OF ok] fetch_measure_pos [of rt]
    by (auto simp: measure_at_def answer_fetch_def settle_fetch_at rt_answered_on fetch_measure_def retry_ok_def
        split: sum.split)
next
  case (wake rt e)
  then show ?thesis
    using fetch_measure_pos [of rt]
    by (auto simp: measure_at_def wake_fetch_def settle_fetch_at rt_awake_on fetch_measure_def split: sum.split)
qed

lemma fetch_step_exists:
  fixes env :: "'w api_env"
  assumes "app_fetches s h = Some rt"
  shows "\<exists>s'. fetch_step env h s s'"
proof (cases "rt_asleep rt")
  case None
  obtain w w' :: 'w and r where "run_call env (rt_call rt) w = (r, w')" by fastforce
  from fetch_step.answer [OF assms None this] show ?thesis by blast
qed (blast intro: fetch_step.wake assms)

lemma fetch_settles:
  assumes "app_reachable env s"
  shows "\<exists>s'. (fetch_step env h)\<^sup>*\<^sup>* s s' \<and> app_reachable env s' \<and> app_fetches s' h = None"
  using assms
proof (induction "measure_at h s" arbitrary: s rule: less_induct)
  case less
  show ?case
  proof (cases "app_fetches s h")
    case None
    then show ?thesis using less.prems by blast
  next
    case (Some rt)
    then obtain s1 where s1: "fetch_step env h s s1" using fetch_step_exists by blast
    from less.hyps [OF fetch_step_measure [OF s1 less.prems] app_reachable.step [OF less.prems fetch_step_app [OF s1]]]
    show ?thesis using converse_rtranclp_into_rtranclp [of "fetch_step env h", OF s1] by blast
  qed
qed

lemma fetch_steps_end:
  assumes "app_reachable env (f 0)" and "\<forall>n. fetch_step env h (f n) (f (Suc n))"
  shows False
proof -
  have r: "app_reachable env (f n)" for n
    by (induction n) (use assms fetch_step_app app_reachable.step in blast)+
  have "measure_at h (f n) + n \<le> measure_at h (f 0)" for n
  proof (induction n)
    case (Suc n)
    have "measure_at h (f (Suc n)) < measure_at h (f n)" using fetch_step_measure r assms(2) by metis
    with Suc show ?case by simp
  qed simp
  from this [of "Suc (measure_at h (f 0))"] show False by simp
qed

text \<open>
  C6. No read hangs: in every reachable state a query that is shown as loading has a fetch that failed
  at most once (never, when its hook turned retries off).  However its requests are answered, only
  finitely many answers and pauses follow, and in the end the query is not loading any more.
\<close>

theorem reads_settle:
  assumes "app_reachable env s" and "find_query key (ses_cache s) = Some q" and "st_fetching (q_state q)"
  shows "(\<exists>rt. app_fetches s (hashKey key) = Some rt
      \<and> rt_failureCount rt \<le> (if tried_again (call_query (rt_call rt)) then 1 else 0))
    \<and> (\<exists>s'. (fetch_step env (hashKey key))\<^sup>*\<^sup>* s s'
         \<and> (\<forall>q'. find_query key (ses_cache s') = Some q' \<longrightarrow> \<not> st_fetching (q_state q')))
    \<and> \<not> (\<exists>f. f 0 = s \<and> (\<forall>n. fetch_step env (hashKey key) (f n) (f (Suc n))))"
proof -
  note ok = conjunct1 [OF app_reachable_ok [OF assms(1)]]
  obtain rt where rt: "app_fetches s (hashKey key) = Some rt"
    using base_okD(7) [OF ok, of "hashKey key"] assms(2,3) by (auto simp: fetching_at_def find_query_def)
  have "rt_failureCount rt \<le> (if tried_again (call_query (rt_call rt)) then 1 else 0)"
    using base_okD(6) [OF ok rt] by (auto simp: retry_ok_def hook_retry_tried split: if_splits)
  moreover obtain s' where s': "(fetch_step env (hashKey key))\<^sup>*\<^sup>* s s'" "app_reachable env s'"
    "app_fetches s' (hashKey key) = None" using fetch_settles [OF assms(1)] by blast
  have "\<not> fetching_at (ses_cache s') (hashKey key)"
    using base_okD(7) [OF conjunct1 [OF app_reachable_ok [OF s'(2)]]] s'(3) by simp
  then have "\<forall>q'. find_query key (ses_cache s') = Some q' \<longrightarrow> \<not> st_fetching (q_state q')"
    by (auto simp: fetching_at_def find_query_def)
  moreover have "\<not> (\<exists>f. f 0 = s \<and> (\<forall>n. fetch_step env (hashKey key) (f n) (f (Suc n))))"
    using fetch_steps_end assms(1) by metis
  ultimately show ?thesis using rt s'(1) by blast
qed

theorem reads_settle_witness:
  "app_reachable list_env app2 \<and> app_fetches app2 sample_hash \<noteq> None
   \<and> (\<exists>s'. (fetch_step list_env sample_hash)\<^sup>*\<^sup>* app2 s')"
proof -
  have "fetching_at (ses_cache app2) sample_hash"
    using base_okD(7) [OF conjunct1 [OF app_reachable_ok [OF app2_reachable]], of sample_hash] app2_fetch by simp
  then obtain q where "find_query (lifecycleQueryKey sample_browser []) (ses_cache app2) = Some q" "st_fetching (q_state q)"
    by (auto simp: fetching_at_def find_query_def sample_hash)
  from reads_settle [OF app2_reachable this] show ?thesis
    using app2_reachable app2_fetch by (auto simp: sample_hash)
qed

section \<open>Signing in and out as steps\<close>

text \<open>\<open>login\<close> and \<open>logout\<close> of the hook are these steps, run without anything in between.\<close>

lemma render_sel [simp]:
  "ses_browser (render scr s) = ses_browser s" "app_screen (render scr s) = scr" "app_rendered (render scr s) = ses_browser s"
  "data_at (ses_cache (render scr s)) h = data_at (ses_cache s) h"
  by (simp_all add: render_def render_with_def Let_def)

lemma login_steps:
  assumes "login env payload (session.truncate s) w = (r, t, w')"
  defines "s' \<equiv> (case r of Inl _ \<Rightarrow> sign_in_failed (sign_in payload s) | Inr _ \<Rightarrow> sign_in_ok (sign_in payload s))"
  shows "ses_browser s' = ses_browser t \<and> (\<forall>k. getQueryData k (ses_cache s') = getQueryData k (ses_cache t))"
  using assms(1) unfolding s'_def
  by (auto simp: login_def session.defs sign_in_def sign_in_failed_def sign_in_ok_def data_at_key Let_def
      split: prod.splits sum.splits)

lemma logout_steps: "logout env (session.truncate s) w = (r, t, w') \<Longrightarrow> session.truncate (signed_out s) = t"
  by (auto simp: logout_def signed_out_def session.defs split: prod.splits)

text \<open>
  C20. Signing out does not end everything: a lifecycle action that was pending at the sign-out and
  fails afterwards writes the findings it took as a snapshot back into the cache that the sign-out
  has just cleared, where the next user of the tenant and workspace finds them.
\<close>

theorem sign_out_then_roll_back:
  assumes "app_reachable env s" and "i < length (app_actions s)"
    and "pa_previous (app_actions s ! i) = Some previous" and "truthy previous"
    and "lifecycle_mutationFn env b now (pa_input (app_actions s ! i)) w = (Inl e, w')"
  defines "s' \<equiv> end_action i previous (Inl e) (signed_out s)"
  shows "app_reachable env (signed_out s) \<and> ses_cache (signed_out s) = [] \<and> app_reachable env s'
    \<and> getQueryData (pa_latest (app_actions s ! i)) (ses_cache s') = Some previous"
proof -
  have r: "app_reachable env (signed_out s)"
    using assms(1) app_step.signed_out by (rule app_reachable.step)
  have a: "app_actions (signed_out s) = app_actions s" and c: "ses_cache (signed_out s) = []"
    by (simp_all add: signed_out_def clear_cache_def)
  have "app_step env (signed_out s) s'"
    unfolding s'_def by (rule app_step.action_ended) (use assms(2,3,5) a in simp_all)
  then have "app_reachable env s'" using r by (rule app_reachable.step [rotated])
  moreover have "previous \<noteq> JUndef" using assms(4) by auto
  then have "getQueryData (pa_latest (app_actions s ! i)) (ses_cache s') = Some previous"
    using assms(4)
    by (simp add: s'_def end_action_def drop_action_def a c onError_rollback_def data_at_key data_at_set Let_def)
  ultimately show ?thesis using r c by blast
qed

lemma app5_post_fails: "\<exists>e. lifecycle_mutationFn list_env sample_browser 0 sample_resolve () = (Inl e, ())"
proof -
  obtain body where b: "lifecycle_body 0 sample_resolve = Inr body"
    by (simp add: lifecycle_body_def sample_resolve_def sample_input_def Let_def)
  obtain u where u: "buildUrl list_env (''/lifecycle/'' @ action_name (li_action sample_resolve))
      (scopedQuery (getStoredScope sample_browser) None) = Inr u"
    by (simp add: buildUrl_def list_env_def sample_env_def getApiBaseUrl_def)
  show ?thesis
    using u by (simp add: lifecycle_mutationFn_def b api_post_def request_def no_options_def request_init_def
        read_response_def list_env_def Let_def)
qed

theorem sign_out_then_roll_back_witness:
  "\<exists>e. getQueryData (lifecycleQueryKey sample_browser [])
     (ses_cache (end_action 0 sample_previous (Inl e) (signed_out app5))) = Some sample_previous"
proof -
  obtain e where e: "lifecycle_mutationFn list_env sample_browser 0 sample_resolve () = (Inl e, ())"
    using app5_post_fails by blast
  have "app_actions app5 = [\<lparr>pa_input = sample_resolve, pa_rendered = sample_browser,
      pa_key = lifecycleQueryKey sample_browser [], pa_latest = lifecycleQueryKey sample_browser [], pa_attached = True,
      pa_previous = Some sample_previous\<rparr>]" by (simp add: app5_is app4_actions)
  moreover have "truthy sample_previous" by (simp add: sample_previous_def)
  ultimately show ?thesis
    using sign_out_then_roll_back [OF app5_reachable, of 0 sample_previous sample_browser 0 "()" e "()"] e by auto
qed

end
