(* ===== verification/JsStore.thy ===== *)
theory JsStore
  imports JsValue
begin

text \<open>
  The objects that the modules of the build output share.  A server module exports objects
  whose properties are getters over the variables of other modules, namespaces that are sealed,
  and proxies that forward to re-exported objects; so here, unlike in \<open>JsValue\<close>, objects have
  an identity, prototypes and accessors, and live in a store.

  An object is an address.  An entry of the store is an ordinary object or a proxy made by
  \<open>ensureDynamicExports\<close>, which knows its target and the module whose re-exports it serves.
  Reading a property may run through getters and proxies and need not end (two modules that
  re-export each other): \<open>depth\<close> is the depth of the stack, and running out of it is the
  engine's \<open>RangeError\<close>.

  An exception that the loader itself makes is a value with a name, a message, a code and a
  cause, and no identity; no module uses one as its exports object.
\<close>

section \<open>Values and objects\<close>

datatype mval =
    Undefined
  | Null
  | Boolean bool
  | Number num
  | Str string
  | Ref nat
  | ErrorObject (eo_name: string) (eo_message: string) (eo_code: "string option") (eo_cause: "mval option")

datatype key = Name string | ToStringTag

text \<open>
  The closures that are installed as getters: of a module, \<open>() => x\<close> over one of its
  variables; of the loader, \<open>createGetter(obj, key)\<close>.
\<close>

datatype getter = Variable nat | Member mval string

datatype property =
    DataProp (dp_value: mval) (dp_enumerable: bool) (dp_writable: bool)
  | Accessor (ac_get: getter) (ac_set: "nat option")

datatype prototype = NullProto | ObjectPrototype | ArrayPrototype | FunctionPrototype | Proto nat

record js_object =
  callable :: bool
  proto :: prototype
  sealed :: bool
  props :: "(key \<times> property) list"

datatype js_entry = Plain js_object | Proxied (px_target: nat) (px_module: nat)

text \<open>
  \<open>variables\<close> holds the variables of the modules, \<open>None\<close> before the declaration of the variable
  has run; \<open>reexports\<close> is the weak map \<open>REEXPORTED_OBJECTS\<close>.
\<close>

record js_store =
  objects :: "js_entry list"
  variables :: "nat \<Rightarrow> mval option"
  reexports :: "nat \<Rightarrow> mval list option"

type_synonym 'a mres = "mval + 'a"

definition js_error :: "string \<Rightarrow> mval" where
  "js_error m = ErrorObject ''Error'' m None None"

definition type_error :: "string \<Rightarrow> mval" where
  "type_error m = ErrorObject ''TypeError'' m None None"

definition range_error :: mval where
  "range_error = ErrorObject ''RangeError'' ''Maximum call stack size exceeded'' None None"

definition tdz_error :: mval where
  "tdz_error = ErrorObject ''ReferenceError'' ''Cannot access variable before initialization'' None None"

fun mtruthy :: "mval \<Rightarrow> bool" where
  "mtruthy Undefined = False"
| "mtruthy Null = False"
| "mtruthy (Boolean b) = b"
| "mtruthy (Number x) = (x \<noteq> NaN \<and> x \<noteq> Fin 0)"
| "mtruthy (Str s) = (s \<noteq> [])"
| "mtruthy (Ref _) = True"
| "mtruthy (ErrorObject _ _ _ _) = True"

section \<open>The store\<close>

definition alloc :: "js_entry \<Rightarrow> js_store \<Rightarrow> js_store \<times> nat" where
  "alloc e st = (st\<lparr>objects := objects st @ [e]\<rparr>, length (objects st))"

definition entry_at :: "js_store \<Rightarrow> nat \<Rightarrow> js_entry option" where
  "entry_at st a = (if a < length (objects st) then Some (objects st ! a) else None)"

text \<open>The ordinary object under a proxy.  A proxy is younger than its target.\<close>

function base :: "js_store \<Rightarrow> nat \<Rightarrow> nat" where
  "base st a =
     (case entry_at st a of
        Some (Proxied t m) \<Rightarrow> if t < a then base st t else a
      | _ \<Rightarrow> a)"
  by pat_completeness auto
termination by (relation "measure snd") auto

declare base.simps [simp del]

definition plain_at :: "js_store \<Rightarrow> nat \<Rightarrow> js_object option" where
  "plain_at st a = (case entry_at st (base st a) of Some (Plain ob) \<Rightarrow> Some ob | _ \<Rightarrow> None)"

definition update_plain :: "nat \<Rightarrow> (js_object \<Rightarrow> js_object) \<Rightarrow> js_store \<Rightarrow> js_store" where
  "update_plain a f st =
     (case plain_at st a of
        Some ob \<Rightarrow> st\<lparr>objects := (objects st)[base st a := Plain (f ob)]\<rparr>
      | None \<Rightarrow> st)"

text \<open>\<open>typeof v === 'function'\<close> and \<open>typeof v === 'object'\<close>.\<close>

definition is_function :: "js_store \<Rightarrow> mval \<Rightarrow> bool" where
  "is_function st v =
     (case v of Ref a \<Rightarrow> (case plain_at st a of Some ob \<Rightarrow> callable ob | None \<Rightarrow> False) | _ \<Rightarrow> False)"

definition typeof_object :: "js_store \<Rightarrow> mval \<Rightarrow> bool" where
  "typeof_object st v =
     (case v of
        Null \<Rightarrow> True
      | Ref a \<Rightarrow> \<not> is_function st v
      | ErrorObject _ _ _ _ \<Rightarrow> True
      | _ \<Rightarrow> False)"

section \<open>Keys\<close>

text \<open>Keys that are array indices come first, in ascending order; symbols come last.\<close>

definition is_index :: "string \<Rightarrow> bool" where
  "is_index s \<longleftrightarrow> s \<noteq> [] \<and> list_all is_digit s \<and> nat_to_string (digits_val s) = s \<and> digits_val s < 2 ^ 32 - 1"

fun names_of :: "key list \<Rightarrow> string list" where
  "names_of [] = []"
| "names_of (Name s # ks) = s # names_of ks"
| "names_of (ToStringTag # ks) = names_of ks"

definition ordered_keys :: "key list \<Rightarrow> key list" where
  "ordered_keys ks =
     map Name (sort_key digits_val (filter is_index (names_of ks)) @ filter (\<lambda>s. \<not> is_index s) (names_of ks))
     @ (if ToStringTag \<in> set ks then [ToStringTag] else [])"

text \<open>\<open>hasOwnProperty.call(v, k)\<close>; a proxy of the loader has no trap for it.\<close>

definition has_own :: "js_store \<Rightarrow> mval \<Rightarrow> key \<Rightarrow> bool mres" where
  "has_own st v k =
     (case v of
        Undefined \<Rightarrow> Inl (type_error ''Cannot convert undefined or null to object'')
      | Null \<Rightarrow> Inl (type_error ''Cannot convert undefined or null to object'')
      | Str s \<Rightarrow> Inr (k = Name ''length'' \<or> k \<in> set (map (\<lambda>i. Name (nat_to_string i)) [0..<length s]))
      | Ref a \<Rightarrow> Inr (case plain_at st a of Some ob \<Rightarrow> k \<in> set (keys_of (props ob)) | None \<Rightarrow> False)
      | _ \<Rightarrow> Inr False)"

text \<open>\<open>Reflect.ownKeys\<close>, with the trap of the loader's proxies; the engine refuses keys that a
  target which is not extensible does not have.\<close>

fun add_keys :: "(mval \<Rightarrow> key list mres) \<Rightarrow> key list \<Rightarrow> mval list \<Rightarrow> key list mres" where
  "add_keys f ks [] = Inr ks"
| "add_keys f ks (v # vs) =
     (case f v of
        Inl e \<Rightarrow> Inl e
      | Inr new \<Rightarrow>
          add_keys f
            (fold (\<lambda>k acc. if k \<noteq> Name ''default'' \<and> k \<notin> set acc then acc @ [k] else acc) new ks) vs)"

definition extra_key_error :: mval where
  "extra_key_error = type_error ([CHR 0x27] @ ''ownKeys'' @ [CHR 0x27] @
     '' on proxy: trap returned extra keys but proxy target is non-extensible'')"

primrec own_keys :: "nat \<Rightarrow> js_store \<Rightarrow> mval \<Rightarrow> key list mres" where
  "own_keys 0 st v = Inl range_error"
| "own_keys (Suc depth) st v =
     (case v of
        Ref a \<Rightarrow>
          (case entry_at st a of
             Some (Plain ob) \<Rightarrow> Inr (ordered_keys (keys_of (props ob)))
           | Some (Proxied t m) \<Rightarrow>
               (case own_keys depth st (Ref t) of
                  Inl e \<Rightarrow> Inl e
                | Inr ks \<Rightarrow>
                    (case add_keys (own_keys depth st) ks (orelse (reexports st m) []) of
                       Inl e \<Rightarrow> Inl e
                     | Inr ks' \<Rightarrow>
                         if (case plain_at st t of Some ob \<Rightarrow> sealed ob | None \<Rightarrow> False) \<and> ks' \<noteq> ks
                         then Inl extra_key_error else Inr ks'))
           | None \<Rightarrow> Inr [])
      | _ \<Rightarrow> Inl (type_error ''Reflect.ownKeys called on non-object''))"

section \<open>Reading a property\<close>

definition read_error :: "string \<Rightarrow> string \<Rightarrow> mval" where
  "read_error v k =
     type_error (''Cannot read properties of '' @ v @ '' (reading '' @ [CHR 0x27] @ k @ [CHR 0x27] @ '')'')"

fun first_defined :: "(mval \<Rightarrow> mval mres) \<Rightarrow> mval list \<Rightarrow> mval mres" where
  "first_defined f [] = Inr Undefined"
| "first_defined f (v # vs) =
     (case f v of Inl e \<Rightarrow> Inl e | Inr w \<Rightarrow> if w \<noteq> Undefined then Inr w else first_defined f vs)"

primrec get_prop :: "nat \<Rightarrow> js_store \<Rightarrow> mval \<Rightarrow> string \<Rightarrow> mval mres" where
  "get_prop 0 st v k = Inl range_error"
| "get_prop (Suc depth) st v k =
     (case v of
        Undefined \<Rightarrow> Inl (read_error ''undefined'' k)
      | Null \<Rightarrow> Inl (read_error ''null'' k)
      | Ref a \<Rightarrow>
          (case entry_at st a of
             Some (Plain ob) \<Rightarrow>
               (case map_of (props ob) (Name k) of
                  Some (DataProp w _ _) \<Rightarrow> Inr w
                | Some (Accessor g _) \<Rightarrow>
                    (case g of
                       Variable x \<Rightarrow> (case variables st x of Some w \<Rightarrow> Inr w | None \<Rightarrow> Inl tdz_error)
                     | Member w k' \<Rightarrow> get_prop depth st w k')
                | None \<Rightarrow> (case proto ob of Proto b \<Rightarrow> get_prop depth st (Ref b) k | _ \<Rightarrow> Inr Undefined))
           | Some (Proxied t m) \<Rightarrow>
               if has_own st (Ref t) (Name k) = Inr True \<or> k = ''default'' \<or> k = ''__esModule''
               then get_prop depth st (Ref t) k
               else first_defined (\<lambda>w. get_prop depth st w k) (orelse (reexports st m) [])
           | None \<Rightarrow> Inr Undefined)
      | _ \<Rightarrow> Inr Undefined)"

section \<open>Defining properties\<close>

text \<open>What an operation does to the store, and what it throws, if it throws.\<close>

type_synonym effect = "js_store \<times> mval option"

text \<open>\<open>defineProp(obj, name, options)\<close>: nothing when the object has the property.\<close>

definition key_text :: "key \<Rightarrow> string" where
  "key_text k = (case k of Name s \<Rightarrow> s | ToStringTag \<Rightarrow> ''Symbol(Symbol.toStringTag)'')"

definition defineProp :: "mval \<Rightarrow> key \<Rightarrow> property \<Rightarrow> js_store \<Rightarrow> effect" where
  "defineProp obj k p st =
     (case has_own st obj k of
        Inl e \<Rightarrow> (st, Some e)
      | Inr own \<Rightarrow>
          if own then (st, None)
          else
            (case obj of
               Ref a \<Rightarrow>
                 (case plain_at st a of
                    Some ob \<Rightarrow>
                      if sealed ob
                      then (st, Some (type_error (''Cannot define property '' @ key_text k @
                                        '', object is not extensible'')))
                      else (update_plain a (\<lambda>ob. ob\<lparr>props := props ob @ [(k, p)]\<rparr>) st, None)
                  | None \<Rightarrow> (st, None))
             | _ \<Rightarrow> (st, Some (type_error ''Object.defineProperty called on non-object''))))"

text \<open>\<open>Object.seal(obj)\<close>; through a proxy the keys are read by its trap once the target is no
  longer extensible.\<close>

definition seal :: "nat \<Rightarrow> mval \<Rightarrow> js_store \<Rightarrow> effect" where
  "seal depth obj st =
     (case obj of
        Ref a \<Rightarrow>
          (let st' = update_plain a (\<lambda>ob. ob\<lparr>sealed := True\<rparr>) st in
           case own_keys depth st' obj of Inl e \<Rightarrow> (st', Some e) | Inr _ \<Rightarrow> (st', None))
      | _ \<Rightarrow> (st, None))"

end
