(* ===== verification/ModuleExports.thy ===== *)
theory ModuleExports
  imports JsStore
begin

text \<open>
  What a module's exports become (\<open>[turbopack]_runtime.js\<close>, the shared part): the namespace of an
  ECMAScript module (\<open>esm\<close>), the namespace a CommonJS module is given when it is imported
  (\<open>interopEsm\<close>, \<open>createNS\<close>), external modules, \<open>require.context\<close>.

  The array of bindings that the compiler writes is a sequence of groups: a name, the tag 0 and
  a value; a name and a getter; a name, a getter and a setter.  Here a group is a value.
\<close>

section \<open>Namespaces\<close>

datatype slot =
    Tagged int mval
  | Lazy getter "nat option"

datatype binding = Bind (bound_name: string) (bound_slot: slot)

text \<open>One statement after another, until one throws.\<close>

definition and_then :: "effect \<Rightarrow> (js_store \<Rightarrow> effect) \<Rightarrow> effect" where
  "and_then r f = (case r of (st, Some e) \<Rightarrow> (st, Some e) | (st, None) \<Rightarrow> f st)"

definition BindingTag_Value :: int where
  "BindingTag_Value = 0"

definition unexpected_tag :: "int \<Rightarrow> mval" where
  "unexpected_tag t = js_error (''unexpected tag: '' @ int_to_string t)"

fun esm_bindings :: "mval \<Rightarrow> binding list \<Rightarrow> js_store \<Rightarrow> effect" where
  "esm_bindings exports [] st = (st, None)"
| "esm_bindings exports (Bind propName (Tagged tag v) # rest) st =
     (if tag = BindingTag_Value
      then and_then (defineProp exports (Name propName) (DataProp v True False) st) (esm_bindings exports rest)
      else (st, Some (unexpected_tag tag)))"
| "esm_bindings exports (Bind propName (Lazy getterFn setterFn) # rest) st =
     and_then (defineProp exports (Name propName) (Accessor getterFn setterFn) st) (esm_bindings exports rest)"

definition esm :: "nat \<Rightarrow> mval \<Rightarrow> binding list \<Rightarrow> js_store \<Rightarrow> effect" where
  "esm depth exports bindings st =
     and_then (defineProp exports (Name ''__esModule'') (DataProp (Boolean True) False False) st)
       (\<lambda>st. and_then (defineProp exports ToStringTag (DataProp (Str ''Module'') False False) st)
       (\<lambda>st. and_then (esm_bindings exports bindings st)
       (\<lambda>st. seal depth exports st)))"

text \<open>The loop of \<open>interopEsm\<close>: the names of \<open>raw\<close> and of its prototypes, until one that is not expanded.\<close>

primrec interop_names :: "nat \<Rightarrow> js_store \<Rightarrow> mval \<Rightarrow> string list mres" where
  "interop_names 0 st current = Inl range_error"
| "interop_names (Suc depth) st current =
     (case current of
        Ref a \<Rightarrow>
          (case own_keys depth st current of
             Inl e \<Rightarrow> Inl e
           | Inr ks \<Rightarrow>
               (case (case plain_at st a of Some ob \<Rightarrow> proto ob | None \<Rightarrow> NullProto) of
                  Proto b \<Rightarrow>
                    (case interop_names depth st (Ref b) of
                       Inl e \<Rightarrow> Inl e
                     | Inr names \<Rightarrow> Inr (names_of ks @ names))
                | _ \<Rightarrow> Inr (names_of ks)))
      | _ \<Rightarrow> Inr [])"

fun replace_default :: "mval \<Rightarrow> binding list \<Rightarrow> binding list" where
  "replace_default raw [] = [Bind ''default'' (Tagged BindingTag_Value raw)]"
| "replace_default raw (b # bs) =
     (if bound_name b = ''default'' then Bind ''default'' (Tagged BindingTag_Value raw) # bs
      else b # replace_default raw bs)"

definition interop_bindings :: "mval \<Rightarrow> bool \<Rightarrow> string list \<Rightarrow> binding list" where
  "interop_bindings raw allowExportDefault names =
     (let bindings = map (\<lambda>k. Bind k (Lazy (Member raw k) None)) names in
      if allowExportDefault \<and> ''default'' \<in> set names then bindings
      else replace_default raw bindings)"

definition interopEsm :: "nat \<Rightarrow> mval \<Rightarrow> mval \<Rightarrow> bool \<Rightarrow> js_store \<Rightarrow> effect" where
  "interopEsm depth raw ns allowExportDefault st =
     (case interop_names depth st raw of
        Inl e \<Rightarrow> (st, Some e)
      | Inr names \<Rightarrow> esm depth ns (interop_bindings raw allowExportDefault names) st)"

text \<open>
  \<open>createNS(raw)\<close>: for a function a function of its own, which forwards calls to \<open>raw\<close>; like every
  function that is not strict it is born with five properties.
\<close>

definition function_props :: "mval \<Rightarrow> (key \<times> property) list" where
  "function_props prototype =
     [(Name ''length'', DataProp (Number (Fin 0)) False False),
      (Name ''name'', DataProp (Str []) False False),
      (Name ''arguments'', DataProp Null False False),
      (Name ''caller'', DataProp Null False False),
      (Name ''prototype'', DataProp prototype False True)]"

definition createNS :: "mval \<Rightarrow> js_store \<Rightarrow> js_store \<times> mval" where
  "createNS raw st =
     (if is_function st raw
      then
        let a = length (objects st);
            prototype = \<lparr>callable = False, proto = ObjectPrototype, sealed = False,
                         props = [(Name ''constructor'', DataProp (Ref (Suc a)) False True)]\<rparr>;
            forward = \<lparr>callable = True, proto = FunctionPrototype, sealed = False,
                       props = function_props (Ref a)\<rparr>
        in (st\<lparr>objects := objects st @ [Plain prototype, Plain forward]\<rparr>, Ref (Suc a))
      else
        let (st', a) = alloc (Plain \<lparr>callable = False, proto = NullProto, sealed = False, props = []\<rparr>) st
        in (st', Ref a))"

text \<open>
  The namespace of a module that is no ECMAScript module, as \<open>esmImport\<close> and the functions for
  external modules make it.
\<close>

definition interop_namespace :: "nat \<Rightarrow> mval \<Rightarrow> bool \<Rightarrow> js_store \<Rightarrow> js_store \<times> mval mres" where
  "interop_namespace depth raw allowExportDefault st =
     (let (st1, ns) = createNS raw st in
      case interopEsm depth raw ns allowExportDefault st1 of
        (st2, Some e) \<Rightarrow> (st2, Inl e)
      | (st2, None) \<Rightarrow> (st2, Inr ns))"

text \<open>\<open>raw && raw.__esModule\<close>, as a truth value.\<close>

definition is_es_module :: "nat \<Rightarrow> js_store \<Rightarrow> mval \<Rightarrow> bool mres" where
  "is_es_module depth st raw =
     (if mtruthy raw
      then (case get_prop depth st raw ''__esModule'' of Inl e \<Rightarrow> Inl e | Inr v \<Rightarrow> Inr (mtruthy v))
      else Inr False)"

section \<open>External modules\<close>

text \<open>
  \<open>String(err)\<close> of a thrown value; \<open>text_of\<close> is what an object of a foreign module prints as.
\<close>

fun mval_text :: "(mval \<Rightarrow> string) \<Rightarrow> mval \<Rightarrow> string" where
  "mval_text text_of Undefined = ''undefined''"
| "mval_text text_of Null = ''null''"
| "mval_text text_of (Boolean b) = (if b then ''true'' else ''false'')"
| "mval_text text_of (Number x) = num_to_string x"
| "mval_text text_of (Str s) = s"
| "mval_text text_of (Ref a) = text_of (Ref a)"
| "mval_text text_of (ErrorObject n m _ _) = (if n = [] then m else if m = [] then n else n @ '': '' @ m)"

definition external_failure :: "(mval \<Rightarrow> string) \<Rightarrow> string \<Rightarrow> mval \<Rightarrow> mval" where
  "external_failure text_of request err =
     js_error (''Failed to load external module '' @ request @ '': '' @ mval_text text_of err)"

text \<open>\<open>externalRequire(id, thunk, esm)\<close>, given what \<open>thunk()\<close> did.\<close>

definition externalRequire ::
  "(mval \<Rightarrow> string) \<Rightarrow> nat \<Rightarrow> string \<Rightarrow> (js_store \<Rightarrow> js_store \<times> mval mres) \<Rightarrow> bool \<Rightarrow> js_store \<Rightarrow> js_store \<times> mval mres" where
  "externalRequire text_of depth request thunk esm_required st =
     (case thunk st of
        (st, Inl err) \<Rightarrow> (st, Inl (external_failure text_of request err))
      | (st, Inr raw) \<Rightarrow>
          if \<not> esm_required then (st, Inr raw)
          else
            (case get_prop depth st raw ''__esModule'' of
               Inl e \<Rightarrow> (st, Inl e)
             | Inr v \<Rightarrow> if mtruthy v then (st, Inr raw) else interop_namespace depth raw True st))"

text \<open>
  \<open>'default' in v\<close> for what \<open>raw.default\<close> can be: the key itself or one of a prototype; an error for a
  value that is no object.
\<close>

primrec has_prop :: "nat \<Rightarrow> js_store \<Rightarrow> mval \<Rightarrow> key \<Rightarrow> bool mres" where
  "has_prop 0 st v k = Inl range_error"
| "has_prop (Suc depth) st v k =
     (case v of
        Ref a \<Rightarrow>
          (case plain_at st a of
             Some ob \<Rightarrow>
               if k \<in> set (keys_of (props ob)) then Inr True
               else (case proto ob of Proto b \<Rightarrow> has_prop depth st (Ref b) k | _ \<Rightarrow> Inr False)
           | None \<Rightarrow> Inr False)
      | ErrorObject _ _ _ _ \<Rightarrow> Inr False
      | _ \<Rightarrow> Inl (type_error (''Cannot use '' @ [CHR 0x27] @ ''in'' @ [CHR 0x27] @ '' operator to search for '' @ [CHR 0x27] @ key_text k @ [CHR 0x27] @
             '' in '' @ mval_text (\<lambda>_. []) v)))"

text \<open>\<open>externalImport(id)\<close>, given the outcome of \<open>import(id)\<close>.\<close>

definition externalImport ::
  "(mval \<Rightarrow> string) \<Rightarrow> nat \<Rightarrow> string \<Rightarrow> mval mres \<Rightarrow> js_store \<Rightarrow> js_store \<times> mval mres" where
  "externalImport text_of depth request imported st =
     (case imported of
        Inl err \<Rightarrow> (st, Inl (external_failure text_of request err))
      | Inr raw \<Rightarrow>
          (case is_es_module depth st raw of
             Inl e \<Rightarrow> (st, Inl e)
           | Inr False \<Rightarrow> (st, Inr raw)
           | Inr True \<Rightarrow>
               (case get_prop depth st raw ''default'' of
                  Inl e \<Rightarrow> (st, Inl e)
                | Inr dflt \<Rightarrow>
                    if \<not> mtruthy dflt then (st, Inr raw)
                    else
                      (case has_prop depth st dflt (Name ''default'') of
                         Inl e \<Rightarrow> (st, Inl e)
                       | Inr False \<Rightarrow> (st, Inr raw)
                       | Inr True \<Rightarrow> interop_namespace depth dflt True st))))"

section \<open>require.context\<close>

definition upto_char :: "char \<Rightarrow> string \<Rightarrow> string" where
  "upto_char c s = takeWhile (\<lambda>x. x \<noteq> c) s"

text \<open>\<open>parseRequest(request)\<close>: without the fragment and the query.\<close>

definition parseRequest :: "string \<Rightarrow> string" where
  "parseRequest request = upto_char CHR ''?'' (upto_char CHR ''#'' request)"

definition module_not_found :: "string \<Rightarrow> mval" where
  "module_not_found request =
     ErrorObject ''Error'' (''Cannot find module '' @ [CHR 0x27] @ request @ [CHR 0x27]) (Some ''MODULE_NOT_FOUND'') None"

text \<open>\<open>moduleContext(map)\<close> and its \<open>resolve\<close> pick the entry of a request; \<open>keys\<close> lists the requests.\<close>

definition moduleContext_entry :: "(string \<times> 'a) list \<Rightarrow> string \<Rightarrow> 'a mres" where
  "moduleContext_entry table request =
     (let name = parseRequest request in
      case map_of table name of Some entry \<Rightarrow> Inr entry | None \<Rightarrow> Inl (module_not_found name))"

definition moduleContext_keys :: "(string \<times> 'a) list \<Rightarrow> string list" where
  "moduleContext_keys table =
     sort_key digits_val (filter is_index (keys_of table)) @ filter (\<lambda>s. \<not> is_index s) (keys_of table)"

section \<open>Functions that only throw\<close>

definition requireStub :: "mval" where
  "requireStub = js_error ''dynamic usage of require is not supported''"

definition getWorkerBlobURL :: "mval" where
  "getWorkerBlobURL = js_error ''Worker blobs are not implemented yet for Node.js''"

definition runtimeRequire_missing :: "mval" where
  "runtimeRequire_missing = js_error ''Unexpected use of runtime require''"

section \<open>What a namespace holds\<close>

definition slot_property :: "slot \<Rightarrow> property" where
  "slot_property s = (case s of Tagged _ v \<Rightarrow> DataProp v True False | Lazy g w \<Rightarrow> Accessor g w)"

definition good_tag :: "binding \<Rightarrow> bool" where
  "good_tag b = (case bound_slot b of Tagged t _ \<Rightarrow> t = BindingTag_Value | Lazy _ _ \<Rightarrow> True)"

definition binding_prop :: "binding \<Rightarrow> key \<times> property" where
  "binding_prop b = (Name (bound_name b), slot_property (bound_slot b))"

definition add_prop :: "key \<times> property \<Rightarrow> (key \<times> property) list \<Rightarrow> (key \<times> property) list" where
  "add_prop kp ps = (if fst kp \<in> set (keys_of ps) then ps else ps @ [kp])"

definition put_object :: "nat \<Rightarrow> js_object \<Rightarrow> js_store \<Rightarrow> js_store" where
  "put_object n ob st = st\<lparr>objects := (objects st)[n := Plain ob]\<rparr>"

lemma base_plain: "entry_at st n = Some (Plain ob) \<Longrightarrow> base st n = n"
  by (subst base.simps) simp

lemma plain_at_plain: "entry_at st n = Some (Plain ob) \<Longrightarrow> plain_at st n = Some ob"
  by (simp add: plain_at_def base_plain)

lemma entry_at_put [simp]:
  "entry_at (put_object n ob st) a = (if a = n \<and> n < length (objects st) then Some (Plain ob) else entry_at st a)"
  by (auto simp: entry_at_def put_object_def)

lemma length_put [simp]: "length (objects (put_object n ob st)) = length (objects st)"
  by (simp add: put_object_def)

lemma put_put [simp]: "put_object n ob (put_object n ob' st) = put_object n ob st"
  by (simp add: put_object_def)

lemma put_object_same: "entry_at st n = Some (Plain ob) \<Longrightarrow> put_object n ob st = st"
proof -
  assume "entry_at st n = Some (Plain ob)"
  then have "objects st ! n = Plain ob" by (simp add: entry_at_def split: if_splits)
  then have "(objects st)[n := Plain ob] = objects st" by (metis list_update_id)
  then show ?thesis by (simp add: put_object_def)
qed

lemma entry_at_length: "entry_at st n = Some e \<Longrightarrow> n < length (objects st)"
  by (simp add: entry_at_def split: if_splits)

lemma update_plain_put: "entry_at st n = Some (Plain ob) \<Longrightarrow> update_plain n f st = put_object n (f ob) st"
  by (simp add: update_plain_def plain_at_plain base_plain put_object_def)

lemma map_of_add_props: "map_of (fold add_prop xs ps) = map_of (ps @ xs)"
proof (induction xs arbitrary: ps)
  case (Cons x xs)
  obtain k p where x: "x = (k, p)" by (cases x)
  have "map_of (add_prop x ps) = map_of (ps @ [x])"
    using map_of_eq_None_iff [of ps k]
    by (auto simp: add_prop_def x fun_eq_iff map_add_def split: option.splits)
  then show ?case using Cons by (simp add: map_add_def fun_eq_iff x split: option.splits)
qed simp

lemma defineProp_plain:
  assumes "entry_at st n = Some (Plain ob)" "\<not> sealed ob"
  shows "defineProp (Ref n) k p st = (put_object n (ob\<lparr>props := add_prop (k, p) (props ob)\<rparr>) st, None)"
  using assms
  by (auto simp: defineProp_def has_own_def plain_at_plain update_plain_put add_prop_def put_object_same)

lemma esm_bindings_plain:
  assumes "entry_at st n = Some (Plain ob)" "\<not> sealed ob" "list_all good_tag bs"
  shows "esm_bindings (Ref n) bs st = (put_object n (ob\<lparr>props := fold add_prop (map binding_prop bs) (props ob)\<rparr>) st, None)"
  using assms
proof (induction bs arbitrary: st ob)
  case Nil
  then show ?case by (simp add: put_object_same)
next
  case (Cons b bs)
  let ?ob = "ob\<lparr>props := add_prop (binding_prop b) (props ob)\<rparr>"
  let ?st = "put_object n ?ob st"
  have "esm_bindings (Ref n) bs ?st = (put_object n (?ob\<lparr>props := fold add_prop (map binding_prop bs) (props ?ob)\<rparr>) ?st, None)"
    using Cons.prems entry_at_length [OF Cons.prems(1)] by (intro Cons.IH) simp_all
  moreover have "esm_bindings (Ref n) (b # bs) st = esm_bindings (Ref n) bs ?st"
    using Cons.prems
    by (cases b; cases "bound_slot b")
      (simp_all add: defineProp_plain and_then_def good_tag_def binding_prop_def slot_property_def)
  ultimately show ?case by simp
qed

definition namespace_props :: "binding list \<Rightarrow> (key \<times> property) list" where
  "namespace_props bs =
     [(Name ''__esModule'', DataProp (Boolean True) False False), (ToStringTag, DataProp (Str ''Module'') False False)]
     @ map binding_prop bs"

lemma esm_plain:
  assumes "entry_at st n = Some (Plain ob)" "\<not> sealed ob" "list_all good_tag bs"
  shows "esm (Suc depth) (Ref n) bs st =
    (put_object n (ob\<lparr>props := fold add_prop (namespace_props bs) (props ob), sealed := True\<rparr>) st, None)"
proof -
  note len = entry_at_length [OF assms(1)]
  show ?thesis
    using assms len
    by (simp add: esm_def and_then_def defineProp_plain esm_bindings_plain namespace_props_def seal_def update_plain_put)
qed

lemma in_ordered_keys: "set (names_of (ordered_keys ks)) = {k. Name k \<in> set ks}"
proof -
  have n: "names_of (map Name xs @ ys) = xs @ names_of ys" for xs ys by (induction xs) auto
  have "set (names_of ks) = {k. Name k \<in> set ks}" by (induction ks rule: names_of.induct) auto
  then show ?thesis by (auto simp: ordered_keys_def n)
qed

lemma map_of_replace_default:
  "map_of (map binding_prop (replace_default raw bs)) =
     (map_of (map binding_prop bs))(Name ''default'' \<mapsto> DataProp raw True False)"
  by (induction bs) (auto simp: binding_prop_def slot_property_def fun_eq_iff)

lemma map_of_members:
  "map_of (map binding_prop (map (\<lambda>k. Bind k (Lazy (Member raw k) None)) names)) key =
     (case key of
        Name k \<Rightarrow> if k \<in> set names then Some (Accessor (Member raw k) None) else None
      | ToStringTag \<Rightarrow> None)"
  by (induction names) (auto simp: binding_prop_def slot_property_def split: key.splits)

lemma good_tags_interop: "list_all good_tag (interop_bindings raw allow names)"
proof -
  have "list_all good_tag bs \<Longrightarrow> list_all good_tag (replace_default raw bs)" for bs
    by (induction bs) (auto simp: good_tag_def)
  moreover have "list_all good_tag (map (\<lambda>k. Bind k (Lazy (Member raw k) None)) names)"
    by (induction names) (auto simp: good_tag_def)
  ultimately show ?thesis by (auto simp: interop_bindings_def Let_def)
qed

text \<open>The properties of an interop namespace, looked up.\<close>

definition interop_property :: "mval \<Rightarrow> bool \<Rightarrow> string set \<Rightarrow> string \<Rightarrow> property option" where
  "interop_property raw allow names k =
     (if k = ''__esModule'' then Some (DataProp (Boolean True) False False)
      else if k = ''default'' \<and> \<not> (allow \<and> k \<in> names) then Some (DataProp raw True False)
      else if k \<in> names then Some (Accessor (Member raw k) None) else None)"

lemma map_of_interop:
  "map_of (namespace_props (interop_bindings raw allow names)) (Name k) = interop_property raw allow (set names) k"
  by (simp add: namespace_props_def interop_bindings_def interop_property_def Let_def
      map_of_replace_default map_of_members del: map_map) blast

text \<open>
  The objects whose own names an import makes available: the exports and their prototypes, up to
  one of the built-in prototypes; none for a value that is no object.
\<close>

inductive expands :: "js_store \<Rightarrow> mval \<Rightarrow> nat list \<Rightarrow> bool" for st where
  no_object: "case v of Ref a \<Rightarrow> False | ErrorObject nm m c e \<Rightarrow> False | _ \<Rightarrow> True \<Longrightarrow> expands st v []"
| last: "entry_at st a = Some (Plain ob) \<Longrightarrow> (\<And>b. proto ob \<noteq> Proto b) \<Longrightarrow> expands st (Ref a) [a]"
| more: "entry_at st a = Some (Plain ob) \<Longrightarrow> proto ob = Proto b \<Longrightarrow> expands st (Ref b) path \<Longrightarrow>
     expands st (Ref a) (a # path)"

definition path_names :: "js_store \<Rightarrow> nat list \<Rightarrow> string set" where
  "path_names st path =
     {k. list_ex (\<lambda>b. case entry_at st b of Some (Plain ob) \<Rightarrow> Name k \<in> set (keys_of (props ob)) | _ \<Rightarrow> False) path}"

lemma path_names_simps [simp]:
  "path_names st [] = {}"
  "entry_at st a = Some (Plain ob) \<Longrightarrow>
     path_names st (a # path) = {k. Name k \<in> set (keys_of (props ob))} \<union> path_names st path"
  by (auto simp: path_names_def)

lemma expands_later:
  assumes "expands st v path" and "\<And>b. b < length (objects st) \<Longrightarrow> entry_at st' b = entry_at st b"
  shows "expands st' v path \<and> path_names st' path = path_names st path"
  using assms(1)
proof induction
  case (last a ob)
  with assms(2) [OF entry_at_length [OF last.hyps(1)]] show ?case by (auto intro: expands.last)
next
  case (more a ob b path)
  with assms(2) [OF entry_at_length [OF more.hyps(1)]] show ?case by (auto intro: expands.more)
qed (auto intro: expands.no_object)

lemma interop_names_path:
  "expands st v path \<Longrightarrow> length path < d \<Longrightarrow> \<exists>names. interop_names d st v = Inr names \<and> set names = path_names st path"
proof (induction arbitrary: d rule: expands.induct)
  case (no_object v)
  then obtain d' where "d = Suc d'" by (cases d) auto
  with no_object show ?case by (cases v) auto
next
  case (last a ob)
  then obtain d' where "d = Suc (Suc d')" by (cases d; cases "d - 1") auto
  with last show ?case by (simp add: plain_at_plain in_ordered_keys split: prototype.splits)
next
  case (more a ob b path)
  then obtain d' where d: "d = Suc (Suc d')" "length path < Suc d'" by (cases d; cases "d - 1") auto
  obtain names where "interop_names (Suc d') st (Ref b) = Inr names" "set names = path_names st path"
    using more.IH [OF d(2)] by blast
  with more.hyps show ?case
    by (simp add: d plain_at_plain in_ordered_keys del: interop_names.simps add: interop_names.simps(2) [of "Suc d'"])
qed

text \<open>The namespace before its bindings are added: what \<open>createNS\<close> made it.\<close>

definition born_with :: "js_store \<Rightarrow> mval \<Rightarrow> (key \<times> property) list" where
  "born_with st raw = (if is_function st raw then function_props (Ref (length (objects st))) else [])"

lemma createNS_fresh:
  obtains st1 n fresh where "createNS raw st = (st1, Ref n)" "entry_at st1 n = Some (Plain fresh)"
    "\<not> sealed fresh" "props fresh = born_with st raw" "proto fresh \<in> {NullProto, FunctionPrototype}"
    "length (objects st) \<le> n" "\<And>b. b < length (objects st) \<Longrightarrow> entry_at st1 b = entry_at st b"
proof (cases "is_function st raw")
  case True
  then show ?thesis
    by (intro that) (auto simp: createNS_def born_with_def entry_at_def nth_append Let_def)
next
  case False
  then show ?thesis
    by (intro that) (auto simp: createNS_def born_with_def alloc_def entry_at_def nth_append Let_def)
qed

lemma interop_namespace_made:
  assumes "expands st raw path" and "length path < depth"
  obtains st' n ns where "interop_namespace depth raw allow st = (st', Inr (Ref n))"
    "length (objects st) \<le> n" "entry_at st' n = Some (Plain ns)" "sealed ns" "proto ns \<in> {NullProto, FunctionPrototype}"
    "\<And>b. b < length (objects st) \<Longrightarrow> entry_at st' b = entry_at st b"
    "\<And>k. map_of (props ns) (Name k) =
       (case map_of (born_with st raw) (Name k) of
          Some p \<Rightarrow> Some p
        | None \<Rightarrow> interop_property raw allow (path_names st path) k)"
proof -
  obtain st1 n fresh where c: "createNS raw st = (st1, Ref n)" and f: "entry_at st1 n = Some (Plain fresh)" "\<not> sealed fresh"
    "props fresh = born_with st raw" "proto fresh \<in> {NullProto, FunctionPrototype}"
    and n: "length (objects st) \<le> n" and old: "\<And>b. b < length (objects st) \<Longrightarrow> entry_at st1 b = entry_at st b"
    by (rule createNS_fresh [of raw st]) blast
  obtain names where names: "interop_names depth st1 raw = Inr names" "set names = path_names st path"
    using expands_later [OF assms(1) old] interop_names_path [OF _ assms(2)] by metis
  define bs where "bs = interop_bindings raw allow names"
  define ns where "ns = fresh\<lparr>props := fold add_prop (namespace_props bs) (props fresh), sealed := True\<rparr>"
  obtain depth' where depth: "depth = Suc depth'" using assms(2) by (cases depth) auto
  have "esm depth (Ref n) bs st1 = (put_object n ns st1, None)"
    using esm_plain [OF f(1,2), of bs depth'] by (simp add: depth ns_def bs_def good_tags_interop)
  then have "interop_namespace depth raw allow st = (put_object n ns st1, Inr (Ref n))"
    using names(1) by (simp add: interop_namespace_def interopEsm_def c bs_def)
  moreover have "map_of (props ns) (Name k) =
       (case map_of (born_with st raw) (Name k) of
          Some p \<Rightarrow> Some p | None \<Rightarrow> interop_property raw allow (path_names st path) k)" for k
    by (simp add: ns_def map_of_add_props f(3) map_add_def bs_def map_of_interop names(2) split: option.split)
  ultimately show ?thesis
    using f(4) n old entry_at_length [OF f(1)]
    by (intro that [of "put_object n ns st1" n ns]) (auto simp: ns_def)
qed

text \<open>
  C31. The namespace a CommonJS module is given on import, whatever it exports: an object, a function,
  an instance of a class or a plain value.  It is a new object; every name of the exports and of their
  prototypes reads through to \<open>raw\<close> as it is at the time of the read, \<open>default\<close> is \<open>raw\<close> itself
  (or, for a module compiled from ECMAScript, its own \<open>default\<close>), \<open>__esModule\<close> is true, and it has no
  other name, whatever happens to other objects later.  The exception is a function: its namespace
  is a function too, which has its own \<open>length\<close>, \<open>name\<close>, \<open>arguments\<close>, \<open>caller\<close> and \<open>prototype\<close> and hides
  those of \<open>raw\<close>.  (The built-in prototypes have no names in the model; proxies of the loader on the
  path are left out.)
\<close>

theorem interop_namespace_is_live:
  assumes "expands st raw path" and "length path < depth"
  shows "\<exists>st' n. interop_namespace depth raw allow st = (st', Inr (Ref n)) \<and> length (objects st) \<le> n \<and>
    (\<forall>b < length (objects st). entry_at st' b = entry_at st b) \<and>
    (\<forall>later depth' k. entry_at later n = entry_at st' n \<longrightarrow>
       get_prop (Suc depth') later (Ref n) k =
         (case if is_function st raw then map_of (function_props (Ref (length (objects st)))) (Name k) else None of
            Some p \<Rightarrow> Inr (dp_value p)
          | None \<Rightarrow>
              if k = ''__esModule'' then Inr (Boolean True)
              else if k = ''default'' \<and> \<not> (allow \<and> k \<in> path_names st path) then Inr raw
              else if k \<in> path_names st path then get_prop depth' later raw k
              else Inr Undefined))"
proof -
  obtain st' n ns where ns: "interop_namespace depth raw allow st = (st', Inr (Ref n))"
    "length (objects st) \<le> n" "\<And>b. b < length (objects st) \<Longrightarrow> entry_at st' b = entry_at st b"
    and entry: "entry_at st' n = Some (Plain ns)" "proto ns \<in> {NullProto, FunctionPrototype}"
    and look: "\<And>k. map_of (props ns) (Name k) =
       (case map_of (born_with st raw) (Name k) of
          Some p \<Rightarrow> Some p | None \<Rightarrow> interop_property raw allow (path_names st path) k)"
    using interop_namespace_made [OF assms] by metis
  have own: "\<exists>v e w. p = DataProp v e w" if "map_of (born_with st raw) (Name k) = Some p" for k p
    using that by (auto simp: born_with_def function_props_def split: if_splits)
  have "get_prop (Suc depth') later (Ref n) k =
      (case map_of (born_with st raw) (Name k) of
         Some p \<Rightarrow> Inr (dp_value p)
       | None \<Rightarrow>
           if k = ''__esModule'' then Inr (Boolean True)
           else if k = ''default'' \<and> \<not> (allow \<and> k \<in> path_names st path) then Inr raw
           else if k \<in> path_names st path then get_prop depth' later raw k
           else Inr Undefined)"
    if "entry_at later n = entry_at st' n" for later depth' k
  proof (cases "map_of (born_with st raw) (Name k)")
    case None
    then show ?thesis using that entry look [of k] by (auto simp: interop_property_def)
  next
    case (Some p)
    then show ?thesis using that entry(1) look [of k] own [OF Some] by auto
  qed
  moreover have "map_of (born_with st raw) (Name k) =
      (if is_function st raw then map_of (function_props (Ref (length (objects st)))) (Name k) else None)" for k
    by (simp add: born_with_def)
  ultimately show ?thesis using ns by (intro exI [of _ st'] exI [of _ n]) presburger
qed

text \<open>A function with a property of its own and one that it inherits from an object.\<close>

definition example_store :: js_store where
  "example_store =
     \<lparr>objects =
        [Plain \<lparr>callable = False, proto = ObjectPrototype, sealed = False,
                props = [(Name ''y'', DataProp (Boolean True) True True)]\<rparr>,
         Plain \<lparr>callable = True, proto = Proto 0, sealed = False,
                props = [(Name ''length'', DataProp (Number (Fin 2)) False False), (Name ''x'', DataProp (Str ''v'') True True)]\<rparr>],
      variables = (\<lambda>_. None), reexports = (\<lambda>_. None)\<rparr>"

theorem interop_namespace_is_live_witness:
  "\<exists>st n. interop_namespace 3 (Ref 1) False example_store = (st, Inr (Ref n)) \<and>
     get_prop 3 st (Ref n) ''x'' = get_prop 2 st (Ref 1) ''x'' \<and> get_prop 3 st (Ref n) ''y'' = get_prop 2 st (Ref 1) ''y'' \<and>
     get_prop 3 st (Ref n) ''default'' = Inr (Ref 1) \<and> get_prop 3 st (Ref n) ''z'' = Inr Undefined \<and>
     get_prop 3 st (Ref n) ''length'' = Inr (Number (Fin 0))"
proof -
  let ?f = "\<lparr>callable = True, proto = Proto 0, sealed = False,
      props = [(Name ''length'', DataProp (Number (Fin 2)) False False), (Name ''x'', DataProp (Str ''v'') True True)]\<rparr>"
  let ?p = "\<lparr>callable = False, proto = ObjectPrototype, sealed = False, props = [(Name ''y'', DataProp (Boolean True) True True)]\<rparr>"
  have entries: "entry_at example_store 1 = Some (Plain ?f)" "entry_at example_store 0 = Some (Plain ?p)"
    by (simp_all add: entry_at_def example_store_def)
  have e: "expands example_store (Ref 1) [1, 0]"
    by (rule expands.more [OF entries(1) _ expands.last [OF entries(2)]]) simp_all
  have names: "path_names example_store [1, 0] = {''length'', ''x'', ''y''}"
    by (auto simp: path_names_def entry_at_def example_store_def)
  have f: "is_function example_store (Ref 1)"
    by (simp add: is_function_def plain_at_plain entry_at_def example_store_def)
  obtain st n where ns: "interop_namespace 3 (Ref 1) False example_store = (st, Inr (Ref n))"
    and look: "\<And>depth' k. get_prop (Suc depth') st (Ref n) k =
         (case if is_function example_store (Ref 1) then map_of (function_props (Ref (length (objects example_store)))) (Name k) else None of
            Some p \<Rightarrow> Inr (dp_value p)
          | None \<Rightarrow>
              if k = ''__esModule'' then Inr (Boolean True)
              else if k = ''default'' \<and> \<not> (False \<and> k \<in> path_names example_store [1, 0]) then Inr (Ref 1)
              else if k \<in> path_names example_store [1, 0] then get_prop depth' st (Ref 1) k
              else Inr Undefined)"
    using interop_namespace_is_live [OF e, of 3 False] by auto
  have "get_prop 3 st (Ref n) k = get_prop (Suc 2) st (Ref n) k" for k
    by (simp only: numeral_3_eq_3 numeral_2_eq_2)
  then show ?thesis
    using ns look [of 2] by (simp add: names f function_props_def del: get_prop.simps One_nat_def)
qed

section \<open>Re-exports of a sealed namespace\<close>

lemma add_new_keys:
  "set (fold (\<lambda>k acc. if k \<noteq> Name ''default'' \<and> k \<notin> set acc then acc @ [k] else acc) new ks) =
     set ks \<union> (set new - {Name ''default''})"
  by (induction new arbitrary: ks) auto

lemma in_ordered: "k \<in> set (ordered_keys ks) \<longleftrightarrow> k \<in> set ks"
proof -
  have "set (names_of ks) = {k. Name k \<in> set ks}" by (induction ks rule: names_of.induct) auto
  then show ?thesis by (cases k) (auto simp: ordered_keys_def)
qed

text \<open>
  \<open>esm\<close> seals the object that \<open>ensureDynamicExports\<close> makes the target of its proxy, and the trap adds keys to the
  target's: then listing the keys of the namespace throws as soon as an object with a name of its own
  is re-exported, though every one of the names can be read.
\<close>

lemma sealed_reexports_cannot_be_listed:
  assumes "entry_at st p = Some (Proxied t m)" "entry_at st t = Some (Plain target)" "sealed target"
    and "reexports st m = Some [Ref r]" "entry_at st r = Some (Plain object)"
    and "map_of (props object) (Name k) = Some (DataProp v e w)" "v \<noteq> Undefined"
    and "k \<noteq> ''default''" "k \<noteq> ''__esModule''" "Name k \<notin> set (keys_of (props target))"
  shows "own_keys (Suc (Suc d)) st (Ref p) = Inl extra_key_error" "get_prop (Suc (Suc d)) st (Ref p) k = Inr v"
proof -
  let ?ks = "ordered_keys (keys_of (props target))"
  have "Name k \<in> set (keys_of (props object))"
    using assms(6) map_of_SomeD by force
  then have "Name k \<in> set (fold (\<lambda>k acc. if k \<noteq> Name ''default'' \<and> k \<notin> set acc then acc @ [k] else acc)
      (ordered_keys (keys_of (props object))) ?ks)"
    unfolding add_new_keys using assms(8) by (simp add: in_ordered)
  moreover have "Name k \<notin> set ?ks" using assms(10) by (simp add: in_ordered)
  ultimately have "fold (\<lambda>k acc. if k \<noteq> Name ''default'' \<and> k \<notin> set acc then acc @ [k] else acc)
      (ordered_keys (keys_of (props object))) ?ks \<noteq> ?ks" by metis
  then show "own_keys (Suc (Suc d)) st (Ref p) = Inl extra_key_error"
    using assms(1-5) by (simp add: plain_at_plain orelse_def)
  show "get_prop (Suc (Suc d)) st (Ref p) k = Inr v"
    using assms by (simp add: has_own_def plain_at_plain orelse_def)
qed

end
