(* ===== verification/NodePaths.thy ===== *)
theory NodePaths
  imports JsNumber
begin

text \<open>
  File paths in the runtime of the build output (\<open>[turbopack]_runtime.js\<close>): the functions of
  Node's \<open>path\<close> module for POSIX that it calls, the directories it computes from its own file
  name, and the test whether a chunk is JavaScript.
\<close>

section \<open>The path module\<close>

abbreviation slash :: char where "slash \<equiv> CHR ''/''"

definition norm_step :: "bool \<Rightarrow> string list \<Rightarrow> string \<Rightarrow> string list" where
  "norm_step allowAboveRoot acc seg =
     (if seg = [] \<or> seg = ''.'' then acc
      else if seg = ''..'' then
        (if acc \<noteq> [] \<and> last acc \<noteq> ''..'' then butlast acc
         else if allowAboveRoot then acc @ [''..''] else acc)
      else acc @ [seg])"

definition normalize_segments :: "bool \<Rightarrow> string \<Rightarrow> string list" where
  "normalize_segments allowAboveRoot p = foldl (norm_step allowAboveRoot) [] (split_on slash p)"

definition is_absolute :: "string \<Rightarrow> bool" where
  "is_absolute p = starts_with p ''/''"

definition absolute :: "string list \<Rightarrow> string" where
  "absolute segs = slash # join ''/'' segs"

text \<open>\<open>path.resolve(...)\<close>: the segments of the result, which is always absolute; \<open>cwd\<close> is the working directory.\<close>

definition resolve_step :: "string \<Rightarrow> string \<Rightarrow> string" where
  "resolve_step acc p = (if p = [] then acc else if is_absolute p then p else acc @ ''/'' @ p)"

definition resolve_segments :: "string \<Rightarrow> string list \<Rightarrow> string list" where
  "resolve_segments cwd ps = normalize_segments False (foldl resolve_step cwd ps)"

definition path_resolve :: "string \<Rightarrow> string list \<Rightarrow> string" where
  "path_resolve cwd ps = absolute (resolve_segments cwd ps)"

definition path_normalize :: "string \<Rightarrow> string" where
  "path_normalize p =
     (if p = [] then ''.''
      else
        let abs = is_absolute p;
            trailing = last p = slash;
            q = join ''/'' (normalize_segments (\<not> abs) p)
        in if q = [] then (if abs then ''/'' else if trailing then ''./'' else ''.'')
           else (if abs then ''/'' else []) @ q @ (if trailing then ''/'' else []))"

definition path_join :: "string \<Rightarrow> string \<Rightarrow> string" where
  "path_join a b = path_normalize (join ''/'' (filter (\<lambda>p. p \<noteq> []) [a, b]))"

fun drop_common :: "string list \<Rightarrow> string list \<Rightarrow> string list \<times> string list" where
  "drop_common (a # as) (b # bs) = (if a = b then drop_common as bs else (a # as, b # bs))"
| "drop_common as bs = (as, bs)"

definition path_relative :: "string \<Rightarrow> string \<Rightarrow> string \<Rightarrow> string" where
  "path_relative cwd a b =
     (let (up, down) = drop_common (resolve_segments cwd [a]) (resolve_segments cwd [b])
      in join ''/'' (map (\<lambda>_. ''..'') up @ down))"

section \<open>The runtime and its directories\<close>

record runtime =
  RUNTIME_PUBLIC_PATH :: string
  RELATIVE_ROOT_PATH :: string
  ASSET_PREFIX :: string

definition chunks_runtime :: runtime where
  "chunks_runtime =
     \<lparr>RUNTIME_PUBLIC_PATH = ''server/chunks/[turbopack]_runtime.js'', RELATIVE_ROOT_PATH = ''..'', ASSET_PREFIX = ''/''\<rparr>"

definition ssr_runtime :: runtime where
  "ssr_runtime =
     \<lparr>RUNTIME_PUBLIC_PATH = ''server/chunks/ssr/[turbopack]_runtime.js'', RELATIVE_ROOT_PATH = ''..'', ASSET_PREFIX = ''/_next/''\<rparr>"

text \<open>A runtime that has been loaded: the working directory of the process and \<open>__filename\<close>.\<close>

record located =
  rt_config :: runtime
  rt_cwd :: string
  rt_filename :: string

definition relativePathToRuntimeRoot :: "located \<Rightarrow> string" where
  "relativePathToRuntimeRoot r = path_relative (rt_cwd r) (RUNTIME_PUBLIC_PATH (rt_config r)) ''.''"

definition relativePathToDistRoot :: "located \<Rightarrow> string" where
  "relativePathToDistRoot r = path_join (relativePathToRuntimeRoot r) (RELATIVE_ROOT_PATH (rt_config r))"

definition RUNTIME_ROOT :: "located \<Rightarrow> string" where
  "RUNTIME_ROOT r = path_resolve (rt_cwd r) [rt_filename r, relativePathToRuntimeRoot r]"

definition ABSOLUTE_ROOT :: "located \<Rightarrow> string" where
  "ABSOLUTE_ROOT r = path_resolve (rt_cwd r) [rt_filename r, relativePathToDistRoot r]"

definition resolveAbsolutePath :: "located \<Rightarrow> string option \<Rightarrow> string" where
  "resolveAbsolutePath r modulePath =
     (case modulePath of
        Some p \<Rightarrow> if p \<noteq> [] then path_join (ABSOLUTE_ROOT r) p else ABSOLUTE_ROOT r
      | None \<Rightarrow> ABSOLUTE_ROOT r)"

text \<open>The file a chunk is required from.\<close>

definition chunk_file :: "located \<Rightarrow> string \<Rightarrow> string" where
  "chunk_file r chunkPath = path_resolve (rt_cwd r) [RUNTIME_ROOT r, chunkPath]"

section \<open>JavaScript chunks\<close>

text \<open>\<open>/\.js(?:\?[^#]*)?(?:#.*)?$/\<close>, at one position and anywhere; the dot stops at a line terminator.\<close>

definition one_line :: "string \<Rightarrow> bool" where
  "one_line s \<longleftrightarrow> CHR 0x0A \<notin> set s \<and> CHR 0x0D \<notin> set s"

definition fragment_opt :: "string \<Rightarrow> bool" where
  "fragment_opt s = (case s of [] \<Rightarrow> True | c # f \<Rightarrow> c = CHR ''#'' \<and> one_line f)"

definition js_tail :: "string \<Rightarrow> bool" where
  "js_tail s \<longleftrightarrow>
     starts_with s ''.js'' \<and>
     (case drop 3 s of
        [] \<Rightarrow> True
      | c # q \<Rightarrow>
          if c = CHR ''?'' then fragment_opt (dropWhile (\<lambda>x. x \<noteq> CHR ''#'') q)
          else fragment_opt (c # q))"

fun isJs :: "string \<Rightarrow> bool" where
  "isJs [] = js_tail []"
| "isJs (c # s) \<longleftrightarrow> js_tail (c # s) \<or> isJs s"

section \<open>Facts\<close>

text \<open>A segment of a path that is written out.\<close>

definition clean :: "string \<Rightarrow> bool" where
  "clean s \<longleftrightarrow> s \<noteq> [] \<and> s \<noteq> ''.'' \<and> s \<noteq> ''..'' \<and> slash \<notin> set s"

lemma norm_clean: "\<forall>s \<in> set ss. clean s \<Longrightarrow> foldl (norm_step b) acc ss = acc @ ss"
  by (induction ss arbitrary: acc) (auto simp: norm_step_def clean_def)

lemma norm_up:
  "\<forall>s \<in> set acc. clean s \<Longrightarrow> n \<le> length acc \<Longrightarrow>
   foldl (norm_step b) acc (replicate n ''..'') = take (length acc - n) acc"
proof (induction n arbitrary: acc)
  case (Suc n)
  then have acc: "acc \<noteq> []" by auto
  then have "clean (last acc)" using Suc.prems by auto
  with acc have "norm_step b acc ''..'' = butlast acc" by (simp add: norm_step_def clean_def)
  moreover have "take (length (butlast acc) - n) (butlast acc) = take (length acc - Suc n) acc"
    using acc by (simp add: take_butlast)
  moreover have "\<forall>s \<in> set (butlast acc). clean s" using Suc.prems by (meson in_set_butlastD)
  ultimately show ?case using Suc.IH [of "butlast acc"] Suc.prems by simp
qed simp

lemma split_absolute: "\<forall>s \<in> set ss. clean s \<Longrightarrow> split_on slash (absolute ss) = [] # (if ss = [] then [[]] else ss)"
  using split_on_join [of ss slash] by (auto simp: absolute_def clean_def)

lemma is_absolute_absolute [simp]: "is_absolute (absolute ss)"
  by (simp add: is_absolute_def absolute_def starts_with_def)

lemma resolve_segments_one:
  assumes "\<forall>s \<in> set cs. clean s" "\<not> is_absolute p" "p \<noteq> []"
  shows "resolve_segments (absolute cs) [p] = foldl (norm_step False) cs (split_on slash p)"
proof -
  have "split_on slash (absolute cs @ ''/'' @ p) = split_on slash (absolute cs) @ split_on slash p"
    using split_on_concat [of slash "absolute cs" p] by (simp add:)
  moreover have "foldl (norm_step False) [] ([] # (if cs = [] then [[]] else cs)) = cs"
    using assms(1) norm_clean [of cs False "[]"] by (auto simp: norm_step_def)
  ultimately show ?thesis
    using assms by (simp add: resolve_segments_def normalize_segments_def resolve_step_def split_absolute)
qed

lemma resolve_from_absolute:
  "resolve_segments cwd (absolute ds # ps) = resolve_segments (absolute ds) ps"
  by (simp add: resolve_segments_def resolve_step_def) (simp add: absolute_def)

lemma drop_common_append: "drop_common (cs @ xs) cs = (xs, [])"
proof (induction cs)
  case Nil
  show ?case by (cases xs) simp_all
qed simp

lemma join_relative:
  assumes "\<forall>s \<in> set ps. clean s" "ps \<noteq> []"
  shows "join ''/'' ps \<noteq> []" "\<not> is_absolute (join ''/'' ps)"
proof -
  have sp: "split_on slash (join ''/'' ps) = ps"
    using assms by (intro split_on_join) (auto simp: clean_def)
  show "join ''/'' ps \<noteq> []"
  proof
    assume e: "join ''/'' ps = []"
    have "ps = [[]]" by (subst sp [symmetric]) (simp add: e)
    with assms show False by (simp add: clean_def)
  qed
  show "\<not> is_absolute (join ''/'' ps)"
  proof
    assume "is_absolute (join ''/'' ps)"
    then obtain t where "join ''/'' ps = slash # t"
      by (auto simp: is_absolute_def starts_with_prefix prefix_def)
    with sp have "hd ps = []" by (metis list.sel(1) split_on.simps(2))
    with assms show False by (cases ps) (auto simp: clean_def)
  qed
qed

lemma relative_to_dot:
  assumes "\<forall>s \<in> set cs. clean s" "\<forall>s \<in> set ps. clean s" "ps \<noteq> []"
  shows "path_relative (absolute cs) (join ''/'' ps) ''.'' = join ''/'' (replicate (length ps) ''..'')"
proof -
  have sp: "split_on slash (join ''/'' ps) = ps"
    using assms(2,3) by (intro split_on_join) (auto simp: clean_def)
  have "join ''/'' ps \<noteq> []" "\<not> is_absolute (join ''/'' ps)"
    using join_relative [OF assms(2,3)] by simp_all
  then have "resolve_segments (absolute cs) [join ''/'' ps] = cs @ ps"
    using assms by (simp add: resolve_segments_one sp norm_clean)
  moreover have "resolve_segments (absolute cs) [''.''] = cs"
    using assms resolve_segments_one [of cs "''.''"]
    by (simp add: is_absolute_def starts_with_def norm_step_def)
  ultimately show ?thesis
    by (simp add: path_relative_def drop_common_append map_replicate_const)
qed

lemma resolve_ups:
  assumes "\<forall>s \<in> set ds. clean s" "0 < n" "n \<le> length ds"
  shows "path_resolve cwd [absolute ds, join ''/'' (replicate n ''..'')] = absolute (take (length ds - n) ds)"
proof -
  let ?u = "join ''/'' (replicate n ''..'')"
  have sp: "split_on slash ?u = replicate n ''..''"
    using assms(2) by (intro split_on_join) auto
  obtain m where n: "n = Suc m" using assms by (cases n) auto
  have "?u \<noteq> []" "\<not> is_absolute ?u"
    unfolding n by (cases m; simp add: is_absolute_def starts_with_def)+
  then show ?thesis
    using assms by (simp add: path_resolve_def resolve_from_absolute resolve_segments_one sp norm_up)
qed

definition is_runtime :: "runtime \<Rightarrow> bool" where
  "is_runtime c \<longleftrightarrow> c = chunks_runtime \<or> c = ssr_runtime"

abbreviation public_segments :: "runtime \<Rightarrow> string list" where
  "public_segments c \<equiv> split_on slash (RUNTIME_PUBLIC_PATH c)"

lemma public_segments_clean: "is_runtime c \<Longrightarrow> \<forall>s \<in> set (public_segments c). clean s"
proof -
  have "list_all clean (public_segments chunks_runtime)" "list_all clean (public_segments ssr_runtime)"
    by code_simp+
  then show "is_runtime c \<Longrightarrow> \<forall>s \<in> set (public_segments c). clean s"
    by (auto simp: is_runtime_def list_all_iff)
qed

lemma one_level_more:
  "is_runtime c \<Longrightarrow>
   path_join (join ''/'' (replicate (length (public_segments c)) ''..'')) (RELATIVE_ROOT_PATH c)
     = join ''/'' (replicate (Suc (length (public_segments c))) ''..'')"
proof -
  have "path_join (join ''/'' (replicate (length (public_segments c)) ''..'')) (RELATIVE_ROOT_PATH c)
     = join ''/'' (replicate (Suc (length (public_segments c))) ''..'')" if "c = chunks_runtime" for c
    unfolding that by code_simp
  moreover have "path_join (join ''/'' (replicate (length (public_segments c)) ''..'')) (RELATIVE_ROOT_PATH c)
     = join ''/'' (replicate (Suc (length (public_segments c))) ''..'')" if "c = ssr_runtime" for c
    unfolding that by code_simp
  ultimately show "is_runtime c \<Longrightarrow> ?thesis" by (auto simp: is_runtime_def)
qed

lemma resolve_below:
  assumes "\<forall>s \<in> set ds. clean s" "\<forall>s \<in> set ps. clean s" "ps \<noteq> []"
  shows "path_resolve cwd [absolute ds, join ''/'' ps] = absolute (ds @ ps)"
proof -
  have sp: "split_on slash (join ''/'' ps) = ps"
    using assms(2,3) by (intro split_on_join) (auto simp: clean_def)
  have "join ''/'' ps \<noteq> []" "\<not> is_absolute (join ''/'' ps)"
    using join_relative [OF assms(2,3)] by simp_all
  then show ?thesis
    using assms by (simp add: path_resolve_def resolve_from_absolute resolve_segments_one sp norm_clean)
qed

text \<open>
  C40. Each copy of the runtime finds its files from its own file name, wherever the build output lies and
  whatever the working directory is: the root of the runtime is the directory of the build output, the
  root of the sources is the directory above it, and a chunk is required from its path below the build output.
\<close>

theorem runtime_finds_its_root:
  assumes "is_runtime (rt_config r)"
    and "rt_cwd r = absolute cs" "\<forall>s \<in> set cs. clean s"
    and "rt_filename r = absolute (ds @ split_on slash (RUNTIME_PUBLIC_PATH (rt_config r)))"
    and "\<forall>s \<in> set ds. clean s" "ds \<noteq> []" "\<forall>s \<in> set ps. clean s" "ps \<noteq> []"
  shows "RUNTIME_ROOT r = absolute ds \<and> ABSOLUTE_ROOT r = absolute (butlast ds) \<and>
    chunk_file r (join ''/'' ps) = absolute (ds @ ps)"
proof -
  let ?pub = "public_segments (rt_config r)"
  have pub: "\<forall>s \<in> set ?pub. clean s" "?pub \<noteq> []"
    using public_segments_clean assms(1) by simp_all
  have rel: "relativePathToRuntimeRoot r = join ''/'' (replicate (length ?pub) ''..'')"
    using relative_to_dot [OF assms(3) pub] join_split_on [of slash "RUNTIME_PUBLIC_PATH (rt_config r)"]
    by (simp add: relativePathToRuntimeRoot_def assms(2))
  have up: "path_resolve (rt_cwd r) [rt_filename r, join ''/'' (replicate n ''..'')] =
      absolute (take (length (ds @ ?pub) - n) (ds @ ?pub))" if "0 < n" "n \<le> length (ds @ ?pub)" for n
    unfolding assms(4) using assms(5) pub that by (intro resolve_ups) auto
  have "RUNTIME_ROOT r = absolute ds"
    unfolding RUNTIME_ROOT_def rel by (subst up) (use pub in auto)
  moreover have "ABSOLUTE_ROOT r = absolute (butlast ds)"
    unfolding ABSOLUTE_ROOT_def relativePathToDistRoot_def rel one_level_more [OF assms(1)]
    by (subst up) (use assms(6) in \<open>auto simp: butlast_conv_take Suc_le_eq\<close>)
  ultimately show ?thesis
    using resolve_below [OF assms(5,7,8)] by (simp add: chunk_file_def)
qed

lemma runtime_finds_its_root_witness:
  "ABSOLUTE_ROOT \<lparr>rt_config = ssr_runtime, rt_cwd = ''/tmp'', rt_filename = ''/app/.next/server/chunks/ssr/[turbopack]_runtime.js''\<rparr> = ''/app''"
proof -
  define r where "r = \<lparr>rt_config = ssr_runtime, rt_cwd = ''/tmp'', rt_filename = ''/app/.next/server/chunks/ssr/[turbopack]_runtime.js''\<rparr>"
  have "is_runtime (rt_config r)" by (simp add: r_def is_runtime_def)
  moreover have "rt_cwd r = absolute [''tmp'']" by (simp add: r_def absolute_def)
  moreover have "rt_filename r = absolute ([''app'', ''.next''] @ split_on slash (RUNTIME_PUBLIC_PATH (rt_config r)))"
    unfolding r_def by code_simp
  ultimately have "ABSOLUTE_ROOT r = absolute (butlast [''app'', ''.next''])"
    using runtime_finds_its_root [of r "[''tmp'']" "[''app'', ''.next'']" "[''server'']"] by (simp add: clean_def)
  then show ?thesis by (simp add: r_def absolute_def)
qed

end
