(* ===== verification/ModuleLoader.thy ===== *)
theory ModuleLoader
  imports ModuleExports NodePaths
begin

text \<open>
  The module loader of the build output (\<open>[turbopack]_runtime.js\<close>): module factories and how a
  chunk installs them, the module cache, the operations that a factory has on its own exports,
  and the instantiation of modules on demand.

  A module factory is code of a chunk.  It is a parameter here, as a program that does one
  operation of its context after another and goes on with what the operation returns or throws;
  what it computes by itself is the operation \<open>Compute\<close>.  A promise is opaque to code that does
  not wait, so \<open>LoadChunk\<close> returns \<open>Undefined\<close>; what the promise holds is kept in \<open>chunkCache\<close>.

  Instantiating a module runs its factory, which may ask for other modules: the recursion is on
  fuel, and \<open>None\<close> means that it did not suffice.
\<close>

section \<open>Modules, factories and the state of the loader\<close>

datatype mid = NumId int | StrId string

definition mid_text :: "mid \<Rightarrow> string" where
  "mid_text i = (case i of NumId n \<Rightarrow> int_to_string n | StrId s \<Rightarrow> s)"

datatype chunk_data = ChunkPath string | ChunkWithPath (chunk_path: string)

datatype cmd =
    Require mid
  | Import mid
  | EsmExport "binding list" "mid option"
  | DynamicExport mval "mid option"
  | ExportValue mval "mid option"
  | ExportNamespace mval "mid option"
  | ReadExports
  | SetExports mval
  | ExternalRequire string "js_store \<Rightarrow> js_store \<times> mval mres" bool
  | ResolvePath mid
  | LoadChunk chunk_data
  | Compute "js_store \<Rightarrow> js_store \<times> mval mres"

datatype prog =
    Return
  | Throw mval
  | Do cmd "mval mres \<Rightarrow> prog"

text \<open>A factory is a function; \<open>fn_id\<close> is its identity, \<open>fn_code\<close> takes the exports object.\<close>

datatype factory = Factory (fn_id: nat) (fn_code: "mval \<Rightarrow> prog")

datatype chunk_item = ItemId mid | ItemFactory factory

datatype map_key = IdKey mid | FunctionKey nat

record modobj =
  exports :: mval
  error :: mval
  mod_id :: mid
  namespaceObject :: mval
  loaded :: bool

text \<open>
  \<open>moduleFactories\<close>, \<open>moduleCache\<close> (an object, so its keys are strings) and the module objects,
  the store, \<open>loadedChunks\<close>, \<open>chunkCache\<close> (a promise that resolved, or the error of one that was
  rejected).  \<open>evaluated\<close> records which factories were called, in order; the code has no such
  variable.
\<close>

record loader =
  moduleFactories :: "map_key \<Rightarrow> factory option"
  moduleCache :: "string \<Rightarrow> nat option"
  modules :: "modobj list"
  store :: js_store
  loadedChunks :: "string list"
  chunkCache :: "string \<Rightarrow> mval option option"
  evaluated :: "string list"

text \<open>What surrounds the loader: Node and the file system.\<close>

record node =
  located_at :: located
  require_file :: "string \<Rightarrow> chunk_item list mres"
  object_text :: "mval \<Rightarrow> string"
  pathToFileURL :: "string \<Rightarrow> string"
  stack_depth :: nat

text \<open>\<open>Context(module, exports)\<close>: \<open>this.m\<close> and \<open>this.e\<close>.\<close>

record ctx =
  ctx_m :: nat
  ctx_e :: mval

definition empty_store :: js_store where
  "empty_store = \<lparr>objects = [], variables = (\<lambda>_. None), reexports = (\<lambda>_. None)\<rparr>"

definition initial_loader :: loader where
  "initial_loader =
     \<lparr>moduleFactories = (\<lambda>_. None), moduleCache = (\<lambda>_. None), modules = [], store = empty_store,
      loadedChunks = [], chunkCache = (\<lambda>_. None), evaluated = []\<rparr>"

section \<open>Installing a chunk\<close>

definition item_key :: "chunk_item \<Rightarrow> map_key" where
  "item_key it = (case it of ItemId i \<Rightarrow> IdKey i | ItemFactory f \<Rightarrow> FunctionKey (fn_id f))"

definition is_factory :: "chunk_item \<Rightarrow> bool" where
  "is_factory it = (case it of ItemFactory _ \<Rightarrow> True | ItemId _ \<Rightarrow> False)"

definition malformed_chunk :: mval where
  "malformed_chunk = js_error ''malformed chunk format, expected a factory function''"

definition set_all :: "chunk_item list \<Rightarrow> factory \<Rightarrow> (map_key \<Rightarrow> factory option) \<Rightarrow> map_key \<Rightarrow> factory option" where
  "set_all ids f = fold (\<lambda>it fs. fs(item_key it \<mapsto> f)) ids"

text \<open>
  \<open>installCompressedModuleFactories(chunkModules, offset, moduleFactories)\<close>: from \<open>i\<close> on the items
  of the chunk; the factory at \<open>end\<close> is the first function after position \<open>i\<close>.
\<close>

function installCompressedModuleFactories ::
  "chunk_item list \<Rightarrow> nat \<Rightarrow> (map_key \<Rightarrow> factory option) \<Rightarrow> (map_key \<Rightarrow> factory option) \<times> mval option" where
  "installCompressedModuleFactories chunkModules i fs =
     (if i < length chunkModules
      then
        let stop = Suc i + length (takeWhile (\<lambda>it. \<not> is_factory it) (drop (Suc i) chunkModules)) in
        if stop = length chunkModules then (fs, Some malformed_chunk)
        else
          (case chunkModules ! stop of
             ItemFactory f \<Rightarrow>
               installCompressedModuleFactories chunkModules (Suc stop)
                 (if fs (item_key (chunkModules ! i)) = None
                  then set_all (drop i (take stop chunkModules)) f fs else fs)
           | ItemId _ \<Rightarrow> (fs, None))
      else (fs, None))"
  by pat_completeness auto
termination by (relation "measure (\<lambda>(c, i, _). length c - i)") auto

declare installCompressedModuleFactories.simps [simp del]

section \<open>Module objects\<close>

text \<open>\<open>createModuleObject(id)\<close>, put into the cache.\<close>

definition new_module :: "mid \<Rightarrow> loader \<Rightarrow> loader \<times> nat" where
  "new_module i L =
     (let (st, e) = alloc (Plain \<lparr>callable = False, proto = ObjectPrototype, sealed = False, props = []\<rparr>) (store L);
          a = length (modules L)
      in (L\<lparr>modules := modules L @ [\<lparr>exports = Ref e, error = Undefined, mod_id = i, namespaceObject = Undefined,
                                   loaded = False\<rparr>],
            store := st, moduleCache := (moduleCache L)(mid_text i \<mapsto> a)\<rparr>, a))"

definition getOverwrittenModule :: "mid \<Rightarrow> loader \<Rightarrow> loader \<times> nat" where
  "getOverwrittenModule i L = (case moduleCache L (mid_text i) of Some a \<Rightarrow> (L, a) | None \<Rightarrow> new_module i L)"

definition update_module :: "nat \<Rightarrow> (modobj \<Rightarrow> modobj) \<Rightarrow> loader \<Rightarrow> loader" where
  "update_module a f L = L\<lparr>modules := (modules L)[a := f (modules L ! a)]\<rparr>"

text \<open>The module and the exports object an operation works on: those of the context, or of the module named.\<close>

definition target_module :: "ctx \<Rightarrow> mid option \<Rightarrow> loader \<Rightarrow> loader \<times> nat \<times> mval" where
  "target_module c to L =
     (case to of
        None \<Rightarrow> (L, ctx_m c, ctx_e c)
      | Some i \<Rightarrow> (let (L', a) = getOverwrittenModule i L in (L', a, exports (modules L' ! a))))"

definition esmExport :: "node \<Rightarrow> ctx \<Rightarrow> binding list \<Rightarrow> mid option \<Rightarrow> loader \<Rightarrow> loader \<times> mval mres" where
  "esmExport N c bindings to L =
     (let (L, a, e) = target_module c to L;
          L = update_module a (\<lambda>m. m\<lparr>namespaceObject := e\<rparr>) L
      in case esm (stack_depth N) e bindings (store L) of
           (st, Some err) \<Rightarrow> (L\<lparr>store := st\<rparr>, Inl err)
         | (st, None) \<Rightarrow> (L\<lparr>store := st\<rparr>, Inr Undefined))"

text \<open>\<open>ensureDynamicExports(module, exports)\<close>: the first time, the exports become a proxy.\<close>

definition proxy_error :: mval where
  "proxy_error = type_error ''Cannot create proxy with a non-object as target or handler''"

definition ensureDynamicExports :: "nat \<Rightarrow> mval \<Rightarrow> loader \<Rightarrow> loader \<times> mval option" where
  "ensureDynamicExports a e L =
     (case reexports (store L) a of
        Some _ \<Rightarrow> (L, None)
      | None \<Rightarrow>
          (let st = (store L)\<lparr>reexports := (reexports (store L))(a \<mapsto> [])\<rparr> in
           case e of
             Ref t \<Rightarrow>
               (let (st', p) = alloc (Proxied t a) st in
                (update_module a (\<lambda>m. m\<lparr>exports := Ref p, namespaceObject := Ref p\<rparr>) (L\<lparr>store := st'\<rparr>), None))
           | _ \<Rightarrow> (L\<lparr>store := st\<rparr>, Some proxy_error)))"

definition push_reexport :: "nat \<Rightarrow> mval \<Rightarrow> js_store \<Rightarrow> js_store" where
  "push_reexport a v st =
     (if typeof_object st v \<and> v \<noteq> Null
      then st\<lparr>reexports := (reexports st)(a \<mapsto> orelse (reexports st a) [] @ [v])\<rparr> else st)"

definition dynamicExport :: "ctx \<Rightarrow> mval \<Rightarrow> mid option \<Rightarrow> loader \<Rightarrow> loader \<times> mval mres" where
  "dynamicExport c v to L =
     (let (L, a, e) = target_module c to L in
      case ensureDynamicExports a e L of
        (L, Some err) \<Rightarrow> (L, Inl err)
      | (L, None) \<Rightarrow> (L\<lparr>store := push_reexport a v (store L)\<rparr>, Inr Undefined))"

definition exportValue :: "ctx \<Rightarrow> mval \<Rightarrow> mid option \<Rightarrow> loader \<Rightarrow> loader" where
  "exportValue c v to L =
     (let (L, a, _) = target_module c to L in update_module a (\<lambda>m. m\<lparr>exports := v\<rparr>) L)"

definition exportNamespace :: "ctx \<Rightarrow> mval \<Rightarrow> mid option \<Rightarrow> loader \<Rightarrow> loader" where
  "exportNamespace c v to L =
     (let (L, a, _) = target_module c to L in
      update_module a (\<lambda>m. m\<lparr>exports := v, namespaceObject := v\<rparr>) L)"

section \<open>Chunks\<close>

definition getChunkPath :: "chunk_data \<Rightarrow> string" where
  "getChunkPath d = (case d of ChunkPath p \<Rightarrow> p | ChunkWithPath p \<Rightarrow> p)"

definition chunk_load_error :: "string \<Rightarrow> mval \<Rightarrow> mval" where
  "chunk_load_error message cause = ErrorObject ''ChunkLoadError'' message None (Some cause)"

text \<open>\<open>require(resolved)\<close> and the installation, in one \<open>try\<close>.\<close>

definition require_chunk :: "node \<Rightarrow> string \<Rightarrow> loader \<Rightarrow> loader \<times> mval option" where
  "require_chunk N chunkPath L =
     (case require_file N (chunk_file (located_at N) chunkPath) of
        Inl e \<Rightarrow> (L, Some e)
      | Inr chunkModules \<Rightarrow>
          (let (fs, err) = installCompressedModuleFactories chunkModules 0 (moduleFactories L)
           in (L\<lparr>moduleFactories := fs\<rparr>, err)))"

definition loadRuntimeChunkPath :: "node \<Rightarrow> string \<Rightarrow> string \<Rightarrow> loader \<Rightarrow> loader \<times> mval option" where
  "loadRuntimeChunkPath N sourcePath chunkPath L =
     (if \<not> isJs chunkPath then (L, None)
      else if chunkPath \<in> set (loadedChunks L) then (L, None)
      else
        (case require_chunk N chunkPath L of
           (L, Some cause) \<Rightarrow>
             (L, Some (chunk_load_error
                (''Failed to load chunk '' @ chunkPath @
                 (if sourcePath \<noteq> [] then '' from runtime for chunk '' @ sourcePath else [])) cause))
         | (L, None) \<Rightarrow> (L\<lparr>loadedChunks := loadedChunks L @ [chunkPath]\<rparr>, None)))"

definition loadRuntimeChunk :: "node \<Rightarrow> string \<Rightarrow> chunk_data \<Rightarrow> loader \<Rightarrow> loader \<times> mval option" where
  "loadRuntimeChunk N sourcePath d L =
     (case d of
        ChunkPath p \<Rightarrow> loadRuntimeChunkPath N sourcePath p L
      | ChunkWithPath p \<Rightarrow> loadRuntimeChunkPath N sourcePath p L)"

text \<open>
  \<open>loadChunkAsync(chunkData)\<close> of the module \<open>a\<close>: the second part is the promise, \<open>None\<close> when it
  resolves and the error when it is rejected.
\<close>

definition loadChunkAsync :: "node \<Rightarrow> nat \<Rightarrow> chunk_data \<Rightarrow> loader \<Rightarrow> loader \<times> mval option" where
  "loadChunkAsync N a d L =
     (let chunkPath = getChunkPath d in
      if \<not> isJs chunkPath then (L, None)
      else
        (case chunkCache L chunkPath of
           Some entry \<Rightarrow> (L, entry)
         | None \<Rightarrow>
             (let (L', cause) = require_chunk N chunkPath L;
                  entry = (case cause of
                             None \<Rightarrow> None
                           | Some e \<Rightarrow> Some (chunk_load_error
                               (''Failed to load chunk '' @ chunkPath @ '' from module '' @
                                mid_text (mod_id (modules L ! a))) e))
              in (L'\<lparr>chunkCache := (chunkCache L')(chunkPath \<mapsto> entry)\<rparr>, entry))))"

definition clearChunkCache :: "loader \<Rightarrow> loader" where
  "clearChunkCache L = L\<lparr>chunkCache := (\<lambda>_. None)\<rparr>"

text \<open>\<open>loadChunkAsyncByUrl(chunkUrl)\<close>; \<open>file_path\<close> is \<open>url.fileURLToPath(new URL(url, base))\<close>.\<close>

definition loadChunkAsyncByUrl ::
  "node \<Rightarrow> (string \<Rightarrow> string \<Rightarrow> string mres) \<Rightarrow> nat \<Rightarrow> string \<Rightarrow> loader \<Rightarrow> loader \<times> mval option mres" where
  "loadChunkAsyncByUrl N file_path a chunkUrl L =
     (case file_path chunkUrl (RUNTIME_ROOT (located_at N)) of
        Inl e \<Rightarrow> (L, Inl e)
      | Inr path1 \<Rightarrow> (let (L', promise) = loadChunkAsync N a (ChunkPath path1) L in (L', Inr promise)))"

section \<open>Instantiation\<close>

text \<open>Who asks for a module: \<open>SourceType.Runtime\<close> with a chunk, \<open>SourceType.Parent\<close> with a module.\<close>

datatype source = Runtime string | Parent mid

definition not_available :: "mid \<Rightarrow> source \<Rightarrow> mval" where
  "not_available i src =
     js_error (''Module '' @ mid_text i @ '' was instantiated '' @
       (case src of
          Runtime p \<Rightarrow> ''as a runtime entry of chunk '' @ p
        | Parent p \<Rightarrow> ''because it was required from module '' @ mid_text p) @
       '', but the module factory is not available.'')"

text \<open>What an instantiation does: the next state, and the module or what was thrown.\<close>

type_synonym instantiation_run = "mid \<Rightarrow> source \<Rightarrow> loader \<Rightarrow> (loader \<times> nat mres) option"

text \<open>\<open>getOrInstantiateModuleFromParent\<close> and \<open>getOrInstantiateRuntimeModule\<close>, over how to instantiate.\<close>

definition getOrInstantiate :: "instantiation_run \<Rightarrow> instantiation_run" where
  "getOrInstantiate run i src L =
     (case moduleCache L (mid_text i) of
        Some a \<Rightarrow>
          (let e = error (modules L ! a) in
           if mtruthy e then Some (L, Inl e) else Some (L, Inr a))
      | None \<Rightarrow> run i src L)"

definition commonJsRequire :: "instantiation_run \<Rightarrow> ctx \<Rightarrow> mid \<Rightarrow> loader \<Rightarrow> (loader \<times> mval mres) option" where
  "commonJsRequire run c i L =
     (case getOrInstantiate run i (Parent (mod_id (modules L ! ctx_m c))) L of
        None \<Rightarrow> None
      | Some (L', Inl e) \<Rightarrow> Some (L', Inl e)
      | Some (L', Inr a) \<Rightarrow> Some (L', Inr (exports (modules L' ! a))))"

definition import_namespace :: "node \<Rightarrow> nat \<Rightarrow> loader \<Rightarrow> loader \<times> mval mres" where
  "import_namespace N a L =
     (let m = modules L ! a in
      if mtruthy (namespaceObject m) then (L, Inr (namespaceObject m))
      else
        (let raw = exports m; (st, ns) = createNS raw (store L) in
         case is_es_module (stack_depth N) st raw of
           Inl e \<Rightarrow> (L\<lparr>store := st\<rparr>, Inl e)
         | Inr allow \<Rightarrow>
             (case interopEsm (stack_depth N) raw ns allow st of
                (st, Some e) \<Rightarrow> (L\<lparr>store := st\<rparr>, Inl e)
              | (st, None) \<Rightarrow>
                  (update_module a (\<lambda>m. m\<lparr>namespaceObject := ns\<rparr>) (L\<lparr>store := st\<rparr>), Inr ns))))"

definition esmImport :: "node \<Rightarrow> instantiation_run \<Rightarrow> ctx \<Rightarrow> mid \<Rightarrow> loader \<Rightarrow> (loader \<times> mval mres) option" where
  "esmImport N run c i L =
     (case getOrInstantiate run i (Parent (mod_id (modules L ! ctx_m c))) L of
        None \<Rightarrow> None
      | Some (L', Inl e) \<Rightarrow> Some (L', Inl e)
      | Some (L', Inr a) \<Rightarrow> Some (import_namespace N a L'))"

text \<open>\<open>resolvePathFromModule(moduleId)\<close>.\<close>

definition resolved_path :: "node \<Rightarrow> js_store \<Rightarrow> mval \<Rightarrow> mval mres" where
  "resolved_path N st exported =
     (let default_export =
            (if exported = Undefined \<or> exported = Null then Inr Undefined
             else get_prop (stack_depth N) st exported ''default'')
      in case default_export of
           Inl e \<Rightarrow> Inl e
         | Inr d \<Rightarrow>
             (case (if d = Undefined \<or> d = Null then exported else d) of
                Str exportedPath \<Rightarrow>
                  Inr (Str (pathToFileURL N
                    (path_resolve (rt_cwd (located_at N))
                      [RUNTIME_ROOT (located_at N),
                       drop (length (ASSET_PREFIX (rt_config (located_at N)))) exportedPath])))
              | _ \<Rightarrow> Inr exported))"

definition resolvePathFromModule :: "node \<Rightarrow> instantiation_run \<Rightarrow> ctx \<Rightarrow> mid \<Rightarrow> loader \<Rightarrow> (loader \<times> mval mres) option" where
  "resolvePathFromModule N run c i L =
     (case commonJsRequire run c i L of
        None \<Rightarrow> None
      | Some (L', Inl e) \<Rightarrow> Some (L', Inl e)
      | Some (L', Inr exported) \<Rightarrow> Some (L', resolved_path N (store L') exported))"

text \<open>The operations of a module's context.\<close>

fun perform :: "node \<Rightarrow> instantiation_run \<Rightarrow> ctx \<Rightarrow> cmd \<Rightarrow> loader \<Rightarrow> (loader \<times> mval mres) option" where
  "perform N run c (Require i) L = commonJsRequire run c i L"
| "perform N run c (Import i) L = esmImport N run c i L"
| "perform N run c (EsmExport bs to) L = Some (esmExport N c bs to L)"
| "perform N run c (DynamicExport v to) L = Some (dynamicExport c v to L)"
| "perform N run c (ExportValue v to) L = Some (exportValue c v to L, Inr Undefined)"
| "perform N run c (ExportNamespace v to) L = Some (exportNamespace c v to L, Inr Undefined)"
| "perform N run c ReadExports L = Some (L, Inr (exports (modules L ! ctx_m c)))"
| "perform N run c (SetExports v) L = Some (update_module (ctx_m c) (\<lambda>m. m\<lparr>exports := v\<rparr>) L, Inr v)"
| "perform N run c (ExternalRequire name thunk es) L =
     (let (st, r) = externalRequire (object_text N) (stack_depth N) name thunk es (store L) in Some (L\<lparr>store := st\<rparr>, r))"
| "perform N run c (ResolvePath i) L = resolvePathFromModule N run c i L"
| "perform N run c (LoadChunk d) L = Some (fst (loadChunkAsync N (ctx_m c) d L), Inr Undefined)"
| "perform N run c (Compute f) L = (let (st, r) = f (store L) in Some (L\<lparr>store := st\<rparr>, r))"

primrec run_factory :: "node \<Rightarrow> instantiation_run \<Rightarrow> ctx \<Rightarrow> prog \<Rightarrow> loader \<Rightarrow> (loader \<times> mval option) option" where
  "run_factory N run c Return L = Some (L, None)"
| "run_factory N run c (Throw e) L = Some (L, Some e)"
| "run_factory N run c (Do cm k) L =
     (case perform N run c cm L of
        None \<Rightarrow> None
      | Some (L', r) \<Rightarrow> run_factory N run c (k r) L')"

text \<open>After the factory: the module is loaded; a namespace that was handed out before is filled in.\<close>

definition finish_module :: "node \<Rightarrow> nat \<Rightarrow> loader \<Rightarrow> loader \<times> nat mres" where
  "finish_module N a L =
     (let L = update_module a (\<lambda>m. m\<lparr>loaded := True\<rparr>) L; m = modules L ! a in
      if mtruthy (namespaceObject m) \<and> exports m \<noteq> namespaceObject m
      then
        (case interopEsm (stack_depth N) (exports m) (namespaceObject m) False (store L) of
           (st, Some e) \<Rightarrow> (L\<lparr>store := st\<rparr>, Inl e)
         | (st, None) \<Rightarrow> (L\<lparr>store := st\<rparr>, Inr a))
      else (L, Inr a))"

definition instantiateModule :: "node \<Rightarrow> instantiation_run \<Rightarrow> instantiation_run" where
  "instantiateModule N run i src L =
     (case moduleFactories L (IdKey i) of
        None \<Rightarrow> Some (L, Inl (not_available i src))
      | Some f \<Rightarrow>
          (let (L1, a) = new_module i L;
               e = exports (modules L1 ! a);
               L2 = L1\<lparr>evaluated := evaluated L1 @ [mid_text i]\<rparr>
           in case run_factory N run \<lparr>ctx_m = a, ctx_e = e\<rparr> (fn_code f e) L2 of
                None \<Rightarrow> None
              | Some (L3, Some err) \<Rightarrow> Some (update_module a (\<lambda>m. m\<lparr>error := err\<rparr>) L3, Inl err)
              | Some (L3, None) \<Rightarrow> Some (finish_module N a L3)))"

primrec instantiate :: "node \<Rightarrow> nat \<Rightarrow> instantiation_run" where
  "instantiate N 0 = (\<lambda>i src L. None)"
| "instantiate N (Suc fuel) = instantiateModule N (instantiate N fuel)"

text \<open>\<open>m(id)\<close> and \<open>c(chunkData)\<close> of the runtime as a chunk sees it.\<close>

definition runtime_m :: "node \<Rightarrow> nat \<Rightarrow> string \<Rightarrow> mid \<Rightarrow> loader \<Rightarrow> (loader \<times> nat mres) option" where
  "runtime_m N fuel sourcePath i L = getOrInstantiate (instantiate N fuel) i (Runtime sourcePath) L"

definition runtime_c :: "node \<Rightarrow> string \<Rightarrow> chunk_data \<Rightarrow> loader \<Rightarrow> loader \<times> mval option" where
  "runtime_c N sourcePath d L = loadRuntimeChunk N sourcePath d L"

text \<open>
  \<open>asyncLoader(moduleId)\<close>: the module exports a function, which is called with \<open>esmImport\<close>; what it does is
  its own code, the parameter \<open>call\<close>.
\<close>

definition asyncLoader :: "mid \<Rightarrow> (mval \<Rightarrow> prog) \<Rightarrow> prog" where
  "asyncLoader moduleId call =
     Do (Require moduleId) (\<lambda>r. case r of Inl e \<Rightarrow> Throw e | Inr loader \<Rightarrow> call loader)"

end
