(* ===== verification/ModuleGraph.thy ===== *)
theory ModuleGraph
  imports ModuleLoader
begin

text \<open>
  What the module loader guarantees: how a chunk is installed, that a module is evaluated at
  most once and keeps its error, and that instantiation comes to an end.
\<close>

section \<open>Installing a chunk\<close>

abbreviation install :: "chunk_item list \<Rightarrow> nat \<Rightarrow> (map_key \<Rightarrow> factory option) \<Rightarrow> (map_key \<Rightarrow> factory option) \<times> mval option" where
  "install \<equiv> installCompressedModuleFactories"

text \<open>The position of the factory of the group that starts at \<open>i\<close>.\<close>

definition group_end :: "chunk_item list \<Rightarrow> nat \<Rightarrow> nat" where
  "group_end c i = Suc i + length (takeWhile (\<lambda>it. \<not> is_factory it) (drop (Suc i) c))"

lemma group_end_le: "i < length c \<Longrightarrow> group_end c i \<le> length c"
  unfolding group_end_def using length_takeWhile_le [of "\<lambda>it. \<not> is_factory it" "drop (Suc i) c"] by simp

lemma group_end_factory:
  assumes "i < length c" "group_end c i \<noteq> length c"
  obtains f where "c ! group_end c i = ItemFactory f" "group_end c i < length c" "i < group_end c i"
proof -
  let ?n = "length (takeWhile (\<lambda>it. \<not> is_factory it) (drop (Suc i) c))"
  have lt: "group_end c i < length c" using assms group_end_le [of i c] by simp
  then have "?n < length (drop (Suc i) c)" by (simp add: group_end_def)
  then have "is_factory (drop (Suc i) c ! ?n)" using nth_length_takeWhile by blast
  then have "is_factory (c ! group_end c i)" using lt by (simp add: group_end_def nth_drop)
  then obtain f where "c ! group_end c i = ItemFactory f"
    by (cases "c ! group_end c i") (auto simp: is_factory_def)
  from this lt show ?thesis by (rule that) (simp add: group_end_def)
qed

definition install_at :: "chunk_item list \<Rightarrow> nat \<Rightarrow> factory \<Rightarrow> (map_key \<Rightarrow> factory option) \<Rightarrow> map_key \<Rightarrow> factory option" where
  "install_at c i f fs =
     (if fs (item_key (c ! i)) = None then set_all (drop i (take (group_end c i) c)) f fs else fs)"

lemma install_simps:
  "\<not> i < length c \<Longrightarrow> install c i fs = (fs, None)"
  "i < length c \<Longrightarrow> group_end c i = length c \<Longrightarrow> install c i fs = (fs, Some malformed_chunk)"
  "i < length c \<Longrightarrow> group_end c i \<noteq> length c \<Longrightarrow> c ! group_end c i = ItemFactory f \<Longrightarrow>
   install c i fs = install c (Suc (group_end c i)) (install_at c i f fs)"
  by (simp_all add: installCompressedModuleFactories.simps [of c i] group_end_def install_at_def Let_def)

lemma install_induct [case_names finished malformed step]:
  assumes "\<And>i fs. \<not> i < length c \<Longrightarrow> P i fs"
    and "\<And>i fs. i < length c \<Longrightarrow> group_end c i = length c \<Longrightarrow> P i fs"
    and "\<And>i fs f. i < length c \<Longrightarrow> group_end c i < length c \<Longrightarrow> i < group_end c i \<Longrightarrow>
           c ! group_end c i = ItemFactory f \<Longrightarrow> P (Suc (group_end c i)) (install_at c i f fs) \<Longrightarrow> P i fs"
  shows "P i fs"
proof (induction "length c - i" arbitrary: i fs rule: less_induct)
  case (less i fs)
  show ?case
  proof (cases "i < length c")
    case True
    show ?thesis
    proof (cases "group_end c i = length c")
      case False
      with True obtain f where "c ! group_end c i = ItemFactory f" "group_end c i < length c" "i < group_end c i"
        by (rule group_end_factory)
      note f = this
      from f True have "length c - Suc (group_end c i) < length c - i" by linarith
      then have "P (Suc (group_end c i)) (install_at c i f fs)" by (rule less)
      from assms(3) [OF True f(2,3,1) this] show ?thesis .
    qed (rule assms(2) [OF True])
  qed (rule assms(1))
qed

lemma set_all_apply: "set_all ids f fs k = (if k \<in> item_key ` set ids then Some f else fs k)"
  unfolding set_all_def by (induction ids arbitrary: fs) auto

lemma install_at_dom: "dom fs \<subseteq> dom (install_at c i f fs)"
  by (auto simp: install_at_def set_all_apply)

lemma install_at_primary:
  assumes "i < group_end c i" "i < length c"
  shows "install_at c i f fs (item_key (c ! i)) \<noteq> None"
proof -
  from assms have "c ! i \<in> set (drop i (take (group_end c i) c))"
    by (auto simp: in_set_conv_nth intro!: exI [of _ 0])
  then show ?thesis by (auto simp: install_at_def set_all_apply)
qed

lemma install_grows: "dom fs \<subseteq> dom (fst (install c i fs))"
proof (induction i fs rule: install_induct [of c])
  case (step i fs f)
  then show ?case using install_at_dom [of fs c i f] by (simp add: install_simps(3))
qed (simp_all add: install_simps)

lemma install_known:
  "snd (install c i fs) = None \<Longrightarrow> dom (fst (install c i fs)) \<subseteq> dom gs \<Longrightarrow> install c i gs = (gs, None)"
proof (induction i fs rule: install_induct [of c])
  case (step i fs f)
  have "item_key (c ! i) \<in> dom (install_at c i f fs)"
    using install_at_primary [of i c f fs] step.hyps by auto
  then have "item_key (c ! i) \<in> dom gs"
    using install_grows [of "install_at c i f fs" c "Suc (group_end c i)"] step by (auto simp: install_simps(3))
  then have "install_at c i f gs = gs" by (auto simp: install_at_def)
  with step show ?case by (simp add: install_simps(3))
qed (simp_all add: install_simps)

text \<open>A chunk as the compiler writes it: groups of a primary id, further ids and a factory.\<close>

type_synonym group = "(mid \<times> mid list) \<times> factory"

definition encode_group :: "group \<Rightarrow> chunk_item list" where
  "encode_group g = (case g of ((i, is), f) \<Rightarrow> map ItemId (i # is) @ [ItemFactory f])"

definition install_group :: "group \<Rightarrow> (map_key \<Rightarrow> factory option) \<Rightarrow> map_key \<Rightarrow> factory option" where
  "install_group g fs =
     (case g of ((i, is), f) \<Rightarrow>
        if fs (IdKey i) = None then (\<lambda>k. if k \<in> IdKey ` set (i # is) then Some f else fs k) else fs)"

lemma group_end_encode:
  "group_end (pre @ encode_group ((i, is), f) @ rest) (length pre) = length pre + Suc (length is)"
proof -
  have "takeWhile (\<lambda>it. \<not> is_factory it) (map ItemId is @ ItemFactory f # rest) = map ItemId is"
    by (induction "is") (simp_all add: is_factory_def)
  then show ?thesis by (simp add: group_end_def encode_group_def)
qed

lemma item_key_simps [simp]: "item_key (ItemId i) = IdKey i" "item_key (ItemFactory f) = FunctionKey (fn_id f)"
  by (simp_all add: item_key_def)

lemma install_at_encode:
  "install_at (pre @ encode_group ((i, is), f) @ rest) (length pre) f fs = install_group ((i, is), f) fs"
proof -
  have d: "drop (length pre) (take (length pre + Suc (length is)) (pre @ encode_group ((i, is), f) @ rest))
        = map ItemId (i # is)"
    by (simp add: encode_group_def)
  have n: "(pre @ encode_group ((i, is), f) @ rest) ! length pre = ItemId i"
    by (simp add: encode_group_def nth_append)
  show ?thesis
    unfolding install_at_def group_end_encode d n
    by (auto simp: install_group_def set_all_apply fun_eq_iff image_image)
qed

lemma install_encoded:
  "install (pre @ concat (map encode_group gs)) (length pre) fs = (fold install_group gs fs, None)"
proof (induction gs arbitrary: pre fs)
  case (Cons g gs)
  obtain i "is" f where g: "g = ((i, is), f)" by (metis surj_pair)
  let ?c = "pre @ encode_group ((i, is), f) @ concat (map encode_group gs)"
  have e: "group_end ?c (length pre) = length pre + Suc (length is)" by (rule group_end_encode)
  have n: "?c ! (length pre + Suc (length is)) = ItemFactory f"
    by (simp add: encode_group_def nth_append)
  have "install ?c (length pre) fs
        = install ?c (Suc (length pre + Suc (length is))) (install_group ((i, is), f) fs)"
    using e n install_at_encode by (subst install_simps(3) [where f = f]) (simp_all add: encode_group_def)
  also have "\<dots> = (fold install_group gs (install_group ((i, is), f) fs), None)"
  proof -
    have "length (pre @ encode_group ((i, is), f)) = Suc (length pre + Suc (length is))"
      by (simp add: encode_group_def)
    then show ?thesis using Cons.IH [of "pre @ encode_group ((i, is), f)"] by simp
  qed
  finally show ?case by (simp add: g)
qed (simp add: install_simps)

section \<open>What every operation keeps\<close>

named_theorems loader_simps \<open>the operations of the loader on the parts of its state\<close>

text \<open>The cache points to module objects, a module was evaluated at most once, and then it is in the cache.\<close>

definition wf :: "loader \<Rightarrow> bool" where
  "wf L \<longleftrightarrow>
     (\<forall>k a. moduleCache L k = Some a \<longrightarrow> a < length (modules L)) \<and>
     distinct (evaluated L) \<and> set (evaluated L) \<subseteq> dom (moduleCache L)"

text \<open>
  What may have happened between two states: the cache has grown, the module objects of the
  first state have kept their identity, their error and whether they are loaded, no module was
  evaluated again, new factories came from chunks, and a loaded chunk stays loaded.
\<close>

definition same_module :: "modobj \<Rightarrow> modobj \<Rightarrow> bool" where
  "same_module m m' \<longleftrightarrow> error m' = error m \<and> mod_id m' = mod_id m \<and> loaded m' = loaded m"

definition chunk_keys :: "node \<Rightarrow> map_key set" where
  "chunk_keys N = {item_key it |it. \<exists>file items. require_file N file = Inr items \<and> it \<in> set items}"

definition grows :: "node \<Rightarrow> loader \<Rightarrow> loader \<Rightarrow> bool" where
  "grows N L L' \<longleftrightarrow>
     (wf L \<longrightarrow> wf L') \<and> moduleCache L \<subseteq>\<^sub>m moduleCache L' \<and>
     length (modules L) \<le> length (modules L') \<and>
     (\<forall>a < length (modules L). same_module (modules L ! a) (modules L' ! a)) \<and>
     (\<exists>es. evaluated L' = evaluated L @ es) \<and>
     dom (moduleFactories L') \<subseteq> dom (moduleFactories L) \<union> chunk_keys N \<and>
     set (loadedChunks L) \<subseteq> set (loadedChunks L')"

lemma same_module_refl [simp]: "same_module m m"
  by (simp add: same_module_def)

lemma same_module_trans: "same_module a b \<Longrightarrow> same_module b c \<Longrightarrow> same_module a c"
  by (simp add: same_module_def)

lemma grows_refl [simp]: "grows N L L"
  by (simp add: grows_def)

lemma grows_trans [trans]:
  assumes "grows N L L'" "grows N L' L''"
  shows "grows N L L''"
proof -
  have "moduleCache L \<subseteq>\<^sub>m moduleCache L''"
    using assms map_le_trans unfolding grows_def by blast
  moreover have "same_module (modules L ! a) (modules L'' ! a)" if "a < length (modules L)" for a
    using assms that same_module_trans unfolding grows_def by (meson order_less_le_trans)
  moreover have "dom (moduleFactories L'') \<subseteq> dom (moduleFactories L) \<union> chunk_keys N"
    using assms unfolding grows_def by blast
  moreover have "\<exists>es. evaluated L'' = evaluated L @ es"
    using assms by (auto simp: grows_def)
  moreover have "set (loadedChunks L) \<subseteq> set (loadedChunks L'')"
    using assms unfolding grows_def by blast
  ultimately show ?thesis using assms by (simp add: grows_def)
qed

lemma wf_initial [simp]: "wf initial_loader"
  by (simp add: wf_def initial_loader_def)

text \<open>Changes of the parts that \<open>grows\<close> does not look at.\<close>

lemma grows_other [intro]:
  assumes "moduleCache L' = moduleCache L" "modules L' = modules L" "evaluated L' = evaluated L"
    "moduleFactories L' = moduleFactories L" "loadedChunks L' = loadedChunks L"
  shows "grows N L L'"
  using assms by (simp add: grows_def wf_def)

lemma update_module_parts [simp, loader_simps]:
  "moduleCache (update_module a f L) = moduleCache L"
  "evaluated (update_module a f L) = evaluated L"
  "moduleFactories (update_module a f L) = moduleFactories L"
  "loadedChunks (update_module a f L) = loadedChunks L"
  "store (update_module a f L) = store L"
  "length (modules (update_module a f L)) = length (modules L)"
  by (simp_all add: update_module_def)

lemma update_module_nth [loader_simps]:
  "b < length (modules L) \<Longrightarrow> modules (update_module a f L) ! b = (if b = a then f (modules L ! a) else modules L ! b)"
  by (simp add: update_module_def nth_list_update)

lemma grows_update_module: "(\<And>m. same_module m (f m)) \<Longrightarrow> grows N L (update_module a f L)"
  by (auto simp: grows_def wf_def update_module_nth)

lemma grows_update_later:
  "grows N L L' \<Longrightarrow> length (modules L) \<le> a \<Longrightarrow> grows N L (update_module a f L')"
  by (auto simp: grows_def wf_def update_module_nth)

lemma new_module_parts [loader_simps]:
  "snd (new_module i L) = length (modules L)"
  "modules (fst (new_module i L)) = modules L @ [\<lparr>exports = Ref (length (objects (store L))), error = Undefined,
      mod_id = i, namespaceObject = Undefined, loaded = False\<rparr>]"
  "moduleCache (fst (new_module i L)) = (moduleCache L)(mid_text i \<mapsto> length (modules L))"
  "evaluated (fst (new_module i L)) = evaluated L"
  "moduleFactories (fst (new_module i L)) = moduleFactories L"
  "loadedChunks (fst (new_module i L)) = loadedChunks L"
  by (simp_all add: new_module_def alloc_def Let_def)

lemma grows_new_module:
  assumes "moduleCache L (mid_text i) = None"
  shows "grows N L (fst (new_module i L))"
proof -
  have "moduleCache L \<subseteq>\<^sub>m (moduleCache L)(mid_text i \<mapsto> length (modules L))"
    using assms by (auto simp: map_le_def)
  moreover have "wf (fst (new_module i L))" if "wf L"
    using that by (auto simp: wf_def loader_simps less_SucI)
  ultimately show ?thesis
    by (simp add: grows_def loader_simps nth_append)
qed

lemma grows_getOverwrittenModule: "grows N L (fst (getOverwrittenModule i L))"
  using grows_new_module by (auto simp: getOverwrittenModule_def split: option.splits)

lemma target_module_grows: "target_module c to L = (L', a, e) \<Longrightarrow> grows N L L'"
  using grows_getOverwrittenModule
  by (auto simp: target_module_def split: option.splits prod.splits) (metis fst_conv)

lemma same_module_updates [simp]:
  "same_module m (m\<lparr>exports := v\<rparr>)" "same_module m (m\<lparr>namespaceObject := w\<rparr>)"
  "same_module m (m\<lparr>exports := v, namespaceObject := w\<rparr>)"
  by (simp_all add: same_module_def)

text \<open>Backwards through the changes of a state.\<close>

lemma grows_after [intro!]:
  "grows N L M \<Longrightarrow> grows N L (M\<lparr>store := st\<rparr>)"
  "grows N L M \<Longrightarrow> dom fs \<subseteq> dom (moduleFactories M) \<union> chunk_keys N \<Longrightarrow> grows N L (M\<lparr>moduleFactories := fs\<rparr>)"
  "grows N L M \<Longrightarrow> grows N L (M\<lparr>loadedChunks := loadedChunks M @ cs\<rparr>)"
  "grows N L M \<Longrightarrow> grows N L (M\<lparr>chunkCache := cc\<rparr>)"
  and grows_after_update [intro]:
  "grows N L M \<Longrightarrow> (\<And>m. same_module m (f m)) \<Longrightarrow> grows N L (update_module a f M)"
proof -
  assume g: "grows N L M"
  then show "grows N L (M\<lparr>store := st\<rparr>)"
    "grows N L (M\<lparr>loadedChunks := loadedChunks M @ cs\<rparr>)" "grows N L (M\<lparr>chunkCache := cc\<rparr>)"
    by (auto simp: grows_def wf_def)
  show "grows N L (M\<lparr>moduleFactories := fs\<rparr>)" if "dom fs \<subseteq> dom (moduleFactories M) \<union> chunk_keys N"
  proof -
    have "dom fs \<subseteq> dom (moduleFactories L) \<union> chunk_keys N" using g that unfolding grows_def by blast
    then show ?thesis using g by (simp add: grows_def wf_def)
  qed
  assume "\<And>m. same_module m (f m)"
  from grows_trans [OF g grows_update_module [OF this]] show "grows N L (update_module a f M)" .
qed

lemma esmExport_grows: "esmExport N c bs to L = (L', r) \<Longrightarrow> grows N L L'"
  by (auto simp: esmExport_def Let_def dest!: target_module_grows split: prod.splits option.splits)

lemma ensureDynamicExports_grows: "ensureDynamicExports a e L = (L', r) \<Longrightarrow> grows N L L'"
  by (auto simp: ensureDynamicExports_def Let_def split: prod.splits option.splits mval.splits)

lemma dynamicExport_grows: "dynamicExport c v to L = (L', r) \<Longrightarrow> grows N L L'"
  by (auto simp: dynamicExport_def dest!: target_module_grows ensureDynamicExports_grows
      intro: grows_trans split: prod.splits option.splits)

lemma exportValue_grows: "grows N L (exportValue c v to L)"
  by (auto simp: exportValue_def dest!: target_module_grows split: prod.splits)

lemma exportNamespace_grows: "grows N L (exportNamespace c v to L)"
  by (auto simp: exportNamespace_def dest!: target_module_grows split: prod.splits)

lemma install_keys: "dom (fst (install c i fs)) \<subseteq> dom fs \<union> item_key ` set c"
proof (induction i fs rule: install_induct [of c])
  case (step i fs f)
  have "dom (install_at c i f fs) \<subseteq> dom fs \<union> item_key ` set c"
    by (auto simp: install_at_def set_all_apply dest!: in_set_dropD in_set_takeD split: if_splits)
  with step show ?case by (auto simp: install_simps(3))
qed (simp_all add: install_simps)

lemma require_chunk_grows:
  assumes "require_chunk N p L = (L', r)"
  shows "grows N L L'"
proof (cases "require_file N (chunk_file (located_at N) p)")
  case (Inr items)
  then have "item_key ` set items \<subseteq> chunk_keys N" by (auto simp: chunk_keys_def)
  with install_keys [of items 0 "moduleFactories L"]
  have "dom (fst (install items 0 (moduleFactories L))) \<subseteq> dom (moduleFactories L) \<union> chunk_keys N" by blast
  then have "grows N L (L\<lparr>moduleFactories := fst (install items 0 (moduleFactories L))\<rparr>)" by auto
  with assms Inr show ?thesis by (simp add: require_chunk_def split: prod.splits)
qed (use assms in \<open>simp add: require_chunk_def\<close>)

lemma loadChunkAsync_grows: "loadChunkAsync N a d L = (L', r) \<Longrightarrow> grows N L L'"
  by (auto simp: loadChunkAsync_def Let_def dest!: require_chunk_grows split: if_splits option.splits prod.splits)

lemma loadRuntimeChunk_grows: "loadRuntimeChunk N s d L = (L', r) \<Longrightarrow> grows N L L'"
  by (auto simp: loadRuntimeChunk_def loadRuntimeChunkPath_def dest!: require_chunk_grows
      split: chunk_data.splits if_splits option.splits prod.splits)

lemma import_namespace_grows: "import_namespace N a L = (L', r) \<Longrightarrow> grows N L L'"
  by (auto simp: import_namespace_def Let_def split: if_splits option.splits prod.splits sum.splits)

section \<open>Instantiation\<close>

text \<open>The state in which a factory starts, and what instantiation does from there.\<close>

definition entered :: "mid \<Rightarrow> loader \<Rightarrow> loader" where
  "entered i L = (fst (new_module i L))\<lparr>evaluated := evaluated L @ [mid_text i]\<rparr>"

definition fresh_ctx :: "loader \<Rightarrow> ctx" where
  "fresh_ctx L = \<lparr>ctx_m = length (modules L), ctx_e = Ref (length (objects (store L)))\<rparr>"

lemma instantiateModule_eq:
  "instantiateModule N run i src L =
     (case moduleFactories L (IdKey i) of
        None \<Rightarrow> Some (L, Inl (not_available i src))
      | Some f \<Rightarrow>
          (case run_factory N run (fresh_ctx L) (fn_code f (ctx_e (fresh_ctx L))) (entered i L) of
             None \<Rightarrow> None
           | Some (L3, Some err) \<Rightarrow>
               Some (update_module (length (modules L)) (\<lambda>m. m\<lparr>error := err\<rparr>) L3, Inl err)
           | Some (L3, None) \<Rightarrow> Some (finish_module N (length (modules L)) L3)))"
proof -
  have nm: "new_module i L = (fst (new_module i L), length (modules L))"
    by (simp add: loader_simps prod_eq_iff)
  show ?thesis
    unfolding instantiateModule_def
    by (subst nm, cases "moduleFactories L (IdKey i)")
      (simp_all add: loader_simps entered_def fresh_ctx_def Let_def)
qed

lemma grows_entered:
  assumes "moduleCache L (mid_text i) = None"
  shows "grows N L (entered i L)"
proof -
  have "grows N L (fst (new_module i L))" by (rule grows_new_module) (rule assms)
  moreover have "mid_text i \<notin> set (evaluated L)" if "wf L" using that assms by (auto simp: wf_def)
  ultimately show ?thesis by (auto simp: entered_def grows_def wf_def loader_simps)
qed

text \<open>
  The interface between a module's operations and the instantiation of other modules: they rely
  on nothing but that a run keeps what \<open>grows\<close> says.
\<close>

locale instantiator =
  fixes N :: node and run :: instantiation_run
  assumes run_grows: "moduleCache L (mid_text i) = None \<Longrightarrow> run i src L = Some (L', r) \<Longrightarrow> grows N L L'"
begin

lemma getOrInstantiate_grows: "getOrInstantiate run i src L = Some (L', r) \<Longrightarrow> grows N L L'"
  by (auto simp: getOrInstantiate_def Let_def split: option.splits if_splits intro: run_grows)

lemma commonJsRequire_grows: "commonJsRequire run c i L = Some (L', r) \<Longrightarrow> grows N L L'"
  by (auto simp: commonJsRequire_def split: option.splits sum.splits dest: getOrInstantiate_grows)

lemma esmImport_grows: "esmImport N run c i L = Some (L', r) \<Longrightarrow> grows N L L'"
  by (auto simp: esmImport_def split: option.splits sum.splits
      dest!: getOrInstantiate_grows import_namespace_grows [where N = N] intro: grows_trans)

lemma resolvePathFromModule_grows: "resolvePathFromModule N run c i L = Some (L', r) \<Longrightarrow> grows N L L'"
  by (auto simp: resolvePathFromModule_def split: option.splits sum.splits dest: commonJsRequire_grows)

lemma perform_grows: "perform N run c cm L = Some (L', r) \<Longrightarrow> grows N L L'"
proof (cases cm)
  case (LoadChunk d)
  assume "perform N run c cm L = Some (L', r)"
  with LoadChunk show ?thesis using loadChunkAsync_grows [of N "ctx_m c" d L L'] by (metis option.inject
        perform.simps(11) prod.collapse prod.inject)
qed (auto split: prod.splits dest: commonJsRequire_grows esmImport_grows resolvePathFromModule_grows
      esmExport_grows [where N = N] dynamicExport_grows [where N = N] intro: exportValue_grows exportNamespace_grows)

lemma run_factory_grows: "run_factory N run c p L = Some (L', r) \<Longrightarrow> grows N L L'"
proof (induction p arbitrary: L)
  case (Do cm k)
  then obtain M v where M: "perform N run c cm L = Some (M, v)" "run_factory N run c (k v) M = Some (L', r)"
    by (auto split: option.splits prod.splits)
  show ?case by (rule grows_trans [OF perform_grows [OF M(1)] Do.IH [OF _ M(2)]]) simp
qed auto

lemma instantiateModule_grows:
  assumes "moduleCache L (mid_text i) = None" "instantiateModule N run i src L = Some (L', r)"
  shows "grows N L L'"
proof (cases "moduleFactories L (IdKey i)")
  case (Some f)
  have run: "run_factory N run (fresh_ctx L) (fn_code f (ctx_e (fresh_ctx L))) (entered i L) = Some (L3, t) \<Longrightarrow>
      grows N L L3" for L3 t
    using grows_trans [OF grows_entered [OF assms(1)] run_factory_grows] by blast
  have fin: "grows N L L'" if f: "finish_module N (length (modules L)) L3 = (L', r)" and g: "grows N L L3" for L3
  proof -
    have "grows N L (update_module (length (modules L)) (\<lambda>m. m\<lparr>loaded := True\<rparr>) L3)"
      using g by (rule grows_update_later) simp
    with f show ?thesis
      unfolding finish_module_def Let_def by (auto split: if_splits prod.splits option.splits)
  qed
  from assms(2) Some show ?thesis
    by (auto simp: instantiateModule_eq split: option.splits prod.splits dest!: run
        intro: fin intro!: grows_update_later)
qed (use assms in \<open>simp add: instantiateModule_def\<close>)

end

lemma instantiate_instantiator: "instantiator N (instantiate N fuel)"
proof (induction fuel)
  case 0
  show ?case by unfold_locales simp
next
  case (Suc fuel)
  note IH = this
  show ?case
    by unfold_locales (simp add: instantiator.instantiateModule_grows [OF IH])
qed

interpretation inst: instantiator N "instantiate N fuel" for N fuel
  by (rule instantiate_instantiator)

lemma runtime_m_grows: "runtime_m N fuel path i L = Some (L', r) \<Longrightarrow> grows N L L'"
  unfolding runtime_m_def by (rule inst.getOrInstantiate_grows)

subsection \<open>Instantiation comes to an end\<close>

text \<open>All modules there are, in the factories that are installed and in the chunks on disk.\<close>

definition ids_within :: "node \<Rightarrow> string set \<Rightarrow> loader \<Rightarrow> bool" where
  "ids_within N U L \<longleftrightarrow> (\<forall>i. IdKey i \<in> dom (moduleFactories L) \<union> chunk_keys N \<longrightarrow> mid_text i \<in> U)"

definition unseen :: "string set \<Rightarrow> loader \<Rightarrow> nat" where
  "unseen U L = card (U - dom (moduleCache L))"

lemma ids_within_grows: "grows N L L' \<Longrightarrow> ids_within N U L \<Longrightarrow> ids_within N U L'"
  unfolding grows_def ids_within_def by blast

lemma unseen_grows: "grows N L L' \<Longrightarrow> finite U \<Longrightarrow> unseen U L' \<le> unseen U L"
  unfolding grows_def unseen_def by (intro card_mono) (auto simp: map_le_def dom_def)

lemma unseen_entered:
  assumes "finite U" "mid_text i \<in> U" "moduleCache L (mid_text i) = None"
  shows "unseen U (entered i L) < unseen U L"
proof -
  have "U - dom (moduleCache (entered i L)) \<subset> U - dom (moduleCache L)"
    using assms by (auto simp: entered_def loader_simps)
  with assms show ?thesis unfolding unseen_def by (intro psubset_card_mono) auto
qed

text \<open>An instantiation that ends as long as fewer than \<open>n\<close> modules have not been seen.\<close>

locale bounded_instantiator = instantiator +
  fixes U :: "string set" and n :: nat
  assumes finite_U: "finite U"
    and run_ends: "ids_within N U L \<Longrightarrow> moduleCache L (mid_text i) = None \<Longrightarrow> unseen U L < n \<Longrightarrow>
          \<exists>x. run i src L = Some x"
begin

lemma getOrInstantiate_ends:
  "ids_within N U L \<Longrightarrow> unseen U L < n \<Longrightarrow> \<exists>x. getOrInstantiate run i src L = Some x"
  using run_ends [of L i src] by (simp add: getOrInstantiate_def Let_def split: option.splits)

lemma commonJsRequire_ends:
  "ids_within N U L \<Longrightarrow> unseen U L < n \<Longrightarrow> \<exists>x. commonJsRequire run c i L = Some x"
  using getOrInstantiate_ends [of L i "Parent (mod_id (modules L ! ctx_m c))"]
  by (auto simp: commonJsRequire_def split: option.splits sum.splits)

lemma perform_ends:
  assumes "ids_within N U L" "unseen U L < n"
  shows "\<exists>x. perform N run c cm L = Some x"
  using commonJsRequire_ends [OF assms, of c]
    getOrInstantiate_ends [OF assms, of _ "Parent (mod_id (modules L ! ctx_m c))"]
  by (cases cm) (auto simp: esmImport_def resolvePathFromModule_def split: option.splits sum.splits prod.splits)

lemma run_factory_ends:
  "ids_within N U L \<Longrightarrow> unseen U L < n \<Longrightarrow> \<exists>x. run_factory N run c p L = Some x"
proof (induction p arbitrary: L)
  case (Do cm k)
  then obtain M v where M: "perform N run c cm L = Some (M, v)"
    using perform_ends by (metis surj_pair)
  then have g: "grows N L M" by (rule perform_grows)
  have "unseen U M < n" using unseen_grows [OF g finite_U] Do.prems by simp
  with ids_within_grows [OF g] Do.prems have "\<exists>x. run_factory N run c (k v) M = Some x"
    by (intro Do.IH) simp_all
  with M show ?case by simp
qed simp_all

lemma instantiateModule_ends:
  assumes "ids_within N U L" "moduleCache L (mid_text i) = None" "unseen U L < Suc n"
  shows "\<exists>x. instantiateModule N run i src L = Some x"
proof (cases "moduleFactories L (IdKey i)")
  case (Some f)
  then have "mid_text i \<in> U" using assms(1) by (auto simp: ids_within_def)
  then have "unseen U (entered i L) < n"
    using unseen_entered [OF finite_U _ assms(2)] assms(3) by simp
  moreover have "ids_within N U (entered i L)"
    using ids_within_grows [OF grows_entered [OF assms(2)] assms(1)] .
  ultimately obtain L3 t where
    "run_factory N run (fresh_ctx L) (fn_code f (ctx_e (fresh_ctx L))) (entered i L) = Some (L3, t)"
    using run_factory_ends by (metis surj_pair)
  with Some show ?thesis by (cases t) (simp_all add: instantiateModule_eq)
qed (simp add: instantiateModule_eq)

end

lemma instantiate_bounded: "finite U \<Longrightarrow> bounded_instantiator N (instantiate N fuel) U fuel"
proof (induction fuel)
  case 0
  then show ?case by unfold_locales simp_all
next
  case (Suc fuel)
  then have b: "bounded_instantiator N (instantiate N fuel) U fuel" by simp
  show ?case
    using Suc.prems bounded_instantiator.instantiateModule_ends [OF b] by unfold_locales auto
qed

text \<open>A list of the ids there are makes the bound finite.\<close>

interpretation bounded: bounded_instantiator N "instantiate N fuel" "set ids" fuel for N fuel ids
  by (rule instantiate_bounded) simp

subsection \<open>More fuel changes nothing\<close>

lemma getOrInstantiate_mono:
  assumes "\<And>i src L x. run i src L = Some x \<Longrightarrow> run' i src L = Some x" "getOrInstantiate run i src L = Some x"
  shows "getOrInstantiate run' i src L = Some x"
  using assms by (auto simp: getOrInstantiate_def Let_def split: option.splits if_splits)

lemma perform_mono:
  assumes m: "\<And>i src L x. run i src L = Some x \<Longrightarrow> run' i src L = Some x" and "perform N run c cm L = Some x"
  shows "perform N run' c cm L = Some x"
proof -
  have g: "getOrInstantiate run i src L = Some y \<Longrightarrow> getOrInstantiate run' i src L = Some y" for i src y
    using m by (rule getOrInstantiate_mono)
  show ?thesis
    using assms(2) by (cases cm)
      (auto simp: esmImport_def commonJsRequire_def resolvePathFromModule_def split: option.splits sum.splits dest!: g)
qed

lemma run_factory_mono:
  assumes m: "\<And>i src L x. run i src L = Some x \<Longrightarrow> run' i src L = Some x" and "run_factory N run c p L = Some x"
  shows "run_factory N run' c p L = Some x"
  using assms(2)
proof (induction p arbitrary: L)
  case (Do cm k)
  then obtain M v where M: "perform N run c cm L = Some (M, v)" "run_factory N run c (k v) M = Some x"
    by (auto split: option.splits)
  then show ?case using Do.IH [of "k v" M] perform_mono [OF m M(1)] by simp
qed simp_all

lemma instantiateModule_mono:
  assumes "\<And>i src L x. run i src L = Some x \<Longrightarrow> run' i src L = Some x" "instantiateModule N run i src L = Some x"
  shows "instantiateModule N run' i src L = Some x"
  using assms(2) run_factory_mono [OF assms(1)]
  by (auto simp: instantiateModule_eq split: option.splits)

lemma instantiate_Suc: "instantiate N fuel i src L = Some x \<Longrightarrow> instantiate N (Suc fuel) i src L = Some x"
proof (induction fuel arbitrary: i src L x)
  case (Suc fuel)
  from Suc.prems have "instantiateModule N (instantiate N fuel) i src L = Some x" by simp
  from instantiateModule_mono [OF Suc.IH this] show ?case by simp
qed simp

lemma more_fuel: "fuel \<le> fuel' \<Longrightarrow> instantiate N fuel i src L = Some x \<Longrightarrow> instantiate N fuel' i src L = Some x"
  by (induction fuel' rule: dec_induct) (auto dest: instantiate_Suc simp del: instantiate.simps)

lemma runtime_m_more_fuel:
  "fuel \<le> fuel' \<Longrightarrow> runtime_m N fuel path i L = Some x \<Longrightarrow> runtime_m N fuel' path i L = Some x"
  unfolding runtime_m_def by (rule getOrInstantiate_mono [OF more_fuel])

section \<open>The states of a loader\<close>

text \<open>
  What a process does with the loader, in any order: chunks and modules of entries, chunks that
  code asks for, and code of a module that runs after its factory has returned.
\<close>

inductive loader_reach :: "node \<Rightarrow> loader \<Rightarrow> bool" for N where
  start: "loader_reach N initial_loader"
| chunk: "loader_reach N L \<Longrightarrow> loadRuntimeChunk N path d L = (L', e) \<Longrightarrow> loader_reach N L'"
| async_chunk: "loader_reach N L \<Longrightarrow> loadChunkAsync N a d L = (L', e) \<Longrightarrow> loader_reach N L'"
| cleared: "loader_reach N L \<Longrightarrow> loader_reach N (clearChunkCache L)"
| module: "loader_reach N L \<Longrightarrow> runtime_m N fuel path i L = Some (L', r) \<Longrightarrow> loader_reach N L'"
| later: "loader_reach N L \<Longrightarrow> run_factory N (instantiate N fuel) c p L = Some (L', t) \<Longrightarrow> loader_reach N L'"

lemma loader_reach_grows: "loader_reach N L \<Longrightarrow> grows N initial_loader L"
proof (induction rule: loader_reach.induct)
  case (cleared L)
  then show ?case by (auto simp: clearChunkCache_def)
qed (auto intro: grows_trans loadRuntimeChunk_grows loadChunkAsync_grows runtime_m_grows inst.run_factory_grows)

lemma loader_reach_wf: "loader_reach N L \<Longrightarrow> wf L"
  using loader_reach_grows by (auto simp: grows_def)

lemma cached_module:
  assumes "grows N L L'" "moduleCache L (mid_text i) = Some a" "a < length (modules L)"
  shows "moduleCache L' (mid_text i) = Some a" "error (modules L' ! a) = error (modules L ! a)"
proof -
  show "moduleCache L' (mid_text i) = Some a"
    using assms(1,2) by (metis (no_types, lifting) domI grows_def map_le_def)
  show "error (modules L' ! a) = error (modules L ! a)"
    using assms by (auto simp: grows_def same_module_def)
qed

lemma runtime_m_cached:
  "moduleCache L (mid_text i) = Some a \<Longrightarrow>
   runtime_m N fuel path i L =
     Some (L, if mtruthy (error (modules L ! a)) then Inl (error (modules L ! a)) else Inr a)"
  by (simp add: runtime_m_def getOrInstantiate_def Let_def)

section \<open>Properties\<close>

text \<open>
  C32. A chunk in the compiler's format (groups of a primary id, further ids and a factory) is
  installed group by group: a group whose primary id already has a factory changes nothing, any other
  sets its factory for all its ids; and installing the same chunk again changes nothing.
\<close>

theorem chunk_installed_group_by_group:
  "installCompressedModuleFactories (concat (map encode_group gs)) 0 fs = (fold install_group gs fs, None) \<and>
   installCompressedModuleFactories (concat (map encode_group gs)) 0 (fold install_group gs fs) =
     (fold install_group gs fs, None)"
proof -
  have one: "install (concat (map encode_group gs)) 0 fs = (fold install_group gs fs, None)"
    using install_encoded [of "[]" gs fs] by simp
  then show ?thesis using install_known [of "concat (map encode_group gs)" 0 fs] by simp
qed

text \<open>
  C26. In every state the loader can come to, no module was evaluated twice; and asking for a module
  that was evaluated changes nothing, needs no evaluation and always has the same answer.
\<close>

theorem module_evaluated_once:
  assumes "loader_reach N L"
  shows "distinct (evaluated L) \<and>
    (mid_text i \<in> set (evaluated L) \<longrightarrow> (\<exists>r. \<forall>fuel path. runtime_m N fuel path i L = Some (L, r)))"
proof -
  have "wf L" using assms by (rule loader_reach_wf)
  then show ?thesis by (auto simp: wf_def runtime_m_cached subset_iff dom_def)
qed

text \<open>
  C28. A module whose factory throws is never evaluated again: from then on, whatever modules run and
  whatever else is loaded, asking for it throws the same value.  If the value is falsy the loader does
  not see it: then the module is handed out as if its factory had returned.
\<close>

theorem failed_module_stays_failed:
  assumes "loader_reach N L" "moduleCache L (mid_text i) = None" "moduleFactories L (IdKey i) = Some f"
    and "run_factory N (instantiate N fuel) (fresh_ctx L) (fn_code f (ctx_e (fresh_ctx L))) (entered i L) = Some (L1, Some e)"
    and "runtime_m N (Suc fuel) path i L = Some (L2, r)"
    and "run_factory N (instantiate N fuel') c p L2 = Some (L3, s)"
  shows "r = Inl e \<and>
    runtime_m N fuel'' path' i L3 = Some (L3, if mtruthy e then Inl e else Inr (length (modules L)))"
proof -
  let ?a = "length (modules L)"
  have L2: "L2 = update_module ?a (\<lambda>m. m\<lparr>error := e\<rparr>) L1" and r: "r = Inl e"
    using assms(2-5) by (simp_all add: runtime_m_def getOrInstantiate_def instantiateModule_eq)
  have g: "grows N (entered i L) L1" using inst.run_factory_grows [OF assms(4)] .
  have c: "moduleCache L1 (mid_text i) = Some ?a" and a: "?a < length (modules L1)"
    using g cached_module(1) [OF g, of i ?a] by (auto simp: grows_def entered_def loader_simps)
  have g3: "grows N L2 L3" using inst.run_factory_grows [OF assms(6)] .
  have "moduleCache L3 (mid_text i) = Some ?a" "error (modules L3 ! ?a) = e"
    using cached_module [OF g3, of i ?a] c a by (simp_all add: L2 update_module_nth)
  with r show ?thesis by (simp add: runtime_m_cached)
qed

text \<open>
  C29. Loading a module comes to an end: when all ids of installed factories and of chunks on disk are
  among \<open>ids\<close>, the nesting of instantiations is at most their number, with any more fuel the result
  is the same, and it does not matter how the modules require each other.
\<close>

theorem loading_ends:
  assumes "ids_within N (set ids) L" "unseen (set ids) L < fuel"
  shows "\<exists>x. \<forall>fuel' \<ge> fuel. runtime_m N fuel' path i L = Some x"
proof -
  obtain x where "runtime_m N fuel path i L = Some x"
    using bounded.getOrInstantiate_ends [OF assms] unfolding runtime_m_def by blast
  then show ?thesis using runtime_m_more_fuel by blast
qed

section \<open>An example\<close>

text \<open>
  A chunk of two modules that need each other: an ECMAScript module that exports its variable, and
  a CommonJS module that requires it and then fails.
\<close>

definition example_chunk :: "chunk_item list" where
  "example_chunk =
     [ItemId (NumId 1), ItemId (StrId ''one''),
      ItemFactory (Factory 0 (\<lambda>_. Do (EsmExport [Bind ''x'' (Lazy (Variable 0) None)] None) (\<lambda>_.
        Do (Require (NumId 2)) (\<lambda>_. Return)))),
      ItemId (NumId 2),
      ItemFactory (Factory 1 (\<lambda>_. Do (Import (NumId 1)) (\<lambda>_. Throw (Str ''no''))))]"

definition example_node :: node where
  "example_node =
     \<lparr>located_at = \<lparr>rt_config = ssr_runtime, rt_cwd = ''/app'',
        rt_filename = ''/app/.next/server/chunks/ssr/[turbopack]_runtime.js''\<rparr>,
      require_file = (\<lambda>p. if p = ''/app/.next/server/chunks/ssr/a.js'' then Inr example_chunk
                         else Inl (js_error ''not found'')),
      object_text = (\<lambda>_. ''[object Object]''), pathToFileURL = (\<lambda>p. ''file://'' @ p), stack_depth = 8\<rparr>"

definition example_loader :: loader where
  "example_loader = fst (loadRuntimeChunk example_node ''a'' (ChunkPath ''server/chunks/ssr/a.js'') initial_loader)"

definition example_evaluated :: loader where
  "example_evaluated = fst (the (runtime_m example_node 3 ''a'' (NumId 1) example_loader))"

lemma example_reach: "loader_reach example_node example_loader"
  unfolding example_loader_def by (rule loader_reach.chunk [OF loader_reach.start]) (rule surjective_pairing)

lemma example_evaluated_reach: "loader_reach example_node example_evaluated"
proof -
  have "runtime_m example_node 3 ''a'' (NumId 1) example_loader \<noteq> None" by code_simp
  then obtain L' r where r: "runtime_m example_node 3 ''a'' (NumId 1) example_loader = Some (L', r)" by auto
  from loader_reach.module [OF example_reach r] r show ?thesis by (simp add: example_evaluated_def)
qed

lemma module_evaluated_once_witness:
  "distinct (evaluated example_evaluated) \<and>
   (\<exists>r. \<forall>fuel path. runtime_m example_node fuel path (NumId 2) example_evaluated = Some (example_evaluated, r))"
proof -
  have "mid_text (NumId 2) \<in> set (evaluated example_evaluated)" by code_simp
  with module_evaluated_once [OF example_evaluated_reach, of "NumId 2"] show ?thesis by blast
qed

lemma failed_module_stays_failed_witness:
  "\<exists>L. runtime_m example_node 3 ''a'' (NumId 2) example_loader = Some (L, Inl (Str ''no'')) \<and>
       runtime_m example_node 1 ''b'' (NumId 2) L = Some (L, Inl (Str ''no''))"
proof -
  define f where "f = the (moduleFactories example_loader (IdKey (NumId 2)))"
  have "moduleFactories example_loader (IdKey (NumId 2)) \<noteq> None" by code_simp
  then have f: "moduleFactories example_loader (IdKey (NumId 2)) = Some f" by (auto simp: f_def)
  let ?run = "run_factory example_node (instantiate example_node 2) (fresh_ctx example_loader)
     (fn_code f (ctx_e (fresh_ctx example_loader))) (entered (NumId 2) example_loader)"
  have "map_option snd ?run = Some (Some (Str ''no''))" unfolding f_def by code_simp
  then obtain L1 where L1: "?run = Some (L1, Some (Str ''no''))" by auto
  have c: "moduleCache example_loader (mid_text (NumId 2)) = None" by code_simp
  have "map_option snd (runtime_m example_node (Suc 2) ''a'' (NumId 2) example_loader) \<noteq> None" by code_simp
  then obtain L2 r where L2: "runtime_m example_node (Suc 2) ''a'' (NumId 2) example_loader = Some (L2, r)" by auto
  have s: "run_factory example_node (instantiate example_node 2) (fresh_ctx example_loader) Return L2 = Some (L2, None)"
    by simp
  from failed_module_stays_failed [OF example_reach c f L1 L2 s, of 1 "''b''"] L2
  show ?thesis by (auto simp: numeral_3_eq_3 numeral_2_eq_2)
qed

lemma example_ids: "ids_within example_node (set [''1'', ''one'', ''2'']) example_loader"
proof (rule ids_within_grows)
  show "grows example_node initial_loader example_loader"
    by (rule loader_reach_grows) (rule example_reach)
  have "chunk_keys example_node \<subseteq> item_key ` set example_chunk"
    by (auto simp: chunk_keys_def example_node_def split: if_splits)
  moreover have "int_to_string 1 = ''1''" "int_to_string 2 = ''2''" by code_simp+
  then have "IdKey i \<in> item_key ` set example_chunk \<longrightarrow> mid_text i \<in> set [''1'', ''one'', ''2'']" for i
    by (auto simp: example_chunk_def mid_text_def)
  ultimately show "ids_within example_node (set [''1'', ''one'', ''2'']) initial_loader"
    unfolding ids_within_def initial_loader_def loader.simps dom_empty by blast
qed

lemma loading_ends_witness:
  "\<exists>x. runtime_m example_node 4 ''a'' (NumId 1) example_loader = Some x \<and>
     runtime_m example_node 9 ''a'' (NumId 1) example_loader = Some x"
proof -
  have "unseen (set [''1'', ''one'', ''2'']) example_loader \<le> card (set [''1'', ''one'', ''2''])"
    unfolding unseen_def by (rule card_mono) auto
  then have "unseen (set [''1'', ''one'', ''2'']) example_loader < 4" by simp
  from loading_ends [OF example_ids this, of "''a''" "NumId 1"] show ?thesis by auto
qed

section \<open>The module a load returns\<close>

lemma finish_module_parts:
  assumes "finish_module N a L = (L', r)"
  shows "moduleCache L' = moduleCache L" "evaluated L' = evaluated L" "r = Inr b \<Longrightarrow> b = a"
  using assms by (auto simp: finish_module_def Let_def split: if_splits prod.splits option.splits)

lemma instantiate_returns:
  assumes "moduleCache L (mid_text i) = None" "instantiate N fuel i src L = Some (L', Inr a)"
  shows "moduleCache L' (mid_text i) = Some a" "mid_text i \<in> set (evaluated L')"
proof -
  obtain n where n: "fuel = Suc n" using assms(2) by (cases fuel) auto
  with assms(2) obtain f L3 where run:
      "run_factory N (instantiate N n) (fresh_ctx L) (fn_code f (ctx_e (fresh_ctx L))) (entered i L) = Some (L3, None)"
      "finish_module N (length (modules L)) L3 = (L', Inr a)"
    by (auto simp: instantiateModule_eq split: option.splits prod.splits)
  have g: "grows N (entered i L) L3" using inst.run_factory_grows [OF run(1)] .
  have "moduleCache L3 (mid_text i) = Some (length (modules L))"
    using cached_module(1) [OF g, of i "length (modules L)"] by (simp add: entered_def loader_simps)
  moreover have "mid_text i \<in> set (evaluated L3)"
    using g by (auto simp: grows_def entered_def)
  ultimately show "moduleCache L' (mid_text i) = Some a" "mid_text i \<in> set (evaluated L')"
    using finish_module_parts [OF run(2)] by simp_all
qed

lemma runtime_m_returns:
  assumes "runtime_m N fuel path i L = Some (L', Inr a)"
  shows "moduleCache L' (mid_text i) = Some a" "\<not> mtruthy (error (modules L' ! a)) \<or> moduleCache L (mid_text i) = None"
    "moduleCache L (mid_text i) = None \<Longrightarrow> mid_text i \<in> set (evaluated L')"
proof -
  have c: "(\<exists>b. moduleCache L (mid_text i) = Some b \<and> L' = L \<and> a = b \<and> \<not> mtruthy (error (modules L ! b))) \<or>
      moduleCache L (mid_text i) = None \<and> instantiate N fuel i (Runtime path) L = Some (L', Inr a)"
    using assms by (auto simp: runtime_m_def getOrInstantiate_def Let_def split: option.splits if_splits)
  then show "moduleCache L' (mid_text i) = Some a" "\<not> mtruthy (error (modules L' ! a)) \<or> moduleCache L (mid_text i) = None"
    "moduleCache L (mid_text i) = None \<Longrightarrow> mid_text i \<in> set (evaluated L')"
    using instantiate_returns by auto
qed

end
