(* ===== verification/BuildEntries.thy ===== *)
theory BuildEntries
  imports ModuleGraph
begin

text \<open>
  The entry files of the build output (\<open>server/app/**/page.js\<close> and \<open>route.js\<close>): each creates a runtime for
  its own path, loads its chunks one after another, evaluates its module and exports what the module exports.
  All entries of a process share one loader per copy of the runtime.
\<close>

section \<open>Running an entry\<close>

record entry =
  en_require :: string
  en_runtime :: runtime
  en_source :: string
  en_chunks :: "string list"
  en_module :: mid

text \<open>\<open>R.c(...)\<close>, one after another, until one throws.\<close>

fun load_chunks :: "node \<Rightarrow> string \<Rightarrow> string list \<Rightarrow> loader \<Rightarrow> loader \<times> mval option" where
  "load_chunks N source [] L = (L, None)"
| "load_chunks N source (p # ps) L =
     (case runtime_c N source (ChunkPath p) L of
        (L', Some e) \<Rightarrow> (L', Some e)
      | (L', None) \<Rightarrow> load_chunks N source ps L')"

text \<open>\<open>R.m(id)\<close>, then \<open>module.exports = R.m(id).exports\<close>.\<close>

definition run_entry :: "node \<Rightarrow> nat \<Rightarrow> entry \<Rightarrow> loader \<Rightarrow> (loader \<times> mval mres) option" where
  "run_entry N fuel E L =
     (case load_chunks N (en_source E) (en_chunks E) L of
        (L1, Some e) \<Rightarrow> Some (L1, Inl e)
      | (L1, None) \<Rightarrow>
          (case runtime_m N fuel (en_source E) (en_module E) L1 of
             None \<Rightarrow> None
           | Some (L2, Inl e) \<Rightarrow> Some (L2, Inl e)
           | Some (L2, Inr _) \<Rightarrow>
               (case runtime_m N fuel (en_source E) (en_module E) L2 of
                  None \<Rightarrow> None
                | Some (L3, Inl e) \<Rightarrow> Some (L3, Inl e)
                | Some (L3, Inr a) \<Rightarrow> Some (L3, Inr (exports (modules L3 ! a))))))"

section \<open>The entries of the build\<close>

definition home_entry :: entry where
  "home_entry =
     \<lparr>en_require = ''../chunks/ssr/[turbopack]_runtime.js'', en_runtime = ssr_runtime, en_source = ''server/app/page.js'',
      en_chunks =
        [''server/chunks/ssr/[root-of-the-server]__cb16e16e._.js'',
         ''server/chunks/ssr/_25e6aab8._.js'',
         ''server/chunks/ssr/_3f16b2e8._.js'',
         ''server/chunks/ssr/_0efddc1b._.js'',
         ''server/chunks/ssr/[root-of-the-server]__229955b3._.js'',
         ''server/chunks/ssr/[root-of-the-server]__081886e2._.js'',
         ''server/chunks/ssr/node_modules_next_dist_70ed294b._.js'',
         ''server/chunks/ssr/src_app_5b2047f8._.js'',
         ''server/chunks/ssr/node_modules_next_dist_client_components_builtin_global-error_ece394eb.js'',
         ''server/chunks/ssr/src_b0e324e1._.js'',
         ''server/chunks/ssr/node_modules_next_dist_client_components_9774470f._.js'',
         ''server/chunks/ssr/node_modules_next_dist_client_components_builtin_forbidden_45780354.js'',
         ''server/chunks/ssr/node_modules_next_dist_client_components_builtin_unauthorized_15817684.js'',
         ''server/chunks/ssr/_next-internal_server_app_page_actions_39d4fc33.js''],
      en_module = NumId 26896\<rparr>"

definition login_entry :: entry where
  "login_entry =
     \<lparr>en_require = ''../../chunks/ssr/[turbopack]_runtime.js'', en_runtime = ssr_runtime, en_source = ''server/app/login/page.js'',
      en_chunks =
        [''server/chunks/ssr/[root-of-the-server]__a2d69fd0._.js'',
         ''server/chunks/ssr/_0efddc1b._.js'',
         ''server/chunks/ssr/_6484e8ed._.js'',
         ''server/chunks/ssr/[root-of-the-server]__229955b3._.js'',
         ''server/chunks/ssr/[root-of-the-server]__081886e2._.js'',
         ''server/chunks/ssr/node_modules_next_dist_70ed294b._.js'',
         ''server/chunks/ssr/src_app_5b2047f8._.js'',
         ''server/chunks/ssr/node_modules_next_dist_client_components_builtin_global-error_ece394eb.js'',
         ''server/chunks/ssr/src_b0e324e1._.js'',
         ''server/chunks/ssr/node_modules_next_dist_client_components_9774470f._.js'',
         ''server/chunks/ssr/node_modules_next_dist_client_components_builtin_forbidden_45780354.js'',
         ''server/chunks/ssr/node_modules_next_dist_client_components_builtin_unauthorized_15817684.js'',
         ''server/chunks/ssr/_next-internal_server_app_login_page_actions_0e9aafc0.js''],
      en_module = NumId 28216\<rparr>"

definition findings_entry :: entry where
  "findings_entry =
     \<lparr>en_require = ''../../chunks/ssr/[turbopack]_runtime.js'', en_runtime = ssr_runtime, en_source = ''server/app/findings/page.js'',
      en_chunks =
        [''server/chunks/ssr/[root-of-the-server]__cdde9c78._.js'',
         ''server/chunks/ssr/_0efddc1b._.js'',
         ''server/chunks/ssr/_0e3f3b3a._.js'',
         ''server/chunks/ssr/[root-of-the-server]__229955b3._.js'',
         ''server/chunks/ssr/[root-of-the-server]__081886e2._.js'',
         ''server/chunks/ssr/node_modules_next_dist_70ed294b._.js'',
         ''server/chunks/ssr/src_app_5b2047f8._.js'',
         ''server/chunks/ssr/node_modules_next_dist_client_components_builtin_global-error_ece394eb.js'',
         ''server/chunks/ssr/src_b0e324e1._.js'',
         ''server/chunks/ssr/node_modules_next_dist_client_components_9774470f._.js'',
         ''server/chunks/ssr/node_modules_next_dist_client_components_builtin_forbidden_45780354.js'',
         ''server/chunks/ssr/node_modules_next_dist_client_components_builtin_unauthorized_15817684.js'',
         ''server/chunks/ssr/_next-internal_server_app_findings_page_actions_26af19a0.js''],
      en_module = NumId 18858\<rparr>"

definition recommendations_entry :: entry where
  "recommendations_entry =
     \<lparr>en_require = ''../../chunks/ssr/[turbopack]_runtime.js'', en_runtime = ssr_runtime, en_source = ''server/app/recommendations/page.js'',
      en_chunks =
        [''server/chunks/ssr/[root-of-the-server]__a2908d0f._.js'',
         ''server/chunks/ssr/_0efddc1b._.js'',
         ''server/chunks/ssr/_32f79023._.js'',
         ''server/chunks/ssr/[root-of-the-server]__229955b3._.js'',
         ''server/chunks/ssr/[root-of-the-server]__081886e2._.js'',
         ''server/chunks/ssr/node_modules_next_dist_70ed294b._.js'',
         ''server/chunks/ssr/src_app_5b2047f8._.js'',
         ''server/chunks/ssr/node_modules_next_dist_client_components_builtin_global-error_ece394eb.js'',
         ''server/chunks/ssr/src_b0e324e1._.js'',
         ''server/chunks/ssr/node_modules_next_dist_client_components_9774470f._.js'',
         ''server/chunks/ssr/node_modules_next_dist_client_components_builtin_forbidden_45780354.js'',
         ''server/chunks/ssr/node_modules_next_dist_client_components_builtin_unauthorized_15817684.js'',
         ''server/chunks/ssr/_next-internal_server_app_recommendations_page_actions_ad2b7506.js''],
      en_module = NumId 19646\<rparr>"

definition coverage_entry :: entry where
  "coverage_entry =
     \<lparr>en_require = ''../../chunks/ssr/[turbopack]_runtime.js'', en_runtime = ssr_runtime, en_source = ''server/app/coverage/page.js'',
      en_chunks =
        [''server/chunks/ssr/[root-of-the-server]__dc3adf59._.js'',
         ''server/chunks/ssr/_0efddc1b._.js'',
         ''server/chunks/ssr/_3915a88e._.js'',
         ''server/chunks/ssr/[root-of-the-server]__229955b3._.js'',
         ''server/chunks/ssr/[root-of-the-server]__081886e2._.js'',
         ''server/chunks/ssr/node_modules_next_dist_70ed294b._.js'',
         ''server/chunks/ssr/src_app_5b2047f8._.js'',
         ''server/chunks/ssr/node_modules_next_dist_client_components_builtin_global-error_ece394eb.js'',
         ''server/chunks/ssr/src_b0e324e1._.js'',
         ''server/chunks/ssr/node_modules_next_dist_client_components_9774470f._.js'',
         ''server/chunks/ssr/node_modules_next_dist_client_components_builtin_forbidden_45780354.js'',
         ''server/chunks/ssr/node_modules_next_dist_client_components_builtin_unauthorized_15817684.js'',
         ''server/chunks/ssr/_next-internal_server_app_coverage_page_actions_40f40970.js''],
      en_module = NumId 47959\<rparr>"

definition users_entry :: entry where
  "users_entry =
     \<lparr>en_require = ''../../chunks/ssr/[turbopack]_runtime.js'', en_runtime = ssr_runtime, en_source = ''server/app/users/page.js'',
      en_chunks =
        [''server/chunks/ssr/[root-of-the-server]__557c3971._.js'',
         ''server/chunks/ssr/_0efddc1b._.js'',
         ''server/chunks/ssr/_b3412ac2._.js'',
         ''server/chunks/ssr/[root-of-the-server]__229955b3._.js'',
         ''server/chunks/ssr/[root-of-the-server]__081886e2._.js'',
         ''server/chunks/ssr/node_modules_next_dist_70ed294b._.js'',
         ''server/chunks/ssr/src_app_5b2047f8._.js'',
         ''server/chunks/ssr/node_modules_next_dist_client_components_builtin_global-error_ece394eb.js'',
         ''server/chunks/ssr/src_b0e324e1._.js'',
         ''server/chunks/ssr/node_modules_next_dist_client_components_9774470f._.js'',
         ''server/chunks/ssr/node_modules_next_dist_client_components_builtin_forbidden_45780354.js'',
         ''server/chunks/ssr/node_modules_next_dist_client_components_builtin_unauthorized_15817684.js'',
         ''server/chunks/ssr/_next-internal_server_app_users_page_actions_0d09aa8d.js''],
      en_module = NumId 23854\<rparr>"

definition not_found_entry :: entry where
  "not_found_entry =
     \<lparr>en_require = ''../../chunks/ssr/[turbopack]_runtime.js'', en_runtime = ssr_runtime, en_source = ''server/app/_not-found/page.js'',
      en_chunks =
        [''server/chunks/ssr/[root-of-the-server]__15600e29._.js'',
         ''server/chunks/ssr/_0efddc1b._.js'',
         ''server/chunks/ssr/node_modules_next_dist_esm_build_templates_app-page_68c68167.js'',
         ''server/chunks/ssr/[root-of-the-server]__83b74e45._.js'',
         ''server/chunks/ssr/[root-of-the-server]__081886e2._.js'',
         ''server/chunks/ssr/node_modules_next_dist_70ed294b._.js'',
         ''server/chunks/ssr/src_app_5b2047f8._.js'',
         ''server/chunks/ssr/src_b0e324e1._.js'',
         ''server/chunks/ssr/node_modules_next_dist_client_components_9774470f._.js'',
         ''server/chunks/ssr/node_modules_next_dist_client_components_builtin_forbidden_45780354.js'',
         ''server/chunks/ssr/_next-internal_server_app__not-found_page_actions_554ec2bf.js''],
      en_module = NumId 16136\<rparr>"

definition global_error_entry :: entry where
  "global_error_entry =
     \<lparr>en_require = ''../../chunks/ssr/[turbopack]_runtime.js'', en_runtime = ssr_runtime, en_source = ''server/app/_global-error/page.js'',
      en_chunks =
        [''server/chunks/ssr/[root-of-the-server]__b9356576._.js'',
         ''server/chunks/ssr/_0efddc1b._.js'',
         ''server/chunks/ssr/node_modules_next_dist_12287b3d._.js'',
         ''server/chunks/ssr/[root-of-the-server]__83b74e45._.js'',
         ''server/chunks/ssr/[root-of-the-server]__081886e2._.js'',
         ''server/chunks/ssr/node_modules_next_dist_70ed294b._.js'',
         ''server/chunks/ssr/src_app_5b2047f8._.js'',
         ''server/chunks/ssr/_next-internal_server_app__global-error_page_actions_75761787.js''],
      en_module = NumId 61837\<rparr>"

definition favicon_entry :: entry where
  "favicon_entry =
     \<lparr>en_require = ''../../chunks/[turbopack]_runtime.js'', en_runtime = chunks_runtime, en_source = ''server/app/favicon.ico/route.js'',
      en_chunks =
        [''server/chunks/[externals]_next_dist_a6d89067._.js'',
         ''server/chunks/[root-of-the-server]__206abf59._.js'',
         ''server/chunks/_next-internal_server_app_favicon_ico_route_actions_353150a5.js''],
      en_module = NumId 32682\<rparr>"

definition page_entries :: "entry list" where
  "page_entries = [home_entry, login_entry, findings_entry, recommendations_entry, coverage_entry, users_entry]"

definition build_entries :: "entry list" where
  "build_entries = page_entries @ [not_found_entry, global_error_entry, favicon_entry]"

section \<open>Facts\<close>

text \<open>What \<open>require\<close> of an entry resolves to, from the directory of the entry.\<close>

definition required_file :: "entry \<Rightarrow> string list" where
  "required_file E = normalize_segments False (join ''/'' (butlast (split_on slash (en_source E))) @ ''/'' @ en_require E)"

lemma entries_require_their_runtime:
  "list_all (\<lambda>E. required_file E = public_segments (en_runtime E)) build_entries"
  by code_simp

lemma entries_load_javascript: "list_all (\<lambda>E. list_all isJs (en_chunks E) \<and> distinct (en_chunks E)) build_entries"
  by code_simp

lemma entries_have_their_own_module: "distinct (map en_module build_entries)"
  by code_simp

lemma load_chunks_grows: "load_chunks N source ps L = (L', t) \<Longrightarrow> grows N L L'"
  by (induction ps arbitrary: L)
    (auto simp: runtime_c_def split: prod.splits option.splits dest!: loadRuntimeChunk_grows intro: grows_trans)

lemma loadRuntimeChunk_loads:
  "runtime_c N source (ChunkPath p) L = (L', None) \<Longrightarrow> isJs p \<Longrightarrow> p \<in> set (loadedChunks L')"
  by (auto simp: runtime_c_def loadRuntimeChunk_def loadRuntimeChunkPath_def split: if_splits prod.splits option.splits)

lemma loadRuntimeChunk_again:
  "isJs p \<longrightarrow> p \<in> set (loadedChunks L) \<Longrightarrow> runtime_c N source (ChunkPath p) L = (L, None)"
  by (auto simp: runtime_c_def loadRuntimeChunk_def loadRuntimeChunkPath_def)

lemma load_chunks_loads:
  "load_chunks N source ps L = (L', None) \<Longrightarrow> \<forall>p \<in> set ps. isJs p \<longrightarrow> p \<in> set (loadedChunks L')"
proof (induction ps arbitrary: L)
  case (Cons p ps)
  then obtain M where M: "runtime_c N source (ChunkPath p) L = (M, None)" "load_chunks N source ps M = (L', None)"
    by (auto split: prod.splits option.splits)
  have "set (loadedChunks M) \<subseteq> set (loadedChunks L')"
    using load_chunks_grows [OF M(2)] by (simp add: grows_def)
  with Cons.IH [OF M(2)] loadRuntimeChunk_loads [OF M(1)] show ?case by auto
qed simp

lemma load_chunks_again:
  "\<forall>p \<in> set ps. isJs p \<longrightarrow> p \<in> set (loadedChunks L) \<Longrightarrow> load_chunks N source ps L = (L, None)"
  by (induction ps) (simp_all add: loadRuntimeChunk_again)

lemma load_chunks_cache: "load_chunks N source ps L = (L', t) \<Longrightarrow> moduleCache L' = moduleCache L"
  by (induction ps arbitrary: L)
    (auto simp: runtime_c_def loadRuntimeChunk_def loadRuntimeChunkPath_def require_chunk_def
      split: prod.splits option.splits if_splits sum.splits)

text \<open>
  C30. An entry that ran has evaluated its module, if no one had before, and no module twice; running it
  again, from the state it left behind and with any fuel, requires no file, evaluates nothing, changes
  nothing and exports the same value.
\<close>

theorem entry_runs_once:
  assumes "loader_reach N L" "run_entry N fuel E L = Some (L', Inr v)"
  shows "distinct (evaluated L') \<and>
    (moduleCache L (mid_text (en_module E)) = None \<longrightarrow> mid_text (en_module E) \<in> set (evaluated L')) \<and>
    run_entry N fuel' E L' = Some (L', Inr v)"
proof -
  from assms(2) obtain L1 L2 a b where ran:
      "load_chunks N (en_source E) (en_chunks E) L = (L1, None)"
      "runtime_m N fuel (en_source E) (en_module E) L1 = Some (L2, Inr a)"
      "runtime_m N fuel (en_source E) (en_module E) L2 = Some (L', Inr b)"
      "v = exports (modules L' ! b)"
    by (auto simp: run_entry_def split: option.splits prod.splits sum.splits)
  have g: "grows N L1 L'" "grows N L L'"
    using grows_trans [OF runtime_m_grows [OF ran(2)] runtime_m_grows [OF ran(3)]]
      grows_trans [OF load_chunks_grows [OF ran(1)]] by blast+
  have c: "moduleCache L2 (mid_text (en_module E)) = Some a" by (rule runtime_m_returns(1) [OF ran(2)])
  with ran(3) have L': "L' = L2" "b = a" "\<not> mtruthy (error (modules L2 ! a))"
    by (auto simp: runtime_m_cached split: if_splits)
  have "set (loadedChunks L1) \<subseteq> set (loadedChunks L')" using g by (simp add: grows_def)
  then have "load_chunks N (en_source E) (en_chunks E) L' = (L', None)"
    using load_chunks_loads [OF ran(1)] by (intro load_chunks_again) blast
  moreover have "distinct (evaluated L')"
    using g loader_reach_wf [OF assms(1)] by (simp add: grows_def wf_def)
  moreover have "mid_text (en_module E) \<in> set (evaluated L')" if "moduleCache L (mid_text (en_module E)) = None"
    using runtime_m_returns(3) [OF ran(2)] that load_chunks_cache [OF ran(1)] L' by simp
  ultimately show ?thesis
    using c L' ran(4) by (simp add: run_entry_def runtime_m_cached)
qed

text \<open>The entry of the icon, with a module of a smaller id.\<close>

definition small_entry :: entry where
  "small_entry = favicon_entry\<lparr>en_module := NumId 7\<rparr>"

definition favicon_node :: node where
  "favicon_node =
     \<lparr>located_at = \<lparr>rt_config = en_runtime favicon_entry, rt_cwd = ''/app'',
        rt_filename = ''/app/.next/server/chunks/[turbopack]_runtime.js''\<rparr>,
      require_file = (\<lambda>p. if p = ''/app/.next/server/chunks/[root-of-the-server]__206abf59._.js''
         then Inr [ItemId (NumId 7), ItemFactory (Factory 0 (\<lambda>_. Do (ExportValue (Str ''icon'') None) (\<lambda>_. Return)))]
         else Inr []),
      object_text = (\<lambda>_. ''[object Object]''), pathToFileURL = (\<lambda>p. ''file://'' @ p), stack_depth = 8\<rparr>"

lemma entry_runs_once_witness:
  "\<exists>L. run_entry favicon_node 1 small_entry initial_loader = Some (L, Inr (Str ''icon'')) \<and>
       evaluated L = [''7''] \<and> run_entry favicon_node 0 small_entry L = Some (L, Inr (Str ''icon''))"
proof -
  have "map_option (\<lambda>(L, r). (evaluated L, r)) (run_entry favicon_node 1 small_entry initial_loader)
      = Some ([''7''], Inr (Str ''icon''))"
    by code_simp
  then obtain L where L: "run_entry favicon_node 1 small_entry initial_loader = Some (L, Inr (Str ''icon''))"
      "evaluated L = [''7'']"
    by auto
  with entry_runs_once [OF loader_reach.start L(1), of 0] show ?thesis by blast
qed

end
