(* ===== verification/Shell.thy ===== *)
theory Shell
  imports Routes BuildEntries
begin

text \<open>
  What surrounds the pages: the root layout (\<open>app/layout.tsx\<close>), the build configuration
  (\<open>next.config.ts\<close>), and what the build output says of the routes (\<open>types/routes.d.ts\<close>,
  \<open>types/validator.ts\<close>).
\<close>

section \<open>The root layout\<close>

definition metadata :: "(string \<times> string) list" where
  "metadata = [(''title'', ''McKaySystem''), (''description'', ''FinOps Intelligence Platform'')]"

text \<open>\<open>QueryProvider\<close> renders its children; the client it provides is \<open>QueryProvider_defaults\<close> of \<open>Retryer\<close>.\<close>

definition QueryProvider :: "'e jsx \<Rightarrow> 'e jsx" where
  "QueryProvider children = children"

definition RootLayout :: "'e jsx \<Rightarrow> 'e jsx" where
  "RootLayout children = El ''html'' [Prop ''lang'' ''en''] [El ''body'' [] [QueryProvider children]]"

text \<open>A page is what its shell shows inside the layout.\<close>

definition document_of :: "route \<Rightarrow> bool \<Rightarrow> 'e jsx \<Rightarrow> 'e jsx" where
  "document_of r suspended page = RootLayout (page_shell r suspended page)"

lemma leads_layout [leads_simps]: "leads ok (RootLayout v) \<longleftrightarrow> leads ok v"
  by (simp add: RootLayout_def QueryProvider_def leads_simps)

lemma leads_document: "leads ok page \<Longrightarrow> leads ok (document_of r suspended page)"
  by (simp add: document_of_def page_shell_def loadingFallback_def leads_simps split: option.split)

section \<open>The build configuration\<close>

record next_config =
  reactCompiler :: bool
  distDir :: "string option"

text \<open>\<open>nextConfig\<close>, from the environment variable \<open>BUILD_DIST_DIR\<close>.\<close>

definition nextConfig :: "string option \<Rightarrow> next_config" where
  "nextConfig env =
     (let buildDistDir = map_option trim env in
      \<lparr>reactCompiler = True,
       distDir = (case buildDistDir of Some d \<Rightarrow> if d \<noteq> [] then Some d else None | None \<Rightarrow> None)\<rparr>)"

lemma dist_dir_trimmed: "distDir (nextConfig env) = Some d \<Longrightarrow> d \<noteq> [] \<and> trim d = d"
  by (auto simp: nextConfig_def Let_def split: option.splits if_splits)

lemma blank_dist_dir_ignored: "trim s = [] \<Longrightarrow> nextConfig (Some s) = nextConfig None"
  by (simp add: nextConfig_def)

section \<open>The routes of the build\<close>

definition AppRoutes :: "string list" where
  "AppRoutes = [''/'', ''/coverage'', ''/findings'', ''/login'', ''/recommendations'', ''/users'']"

text \<open>The route and the module of each check in \<open>validator.ts\<close>.\<close>

definition validated_pages :: "(string \<times> string) list" where
  "validated_pages =
     [(''/coverage'', ''../../src/app/coverage/page.js''),
      (''/findings'', ''../../src/app/findings/page.js''),
      (''/login'', ''../../src/app/login/page.js''),
      (''/'', ''../../src/app/page.js''),
      (''/recommendations'', ''../../src/app/recommendations/page.js''),
      (''/users'', ''../../src/app/users/page.js'')]"

text \<open>Every route of the build is validated, and every one is a page of the application with an entry file.\<close>

lemma build_routes_validated: "set (map fst validated_pages) = set AppRoutes"
  by (simp add: validated_pages_def AppRoutes_def insert_commute)

lemma build_entries_are_routes:
  "map (\<lambda>E. ''/'' @ join ''/'' (butlast (drop 2 (split_on slash (en_source E))))) page_entries =
     [path_of Home, path_of Login, path_of Findings, path_of Recommendations, path_of Coverage, path_of Users]"
  by code_simp

text \<open>The build in the repository is older than the sources: three pages that the others lead to are not in it.\<close>

lemma build_lacks_pages:
  "set app_paths - set AppRoutes = {''/dashboard'', ''/remediations'', ''/tenant-admin''}"
proof -
  have "filter (\<lambda>p. p \<notin> set AppRoutes) app_paths = [''/dashboard'', ''/remediations'', ''/tenant-admin'']"
    by (simp add: AppRoutes_def app_paths_def all_routes_def)
  then have "set (filter (\<lambda>p. p \<notin> set AppRoutes) app_paths) = {''/dashboard'', ''/remediations'', ''/tenant-admin''}"
    by simp
  then show ?thesis by (simp add: set_filter set_diff_eq)
qed

end
