(* ===== verification/AsyncModules.thy ===== *)
theory AsyncModules
  imports ModuleLoader
begin

text \<open>
  Modules with a top-level \<open>await\<close> in the build output (\<open>[turbopack]_runtime.js\<close>: \<open>resolveQueue\<close>, \<open>wrapDeps\<close>,
  \<open>asyncModule\<close>).  Such a module exports a promise, and a module that depends on it waits until the
  queues of all its dependencies are resolved; a counter on the waiting function says how many
  are not.  A queue, a waiting function, an asynchronous module and a wrapped promise are addresses.

  Every operation below runs without interruption, as code between two \<open>await\<close>s does; the
  operations come in any order.
\<close>

section \<open>State\<close>

text \<open>A queue is an array of waiting functions with a status: -1 while the body of its module runs, then 0, 1 once resolved.\<close>

record queue =
  status :: int
  waiting :: "nat list"

text \<open>A dependency as \<open>wrapDeps\<close> leaves it: an asynchronous module, a promise it has wrapped, any other value.\<close>

datatype dep = ModuleDep nat | WrappedDep nat | PlainDep mval

text \<open>The function \<open>fn\<close> of \<open>handleAsyncDependencies\<close>; \<open>resumed\<close> counts how often it was called.\<close>

record waiter =
  queueCount :: int
  resumed :: nat
  wanted :: "dep list"
  owner :: nat

record wrapped_promise =
  wp_exports :: mval
  wp_error :: mval
  wp_queue :: nat

text \<open>What \<open>asyncModule\<close> keeps for a module: its queue, the queues it has asked, and its promise.\<close>

record amodule =
  own_queue :: "nat option"
  depQueues :: "nat list"
  am_exports :: mval
  am_error :: mval
  am_settled :: "mval mres option"

record async =
  queues :: "nat \<Rightarrow> queue"
  next_queue :: nat
  waiters :: "nat \<Rightarrow> waiter"
  next_waiter :: nat
  wrapped :: "nat \<Rightarrow> wrapped_promise"
  next_wrapped :: nat
  amodules :: "nat \<Rightarrow> amodule"
  next_amodule :: nat

definition no_async :: async where
  "no_async =
     \<lparr>queues = (\<lambda>_. \<lparr>status = 1, waiting = []\<rparr>), next_queue = 0,
      waiters = (\<lambda>_. \<lparr>queueCount = 0, resumed = 0, wanted = [], owner = 0\<rparr>), next_waiter = 0,
      wrapped = (\<lambda>_. \<lparr>wp_exports = Undefined, wp_error = Undefined, wp_queue = 0\<rparr>), next_wrapped = 0,
      amodules = (\<lambda>_. \<lparr>own_queue = None, depQueues = [], am_exports = Undefined, am_error = Undefined, am_settled = None\<rparr>),
      next_amodule = 0\<rparr>"

definition update_waiter :: "(waiter \<Rightarrow> waiter) \<Rightarrow> nat \<Rightarrow> (nat \<Rightarrow> waiter) \<Rightarrow> nat \<Rightarrow> waiter" where
  "update_waiter f w ws = ws(w := f (ws w))"

definition set_status :: "nat \<Rightarrow> int \<Rightarrow> async \<Rightarrow> async" where
  "set_status q t s = s\<lparr>queues := (queues s)(q := (queues s q)\<lparr>status := t\<rparr>)\<rparr>"

definition update_amodule :: "nat \<Rightarrow> (amodule \<Rightarrow> amodule) \<Rightarrow> async \<Rightarrow> async" where
  "update_amodule m f s = s\<lparr>amodules := (amodules s)(m := f (amodules s m))\<rparr>"

section \<open>Operations\<close>

text \<open>\<open>fn => fn.queueCount--\<close> and \<open>fn => fn.queueCount-- ? fn.queueCount++ : fn()\<close>.\<close>

definition count_down :: "waiter \<Rightarrow> waiter" where
  "count_down w = w\<lparr>queueCount := queueCount w - 1\<rparr>"

definition wake :: "waiter \<Rightarrow> waiter" where
  "wake w =
     (let w' = count_down w in
      if queueCount w \<noteq> 0 then w'\<lparr>queueCount := queueCount w' + 1\<rparr>
      else w'\<lparr>resumed := Suc (resumed w')\<rparr>)"

definition resolveQueue :: "nat option \<Rightarrow> async \<Rightarrow> async" where
  "resolveQueue qo s =
     (case qo of
        None \<Rightarrow> s
      | Some q \<Rightarrow>
          if status (queues s q) \<noteq> 1
          then
            let s' = set_status q 1 s;
                fns = waiting (queues s q)
            in s'\<lparr>waiters := fold (update_waiter wake) fns (fold (update_waiter count_down) fns (waiters s'))\<rparr>
          else s)"

definition new_queue :: "int \<Rightarrow> async \<Rightarrow> async \<times> nat" where
  "new_queue t s =
     (s\<lparr>queues := (queues s)(next_queue s := \<lparr>status = t, waiting = []\<rparr>), next_queue := Suc (next_queue s)\<rparr>,
      next_queue s)"

text \<open>\<open>wrapDeps(deps)\<close>: what a module depends on, before it is wrapped.\<close>

datatype raw_dep = RawModule nat | RawPromise | RawValue mval

definition wrap_dep :: "raw_dep \<Rightarrow> async \<Rightarrow> async \<times> dep" where
  "wrap_dep d s =
     (case d of
        RawModule m \<Rightarrow> (s, ModuleDep m)
      | RawValue v \<Rightarrow> (s, PlainDep v)
      | RawPromise \<Rightarrow>
          (let (s, q) = new_queue 0 s; p = next_wrapped s in
           (s\<lparr>wrapped := (wrapped s)(p := \<lparr>wp_exports = Undefined, wp_error = Undefined, wp_queue = q\<rparr>),
              next_wrapped := Suc p\<rparr>, WrappedDep p)))"

fun wrapDeps :: "raw_dep list \<Rightarrow> async \<Rightarrow> async \<times> dep list" where
  "wrapDeps [] s = (s, [])"
| "wrapDeps (d # ds) s =
     (let (s, d') = wrap_dep d s; (s, ds') = wrapDeps ds s in (s, d' # ds'))"

text \<open>The callbacks of a wrapped promise.\<close>

definition promise_settled :: "nat \<Rightarrow> mval mres \<Rightarrow> async \<Rightarrow> async" where
  "promise_settled p r s =
     (let w = wrapped s p;
          w' = (case r of Inr v \<Rightarrow> w\<lparr>wp_exports := v\<rparr> | Inl e \<Rightarrow> w\<lparr>wp_error := e\<rparr>)
      in resolveQueue (Some (wp_queue w)) (s\<lparr>wrapped := (wrapped s)(p := w')\<rparr>))"

text \<open>\<open>asyncModule(body, hasAwait)\<close> up to the call of \<open>body\<close>, and what follows it.\<close>

definition asyncModule_start :: "mval \<Rightarrow> bool \<Rightarrow> async \<Rightarrow> async" where
  "asyncModule_start module_exports hasAwait s =
     (let (s, qo) = (if hasAwait then (let (s, q) = new_queue (-1) s in (s, Some q)) else (s, None)) in
      s\<lparr>amodules := (amodules s)(next_amodule s :=
            \<lparr>own_queue = qo, depQueues = [], am_exports = module_exports, am_error = Undefined, am_settled = None\<rparr>),
        next_amodule := Suc (next_amodule s)\<rparr>)"

definition asyncModule_end :: "nat \<Rightarrow> async \<Rightarrow> async" where
  "asyncModule_end m s =
     (case own_queue (amodules s m) of
        Some q \<Rightarrow> if status (queues s q) = -1 then set_status q 0 s else s
      | None \<Rightarrow> s)"

text \<open>The setter of \<open>module.exports\<close> and \<open>module.namespaceObject\<close>, for a value that is not the promise.\<close>

definition set_exports :: "nat \<Rightarrow> mval \<Rightarrow> async \<Rightarrow> async" where
  "set_exports m v s = update_amodule m (\<lambda>a. a\<lparr>am_exports := v\<rparr>) s"

text \<open>\<open>fnQueue(q)\<close> of the waiting function \<open>w\<close> of the module \<open>m\<close>.\<close>

definition fnQueue :: "nat \<Rightarrow> nat \<Rightarrow> nat \<Rightarrow> async \<Rightarrow> async" where
  "fnQueue m w q s =
     (if own_queue (amodules s m) \<noteq> Some q \<and> q \<notin> set (depQueues (amodules s m))
      then
        let s1 = update_amodule m (\<lambda>a. a\<lparr>depQueues := depQueues a @ [q]\<rparr>) s in
        if status (queues s1 q) = 0
        then s1\<lparr>waiters := update_waiter (\<lambda>x. x\<lparr>queueCount := queueCount x + 1\<rparr>) w (waiters s1),
                queues := (queues s1)(q := (queues s1 q)\<lparr>waiting := waiting (queues s1 q) @ [w]\<rparr>)\<rparr>
        else s1
      else s)"

text \<open>\<open>dep[turbopackQueues]\<close>: the queues that a dependency calls its argument with.\<close>

definition queues_of_dep :: "dep \<Rightarrow> async \<Rightarrow> nat list" where
  "queues_of_dep d s =
     (case d of
        ModuleDep m \<Rightarrow>
          (case own_queue (amodules s m) of Some q \<Rightarrow> [q] | None \<Rightarrow> []) @ depQueues (amodules s m)
      | WrappedDep p \<Rightarrow> [wp_queue (wrapped s p)]
      | PlainDep _ \<Rightarrow> [])"

definition ask_dep :: "nat \<Rightarrow> nat \<Rightarrow> dep \<Rightarrow> async \<Rightarrow> async" where
  "ask_dep m w d s = fold (fnQueue m w) (queues_of_dep d s) s"

text \<open>\<open>getResult()\<close>: the exports of the dependencies, unless one has an error.\<close>

definition dep_error :: "async \<Rightarrow> dep \<Rightarrow> mval" where
  "dep_error s d =
     (case d of
        ModuleDep m \<Rightarrow> am_error (amodules s m)
      | WrappedDep p \<Rightarrow> wp_error (wrapped s p)
      | PlainDep _ \<Rightarrow> Undefined)"

definition dep_exports :: "async \<Rightarrow> dep \<Rightarrow> mval" where
  "dep_exports s d =
     (case d of
        ModuleDep m \<Rightarrow> am_exports (amodules s m)
      | WrappedDep p \<Rightarrow> wp_exports (wrapped s p)
      | PlainDep v \<Rightarrow> v)"

fun getResult :: "dep list \<Rightarrow> async \<Rightarrow> mval list mres" where
  "getResult [] s = Inr []"
| "getResult (d # ds) s =
     (if mtruthy (dep_error s d) then Inl (dep_error s d)
      else case getResult ds s of Inl e \<Rightarrow> Inl e | Inr vs \<Rightarrow> Inr (dep_exports s d # vs))"

text \<open>
  \<open>handleAsyncDependencies(deps)\<close>: the second part is the result when nothing is pending, and \<open>None\<close>
  when it is a promise, which resolves when the waiting function (the last one) is called.
\<close>

definition new_waiter :: "nat \<Rightarrow> dep list \<Rightarrow> async \<Rightarrow> async" where
  "new_waiter m ds s =
     s\<lparr>waiters := (waiters s)(next_waiter s := \<lparr>queueCount = 0, resumed = 0, wanted = ds, owner = m\<rparr>),
       next_waiter := Suc (next_waiter s)\<rparr>"

definition handleAsyncDependencies :: "nat \<Rightarrow> raw_dep list \<Rightarrow> async \<Rightarrow> async \<times> mval list mres option" where
  "handleAsyncDependencies m deps s =
     (let (s1, currentDeps) = wrapDeps deps s;
          w = next_waiter s1;
          s2 = fold (ask_dep m w) currentDeps (new_waiter m currentDeps s1)
      in (s2, if queueCount (waiters s2 w) \<noteq> 0 then None else Some (getResult currentDeps s2)))"

text \<open>\<open>asyncResult(err)\<close>; a promise is settled once.\<close>

definition asyncResult :: "nat \<Rightarrow> mval \<Rightarrow> async \<Rightarrow> async" where
  "asyncResult m err s =
     (let a = amodules s m;
          outcome = (if mtruthy err then Inl err else Inr (am_exports a));
          a1 = (if mtruthy err then a\<lparr>am_error := err\<rparr> else a);
          a2 = (if am_settled a = None then a1\<lparr>am_settled := Some outcome\<rparr> else a1)
      in resolveQueue (own_queue a) (update_amodule m (\<lambda>_. a2) s))"

section \<open>Runs\<close>

inductive async_step :: "async \<Rightarrow> async \<Rightarrow> bool" where
  starts: "async_step s (asyncModule_start v hasAwait s)"
| depends: "m < next_amodule s \<Longrightarrow> async_step s (fst (handleAsyncDependencies m deps s))"
| returns: "async_step s (asyncModule_end m s)"
| exported: "async_step s (set_exports m v s)"
| result: "async_step s (asyncResult m err s)"
| settles: "async_step s (promise_settled p r s)"

inductive async_reach :: "async \<Rightarrow> bool" where
  init: "async_reach no_async"
| step: "async_reach s \<Longrightarrow> async_step s s' \<Longrightarrow> async_reach s'"

section \<open>The invariant of the queues\<close>

definition pending :: "async \<Rightarrow> nat \<Rightarrow> nat set" where
  "pending s w = {q. status (queues s q) = 0 \<and> w \<in> set (waiting (queues s q))}"

definition queued :: "async \<Rightarrow> nat \<Rightarrow> bool" where
  "queued s w \<longleftrightarrow> (\<exists>q. w \<in> set (waiting (queues s q)))"

definition queue_ok :: "async \<Rightarrow> nat \<Rightarrow> bool" where
  "queue_ok s q \<longleftrightarrow>
     distinct (waiting (queues s q)) \<and>
     (status (queues s q) \<noteq> 0 \<longrightarrow> status (queues s q) \<noteq> 1 \<longrightarrow> waiting (queues s q) = []) \<and>
     (next_queue s \<le> q \<longrightarrow> status (queues s q) = 1 \<and> waiting (queues s q) = []) \<and>
     (\<forall>w \<in> set (waiting (queues s q)). w < next_waiter s \<and> owner (waiters s w) < next_amodule s \<and>
        q \<in> set (depQueues (amodules s (owner (waiters s w)))))"

definition waiter_ok :: "async \<Rightarrow> nat \<Rightarrow> bool" where
  "waiter_ok s w \<longleftrightarrow>
     (if resumed (waiters s w) = 0
      then queueCount (waiters s w) = int (card (pending s w)) \<and> (queued s w \<longrightarrow> pending s w \<noteq> {})
      else resumed (waiters s w) = 1 \<and> pending s w = {} \<and> queued s w)"

definition async_ok :: "async \<Rightarrow> bool" where
  "async_ok s \<longleftrightarrow> (\<forall>q. queue_ok s q) \<and> (\<forall>w. waiter_ok s w)"

lemma waiter_ok_cong:
  "pending s' w = pending s w \<Longrightarrow> queued s' w = queued s w \<Longrightarrow> waiters s' w = waiters s w \<Longrightarrow>
   waiter_ok s' w = waiter_ok s w"
  by (simp add: waiter_ok_def)

lemma async_ok_frame:
  assumes "async_ok s" "queues s' = queues s" "waiters s' = waiters s" "next_queue s' = next_queue s"
    "next_waiter s' = next_waiter s" "next_amodule s \<le> next_amodule s'"
    "\<And>m. m < next_amodule s \<Longrightarrow> set (depQueues (amodules s m)) \<subseteq> set (depQueues (amodules s' m))"
  shows "async_ok s'"
proof -
  have "queue_ok s' q" for q
    using assms unfolding async_ok_def queue_ok_def by (metis order_less_le_trans subsetD)
  moreover have "waiter_ok s' w" for w
    using waiter_ok_cong [of s' w s] assms(1-3) by (simp add: async_ok_def pending_def queued_def)
  ultimately show ?thesis by (simp add: async_ok_def)
qed

lemma finite_pending: "async_ok s \<Longrightarrow> finite (pending s w)"
  by (rule finite_subset [of _ "{..<next_queue s}"])
    (auto simp: pending_def async_ok_def queue_ok_def not_less [symmetric])

text \<open>Only the status and the length of queues without waiting functions change.\<close>

lemma async_ok_empty_queue:
  assumes "async_ok s" "waiting (queues s q) = []"
    "queues s' = (queues s)(q := \<lparr>status = t, waiting = []\<rparr>)" "waiters s' = waiters s"
    "next_queue s \<le> next_queue s'" "q < next_queue s'"
    "next_waiter s' = next_waiter s" "amodules s' = amodules s" "next_amodule s' = next_amodule s"
  shows "async_ok s'"
proof -
  have "queue_ok s' p" for p
    using assms unfolding async_ok_def queue_ok_def by (cases "p = q") auto
  note qok = this
  have w: "w \<in> set (waiting (queues s' p)) \<longleftrightarrow> w \<in> set (waiting (queues s p))" for w p
    using assms(2,3) by simp
  have "pending s' w = pending s w" for w
    using w assms(2,3) by (auto simp: pending_def)
  moreover have "queued s' w = queued s w" for w
    using w by (simp add: queued_def)
  ultimately have "waiter_ok s' w" for w
    using waiter_ok_cong [of s' w s] assms(1,4) by (simp add: async_ok_def)
  with qok show ?thesis by (simp add: async_ok_def)
qed

lemma async_ok_new_queue: "async_ok s \<Longrightarrow> async_ok (fst (new_queue t s))"
  by (rule async_ok_empty_queue [of s "next_queue s" _ t])
    (auto simp: new_queue_def async_ok_def queue_ok_def)

lemma async_ok_update_amodule:
  "async_ok s \<Longrightarrow> set (depQueues (amodules s m)) \<subseteq> set (depQueues (f (amodules s m))) \<Longrightarrow> async_ok (update_amodule m f s)"
  by (rule async_ok_frame) (auto simp: update_amodule_def)

lemma async_ok_wrap_dep: "async_ok s \<Longrightarrow> async_ok (fst (wrap_dep d s))"
  by (auto simp: wrap_dep_def Let_def split: raw_dep.splits prod.splits
      intro!: async_ok_frame [OF async_ok_new_queue [of s 0]])

lemma wrap_dep_next: "next_amodule (fst (wrap_dep d s)) = next_amodule s"
  by (auto simp: wrap_dep_def new_queue_def Let_def split: raw_dep.splits)

lemma wrapDeps_ok:
  "async_ok s \<Longrightarrow> async_ok (fst (wrapDeps ds s)) \<and> next_amodule (fst (wrapDeps ds s)) = next_amodule s"
proof (induction ds arbitrary: s)
  case (Cons d ds)
  have "async_ok (fst (wrap_dep d s))" using Cons.prems by (rule async_ok_wrap_dep)
  from Cons.IH [OF this] show ?case by (simp add: wrap_dep_next split_beta)
qed simp

lemma async_ok_start: "async_ok s \<Longrightarrow> async_ok (asyncModule_start v hasAwait s)"
  using async_ok_new_queue [of s "-1"]
  by (auto simp: asyncModule_start_def Let_def new_queue_def intro: async_ok_frame)

lemma async_ok_end: "async_ok s \<Longrightarrow> async_ok (asyncModule_end m s)"
proof (cases "own_queue (amodules s m)")
  case (Some q)
  assume ok: "async_ok s"
  show ?thesis
  proof (cases "status (queues s q) = -1")
    case True
    with ok have e: "waiting (queues s q) = []" and q: "q < next_queue s"
      by (auto simp: async_ok_def queue_ok_def not_le [symmetric])
    from e have "(queues s q)\<lparr>status := 0\<rparr> = \<lparr>status = 0, waiting = []\<rparr>" by (cases "queues s q") simp
    then show ?thesis
      by (intro async_ok_empty_queue [OF ok e, of _ 0])
        (use Some True q in \<open>simp_all add: asyncModule_end_def set_status_def\<close>)
  qed (use ok Some in \<open>simp add: asyncModule_end_def\<close>)
qed (simp add: asyncModule_end_def)

lemma async_ok_new_waiter: "async_ok s \<Longrightarrow> async_ok (new_waiter m ds s)"
proof -
  assume ok: "async_ok s"
  let ?w = "next_waiter s"
  have no: "?w \<notin> set (waiting (queues s q))" for q
    using ok unfolding async_ok_def queue_ok_def by (metis less_irrefl)
  have "queue_ok (new_waiter m ds s) q" for q
    using ok no [of q] unfolding async_ok_def queue_ok_def new_waiter_def
    by (auto simp: less_SucI split: if_splits)
  moreover have "waiter_ok (new_waiter m ds s) w" for w
  proof (cases "w = ?w")
    case True
    then show ?thesis using no by (simp add: waiter_ok_def new_waiter_def pending_def queued_def)
  next
    case False
    then show ?thesis
      using waiter_ok_cong [of "new_waiter m ds s" w s] ok
      by (simp add: new_waiter_def pending_def queued_def async_ok_def)
  qed
  ultimately show ?thesis by (simp add: async_ok_def)
qed

text \<open>Asking a queue, by a waiting function that was not called yet.\<close>

lemma fnQueue_parts:
  "next_waiter (fnQueue m w q s) = next_waiter s" "next_amodule (fnQueue m w q s) = next_amodule s"
  "next_queue (fnQueue m w q s) = next_queue s"
  "owner (waiters (fnQueue m w q s) v) = owner (waiters s v)"
  "resumed (waiters (fnQueue m w q s) v) = resumed (waiters s v)"
  by (simp_all add: fnQueue_def Let_def update_amodule_def update_waiter_def)

definition asking :: "nat \<Rightarrow> nat \<Rightarrow> async \<Rightarrow> bool" where
  "asking m w s \<longleftrightarrow>
     async_ok s \<and> w < next_waiter s \<and> owner (waiters s w) = m \<and> m < next_amodule s \<and> resumed (waiters s w) = 0"

lemma asking_fnQueue:
  assumes "asking m w s"
  shows "asking m w (fnQueue m w q s)"
proof -
  from assms have ok: "async_ok s" and w: "w < next_waiter s" "owner (waiters s w) = m" "m < next_amodule s"
    "resumed (waiters s w) = 0"
    by (simp_all add: asking_def)
  let ?s1 = "update_amodule m (\<lambda>a. a\<lparr>depQueues := depQueues a @ [q]\<rparr>) s"
  have ok1: "async_ok ?s1" by (rule async_ok_update_amodule [OF ok]) auto
  have "async_ok (fnQueue m w q s)"
  proof (cases "own_queue (amodules s m) \<noteq> Some q \<and> q \<notin> set (depQueues (amodules s m)) \<and> status (queues s q) = 0")
    case False
    then show ?thesis using ok ok1 by (auto simp: fnQueue_def Let_def update_amodule_def)
  next
    case True
    let ?s' = "fnQueue m w q s"
    have q: "queues ?s' = (queues s)(q := (queues s q)\<lparr>waiting := waiting (queues s q) @ [w]\<rparr>)"
      "waiters ?s' = (waiters s)(w := (waiters s w)\<lparr>queueCount := queueCount (waiters s w) + 1\<rparr>)"
      and dep: "set (depQueues (amodules ?s' m)) = insert q (set (depQueues (amodules s m)))"
      "n \<noteq> m \<Longrightarrow> amodules ?s' n = amodules s n" for n
      using True by (auto simp: fnQueue_def Let_def update_amodule_def update_waiter_def)
    have new: "w \<notin> set (waiting (queues s q))"
      using ok True w by (auto simp: async_ok_def queue_ok_def)
    have "queue_ok ?s' p" for p
    proof -
      have "queue_ok s p" using ok by (simp add: async_ok_def)
      moreover have "set (depQueues (amodules s n)) \<subseteq> set (depQueues (amodules ?s' n))" for n
        using dep by (cases "n = m") auto
      ultimately show ?thesis
        using True w new dep(1) by (auto simp: queue_ok_def fnQueue_parts q(1)) 
    qed
    moreover have "waiter_ok ?s' v" for v
    proof (cases "v = w")
      case True
      have "pending ?s' w = insert q (pending s w)" "q \<notin> pending s w"
        using \<open>_ \<and> _ \<and> status (queues s q) = 0\<close> new by (auto simp: pending_def q(1))
      moreover have "queueCount (waiters s w) = int (card (pending s w))"
        using ok w by (simp add: async_ok_def waiter_ok_def)
      ultimately show ?thesis
        using True w finite_pending [OF ok, of w] by (simp add: waiter_ok_def q(2))
    next
      case False
      then have "pending ?s' v = pending s v" "queued ?s' v = queued s v"
        by (auto simp: pending_def queued_def q(1) split: if_splits)
      then show ?thesis
        using waiter_ok_cong [of ?s' v s] False ok by (simp add: q(2) async_ok_def)
    qed
    ultimately show ?thesis by (simp add: async_ok_def)
  qed
  then show ?thesis using w by (simp add: asking_def fnQueue_parts)
qed

lemma asking_ask_dep: "asking m w s \<Longrightarrow> asking m w (ask_dep m w d s)"
proof -
  have "asking m w s \<Longrightarrow> asking m w (fold (fnQueue m w) qs s)" for qs s
    by (induction qs arbitrary: s) (simp_all add: asking_fnQueue)
  then show "asking m w s \<Longrightarrow> ?thesis" by (simp add: ask_dep_def)
qed

lemma async_ok_handle:
  assumes "async_ok s" "m < next_amodule s"
  shows "async_ok (fst (handleAsyncDependencies m deps s))"
proof -
  obtain s1 ds where w: "wrapDeps deps s = (s1, ds)" by (cases "wrapDeps deps s")
  with wrapDeps_ok [OF assms(1), of deps] have s1: "async_ok s1" "next_amodule s1 = next_amodule s" by simp_all
  have "asking m (next_waiter s1) (new_waiter m ds s1)"
    using async_ok_new_waiter [OF s1(1), of m ds] assms(2) s1(2) by (simp add: asking_def) (simp add: new_waiter_def)
  then have "asking m (next_waiter s1) (fold (ask_dep m (next_waiter s1)) es (new_waiter m ds s1))" for es
    by (induction es rule: rev_induct) (simp_all add: asking_ask_dep)
  then show ?thesis by (simp add: handleAsyncDependencies_def w asking_def Let_def)
qed

text \<open>Resolving a queue.\<close>

lemma fold_update_waiter:
  "distinct ws \<Longrightarrow> fold (update_waiter f) ws g w = (if w \<in> set ws then f (g w) else g w)"
  by (induction ws arbitrary: g) (auto simp: update_waiter_def)

lemma resolveQueue_ok:
  assumes ok: "async_ok s"
  shows "async_ok (resolveQueue (Some q) s)"
proof (cases "status (queues s q) = 1")
  case False
  let ?s' = "resolveQueue (Some q) s"
  have d: "distinct (waiting (queues s q))" using ok by (simp add: async_ok_def queue_ok_def)
  have qs: "queues ?s' = (queues s)(q := (queues s q)\<lparr>status := 1\<rparr>)"
    and ws: "waiters ?s' w = (if w \<in> set (waiting (queues s q)) then wake (count_down (waiters s w)) else waiters s w)"
    and same: "next_queue ?s' = next_queue s" "next_waiter ?s' = next_waiter s" "amodules ?s' = amodules s"
      "next_amodule ?s' = next_amodule s" for w
    using False by (simp_all add: resolveQueue_def set_status_def Let_def fold_update_waiter [OF d])
  have own: "owner (wake (count_down x)) = owner x" for x
    by (simp add: wake_def count_down_def Let_def)
  have "queue_ok ?s' p" for p
  proof -
    have "queue_ok s p" using ok by (simp add: async_ok_def)
    then show ?thesis by (auto simp: queue_ok_def qs ws same own)
  qed
  moreover have "waiter_ok ?s' w" for w
  proof -
    have wok: "waiter_ok s w" using ok by (simp add: async_ok_def)
    have "w \<in> set (waiting (queues ?s' p)) \<longleftrightarrow> w \<in> set (waiting (queues s p))" for p by (simp add: qs)
    then have que: "queued ?s' w = queued s w" by (simp add: queued_def)
    have pen: "pending ?s' w = pending s w - {q}" by (auto simp: pending_def qs)
    show ?thesis
    proof (cases "w \<in> set (waiting (queues s q))")
      case True
      then have "status (queues s q) = 0"
        using ok False unfolding async_ok_def queue_ok_def by (metis empty_iff empty_set)
      with True have q: "q \<in> pending s w" by (simp add: pending_def)
      then have r: "resumed (waiters s w) = 0" "queueCount (waiters s w) = int (card (pending s w))"
        using wok by (auto simp: waiter_ok_def split: if_splits)
      have c: "card (pending s w) = Suc (card (pending ?s' w))"
        unfolding pen using q finite_pending [OF ok] by (metis card.remove)
      have "queued s w" using True by (auto simp: queued_def)
      moreover have "pending ?s' w = {} \<longleftrightarrow> card (pending ?s' w) = 0"
        unfolding pen using finite_pending [OF ok] by simp
      ultimately show ?thesis
        using True r c que by (auto simp: waiter_ok_def ws wake_def count_down_def Let_def)
    next
      case out: False
      then have "pending ?s' w = pending s w" using pen by (auto simp: pending_def)
      then show ?thesis using waiter_ok_cong [of ?s' w s] que wok out by (simp add: ws)
    qed
  qed
  ultimately show ?thesis by (simp add: async_ok_def)
qed (use ok in \<open>simp add: resolveQueue_def\<close>)

lemma async_ok_result: "async_ok s \<Longrightarrow> async_ok (asyncResult m err s)"
proof -
  assume ok: "async_ok s"
  have "async_ok (update_amodule m (\<lambda>_. a) s)" if "depQueues a = depQueues (amodules s m)" for a
    by (rule async_ok_update_amodule [OF ok]) (simp add: that)
  then show ?thesis
    by (cases "own_queue (amodules s m)")
      (simp_all add: asyncResult_def Let_def resolveQueue_def [of None] resolveQueue_ok)
qed

lemma async_ok_settled: "async_ok s \<Longrightarrow> async_ok (promise_settled p r s)"
  unfolding promise_settled_def Let_def by (rule resolveQueue_ok, rule async_ok_frame) auto

lemma async_step_ok: "async_step s s' \<Longrightarrow> async_ok s \<Longrightarrow> async_ok s'"
  by (induction rule: async_step.induct)
    (auto simp: set_exports_def intro: async_ok_start async_ok_handle async_ok_end async_ok_result async_ok_settled
      async_ok_update_amodule)

lemma async_ok_init: "async_ok no_async"
  by (simp add: async_ok_def queue_ok_def waiter_ok_def pending_def queued_def no_async_def)

lemma async_reach_ok: "async_reach s \<Longrightarrow> async_ok s"
  by (induction rule: async_reach.induct) (auto intro: async_ok_init async_step_ok)

lemma waiter_ok_D:
  assumes "waiter_ok s w"
  shows "resumed (waiters s w) \<le> 1" "queued s w \<Longrightarrow> resumed (waiters s w) = 1 \<longleftrightarrow> pending s w = {}"
    "\<not> queued s w \<Longrightarrow> resumed (waiters s w) = 0"
  using assms by (auto simp: waiter_ok_def split: if_splits)

text \<open>
  C27. However asynchronous modules start, wait, finish, fail and are waited for, a waiting function is called at
  most once; one that was put into some queue has been called exactly when all the queues that it is in
  are resolved (so a module never goes on too early, and never waits for good once its dependencies are
  there), and one that is in no queue is not called.
\<close>

theorem waiting_module_resumes_exactly:
  assumes "async_reach s"
  shows "resumed (waiters s w) \<le> 1 \<and>
    (resumed (waiters s w) = 1 \<longleftrightarrow>
       (\<exists>q. w \<in> set (waiting (queues s q))) \<and>
       (\<forall>q. w \<in> set (waiting (queues s q)) \<longrightarrow> status (queues s q) = 1))"
proof -
  have ok: "async_ok s" using assms by (rule async_reach_ok)
  then have w: "waiter_ok s w" and q: "queue_ok s q" for q by (simp_all add: async_ok_def)
  have "pending s w = {} \<longleftrightarrow> (\<forall>q. w \<in> set (waiting (queues s q)) \<longrightarrow> status (queues s q) = 1)"
    using q unfolding pending_def queue_ok_def by (metis (mono_tags, lifting) empty_Collect_eq empty_iff empty_set zero_neq_one)
  with waiter_ok_D [OF w] show ?thesis unfolding queued_def by fastforce
qed

text \<open>Waiting begins exactly when some queue is not resolved.\<close>

lemma handle_waits_iff:
  assumes "async_reach s" "m < next_amodule s" "handleAsyncDependencies m deps s = (s', r)"
  shows "r = None \<longleftrightarrow> pending s' (next_waiter (fst (wrapDeps deps s))) \<noteq> {}"
proof -
  obtain s1 ds where w: "wrapDeps deps s = (s1, ds)" by (cases "wrapDeps deps s")
  let ?w = "next_waiter s1"
  have ok: "async_ok s'" using async_ok_handle [OF async_reach_ok [OF assms(1)] assms(2), of deps] assms(3) by simp
  have "asking m ?w (fold (ask_dep m ?w) es (new_waiter m ds s1))" for es
  proof -
    have "asking m ?w (new_waiter m ds s1)"
      using wrapDeps_ok [OF async_reach_ok [OF assms(1)], of deps] w assms(2) async_ok_new_waiter [of s1 m ds]
      by (simp add: asking_def) (simp add: new_waiter_def)
    then show ?thesis by (induction es rule: rev_induct) (simp_all add: asking_ask_dep)
  qed
  then have "resumed (waiters s' ?w) = 0"
    using assms(3) by (auto simp: handleAsyncDependencies_def w Let_def asking_def)
  then have "queueCount (waiters s' ?w) = int (card (pending s' ?w))"
    using ok by (simp add: async_ok_def waiter_ok_def)
  moreover have "r = None \<longleftrightarrow> queueCount (waiters s' ?w) \<noteq> 0"
    using assms(3) by (auto simp: handleAsyncDependencies_def w Let_def)
  ultimately show ?thesis using finite_pending [OF ok] by (simp add: w)
qed

section \<open>An example\<close>

text \<open>
  Module 1 depends on the asynchronous module 0, whose body has returned and which has not yet finished;
  then it finishes.
\<close>

definition example_waiting :: async where
  "example_waiting =
     fst (handleAsyncDependencies 1 [RawModule 0, RawValue (Str ''v'')]
       (asyncModule_start (Ref 1) True (asyncModule_end 0 (asyncModule_start (Ref 0) True no_async))))"

definition example_resumed :: async where
  "example_resumed = asyncResult 0 Undefined example_waiting"

lemma example_resumed_reach: "async_reach example_resumed"
  unfolding example_resumed_def example_waiting_def
proof (rule async_reach.step [OF async_reach.step async_step.result])
  show "async_reach (asyncModule_start (Ref 1) True (asyncModule_end 0 (asyncModule_start (Ref 0) True no_async)))"
    by (meson async_reach.init async_reach.step async_step.starts async_step.returns)
  show "async_step (asyncModule_start (Ref 1) True (asyncModule_end 0 (asyncModule_start (Ref 0) True no_async)))
     (fst (handleAsyncDependencies 1 [RawModule 0, RawValue (Str ''v'')]
       (asyncModule_start (Ref 1) True (asyncModule_end 0 (asyncModule_start (Ref 0) True no_async)))))"
    by (rule async_step.depends) code_simp
qed

lemma waiting_module_resumes_exactly_witness:
  "resumed (waiters example_waiting 0) = 0 \<and> status (queues example_waiting 0) = 0 \<and>
   resumed (waiters example_resumed 0) = 1 \<and> status (queues example_resumed 0) = 1"
proof -
  have "resumed (waiters example_waiting 0) = 0" "status (queues example_waiting 0) = 0"
    "resumed (waiters example_resumed 0) = 1" "0 \<in> set (waiting (queues example_resumed 0))"
    by code_simp+
  with waiting_module_resumes_exactly [OF example_resumed_reach, of 0] show ?thesis by blast
qed

end
