(* ===== verification/Spec2Isabelle.thy ===== *)
theory Spec2Isabelle
  imports Routes App Shell AsyncModules
begin

text \<open>
  A verification library for the front end of McKaySystem, the part of the repository written in
  TypeScript (\<open>apps/frontend/src\<close>): a single-page application over an HTTP backend, in which a user of
  one workspace of one tenant reads findings, recommendations, coverage and savings, triages
  findings, and administers users and workspaces.

  \<^bold>\<open>How the program is put together.\<close>  A tab of the browser keeps a scope (tenant and workspace) in
  its session storage (\<open>lib/scope.ts\<close>).  Every request goes through one function that adds the scope
  (\<open>lib/api/client.ts\<close>).  The hooks (\<open>hooks/*.ts\<close>) wrap requests into queries and mutations of one
  query cache; their keys carry the scope, and their normalisers turn answers into values of the
  declared types.  The pages (\<open>app/*/*ClientPage.tsx\<close>) render what the queries hold and what their own
  state says, keep their filters in the query string of the address, and run mutations.  Two
  components (\<open>components/\<close>) are shared by pages.  On the server, the build output of the pages is loaded by a
  module loader (\<open>.next-build-verify/server/chunks/**/[turbopack]_runtime.js\<close>, two copies that differ in two
  constants) from the entry files of the pages (\<open>server/app/**/page.js\<close>).

  \<^bold>\<open>The theories\<close>, in the order of their imports.

    \<^item> The language.  \<open>Prelude\<close>: strings and property lists, the collections of simplification rules.
      \<open>JsNumber\<close>: binary64 numbers with rounding, their printing, parsing, \<open>toFixed\<close> and the currency
      format.  \<open>JsValue\<close>, \<open>JsJson\<close>, \<open>UrlParams\<close>, \<open>JsDate\<close>: values, \<open>JSON\<close>, \<open>URLSearchParams\<close>, \<open>Date\<close>.
      \<open>TsTypes\<close>: declared types as predicates on values.  \<open>View\<close>: what a page renders, the texts in it and
      the events a user can raise.  \<open>Grouping\<close>: the one-pass grouping loop.

    \<^item> The library of the program.  \<open>Dates\<close> (\<open>lib/dates.ts\<close>), \<open>Scope\<close> (\<open>lib/scope.ts\<close>), \<open>ApiClient\<close>
      (\<open>lib/api/client.ts\<close>), \<open>ResourceKey\<close> (\<open>lib/graph/resourceKey.ts\<close>).

    \<^item> The cache.  \<open>QueryCache\<close>: the operations of \<open>@tanstack/query-core\<close> (as bundled in the build output)
      that the hooks use, and the steps the cache can make by itself; \<open>QueryHooks\<close>: what a hook passes to
      it; \<open>Retryer\<close>: the query client of \<open>components/providers/query-provider.tsx\<close> with its defaults, and
      how often a read is tried.

    \<^item> The hooks.  \<open>FindingsHooks\<close> (\<open>useFindings\<close>, \<open>useFindingGraphContext\<close>, \<open>useRunGraphContextLatest\<close>),
      \<open>Lifecycle\<close> (\<open>useFindingLifecycle\<close>), \<open>CoverageHooks\<close> (\<open>useRunsLatest\<close>, \<open>useRunCoverageLatest\<close>,
      \<open>useRunCoverageDetails\<close>), \<open>KpiHooks\<close> (\<open>useInitialValueKpis\<close>), \<open>ListHooks\<close> (\<open>useRecommendations\<close>,
      \<open>useRemediationImpact\<close>), \<open>AdminHooks\<close> (\<open>useUsersAdmin\<close>, \<open>useTenantAdmin\<close>), \<open>Auth\<close> (\<open>useAuth\<close> and the state
      of the login form), \<open>QueryKeys\<close> (all read hooks side by side).

    \<^item> The pages.  \<open>PageCommon\<close>: what every page file declares for itself (parameters, paging, amounts,
      error messages, permissions, navigation); \<open>Components\<close>: \<open>RunCoverageBanner\<close> and
      \<open>ResourceGraphContextPanel\<close>; \<open>LoginPage\<close>, \<open>FindingsPage\<close>, \<open>RecommendationsPage\<close>, \<open>UsersPage\<close>,
      \<open>TenantAdminPage\<close>, \<open>DashboardPage\<close>, \<open>CoveragePage\<close>, \<open>RemediationsPage\<close>; \<open>Routes\<close>: the files \<open>page.tsx\<close>
      and where the pages lead.

    \<^item> The running application.  \<open>App\<close>: one tab as a state machine over all of this.  Its state is the
      session of \<open>Auth\<close> (browser and cache), the screen with the hooks it mounts as of its last render,
      the reads in flight with their retryers, the lifecycle actions in flight, and a log of the answers;
      its steps are renders, reads, answers, retries, invalidations, cancellations, the parts of a
      lifecycle action, and the parts of signing in and out, in any order.

    \<^item> What serves the pages.  \<open>Shell\<close>: the root layout, \<open>next.config.ts\<close>, the routes the build knows.
      \<open>JsStore\<close>: objects with identity, prototypes, accessors and proxies, the exports of modules;
      \<open>ModuleExports\<close>: namespaces (\<open>esm\<close>, \<open>interopEsm\<close>), external modules, \<open>require.context\<close>; \<open>NodePaths\<close>: paths, the
      directories of the runtime, which chunks are JavaScript; \<open>ModuleLoader\<close>: chunks, the module cache,
      the operations of a module on its exports, instantiation; \<open>ModuleGraph\<close>: what the loader guarantees;
      \<open>BuildEntries\<close>: the entry files; \<open>AsyncModules\<close>: modules with a top-level \<open>await\<close>.

  \<^bold>\<open>State and operations.\<close>  A name of the source is the name of its definition, where the two would
  not clash; every component's state is a record.  Requests are functions of a world \<open>'w\<close>: a field
  of \<open>api_env\<close> maps a request and a world to an answer or an exception and the next world, and
  nothing is assumed of it.  An exception is the left part of an \<open>outcome\<close>; what the code throws, and
  what reading a field of \<open>undefined\<close> throws, are values of type \<open>thrown\<close>.  A page is a record of what
  it reads in a render (address, scope, user, queries) and a record of its state.  A handler that
  waits is cut at its \<open>await\<close>: the part before (\<open>..._start\<close>, with the request it sends, if any) and the
  part after (\<open>..._end\<close>, given the outcome); the uninterrupted composition has the name of the source.
  Effects are functions on the state.  Events are data, \<open>..._step\<close> says what they change at once, and
  \<open>..._reach\<close> collects the states a page can come to when effects, events that the rendered page
  offers, and answers of requests come in any order, while the queries hold anything.  In the module
  loader, exceptions are values of the store's type; an operation gives the next state and what it
  threw, since what it did before it threw stays done; a module factory is a program, data that does
  one operation after another; \<open>loader_reach\<close> and \<open>async_reach\<close> collect the states.

  \<^bold>\<open>What the lemmas show.\<close>

    \<^item> Storage, addresses, numbers and dates: what is written is read back (scopes, query strings, page
      numbers, time stamps), and arithmetic on pages is exact below \<open>2 ^ 52\<close>.

    \<^item> Requests: every request, with a query of its own or without, carries the stored scope, and an outcome is a payload exactly for an answer
      in the 200 range with readable content.

    \<^item> The cache: no query holds \<open>undefined\<close>; cancelling changes no data; queries with equal keys send the
      same request for the same scope.  A finding's lifecycle mutation changes the chosen finding only,
      rolls back on failure and always invalidates the list on the screen, whatever the cache does between
      its steps.

    \<^item> The running application: what the cache shows to a tenant was answered to a request of that tenant
      (\<open>tenant_isolation\<close>, by an invariant of all steps), and every read comes to an end after at most two
      requests (\<open>reads_settle\<close>, \<open>read_attempts\<close>).

    \<^item> Normalisers: every figure they declare numeric is a finite number; 403 and 404 are no data for the
      run hooks and no other error is hidden.

    \<^item> Authentication: a sign-in stores a scope or leaves none; a sign-out always clears scope and cache.

    \<^item> Pages: tables show every row once, groups refine their specification, the renders of a page come
      to an end or not (depending on the compiler), pages of a list tile it and are all reached by \<open>Next\<close>,
      navigation keeps the rest of the address and every call of the router leads to a page of the
      application, an event is offered only with its permission, what is saved is what was edited, nothing
      is forced without consent, a tenant-wide role needs the tick of an administrator, no figure is shown
      that the user may not read.

    \<^item> The module loader: a chunk is installed group by group, a module is evaluated at most once, one
      that failed stays failed, instantiation comes to an end however the modules need each other, an
      entry can be run again without effect, the namespace of a CommonJS module stays live, a
      waiting module resumes once and exactly when all it waits for is there.

    \<^item> Some theorems state defects of the code as it is: invalidations that match no query, errors that
      are lost or shown in the wrong place, a permission that is not looked at again when a role is
      saved, a list that, as written, renders without end while its query has no data, a roll back that
      hits another list or a cache that a sign-out has cleared.

  Contracts between components are locales, each interpreted on the model: the store of the scope
  (\<open>scope_store\<close>), the cache as its users see it (\<open>query_store\<close>), the parameters of an address
  (\<open>param_store\<close>), the instantiation of modules as their operations see it (\<open>instantiator\<close>, and
  \<open>bounded_instantiator\<close>, which extends it).

  \<^bold>\<open>Bounds and fuel.\<close>  The reader of JSON is a recursive descent with twice the length of the text as
  fuel; printing followed by reading is proved to need no more (\<open>json_roundtrip\<close>).  The renders of the
  recommendations page are a partial function whose value is \<open>None\<close> when they never end; the theorem
  says exactly when that is so.  A fetch has no fuel: that its answers and pauses come to an end is a
  theorem about the state machine, with a measure.  The nesting of instantiations has fuel;
  \<open>loading_ends\<close> shows that one more than the number of modules not yet seen is enough, and that more
  changes nothing.  Reading a property through getters and proxies has the depth of the stack, whose
  end is the engine's \<open>RangeError\<close>.  Other recursion is structural or terminates by a measure.  The
  theorems on paging ask for fewer than \<open>2 ^ 52\<close> rows, below which binary64 arithmetic is exact.

  \<^bold>\<open>Parameters.\<close>  The backend, \<open>fetch\<close> and the parser of base URLs; the clock; the parser of dates that
  are not in ISO format and the time zone of the host; the sign the host's currency format has for
  infinity; the dialogs of the browser; whether an event still has its current target; whether the React
  compiler, which \<open>next.config.ts\<close> turns on, keeps a value of an earlier render where that shows: the
  empty list of the recommendations page, and the scope a page was first rendered with (\<open>kept\<close>); in the
  loader, the factories in the minified chunks, the files that \<open>require\<close> reads, external modules, how
  their objects print, what a loader function does, and the conversions between paths and URLs.

  \<^bold>\<open>Not modelled.\<close>  The Python services, checkers and pipelines behind the HTTP interface; of the
  generated output of the build, the minified bundles (the cache operations named above apart), the generated
  types and, in the module loader, WebAssembly and \<open>relativeURL\<close>; how an asynchronous module is tied to the
  module cache (its exports become the promise that \<open>AsyncModules\<close> keeps); the identity of the errors the loader makes;
  the framework (rendering and
  routing themselves, the clock of the cache, its network mode and the notification of its listeners);
  in \<open>App\<close>, React is what the steps say of it: a change of the stored scope on the login page comes with
  a render, and a component that left the screen does not come back; static class
  names, decoration, placeholders and keys of the markup; the settings of the linter and of the style sheets.
  Characters are code units below 256.
\<close>

end
